(* ===== verification/Prelude.thy ===== *)
theory Prelude
  imports Main "HOL-Library.Multiset"
begin

text \<open>
  Shared vocabulary of the development: the Python string and dictionary primitives the
  sources call (\<open>str.strip\<close>, \<open>str.splitlines\<close>, \<open>str.rsplit(sep, 1)\<close>,
  \<open>str.split(sep)\<close>, prefix slicing \<open>xs[:n]\<close>, insertion-ordered \<open>dict\<close> assignment)
  and the generic lemmas about them. A Python \<open>str\<close> is a \<open>string\<close>, each \<open>char\<close>
  read as a code point U+0000..U+00FF (Latin-1); a \<open>dict\<close> whose iteration order is
  observable is an association list with distinct keys, updated by \<open>dict_set\<close>.
\<close>

named_theorems py_simps "evaluation rules for the Python primitives"

subsection \<open>Exceptions\<close>

text \<open>The exceptions the modelled code raises, as values: \<open>Inl\<close> of a result
  \<open>py_error + 'a\<close> is the exception that propagates out of the call.\<close>

datatype parser_fehler =
    DateiNichtGefunden
  | OhneId
  | DoppelteFrageId string
  | LimitKeineZahl string string
  | LimitKleinerEins string
  | ZufaelligUngueltig string string
  | ThemenOhneParent string
  | TextFehlt string
  | TextLeer string
  | AntwortoptionenFehlt string
  | OptionUnvollstaendig string
  | OptionDoppelt string string
  | KeineOptionen string
  | ThemaUnvollstaendig string
  | ThemaDoppelt string string

datatype py_error =
    FragenParserFehler parser_fehler
  | FragestellerFehler string
  | UnboundLocalError string
  | AttributeError string
  | TypeError string
  | LaderFehler string
  | KeyError string

text \<open>Sequencing of calls that may raise: the first exception propagates.\<close>

definition bind_r :: "'e + 'a \<Rightarrow> ('a \<Rightarrow> 'e + 'b) \<Rightarrow> 'e + 'b" where
  "bind_r x f = (case x of Inl e \<Rightarrow> Inl e | Inr a \<Rightarrow> f a)"

text \<open>\<open>[f(x) for x in xs]\<close> when \<open>f\<close> may raise.\<close>

fun map_r :: "('a \<Rightarrow> 'e + 'b) \<Rightarrow> 'a list \<Rightarrow> 'e + 'b list" where
  "map_r f [] = Inr []"
| "map_r f (x # xs) = bind_r (f x) (\<lambda>y. bind_r (map_r f xs) (\<lambda>ys. Inr (y # ys)))"

subsection \<open>Insertion-ordered dictionaries\<close>

type_synonym ('k, 'v) dict = "('k \<times> 'v) list"

text \<open>\<open>d[k] = v\<close>: an existing key keeps its position, a new key is appended.\<close>

definition dict_set :: "('k, 'v) dict \<Rightarrow> 'k \<Rightarrow> 'v \<Rightarrow> ('k, 'v) dict" where
  "dict_set d k v =
     (if k \<in> set (map fst d) then map (\<lambda>(k', v'). if k' = k then (k', v) else (k', v')) d
      else d @ [(k, v)])"

text \<open>\<open>d.get(k)\<close> for a key that may be \<open>None\<close>: no key of the dictionary is \<open>None\<close>.\<close>

definition get_opt :: "('k, 'v) dict \<Rightarrow> 'k option \<Rightarrow> 'v option" where
  "get_opt d k = (case k of None \<Rightarrow> None | Some k' \<Rightarrow> map_of d k')"

text \<open>\<open>{key(x): x for x in xs}\<close>: the position of a key's first occurrence, the value of its
  last one.\<close>

definition dict_of_list :: "('a \<Rightarrow> 'k) \<Rightarrow> 'a list \<Rightarrow> ('k, 'a) dict" where
  "dict_of_list key xs = fold (\<lambda>x d. dict_set d (key x) x) xs []"

subsection \<open>Python strings\<close>

text \<open>\<open>str.isspace\<close> on U+0000..U+00FF: TAB, LF, VT, FF, CR, the separators
  U+001C..U+001F, SPACE, NEL (U+0085) and NO-BREAK SPACE (U+00A0).\<close>

definition py_isspace :: "char \<Rightarrow> bool" where
  "py_isspace c \<longleftrightarrow> (let n = of_char c :: nat in
     (9 \<le> n \<and> n \<le> 13) \<or> (28 \<le> n \<and> n \<le> 32) \<or> n = 133 \<or> n = 160)"

text \<open>\<open>str.strip()\<close> with no argument.\<close>

definition py_strip :: "string \<Rightarrow> string" where
  "py_strip s = rev (dropWhile py_isspace (rev (dropWhile py_isspace s)))"

text \<open>Line boundaries of \<open>str.splitlines\<close> in the same range: LF, VT, FF, CR
  (and CR LF as one boundary), U+001C..U+001E and NEL.\<close>

definition py_linebreak :: "char \<Rightarrow> bool" where
  "py_linebreak c \<longleftrightarrow> (let n = of_char c :: nat in
     (10 \<le> n \<and> n \<le> 13) \<or> (28 \<le> n \<and> n \<le> 30) \<or> n = 133)"

text \<open>\<open>splitl cur s\<close> scans \<open>s\<close> with the current line, reversed, in \<open>cur\<close>; a
  final boundary does not start an empty line, as in Python.\<close>

fun splitl :: "string \<Rightarrow> string \<Rightarrow> string list" where
  "splitl cur [] = (if cur = [] then [] else [rev cur])"
| "splitl cur (c # cs) =
     (if c = CHR 0x0D \<and> cs \<noteq> [] \<and> hd cs = CHR 0x0A then rev cur # splitl [] (tl cs)
      else if py_linebreak c then rev cur # splitl [] cs
      else splitl (c # cur) cs)"

definition py_splitlines :: "string \<Rightarrow> string list" where
  "py_splitlines s = splitl [] s"

text \<open>\<open>s.rsplit(c, 1)\<close> when \<open>c\<close> occurs in \<open>s\<close>: the text before and after the last
  occurrence; \<open>None\<close> when it does not occur (the source checks this first).\<close>

definition py_rsplit1 :: "char \<Rightarrow> string \<Rightarrow> (string \<times> string) option" where
  "py_rsplit1 c s =
     (if c \<in> set s
      then Some (rev (tl (dropWhile (\<lambda>x. x \<noteq> c) (rev s))), rev (takeWhile (\<lambda>x. x \<noteq> c) (rev s)))
      else None)"

text \<open>\<open>s.split(sep)\<close> for a non-empty separator: non-overlapping occurrences, left to right.\<close>

fun split_on :: "string \<Rightarrow> string \<Rightarrow> string \<Rightarrow> string list" where
  "split_on sep cur [] = [rev cur]"
| "split_on sep cur (c # cs) =
     (if sep \<noteq> [] \<and> take (length sep) (c # cs) = sep
      then rev cur # split_on sep [] (drop (length sep - 1) cs)
      else split_on sep (c # cur) cs)"

definition py_split :: "string \<Rightarrow> string \<Rightarrow> string list" where
  "py_split s sep = split_on sep [] s"

text \<open>\<open>xs[:n]\<close> for a Python \<open>int\<close> \<open>n\<close>: a negative bound counts from the end.\<close>

definition py_take :: "int \<Rightarrow> 'a list \<Rightarrow> 'a list" where
  "py_take n xs = (if 0 \<le> n then take (nat n) xs else take (nat (int (length xs) + n)) xs)"

text \<open>\<open>s.split()\<close> with no argument: the maximal runs of non-whitespace.\<close>

fun split_ws :: "string \<Rightarrow> string \<Rightarrow> string list" where
  "split_ws cur [] = (if cur = [] then [] else [rev cur])"
| "split_ws cur (c # cs) =
     (if py_isspace c then (if cur = [] then split_ws [] cs else rev cur # split_ws [] cs)
      else split_ws (c # cur) cs)"

definition py_split_ws :: "string \<Rightarrow> string list" where
  "py_split_ws s = split_ws [] s"

text \<open>\<open>sep.join(xs)\<close>.\<close>

fun py_join :: "string \<Rightarrow> string list \<Rightarrow> string" where
  "py_join sep [] = []"
| "py_join sep [x] = x"
| "py_join sep (x # y # xs) = x @ sep @ py_join sep (y # xs)"

text \<open>\<open>f"{x}"\<close> for an optional string: \<open>None\<close> prints as \<open>None\<close>.\<close>

definition py_str_opt :: "string option \<Rightarrow> string" where
  "py_str_opt x = (case x of None \<Rightarrow> ''None'' | Some s \<Rightarrow> s)"

text \<open>\<open>d.update(e)\<close>: the entries of \<open>e\<close> assigned in order.\<close>

definition dict_update :: "('k, 'v) dict \<Rightarrow> ('k, 'v) dict \<Rightarrow> ('k, 'v) dict" where
  "dict_update d e = fold (\<lambda>(k, v) d. dict_set d k v) e d"

subsection \<open>Truthiness\<close>

text \<open>\<open>stripped_oder_none\<close> (studienkonfigurationslader/utils.py): strip, and the empty
  result is \<open>None\<close>; \<open>None\<close> reads as the empty string.\<close>

definition stripped_oder_none :: "string option \<Rightarrow> string option" where
  "stripped_oder_none s =
     (let t = py_strip (case s of None \<Rightarrow> [] | Some x \<Rightarrow> x) in if t = [] then None else Some t)"

subsection \<open>Lemmas on dictionaries, slices and strings\<close>

lemma get_opt_Some [simp]: "get_opt d (Some k) = map_of d k"
  and get_opt_None [simp]: "get_opt d None = None"
  by (simp_all add: get_opt_def)

lemma map_fst_map_replace [simp]:
  "map fst (map (\<lambda>(k', v'). if k' = k then (k', v) else (k', v')) d) = map fst d"
  by (induction d) auto

lemma map_fst_dict_set:
  "map fst (dict_set d k v) = (if k \<in> set (map fst d) then map fst d else map fst d @ [k])"
  by (simp add: dict_set_def del: map_map)

lemma set_map_fst_dict_set [simp]:
  "fst ` set (dict_set d k v) = insert k (fst ` set d)"
  using arg_cong [OF map_fst_dict_set [of d k v], of set] by (auto split: if_splits)

lemma distinct_dict_set [simp]:
  "distinct (map fst (dict_set d k v)) = distinct (map fst d)"
  by (auto simp: map_fst_dict_set)

lemma map_of_map_replace:
  "map_of (map (\<lambda>(k', v'). if k' = k then (k', v) else (k', v')) d) =
   (\<lambda>x. if x = k \<and> x \<in> set (map fst d) then Some v else map_of d x)"
  by (induction d) (auto simp: fun_eq_iff)

lemma map_of_dict_set [simp]:
  "map_of (dict_set d k v) = (map_of d)(k \<mapsto> v)"
proof (cases "k \<in> set (map fst d)")
  case True
  then show ?thesis by (auto simp: dict_set_def map_of_map_replace fun_eq_iff)
next
  case False
  then have "map_of d k = None" by (simp add: map_of_eq_None_iff)
  with False show ?thesis
    by (auto simp: dict_set_def map_of_append fun_eq_iff map_add_def split: option.splits)
qed

lemma dict_set_same_key:
  "map_of d k = Some w \<Longrightarrow> length (dict_set d k v) = length d"
  by (auto simp: dict_set_def dest: map_of_SomeD intro: rev_image_eqI)

lemma dict_set_werte: "x \<in> set (dict_set d k v) \<Longrightarrow> x \<in> set d \<or> x = (k, v)"
  by (auto simp: dict_set_def split: if_splits)

lemma fold_dict_set_distinct:
  "distinct (map fst d) \<Longrightarrow> distinct (map fst (fold (\<lambda>x d. dict_set d (key x) x) xs d))"
  by (induction xs arbitrary: d) auto

lemma fold_dict_set_keys:
  "(\<forall>(k, x) \<in> set d. key x = k) \<Longrightarrow>
   \<forall>(k, x) \<in> set (fold (\<lambda>x d. dict_set d (key x) x) xs d). key x = k"
proof (induction xs arbitrary: d)
  case Nil
  then show ?case by simp
next
  case (Cons y xs)
  have "\<forall>(k, x) \<in> set (dict_set d (key y) y). key x = k"
    using Cons.prems by (auto simp: dict_set_def split: if_splits)
  then show ?case using Cons.IH by simp
qed

lemma dict_of_list_wf:
  "distinct (map fst (dict_of_list key xs)) \<and> (\<forall>(k, x) \<in> set (dict_of_list key xs). key x = k)"
  using fold_dict_set_keys [of "[]" key xs] fold_dict_set_distinct [of "[]" key xs]
  by (simp add: dict_of_list_def)

lemma map_of_fold_dict_set:
  "map_of (fold (\<lambda>x d. dict_set d (key x) x) xs d) k =
   (if k \<in> key ` set xs then Some (last (filter (\<lambda>x. key x = k) xs)) else map_of d k)"
  by (induction xs arbitrary: d) (auto simp: filter_empty_conv)

lemma set_map_fst_dict_of_list [simp]:
  "fst ` set (dict_of_list key xs) = key ` set xs"
proof -
  have "fst ` set (fold (\<lambda>x d. dict_set d (key x) x) xs d) = fst ` set d \<union> key ` set xs"
    for d by (induction xs arbitrary: d) auto
  then show ?thesis by (simp add: dict_of_list_def)
qed

lemma length_py_take_le: "0 \<le> n \<Longrightarrow> int (length (py_take n xs)) \<le> n"
  by (simp add: py_take_def)

lemma py_take_prefix: "\<exists>m. py_take n xs = take m xs"
  by (auto simp: py_take_def)

lemma set_py_take: "set (py_take n xs) \<subseteq> set xs"
  using py_take_prefix by (metis set_take_subset)

lemma distinct_py_take: "distinct xs \<Longrightarrow> distinct (py_take n xs)"
  using py_take_prefix by (metis distinct_take)

lemma stripped_oder_none_None [simp]: "stripped_oder_none None = None"
  by (simp add: stripped_oder_none_def py_strip_def)

lemma map_of_dict_update [simp]: "map_of (dict_update d e) = map_of d ++ map_of (rev e)"
proof -
  have "map_of (fold (\<lambda>(k, v) d. dict_set d k v) e d) = map_of d ++ map_of (rev e)" for d
    by (induction e arbitrary: d) (simp_all add: split_beta map_add_upd_left)
  then show ?thesis by (simp add: dict_update_def)
qed

lemma keys_dict_update [simp]: "fst ` set (dict_update d e) = fst ` set d \<union> fst ` set e"
proof -
  have "fst ` set (fold (\<lambda>(k, v) d. dict_set d k v) e d) = fst ` set d \<union> fst ` set e" for d
    by (induction e arbitrary: d) (simp_all add: split_beta)
  then show ?thesis by (simp add: dict_update_def)
qed

lemma distinct_dict_update [simp]:
  "distinct (map fst (dict_update d e)) = distinct (map fst d)"
proof -
  have "distinct (map fst (fold (\<lambda>(k, v) d. dict_set d k v) e d)) = distinct (map fst d)" for d
    by (induction e arbitrary: d) (simp_all add: split_beta)
  then show ?thesis by (simp add: dict_update_def)
qed

lemma splitl_zeile:
  "\<forall>c \<in> set l. \<not> py_linebreak c \<Longrightarrow> splitl cur (l @ CHR 0x0A # rest) = (rev cur @ l) # splitl [] rest"
proof (induction l arbitrary: cur)
  case Nil
  then show ?case by (simp add: py_linebreak_def)
next
  case (Cons c l)
  then have "c \<noteq> CHR 0x0D" by (auto simp: py_linebreak_def)
  with Cons show ?case by simp
qed

lemma splitl_letzte:
  "\<forall>c \<in> set l. \<not> py_linebreak c \<Longrightarrow> splitl cur l = (if rev cur @ l = [] then [] else [rev cur @ l])"
proof (induction l arbitrary: cur)
  case (Cons c l)
  then have "c \<noteq> CHR 0x0D" by (auto simp: py_linebreak_def)
  with Cons show ?case by simp
qed simp

lemma py_splitlines_join:
  "\<forall>l \<in> set ls. l \<noteq> [] \<and> (\<forall>c \<in> set l. \<not> py_linebreak c) \<Longrightarrow> py_splitlines (py_join [CHR 0x0A] ls) = ls"
proof (induction "[CHR 0x0A]" ls rule: py_join.induct)
  case 1
  then show ?case by (simp add: py_splitlines_def)
next
  case (2 x)
  then show ?case by (simp add: py_splitlines_def splitl_letzte)
next
  case (3 x y xs)
  then show ?case by (simp add: py_splitlines_def splitl_zeile)
qed

lemma strip_fix_hd_last:
  assumes "py_strip s = s" "s \<noteq> []"
  shows "\<not> py_isspace (hd s) \<and> \<not> py_isspace (last s)"
proof -
  have hd: "\<not> py_isspace (hd s)"
  proof
    assume h: "py_isspace (hd s)"
    obtain c t where s: "s = c # t" using assms(2) by (cases s) auto
    have "length (rev (dropWhile py_isspace (rev (dropWhile py_isspace s)))) < length s"
      using h s length_dropWhile_le [of py_isspace "rev (dropWhile py_isspace t)"]
        length_dropWhile_le [of py_isspace t] by simp
    with assms(1) show False by (simp add: py_strip_def)
  qed
  have "\<not> py_isspace (last s)"
  proof
    assume h: "py_isspace (last s)"
    have d: "dropWhile py_isspace s = s"
      using assms hd by (cases s) auto
    obtain c t where s: "rev s = c # t" using assms(2) by (cases "rev s") auto
    then have "py_isspace c" using h by (metis last_rev list.sel(1) rev_rev_ident)
    then have "length (dropWhile py_isspace (rev s)) < length s"
      using s length_dropWhile_le [of py_isspace t] by (metis dropWhile.simps(2) le_imp_less_Suc length_Cons length_rev)
    with assms(1) d show False by (metis length_rev less_irrefl py_strip_def)
  qed
  with hd show ?thesis ..
qed

lemma strip_fix:
  assumes "s \<noteq> []" "\<not> py_isspace (hd s)" "\<not> py_isspace (last s)"
  shows "py_strip s = s"
proof -
  have d: "dropWhile py_isspace s = s" using assms(1,2) by (cases s) auto
  have "dropWhile py_isspace (rev s) = rev s"
    using assms(1,3) by (cases "rev s") (auto simp: hd_rev [symmetric])
  with d show ?thesis by (simp add: py_strip_def)
qed

lemma strip_leer_cons:
  assumes "py_strip v = v" "v \<noteq> []"
  shows "py_strip (CHR '' '' # v) = v"
proof -
  have "\<not> py_isspace (hd v)" using strip_fix_hd_last [OF assms] by simp
  then have "dropWhile py_isspace (CHR '' '' # v) = dropWhile py_isspace v"
    "dropWhile py_isspace v = v"
    using assms(2) by (cases v; simp add: py_isspace_def)+
  with assms(1) show ?thesis by (simp add: py_strip_def)
qed

lemma bind_r_simps [simp]:
  "bind_r (Inl e) f = Inl e" "bind_r (Inr a) f = f a"
  by (simp_all add: bind_r_def)

lemma bind_r_Inr: "bind_r x f = Inr y \<longleftrightarrow> (\<exists>a. x = Inr a \<and> f a = Inr y)"
  by (cases x) simp_all

lemma map_r_map [simp]: "map_r (\<lambda>x. Inr (g x)) xs = Inr (map g xs)"
  by (induction xs) simp_all

lemma map_r_cong_Inr: "(\<And>x. x \<in> set xs \<Longrightarrow> f x = Inr (g x)) \<Longrightarrow> map_r f xs = Inr (map g xs)"
  by (induction xs) simp_all

lemmas py_defs [py_simps] = py_strip_def py_isspace_def py_linebreak_def py_splitlines_def
  py_rsplit1_def py_split_def py_take_def stripped_oder_none_def py_str_opt_def
  dict_update_def py_split_ws_def

lemma dict_of_list_distinct:
  "distinct (map key xs) \<Longrightarrow> fst ` set d \<inter> key ` set xs = {} \<Longrightarrow>
   fold (\<lambda>x d. dict_set d (key x) x) xs d = d @ map (\<lambda>x. (key x, x)) xs"
  by (induction xs arbitrary: d) (auto simp: dict_set_def)

lemma dict_update_frisch:
  "distinct (map fst e) \<Longrightarrow> fst ` set d \<inter> fst ` set e = {} \<Longrightarrow> dict_update d e = d @ e"
  by (induction e arbitrary: d) (auto simp: dict_update_def dict_set_def split_beta)

lemma dict_set_letzter:
  "k \<notin> fst ` set P \<Longrightarrow> dict_set (P @ [(k, a)]) k b = P @ [(k, b)]"
  by (induction P) (auto simp: dict_set_def)

lemma map_of_schluessel:
  "inj_on key (insert q (set xs)) \<Longrightarrow>
   map_of (map (\<lambda>x. (key x, g x)) xs) (key q) = (if q \<in> set xs then Some (g q) else None)"
  by (induction xs) (auto simp: inj_on_def)

lemma py_join_Cons: "py_join s (x # xs) = (if xs = [] then x else x @ s @ py_join s xs)"
  by (cases xs) simp_all

lemma py_join_snoc: "py_join s (xs @ [y]) = (if xs = [] then y else py_join s xs @ s @ y)"
  by (induction xs) (auto simp: py_join_Cons)

lemma rev_py_join: "rev (py_join s xs) = py_join (rev s) (rev (map rev xs))"
  by (induction xs) (auto simp: py_join_Cons py_join_snoc)

lemma py_join_ersetzen:
  "(\<forall>g \<in> set gs. a \<notin> set g) \<Longrightarrow> map (\<lambda>c. if c = a then b else c) (py_join [a] gs) = py_join [b] gs"
  by (induction gs) (auto simp: py_join_Cons intro!: map_idI)

lemma tl_rev: "tl (rev xs) = rev (butlast xs)"
  by (induction xs) (auto simp: tl_append split: list.splits)

lemma concat_rev_rev: "concat (rev (map rev xs)) = rev (concat xs)"
  by (induction xs) simp_all

lemma split_on_ohne:
  "CHR '':'' \<notin> set a \<Longrightarrow> split_on ''::'' cur a = [rev cur @ a]"
  by (induction a arbitrary: cur) auto

lemma split_on_vor:
  "CHR '':'' \<notin> set a \<Longrightarrow> split_on ''::'' cur (a @ CHR '':'' # CHR '':'' # r) = (rev cur @ a) # split_on ''::'' [] r"
  by (induction a arbitrary: cur) auto

lemma map_r_list_all2:
  "list_all2 (\<lambda>x v. f v = Inr (h x)) xs vs \<Longrightarrow> map_r f vs = Inr (map h xs)"
  by (induction rule: list_all2_induct) simp_all

lemma sum_list_map_replace:
  fixes f :: "'v \<Rightarrow> 'a::ab_group_add"
  shows "distinct (map fst d) \<Longrightarrow>
   sum_list (map (f \<circ> snd) (map (\<lambda>(k', v'). if k' = k then (k', v) else (k', v')) d)) =
   sum_list (map (f \<circ> snd) d) + (case map_of d k of Some w \<Rightarrow> f v - f w | None \<Rightarrow> 0)"
  by (induction d) (auto split: option.splits simp: map_of_eq_None_iff image_iff)

lemma sum_list_dict_set:
  fixes f :: "'v \<Rightarrow> 'a::ab_group_add"
  assumes "distinct (map fst d)"
  shows "sum_list (map (f \<circ> snd) (dict_set d k v)) =
         sum_list (map (f \<circ> snd) d) + (case map_of d k of Some w \<Rightarrow> f v - f w | None \<Rightarrow> f v)"
proof (cases "k \<in> set (map fst d)")
  case True
  then obtain w where "map_of d k = Some w" by (auto dest: weak_map_of_SomeI)
  with True assms show ?thesis by (simp add: dict_set_def sum_list_map_replace del: map_map)
next
  case False
  then have "map_of d k = None" by (simp add: map_of_eq_None_iff)
  with False show ?thesis by (simp add: dict_set_def)
qed

lemma enumerate_mem: "(i, z) \<in> set (enumerate n xs) \<Longrightarrow> z \<in> set xs"
  by (auto simp: in_set_enumerate_eq)

end
