(* ===== verification/Questionnaire.thy ===== *)
theory Questionnaire
  imports Prelude
begin

text \<open>
  The questionnaire catalog (src/komponenten/studienkonfiguration/studienkonfigurationslader):
  the dataclasses \<open>Option\<close>, \<open>Thema\<close> and \<open>Frage\<close> of models.py with their methods,
  \<open>render_text\<close> of utils.py, and the XML loader \<open>Studienkonfigurationslader\<close>, whose
  input is modelled as the attribute values and element texts ElementTree hands it.
\<close>

subsection \<open>Data model (models.py)\<close>

record opt =
  opt_id :: string
  opt_text :: string

record thema =
  th_id :: string
  th_text :: string

record frage =
  f_id :: string
  f_text :: string
  optionen :: "opt list"
  themen :: "thema list"
  uebergeordnete_frage_id :: "string option"
  uebergeordnete_antwortoption_id :: "string option"
  uebergeordnete_themen_limit :: "int option"
  uebergeordnete_themen_zufaellig :: bool

definition hat_uebergeordnete_frage :: "frage \<Rightarrow> bool" where
  "hat_uebergeordnete_frage f \<longleftrightarrow> stripped_oder_none (uebergeordnete_frage_id f) \<noteq> None"

definition hat_uebergeordnete_antwortoption :: "frage \<Rightarrow> bool" where
  "hat_uebergeordnete_antwortoption f \<longleftrightarrow>
     stripped_oder_none (uebergeordnete_antwortoption_id f) \<noteq> None"

text \<open>\<open>optionen_fuer\<close>: for a non-empty key that names a topic the code reads
  \<open>thema.optionen\<close>, an attribute \<open>Thema\<close> does not have.\<close>

definition optionen_fuer :: "frage \<Rightarrow> string option \<Rightarrow> py_error + opt list" where
  "optionen_fuer f k =
     (case k of
        Some key \<Rightarrow>
          if key \<noteq> [] \<and> key \<in> th_id ` set (themen f)
          then Inl (AttributeError ''optionen'') else Inr (optionen f)
      | None \<Rightarrow> Inr (optionen f))"

definition thema_text :: "frage \<Rightarrow> string \<Rightarrow> string option" where
  "thema_text f key = map_option th_text (find (\<lambda>t. th_id t = key) (themen f))"

definition option_text :: "frage \<Rightarrow> string \<Rightarrow> string option" where
  "option_text f key = map_option opt_text (find (\<lambda>op. opt_id op = key) (optionen f))"

subsection \<open>Placeholder rendering (utils.py, \<open>render_text\<close>)\<close>

text \<open>\<open>\w\<close> of Python's \<open>re\<close> on str patterns, on U+0000..U+00FF: the characters
  for which \<open>str.isalnum\<close> holds, and the underscore.\<close>

definition py_isword :: "char \<Rightarrow> bool" where
  "py_isword c \<longleftrightarrow> (let n = of_char c :: nat in
     (48 \<le> n \<and> n \<le> 57) \<or> (65 \<le> n \<and> n \<le> 90) \<or> n = 95 \<or> (97 \<le> n \<and> n \<le> 122) \<or>
     n = 170 \<or> n = 178 \<or> n = 179 \<or> n = 181 \<or> n = 185 \<or> n = 186 \<or>
     (188 \<le> n \<and> n \<le> 190) \<or> (192 \<le> n \<and> n \<le> 214) \<or> (216 \<le> n \<and> n \<le> 246) \<or>
     (248 \<le> n \<and> n \<le> 255))"

text \<open>A match of \<open>\{\{(\w+)\}\}\<close> at the start of the string: the group and the
  rest after the match. \<open>\w+\<close> is greedy and \<open>}\<close> is no word character, so the
  match, when there is one, takes the maximal run of word characters.\<close>

definition match_placeholder :: "string \<Rightarrow> (string \<times> string) option" where
  "match_placeholder s =
     (if take 2 s = ''{{''
      then (let w = takeWhile py_isword (drop 2 s); r = dropWhile py_isword (drop 2 s) in
            if w \<noteq> [] \<and> take 2 r = ''}}'' then Some (w, drop 2 r) else None)
      else None)"

text \<open>\<open>re.sub\<close> with this pattern: scan left to right; at a match put the
  replacement and continue after it, elsewhere copy one character.\<close>

function render_aux :: "(string \<times> string) list \<Rightarrow> string \<Rightarrow> string" where
  "render_aux ctx [] = []"
| "render_aux ctx (c # cs) =
     (case match_placeholder (c # cs) of
        Some (w, r) \<Rightarrow> (case map_of ctx w of Some v \<Rightarrow> v | None \<Rightarrow> ''{{'' @ w @ ''}}'') @ render_aux ctx r
      | None \<Rightarrow> c # render_aux ctx cs)"
  by pat_completeness auto
termination
proof (relation "measure (\<lambda>(ctx, s). length s)")
  fix ctx :: "(string \<times> string) list" and c cs m w r
  assume "match_placeholder (c # cs) = Some m" and "(w, r) = m"
  then have t: "take 2 (c # cs) = ''{{''" and r: "r = drop 2 (dropWhile py_isword (drop 2 (c # cs)))"
    by (auto simp: match_placeholder_def Let_def split: if_splits)
  from t have "cs \<noteq> []" by (cases cs) auto
  moreover have "length (dropWhile py_isword (drop 2 (c # cs))) \<le> length (drop 2 (c # cs))"
    by (rule length_dropWhile_le)
  ultimately show "((ctx, r), ctx, c # cs) \<in> measure (\<lambda>(ctx, s). length s)"
    using r by simp
qed simp_all

text \<open>\<open>render_text(text, **ctx)\<close>: \<open>text or ""\<close>, then the substitution; an
  unknown key leaves the match as it was.\<close>

definition render_text :: "string option \<Rightarrow> (string \<times> string) list \<Rightarrow> string" where
  "render_text t ctx = render_aux ctx (case t of None \<Rightarrow> [] | Some s \<Rightarrow> s)"

subsection \<open>The XML loader (studienkonfigurationslader.py)\<close>

text \<open>What ElementTree hands \<open>_parse_frage\<close>: an \<open><Option>\<close> or \<open><Thema>\<close> element
  is its \<open>id\<close> attribute and the joined \<open>itertext()\<close>; a \<open><Frage>\<close> element is its
  five attributes, the text of its \<open><Text>\<close> child (\<open>None\<close> when absent) and the
  \<open>findall\<close> lists of its \<open><Antwortoptionen>\<close> and \<open><Themen>\<close> children.\<close>

record xml_eintrag =
  x_id :: "string option"
  x_inhalt :: string

record xml_frage =
  x_attr_id :: "string option"
  x_attr_uebergeordnete_frage :: "string option"
  x_attr_uebergeordnete_antwortoption :: "string option"
  x_attr_themen_limit :: "string option"
  x_attr_themen_zufaellig :: "string option"
  x_text :: "string option"
  x_antwortoptionen :: "xml_eintrag list option"
  x_themen :: "xml_eintrag list option"

text \<open>The source file: missing, not well-formed XML, or the \<open><Frage>\<close> children of
  the root.\<close>

datatype xml_quelle = DateiFehlt | XmlFehlerhaft | XmlFragen "xml_frage list"

text \<open>\<open>int(s)\<close> on a str: optional sign, ASCII digits with single underscores between
  digits, surrounding whitespace allowed.\<close>

definition py_isdigit_ascii :: "char \<Rightarrow> bool" where
  "py_isdigit_ascii c \<longleftrightarrow> (let n = of_char c :: nat in 48 \<le> n \<and> n \<le> 57)"

fun underscores_ok :: "string \<Rightarrow> bool" where
  "underscores_ok (a # b # r) = ((a = CHR ''_'' \<longrightarrow> b \<noteq> CHR ''_'') \<and> underscores_ok (b # r))"
| "underscores_ok _ = True"

definition digits_ok :: "string \<Rightarrow> bool" where
  "digits_ok b \<longleftrightarrow> b \<noteq> [] \<and> py_isdigit_ascii (hd b) \<and> py_isdigit_ascii (last b) \<and>
     (\<forall>c \<in> set b. py_isdigit_ascii c \<or> c = CHR ''_'') \<and> underscores_ok b"

definition digits_val :: "string \<Rightarrow> int" where
  "digits_val b = foldl (\<lambda>n c. 10 * n + (int (of_char c) - 48)) 0 (filter (\<lambda>c. c \<noteq> CHR ''_'') b)"

definition py_int :: "string \<Rightarrow> int option" where
  "py_int s =
     (let t = py_strip s;
          (neg, b) = (case t of
                        c # r \<Rightarrow> if c = CHR ''-'' then (True, r)
                                 else if c = CHR ''+'' then (False, r) else (False, t)
                      | [] \<Rightarrow> (False, []))
      in if digits_ok b then Some (if neg then - digits_val b else digits_val b) else None)"

text \<open>\<open>str.lower\<close> on U+0000..U+00FF.\<close>

definition py_lower_char :: "char \<Rightarrow> char" where
  "py_lower_char c = (let n = of_char c :: nat in
     if (65 \<le> n \<and> n \<le> 90) \<or> (192 \<le> n \<and> n \<le> 222 \<and> n \<noteq> 215) then char_of (n + 32) else c)"

definition py_lower :: "string \<Rightarrow> string" where
  "py_lower s = map py_lower_char s"

text \<open>\<open>frage_id in self._fragen\<close> compares a str with the \<open>Frage\<close> objects parsed so
  far: \<open>str.__eq__\<close> and the dataclass \<open>__eq__\<close> both return \<open>NotImplemented\<close> for
  the other class, so every comparison is \<open>False\<close>.\<close>

definition py_str_eq_frage :: "string \<Rightarrow> frage \<Rightarrow> bool" where
  "py_str_eq_frage s f = False"

definition id_in_fragen :: "string \<Rightarrow> frage list \<Rightarrow> bool" where
  "id_in_fragen s fs = list_ex (py_str_eq_frage s) fs"

text \<open>The loops over \<open><Option>\<close> and \<open><Thema>\<close> elements: the first incomplete or
  duplicate element raises.\<close>

fun parse_optionen :: "string \<Rightarrow> opt list \<Rightarrow> xml_eintrag list \<Rightarrow> py_error + opt list" where
  "parse_optionen fid acc [] = Inr acc"
| "parse_optionen fid acc (e # es) =
     (let oid = stripped_oder_none (x_id e); otext = stripped_oder_none (Some (x_inhalt e)) in
      if oid = None \<or> otext = None then Inl (FragenParserFehler (OptionUnvollstaendig fid))
      else if list_ex (\<lambda>o'. Some (opt_id o') = oid) acc
      then Inl (FragenParserFehler (OptionDoppelt fid (the oid)))
      else parse_optionen fid (acc @ [\<lparr>opt_id = the oid, opt_text = the otext\<rparr>]) es)"

fun parse_themen :: "string \<Rightarrow> thema list \<Rightarrow> xml_eintrag list \<Rightarrow> py_error + thema list" where
  "parse_themen fid acc [] = Inr acc"
| "parse_themen fid acc (e # es) =
     (let tid = stripped_oder_none (x_id e); ttext = stripped_oder_none (Some (x_inhalt e)) in
      if tid = None \<or> ttext = None then Inl (FragenParserFehler (ThemaUnvollstaendig fid))
      else if list_ex (\<lambda>t. Some (th_id t) = tid) acc
      then Inl (FragenParserFehler (ThemaDoppelt fid (the tid)))
      else parse_themen fid (acc @ [\<lparr>th_id = the tid, th_text = the ttext\<rparr>]) es)"

text \<open>\<open>_parse_frage\<close>, check by check in the order of the source; the first failing
  check raises.\<close>

definition parse_limit :: "string \<Rightarrow> string option \<Rightarrow> py_error + int option" where
  "parse_limit fid a =
     (case stripped_oder_none a of
        None \<Rightarrow> Inr None
      | Some e \<Rightarrow>
          (case py_int e of
             None \<Rightarrow> Inl (FragenParserFehler (LimitKeineZahl fid e))
           | Some n \<Rightarrow> if n < 1 then Inl (FragenParserFehler (LimitKleinerEins fid)) else Inr (Some n)))"

definition parse_zufaellig :: "string \<Rightarrow> string option \<Rightarrow> py_error + bool" where
  "parse_zufaellig fid a =
     (case stripped_oder_none a of
        None \<Rightarrow> Inr False
      | Some e \<Rightarrow>
          (let v = py_lower (py_strip e) in
           if v \<in> {''true'', ''1'', ''yes'', ''ja''} then Inr True
           else if v \<in> {''false'', ''0'', ''no'', ''nein''} then Inr False
           else Inl (FragenParserFehler (ZufaelligUngueltig fid e))))"

definition parse_frage :: "frage list \<Rightarrow> xml_frage \<Rightarrow> py_error + frage" where
  "parse_frage bisher x =
     (case stripped_oder_none (x_attr_id x) of
        None \<Rightarrow> Inl (FragenParserFehler OhneId)
      | Some fid \<Rightarrow>
     if id_in_fragen fid bisher then Inl (FragenParserFehler (DoppelteFrageId fid)) else
     (let parent = stripped_oder_none (x_attr_uebergeordnete_frage x);
          parent_opt = stripped_oder_none (x_attr_uebergeordnete_antwortoption x) in
     case parse_limit fid (x_attr_themen_limit x) of Inl e \<Rightarrow> Inl e | Inr limit \<Rightarrow>
     case parse_zufaellig fid (x_attr_themen_zufaellig x) of Inl e \<Rightarrow> Inl e | Inr zuf \<Rightarrow>
     if (limit \<noteq> None \<or> zuf) \<and> parent = None then Inl (FragenParserFehler (ThemenOhneParent fid)) else
     case x_text x of None \<Rightarrow> Inl (FragenParserFehler (TextFehlt fid)) | Some rohtext \<Rightarrow>
     case stripped_oder_none (Some rohtext) of None \<Rightarrow> Inl (FragenParserFehler (TextLeer fid)) | Some text \<Rightarrow>
     case x_antwortoptionen x of None \<Rightarrow> Inl (FragenParserFehler (AntwortoptionenFehlt fid)) | Some oes \<Rightarrow>
     case parse_optionen fid [] oes of Inl e \<Rightarrow> Inl e | Inr opts \<Rightarrow>
     if opts = [] then Inl (FragenParserFehler (KeineOptionen fid)) else
     case parse_themen fid [] (case x_themen x of None \<Rightarrow> [] | Some tes \<Rightarrow> tes) of
       Inl e \<Rightarrow> Inl e
     | Inr ths \<Rightarrow> Inr \<lparr>f_id = fid, f_text = text, optionen = opts, themen = ths,
                     uebergeordnete_frage_id = parent, uebergeordnete_antwortoption_id = parent_opt,
                     uebergeordnete_themen_limit = limit, uebergeordnete_themen_zufaellig = zuf\<rparr>))"

text \<open>\<open>lade_fragen\<close>: the questions in document order, the first error wins.\<close>

fun lade_fragen :: "frage list \<Rightarrow> xml_frage list \<Rightarrow> py_error + frage list" where
  "lade_fragen acc [] = Inr acc"
| "lade_fragen acc (x # xs) =
     (case parse_frage acc x of Inl e \<Rightarrow> Inl e | Inr f \<Rightarrow> lade_fragen (acc @ [f]) xs)"

text \<open>The well-formedness \<open>_parse_frage\<close> establishes for every question it returns:
  non-empty stripped id and text, at least one option, options and topics with non-empty
  ids and texts and distinct ids, a limit of at least 1, and limit or shuffling only under a
  parent question.\<close>

definition frage_wf :: "frage \<Rightarrow> bool" where
  "frage_wf f \<longleftrightarrow>
     f_id f \<noteq> [] \<and> f_text f \<noteq> [] \<and> optionen f \<noteq> [] \<and>
     distinct (map opt_id (optionen f)) \<and> distinct (map th_id (themen f)) \<and>
     list_all (\<lambda>o'. opt_id o' \<noteq> [] \<and> opt_text o' \<noteq> []) (optionen f) \<and>
     list_all (\<lambda>t. th_id t \<noteq> [] \<and> th_text t \<noteq> []) (themen f) \<and>
     ((uebergeordnete_themen_limit f \<noteq> None \<or> uebergeordnete_themen_zufaellig f) \<longrightarrow>
        uebergeordnete_frage_id f \<noteq> None) \<and>
     (case uebergeordnete_themen_limit f of None \<Rightarrow> True | Some n \<Rightarrow> 1 \<le> n)"

text \<open>The constructor: a missing file raises \<open>FragenParserFehler\<close>; for a file that
  is not well-formed the handler formats \<open>xml_baum\<close>, which is not bound yet, and
  raises \<open>UnboundLocalError\<close> instead.\<close>

definition studienkonfigurationslader :: "xml_quelle \<Rightarrow> py_error + frage list" where
  "studienkonfigurationslader q =
     (case q of
        DateiFehlt \<Rightarrow> Inl (FragenParserFehler DateiNichtGefunden)
      | XmlFehlerhaft \<Rightarrow> Inl (UnboundLocalError ''xml_baum'')
      | XmlFragen xs \<Rightarrow> lade_fragen [] xs)"

text \<open>An example \<open><Frage id="q1">\<close> element with the given text, one option, no
  topics, and the limit attribute given.\<close>

definition beispiel_xml :: "string \<Rightarrow> string option \<Rightarrow> xml_frage" where
  "beispiel_xml t lim =
     \<lparr>x_attr_id = Some '' q1 '', x_attr_uebergeordnete_frage = None,
      x_attr_uebergeordnete_antwortoption = None, x_attr_themen_limit = lim,
      x_attr_themen_zufaellig = None, x_text = Some t,
      x_antwortoptionen = Some [\<lparr>x_id = Some ''1'', x_inhalt = '' ja ''\<rparr>], x_themen = None\<rparr>"

subsection \<open>The loader establishes well-formedness\<close>

lemma stripped_oder_none_Some: "stripped_oder_none s = Some t \<Longrightarrow> t \<noteq> []"
  by (auto simp: stripped_oder_none_def Let_def split: if_splits)

lemma parse_optionen_wf:
  "parse_optionen fid acc es = Inr os \<Longrightarrow>
   distinct (map opt_id acc) \<Longrightarrow> list_all (\<lambda>o'. opt_id o' \<noteq> [] \<and> opt_text o' \<noteq> []) acc \<Longrightarrow>
   distinct (map opt_id os) \<and> list_all (\<lambda>o'. opt_id o' \<noteq> [] \<and> opt_text o' \<noteq> []) os \<and> length acc \<le> length os"
proof (induction fid acc es rule: parse_optionen.induct)
  case (1 fid acc)
  then show ?case by simp
next
  case (2 fid acc e es)
  then show ?case
    by (fastforce simp: Let_def list_ex_iff split: if_splits dest: stripped_oder_none_Some)
qed

lemma parse_themen_wf:
  "parse_themen fid acc es = Inr ts \<Longrightarrow>
   distinct (map th_id acc) \<Longrightarrow> list_all (\<lambda>t. th_id t \<noteq> [] \<and> th_text t \<noteq> []) acc \<Longrightarrow>
   distinct (map th_id ts) \<and> list_all (\<lambda>t. th_id t \<noteq> [] \<and> th_text t \<noteq> []) ts"
proof (induction fid acc es rule: parse_themen.induct)
  case (1 fid acc)
  then show ?case by simp
next
  case (2 fid acc e es)
  then show ?case
    by (fastforce simp: Let_def list_ex_iff split: if_splits dest: stripped_oder_none_Some)
qed

lemma parse_limit_wf:
  "parse_limit fid a = Inr l \<Longrightarrow> (case l of None \<Rightarrow> True | Some n \<Rightarrow> 1 \<le> n)"
  by (auto simp: parse_limit_def split: option.splits if_splits)

lemma parse_frage_wf:
  assumes "parse_frage bisher x = Inr f"
  shows "frage_wf f"
proof -
  obtain fid where fid: "stripped_oder_none (x_attr_id x) = Some fid"
    using assms by (auto simp: parse_frage_def split: option.splits)
  obtain limit where lim: "parse_limit fid (x_attr_themen_limit x) = Inr limit"
    using assms fid by (auto simp: parse_frage_def Let_def split: sum.splits if_splits)
  obtain zuf where zuf: "parse_zufaellig fid (x_attr_themen_zufaellig x) = Inr zuf"
    using assms fid lim by (auto simp: parse_frage_def Let_def split: sum.splits if_splits)
  obtain rohtext ftext oes opts ths where
    t: "x_text x = Some rohtext" and tt: "stripped_oder_none (Some rohtext) = Some ftext"
    and oe: "x_antwortoptionen x = Some oes" and po: "parse_optionen fid [] oes = Inr opts"
    and pt: "parse_themen fid [] (case x_themen x of None \<Rightarrow> [] | Some tes \<Rightarrow> tes) = Inr ths"
    and ne: "opts \<noteq> []"
    and par: "(limit \<noteq> None \<or> zuf) \<longrightarrow> stripped_oder_none (x_attr_uebergeordnete_frage x) \<noteq> None"
    and f: "f = \<lparr>f_id = fid, f_text = ftext, optionen = opts, themen = ths,
               uebergeordnete_frage_id = stripped_oder_none (x_attr_uebergeordnete_frage x),
               uebergeordnete_antwortoption_id = stripped_oder_none (x_attr_uebergeordnete_antwortoption x),
               uebergeordnete_themen_limit = limit, uebergeordnete_themen_zufaellig = zuf\<rparr>"
    using assms fid lim zuf
    by (auto simp: parse_frage_def Let_def split: sum.splits if_splits option.splits)
  from po have "distinct (map opt_id opts) \<and> list_all (\<lambda>o'. opt_id o' \<noteq> [] \<and> opt_text o' \<noteq> []) opts"
    by (auto dest: parse_optionen_wf)
  moreover from pt have "distinct (map th_id ths) \<and> list_all (\<lambda>t. th_id t \<noteq> [] \<and> th_text t \<noteq> []) ths"
    by (auto dest: parse_themen_wf)
  moreover have "fid \<noteq> []" "ftext \<noteq> []"
    using fid tt by (auto dest: stripped_oder_none_Some)
  moreover have "case limit of None \<Rightarrow> True | Some n \<Rightarrow> 1 \<le> n"
    using lim by (rule parse_limit_wf)
  ultimately show ?thesis
    using f ne par by (simp add: frage_wf_def)
qed

text \<open>The duplicate check compares the id with \<open>Frage\<close> objects and never fires, so a
  question parses the same whatever was loaded before it, and the loader is the parse of
  each question on its own.\<close>

lemma id_in_fragen_nie: "id_in_fragen s fs = False"
  by (simp add: id_in_fragen_def py_str_eq_frage_def list_ex_iff)

lemma parse_frage_bisher: "parse_frage bisher x = parse_frage [] x"
  unfolding parse_frage_def id_in_fragen_nie ..

lemma lade_fragen_einzeln: "lade_fragen acc xs = bind_r (map_r (parse_frage []) xs) (\<lambda>fs. Inr (acc @ fs))"
proof (induction xs arbitrary: acc)
  case (Cons x xs)
  then show ?case
    by (cases "parse_frage [] x"; cases "map_r (parse_frage []) xs") (simp_all add: parse_frage_bisher [of acc])
qed simp

lemma lade_fragen_wf:
  "lade_fragen acc xs = Inr fs \<Longrightarrow> list_all frage_wf acc \<Longrightarrow> list_all frage_wf fs"
proof (induction acc xs rule: lade_fragen.induct)
  case (1 acc)
  then show ?case by simp
next
  case (2 acc x xs)
  then show ?case
    by (auto split: sum.splits dest: parse_frage_wf)
qed

text \<open>C9. Every question the loader returns is well-formed: non-empty id and text, at
  least one option, distinct option and topic ids with non-empty texts, a limit of at least
  1, and a limit or shuffling only with a parent question.\<close>

theorem studienkonfigurationslader_wf:
  assumes "studienkonfigurationslader q = Inr fs"
  shows "list_all frage_wf fs"
  using assms by (auto simp: studienkonfigurationslader_def split: xml_quelle.splits
      intro: lade_fragen_wf)

text \<open>Witness of C9: a one-question file.\<close>

theorem studienkonfigurationslader_wf_witness:
  "studienkonfigurationslader (XmlFragen [beispiel_xml ''Wie alt sind Sie?'' None]) =
     Inr [\<lparr>f_id = ''q1'', f_text = ''Wie alt sind Sie?'', optionen = [\<lparr>opt_id = ''1'', opt_text = ''ja''\<rparr>],
           themen = [], uebergeordnete_frage_id = None, uebergeordnete_antwortoption_id = None,
           uebergeordnete_themen_limit = None, uebergeordnete_themen_zufaellig = False\<rparr>] \<and>
   frage_wf \<lparr>f_id = ''q1'', f_text = ''Wie alt sind Sie?'', optionen = [\<lparr>opt_id = ''1'', opt_text = ''ja''\<rparr>],
           themen = [], uebergeordnete_frage_id = None, uebergeordnete_antwortoption_id = None,
           uebergeordnete_themen_limit = None, uebergeordnete_themen_zufaellig = False\<rparr>"
proof -
  have h: "studienkonfigurationslader (XmlFragen [beispiel_xml ''Wie alt sind Sie?'' None]) =
     Inr [\<lparr>f_id = ''q1'', f_text = ''Wie alt sind Sie?'', optionen = [\<lparr>opt_id = ''1'', opt_text = ''ja''\<rparr>],
           themen = [], uebergeordnete_frage_id = None, uebergeordnete_antwortoption_id = None,
           uebergeordnete_themen_limit = None, uebergeordnete_themen_zufaellig = False\<rparr>]"
    by (simp add: studienkonfigurationslader_def beispiel_xml_def parse_frage_def parse_limit_def
        parse_zufaellig_def id_in_fragen_def py_str_eq_frage_def py_simps Let_def)
  from h studienkonfigurationslader_wf [OF h] show ?thesis by simp
qed

text \<open>C10. A limit or shuffling attribute on a question without parent question is
  rejected with the error naming that question, once the id, the limit and the shuffling
  attribute have parsed.\<close>

theorem themen_ohne_parent_fehler:
  assumes "stripped_oder_none (x_attr_id x) = Some fid"
    and "parse_limit fid (x_attr_themen_limit x) = Inr limit"
    and "parse_zufaellig fid (x_attr_themen_zufaellig x) = Inr zuf"
    and "limit \<noteq> None \<or> zuf"
    and "stripped_oder_none (x_attr_uebergeordnete_frage x) = None"
  shows "parse_frage bisher x = Inl (FragenParserFehler (ThemenOhneParent fid))"
  using assms by (simp add: parse_frage_def id_in_fragen_def py_str_eq_frage_def list_ex_iff)

text \<open>Witness of C10: \<open>uebergeordnete_themen_limit="2"\<close> without a parent.\<close>

theorem themen_ohne_parent_fehler_witness:
  "parse_frage [] (beispiel_xml ''Wie alt sind Sie?'' (Some ''2'')) =
     Inl (FragenParserFehler (ThemenOhneParent ''q1''))"
proof -
  have "stripped_oder_none (x_attr_id (beispiel_xml ''Wie alt sind Sie?'' (Some ''2''))) = Some ''q1''"
    and "parse_limit ''q1'' (x_attr_themen_limit (beispiel_xml ''Wie alt sind Sie?'' (Some ''2''))) = Inr (Some 2)"
    and "parse_zufaellig ''q1'' (x_attr_themen_zufaellig (beispiel_xml ''Wie alt sind Sie?'' (Some ''2''))) = Inr False"
    and "Some (2::int) \<noteq> None \<or> False"
    and "stripped_oder_none (x_attr_uebergeordnete_frage (beispiel_xml ''Wie alt sind Sie?'' (Some ''2''))) = None"
    by (simp_all add: beispiel_xml_def parse_limit_def parse_zufaellig_def py_int_def digits_ok_def
        digits_val_def py_isdigit_ascii_def py_simps Let_def)
  from themen_ohne_parent_fehler [OF this] show ?thesis .
qed

end
