(* ===== verification/Scheduler.thy ===== *)
theory Scheduler
  imports Questionnaire
begin

text \<open>
  The question scheduler \<open>Fragenmanager\<close>
  (src/komponenten/siliconsamplesgenerator/fragesteller/fragenmanager.py) and the result
  dataclasses it builds (siliconsamplesgenerator_models.py). Its state is the record
  \<open>fragenmanager\<close>: the catalog as an insertion-ordered dictionary, the answers per
  question, and the cache of sampled parent topics. Every method is a function from the
  state to its result and the new state. The random permutation \<open>random.Random().sample\<close>
  is an oracle \<open>zufall\<close>, consulted with the cache key the result is stored under.
\<close>

subsection \<open>Result dataclasses (siliconsamplesgenerator_models.py)\<close>

record antwort_thema_option =
  thema_key :: "string option"
  thema_name :: "string option"
  option_key :: string

record antwort =
  a_frage_id :: string
  auswahl :: "antwort_thema_option list"

record themen_kontext =
  composite_key :: "string option"
  parent_frage_id :: "string option"
  parent_thema_key :: "string option"
  parent_thema_text :: "string option"
  child_thema_key :: "string option"
  child_thema_text :: "string option"
  text_gerendert :: string

record strukturierte_frage =
  sf_frage_id :: string
  themenkontexte :: "themen_kontext list"
  antwortoptionen :: "opt list"
  rohe_frage :: frage

subsection \<open>State\<close>

type_synonym cache_key = "string \<times> string \<times> string \<times> int option \<times> bool"

type_synonym zufall = "cache_key \<Rightarrow> string list \<Rightarrow> string list"

record fragenmanager =
  fragen :: "(string, frage) dict"
  antworten :: "(string, antwort) dict"
  parent_themen_cache :: "cache_key \<Rightarrow> string list option"

text \<open>\<open>__init__\<close>: the catalog as \<open>{f.id: f for f in fragen}\<close> and an empty cache.
  \<open>antworten\<close> is a class attribute, never assigned in \<open>__init__\<close>: a new instance
  shares the dictionary every earlier instance wrote to, passed here as \<open>geteilt\<close>.\<close>

definition fragenmanager_init :: "frage list \<Rightarrow> (string, antwort) dict \<Rightarrow> fragenmanager" where
  "fragenmanager_init fs geteilt =
     \<lparr>fragen = dict_of_list f_id fs, antworten = geteilt, parent_themen_cache = Map.empty\<rparr>"

definition reset_antworten :: "fragenmanager \<Rightarrow> fragenmanager" where
  "reset_antworten fm = fm\<lparr>antworten := [], parent_themen_cache := Map.empty\<rparr>"

subsection \<open>Recording an answer\<close>

text \<open>\<open>antwort_hinzufuegen\<close>: a new entry replaces the entries with the same topic key
  and goes to the end.\<close>

definition antwort_hinzufuegen ::
  "string \<Rightarrow> string option \<Rightarrow> string option \<Rightarrow> string \<Rightarrow> fragenmanager \<Rightarrow> fragenmanager" where
  "antwort_hinzufuegen fid key name okey fm =
     (let neu = \<lparr>thema_key = key, thema_name = name, option_key = okey\<rparr> in
      case map_of (antworten fm) fid of
        None \<Rightarrow> fm\<lparr>antworten := dict_set (antworten fm) fid \<lparr>a_frage_id = fid, auswahl = [neu]\<rparr>\<rparr>
      | Some a \<Rightarrow> fm\<lparr>antworten := dict_set (antworten fm) fid
                    \<lparr>a_frage_id = fid, auswahl = filter (\<lambda>e. thema_key e \<noteq> key) (auswahl a) @ [neu]\<rparr>\<rparr>)"

subsection \<open>Composite keys\<close>

text \<open>\<open>_compose_key\<close>: a child key that is \<open>None\<close> or empty gives the two-part key.\<close>

definition compose_key :: "string \<Rightarrow> string \<Rightarrow> string option \<Rightarrow> string" where
  "compose_key p pt c =
     (case c of
        Some ct \<Rightarrow> if ct \<noteq> [] then p @ ''::'' @ pt @ ''::'' @ ct else p @ ''::'' @ pt
      | None \<Rightarrow> p @ ''::'' @ pt)"

subsection \<open>Parent topics\<close>

text \<open>\<open>_relevante_parent_themen\<close>: the parent's declared topic ids, in declaration order,
  that the parent's answer names with the required option (any option when there is none).\<close>

definition relevante_keys :: "string option \<Rightarrow> antwort \<Rightarrow> string list" where
  "relevante_keys req a =
     List.map_filter (\<lambda>e. if req = None \<or> req = Some (option_key e) then thema_key e else None)
       (auswahl a)"

definition relevante_parent_themen :: "frage \<Rightarrow> antwort option \<Rightarrow> string option \<Rightarrow> string list" where
  "relevante_parent_themen parent pa req =
     (case pa of
        None \<Rightarrow> []
      | Some a \<Rightarrow>
          if themen parent = [] then []
          else filter (\<lambda>t. t \<in> set (relevante_keys req a)) (map th_id (themen parent)))"

definition cache_key_of :: "frage \<Rightarrow> frage \<Rightarrow> cache_key" where
  "cache_key_of q parent =
     (f_id q, f_id parent, (case uebergeordnete_antwortoption_id q of None \<Rightarrow> [] | Some r \<Rightarrow> r),
      uebergeordnete_themen_limit q, uebergeordnete_themen_zufaellig q)"

text \<open>\<open>_parent_themen_fuer_folgefrage\<close>: with a limit or shuffling the first result is
  drawn once, stored under the cache key and returned from then on.\<close>

definition parent_themen_fuer_folgefrage ::
  "zufall \<Rightarrow> frage \<Rightarrow> frage \<Rightarrow> antwort option \<Rightarrow> fragenmanager \<Rightarrow> string list \<times> fragenmanager" where
  "parent_themen_fuer_folgefrage z q parent pa fm =
     (let rel = relevante_parent_themen parent pa (uebergeordnete_antwortoption_id q) in
      if rel = [] then ([], fm)
      else if uebergeordnete_themen_limit q = None \<and> \<not> uebergeordnete_themen_zufaellig q then (rel, fm)
      else
        (let ck = cache_key_of q parent in
         case parent_themen_cache fm ck of
           Some c \<Rightarrow> (c, fm)
         | None \<Rightarrow>
             (let perm = (if uebergeordnete_themen_zufaellig q then z ck rel else rel);
                  perm' = (case uebergeordnete_themen_limit q of None \<Rightarrow> perm | Some n \<Rightarrow> py_take n perm)
              in (perm', fm\<lparr>parent_themen_cache := (parent_themen_cache fm)(ck \<mapsto> perm')\<rparr>))))"

subsection \<open>May a question be asked, is it complete?\<close>

text \<open>\<open>_frage_darf_gestellt_werden\<close> for the question object found under the id.\<close>

definition darf_gestellt_werden :: "fragenmanager \<Rightarrow> frage \<Rightarrow> bool" where
  "darf_gestellt_werden fm q =
     (if \<not> hat_uebergeordnete_frage q then True
      else if \<not> hat_uebergeordnete_antwortoption q then True
      else (case get_opt (antworten fm) (uebergeordnete_frage_id q) of
              Some a \<Rightarrow> list_ex (\<lambda>e. Some (option_key e) = uebergeordnete_antwortoption_id q) (auswahl a)
            | None \<Rightarrow> False))"

definition frage_darf_gestellt_werden :: "fragenmanager \<Rightarrow> string \<Rightarrow> py_error + bool" where
  "frage_darf_gestellt_werden fm fid =
     (case map_of (fragen fm) fid of
        None \<Rightarrow> Inl (FragestellerFehler fid)
      | Some q \<Rightarrow> Inr (darf_gestellt_werden fm q))"

text \<open>Case B of \<open>_frage_ist_komplett_beantwortet\<close>: no loop over parent topics.\<close>

definition komplett_ohne_parent :: "frage \<Rightarrow> string option list \<Rightarrow> bool" where
  "komplett_ohne_parent q gew =
     (if themen q \<noteq> [] then list_all (\<lambda>t. Some (th_id t) \<in> set gew) (themen q) else gew \<noteq> [])"

text \<open>Case A: every relevant parent topic, combined with every own topic.\<close>

definition erwartete_keys :: "frage \<Rightarrow> frage \<Rightarrow> string list \<Rightarrow> string list" where
  "erwartete_keys q parent rel =
     (if themen q \<noteq> [] then concat (map (\<lambda>pt. map (\<lambda>ct. compose_key (f_id parent) pt (Some (th_id ct))) (themen q)) rel)
      else map (\<lambda>pt. compose_key (f_id parent) pt None) rel)"

definition ist_komplett_beantwortet ::
  "zufall \<Rightarrow> frage \<Rightarrow> fragenmanager \<Rightarrow> bool \<times> fragenmanager" where
  "ist_komplett_beantwortet z q fm =
     (case map_of (antworten fm) (f_id q) of
        None \<Rightarrow> (False, fm)
      | Some a \<Rightarrow>
          (let gew = map thema_key (auswahl a) in
           case get_opt (fragen fm) (uebergeordnete_frage_id q) of
             Some parent \<Rightarrow>
               if themen parent \<noteq> [] then
                 (case map_of (antworten fm) (f_id parent) of
                    None \<Rightarrow> (False, fm)
                  | Some pa \<Rightarrow>
                      (let (rel, fm') = parent_themen_fuer_folgefrage z q parent (Some pa) fm in
                       if rel = [] then (True, fm')
                       else (list_all (\<lambda>k. Some k \<in> set gew) (erwartete_keys q parent rel), fm')))
               else (komplett_ohne_parent q gew, fm)
           | None \<Rightarrow> (komplett_ohne_parent q gew, fm)))"

definition frage_ist_komplett_beantwortet ::
  "zufall \<Rightarrow> string \<Rightarrow> fragenmanager \<Rightarrow> py_error + (bool \<times> fragenmanager)" where
  "frage_ist_komplett_beantwortet z fid fm =
     (case map_of (fragen fm) fid of
        None \<Rightarrow> Inl (FragestellerFehler fid)
      | Some q \<Rightarrow> Inr (ist_komplett_beantwortet z q fm))"

subsection \<open>Building the work unit\<close>

text \<open>\<open>parent.thema_text(ptk) or ptk\<close>.\<close>

definition parent_text_of :: "frage \<Rightarrow> string \<Rightarrow> string" where
  "parent_text_of parent pt =
     (case thema_text parent pt of Some t \<Rightarrow> if t \<noteq> [] then t else pt | None \<Rightarrow> pt)"

text \<open>Case A of \<open>_baue_strukturierte_frage\<close>, for one relevant parent topic: the
  combinations with the own topics (or the bare parent topic) not answered yet.\<close>

definition kontexte_parent_thema ::
  "frage \<Rightarrow> frage \<Rightarrow> string option list \<Rightarrow> string \<Rightarrow> themen_kontext list" where
  "kontexte_parent_thema q parent bereits pt =
     (let ptext = parent_text_of parent pt in
      if themen q \<noteq> [] then
        concat (map (\<lambda>ct. let comp = compose_key (f_id parent) pt (Some (th_id ct)) in
          if Some comp \<notin> set bereits then
            [\<lparr>composite_key = Some comp, parent_frage_id = Some (f_id parent), parent_thema_key = Some pt,
              parent_thema_text = Some ptext, child_thema_key = Some (th_id ct),
              child_thema_text = Some (th_text ct),
              text_gerendert = render_text (Some (f_text q)) [(''thema_prev'', ptext), (''thema'', th_text ct)]\<rparr>]
          else []) (themen q))
      else
        (let comp = compose_key (f_id parent) pt None in
         if Some comp \<notin> set bereits then
           [\<lparr>composite_key = Some comp, parent_frage_id = Some (f_id parent), parent_thema_key = Some pt,
             parent_thema_text = Some ptext, child_thema_key = None, child_thema_text = None,
             text_gerendert = render_text (Some (f_text q)) [(''thema_prev'', ptext)]\<rparr>]
         else []))"

text \<open>Cases B and C: the own topics not answered yet; a question without topics gets
  one context with no key while nothing is recorded for it.\<close>

definition kontexte_ohne_parent :: "frage \<Rightarrow> string option list \<Rightarrow> themen_kontext list" where
  "kontexte_ohne_parent q bereits =
     (if themen q \<noteq> [] then
        map (\<lambda>t. \<lparr>composite_key = Some (th_id t), parent_frage_id = None, parent_thema_key = None,
                  parent_thema_text = None, child_thema_key = Some (th_id t),
                  child_thema_text = Some (th_text t),
                  text_gerendert = render_text (Some (f_text q)) [(''thema'', th_text t)]\<rparr>)
          (filter (\<lambda>t. Some (th_id t) \<notin> set bereits) (themen q))
      else if bereits = [] then
        [\<lparr>composite_key = None, parent_frage_id = None, parent_thema_key = None,
          parent_thema_text = None, child_thema_key = None, child_thema_text = None,
          text_gerendert = render_text (Some (f_text q)) []\<rparr>]
      else [])"

text \<open>The options of the unit are \<open>frage.optionen_fuer(None)\<close>, which is
  \<open>optionen\<close> (lemma \<open>optionen_fuer_None\<close>).\<close>

text \<open>\<open>self.fragen.get(parent_id) if parent_id else None\<close>.\<close>

definition parent_von :: "fragenmanager \<Rightarrow> frage \<Rightarrow> frage option" where
  "parent_von fm q =
     (case uebergeordnete_frage_id q of Some p \<Rightarrow> if p \<noteq> [] then map_of (fragen fm) p else None | None \<Rightarrow> None)"

definition baue_strukturierte_frage ::
  "zufall \<Rightarrow> frage \<Rightarrow> fragenmanager \<Rightarrow> strukturierte_frage \<times> fragenmanager" where
  "baue_strukturierte_frage z q fm =
     (let parent = parent_von fm q;
          bereits = (case map_of (antworten fm) (f_id q) of None \<Rightarrow> [] | Some a \<Rightarrow> map thema_key (auswahl a));
          mk = (\<lambda>ks. \<lparr>sf_frage_id = f_id q, themenkontexte = ks, antwortoptionen = optionen q,
                      rohe_frage = q\<rparr>)
      in case parent of
           Some p \<Rightarrow>
             if themen p \<noteq> [] then
               (let (rel, fm') = parent_themen_fuer_folgefrage z q p (map_of (antworten fm) (f_id p)) fm
                in (mk (concat (map (kontexte_parent_thema q p bereits) rel)), fm'))
             else (mk (kontexte_ohne_parent q bereits), fm)
         | None \<Rightarrow> (mk (kontexte_ohne_parent q bereits), fm))"

subsection \<open>The next question\<close>

text \<open>\<open>naechste_frage\<close>: the first question, in catalog order, that may be asked and is
  not complete, as a work unit; \<open>None\<close> when there is none.\<close>

fun naechste_frage_aux ::
  "zufall \<Rightarrow> (string \<times> frage) list \<Rightarrow> fragenmanager \<Rightarrow> py_error + (strukturierte_frage option \<times> fragenmanager)" where
  "naechste_frage_aux z [] fm = Inr (None, fm)"
| "naechste_frage_aux z (kq # rest) fm =
     (case frage_darf_gestellt_werden fm (f_id (snd kq)) of
        Inl e \<Rightarrow> Inl e
      | Inr darf \<Rightarrow>
          if \<not> darf then naechste_frage_aux z rest fm
          else (case frage_ist_komplett_beantwortet z (f_id (snd kq)) fm of
                  Inl e \<Rightarrow> Inl e
                | Inr (komplett, fm') \<Rightarrow>
                    if komplett then naechste_frage_aux z rest fm'
                    else (let (sf, fm'') = baue_strukturierte_frage z (snd kq) fm' in Inr (Some sf, fm''))))"

definition naechste_frage ::
  "zufall \<Rightarrow> fragenmanager \<Rightarrow> py_error + (strukturierte_frage option \<times> fragenmanager)" where
  "naechste_frage z fm = naechste_frage_aux z (fragen fm) fm"

subsection \<open>Example catalog\<close>

text \<open>A brand question \<open>P\<close> with three topics, answered "ja" for all of them, and a
  follow-up \<open>K\<close> asked per brand answered "ja", at most two of them, shuffled.\<close>

definition beispiel_p :: frage where
  "beispiel_p = \<lparr>f_id = ''P'', f_text = ''Kennen Sie {{thema}}?'',
     optionen = [\<lparr>opt_id = ''ja'', opt_text = ''Ja''\<rparr>, \<lparr>opt_id = ''nein'', opt_text = ''Nein''\<rparr>],
     themen = [\<lparr>th_id = ''A'', th_text = ''Marke A''\<rparr>, \<lparr>th_id = ''B'', th_text = ''Marke B''\<rparr>,
               \<lparr>th_id = ''C'', th_text = ''Marke C''\<rparr>],
     uebergeordnete_frage_id = None, uebergeordnete_antwortoption_id = None,
     uebergeordnete_themen_limit = None, uebergeordnete_themen_zufaellig = False\<rparr>"

definition beispiel_k :: frage where
  "beispiel_k = \<lparr>f_id = ''K'', f_text = ''Wie gut gefaellt Ihnen {{thema_prev}}?'',
     optionen = [\<lparr>opt_id = ''1'', opt_text = ''gut''\<rparr>, \<lparr>opt_id = ''2'', opt_text = ''schlecht''\<rparr>],
     themen = [],
     uebergeordnete_frage_id = Some ''P'', uebergeordnete_antwortoption_id = Some ''ja'',
     uebergeordnete_themen_limit = Some 2, uebergeordnete_themen_zufaellig = True\<rparr>"

definition beispiel_fm :: fragenmanager where
  "beispiel_fm = (fragenmanager_init [beispiel_p, beispiel_k] [])
     \<lparr>antworten := [(''P'', \<lparr>a_frage_id = ''P'', auswahl =
        [\<lparr>thema_key = Some ''A'', thema_name = None, option_key = ''ja''\<rparr>,
         \<lparr>thema_key = Some ''B'', thema_name = None, option_key = ''ja''\<rparr>,
         \<lparr>thema_key = Some ''C'', thema_name = None, option_key = ''ja''\<rparr>]\<rparr>)]\<rparr>"

subsection \<open>Invariants of the scheduler state\<close>

text \<open>The random source returns a permutation, as \<open>sample(relevante, k=len(relevante))\<close>
  does.\<close>

definition zufall_permutiert :: "zufall \<Rightarrow> bool" where
  "zufall_permutiert z \<longleftrightarrow> (\<forall>ck xs. mset (z ck xs) = mset xs)"

text \<open>Every cached parent-topic list has distinct entries, names topics of the parent
  question its key names, and respects the limit its key names.\<close>

definition cache_ok :: "fragenmanager \<Rightarrow> bool" where
  "cache_ok fm \<longleftrightarrow>
     (\<forall>ck v. parent_themen_cache fm ck = Some v \<longrightarrow>
        distinct v \<and>
        (\<forall>p. map_of (fragen fm) (fst (snd ck)) = Some p \<longrightarrow> set v \<subseteq> th_id ` set (themen p)) \<and>
        (\<forall>n. fst (snd (snd (snd ck))) = Some n \<longrightarrow> 0 \<le> n \<longrightarrow> int (length v) \<le> n))"

text \<open>One answer per question id, stored under that id, with at most one entry per topic
  key.\<close>

definition antworten_ok :: "fragenmanager \<Rightarrow> bool" where
  "antworten_ok fm \<longleftrightarrow> distinct (map fst (antworten fm)) \<and>
     list_all (\<lambda>(g, a). a_frage_id a = g \<and> distinct (map thema_key (auswahl a))) (antworten fm)"

definition eintrag :: "string \<Rightarrow> string \<Rightarrow> antwort_thema_option" where
  "eintrag k ok = \<lparr>thema_key = Some k, thema_name = None, option_key = ok\<rparr>"

text \<open>The scenario of the spec: a parent question \<open>E\<close> whose topic \<open>t1\<close> is answered
  "ja" and \<open>t2\<close> "nein", and a follow-up \<open>C\<close> with the topics \<open>x\<close> and \<open>y\<close>, asked
  for the parent topics answered "ja"; \<open>beispiel_kind_fm ks\<close> has recorded the topic keys
  \<open>ks\<close> for \<open>C\<close>.\<close>

definition beispiel_eltern :: frage where
  "beispiel_eltern = \<lparr>f_id = ''E'', f_text = ''Kennen Sie {{thema}}?'',
     optionen = [\<lparr>opt_id = ''ja'', opt_text = ''Ja''\<rparr>, \<lparr>opt_id = ''nein'', opt_text = ''Nein''\<rparr>],
     themen = [\<lparr>th_id = ''t1'', th_text = ''Marke 1''\<rparr>, \<lparr>th_id = ''t2'', th_text = ''Marke 2''\<rparr>],
     uebergeordnete_frage_id = None, uebergeordnete_antwortoption_id = None,
     uebergeordnete_themen_limit = None, uebergeordnete_themen_zufaellig = False\<rparr>"

definition beispiel_kind :: frage where
  "beispiel_kind = \<lparr>f_id = ''C'', f_text = ''{{thema_prev}}: {{thema}}'',
     optionen = [\<lparr>opt_id = ''1'', opt_text = ''stimme zu''\<rparr>, \<lparr>opt_id = ''2'', opt_text = ''lehne ab''\<rparr>],
     themen = [\<lparr>th_id = ''x'', th_text = ''preiswert''\<rparr>, \<lparr>th_id = ''y'', th_text = ''modern''\<rparr>],
     uebergeordnete_frage_id = Some ''E'', uebergeordnete_antwortoption_id = Some ''ja'',
     uebergeordnete_themen_limit = None, uebergeordnete_themen_zufaellig = False\<rparr>"

definition beispiel_kind_fm :: "string list \<Rightarrow> fragenmanager" where
  "beispiel_kind_fm ks =
     \<lparr>fragen = dict_of_list f_id [beispiel_eltern, beispiel_kind],
      antworten = [(''E'', \<lparr>a_frage_id = ''E'', auswahl = [eintrag ''t1'' ''ja'', eintrag ''t2'' ''nein'']\<rparr>),
                   (''C'', \<lparr>a_frage_id = ''C'', auswahl = map (\<lambda>k. eintrag k ''1'') ks\<rparr>)],
      parent_themen_cache = Map.empty\<rparr>"

text \<open>A chain: \<open>K2\<close> follows the brands of \<open>K1\<close> answered "ja", \<open>K3\<close> follows
  \<open>K2\<close> with no required option; every brand of \<open>K1\<close> is answered "nein".\<close>

definition beispiel_kette :: fragenmanager where
  "beispiel_kette =
     \<lparr>fragen = dict_of_list f_id
        [beispiel_eltern\<lparr>f_id := ''K1''\<rparr>,
         beispiel_kind\<lparr>f_id := ''K2'', uebergeordnete_frage_id := Some ''K1''\<rparr>,
         beispiel_kind\<lparr>f_id := ''K3'', uebergeordnete_frage_id := Some ''K2'',
                        uebergeordnete_antwortoption_id := None\<rparr>],
      antworten = [(''K1'', \<lparr>a_frage_id = ''K1'', auswahl = [eintrag ''t1'' ''nein'', eintrag ''t2'' ''nein'']\<rparr>)],
      parent_themen_cache = Map.empty\<rparr>"

subsection \<open>The cache only grows\<close>

text \<open>\<open>cache_erweitert fm fm'\<close>: \<open>fm'\<close> has the catalog and answers of \<open>fm\<close> and a
  cache that extends the one of \<open>fm\<close>. Every read of the scheduler leaves its state in
  this relation, and a read repeated in an extended state gives the same result.\<close>

definition cache_erweitert :: "fragenmanager \<Rightarrow> fragenmanager \<Rightarrow> bool" where
  "cache_erweitert fm fm' \<longleftrightarrow>
     fragen fm' = fragen fm \<and> antworten fm' = antworten fm \<and>
     parent_themen_cache fm \<subseteq>\<^sub>m parent_themen_cache fm'"

lemma cache_erweitert_refl [simp]: "cache_erweitert fm fm"
  by (simp add: cache_erweitert_def)

lemma cache_erweitert_trans [trans]:
  "cache_erweitert fm1 fm2 \<Longrightarrow> cache_erweitert fm2 fm3 \<Longrightarrow> cache_erweitert fm1 fm3"
  by (auto simp: cache_erweitert_def intro: map_le_trans)


subsection \<open>Reads of the scheduler are stable\<close>

text \<open>The equations that evaluate the scheduler on a concrete state.\<close>

lemmas scheduler_eval = naechste_frage_def frage_darf_gestellt_werden_def darf_gestellt_werden_def
  frage_ist_komplett_beantwortet_def ist_komplett_beantwortet_def komplett_ohne_parent_def
  erwartete_keys_def parent_themen_fuer_folgefrage_def relevante_parent_themen_def relevante_keys_def
  cache_key_of_def baue_strukturierte_frage_def parent_von_def kontexte_parent_thema_def
  kontexte_ohne_parent_def parent_text_of_def compose_key_def thema_text_def
  hat_uebergeordnete_frage_def hat_uebergeordnete_antwortoption_def fragenmanager_init_def
  dict_of_list_def dict_set_def
  render_text_def match_placeholder_def py_isword_def List.map_filter_def


lemma parent_themen_erweitert:
  "parent_themen_fuer_folgefrage z q p pa fm = (r, fm1) \<Longrightarrow> cache_erweitert fm fm1"
  by (auto simp: parent_themen_fuer_folgefrage_def Let_def cache_erweitert_def map_le_def
      split: if_splits option.splits)

lemma parent_themen_stabil:
  assumes pt: "parent_themen_fuer_folgefrage z q p pa fm = (r, fm1)"
    and le: "parent_themen_cache fm1 \<subseteq>\<^sub>m parent_themen_cache fm2"
  shows "parent_themen_fuer_folgefrage z' q p pa fm2 = (r, fm2)"
proof -
  let ?rel = "relevante_parent_themen p pa (uebergeordnete_antwortoption_id q)"
  let ?frei = "uebergeordnete_themen_limit q = None \<and> \<not> uebergeordnete_themen_zufaellig q"
  consider "?rel = []" | "?rel \<noteq> [] \<and> ?frei" | "?rel \<noteq> [] \<and> \<not> ?frei" by blast
  then show ?thesis
  proof cases
    case 1
    with pt show ?thesis by (simp add: parent_themen_fuer_folgefrage_def)
  next
    case 2
    with pt show ?thesis by (simp add: parent_themen_fuer_folgefrage_def)
  next
    case 3
    with pt have "parent_themen_cache fm1 (cache_key_of q p) = Some r"
      by (auto simp: parent_themen_fuer_folgefrage_def Let_def split: option.splits)
    with le have "parent_themen_cache fm2 (cache_key_of q p) = Some r"
      by (metis domI map_le_def)
    with 3 show ?thesis by (auto simp: parent_themen_fuer_folgefrage_def Let_def)
  qed
qed

lemma ist_komplett_erweitert:
  "ist_komplett_beantwortet z q fm = (b, fm1) \<Longrightarrow> cache_erweitert fm fm1"
  by (auto simp: ist_komplett_beantwortet_def Let_def split: option.splits if_splits prod.splits
      dest: parent_themen_erweitert)

lemma ist_komplett_stabil:
  assumes ik: "ist_komplett_beantwortet z q fm = (b, fm1)" and e12: "cache_erweitert fm1 fm2"
  shows "ist_komplett_beantwortet z' q fm2 = (b, fm2)"
proof -
  have "cache_erweitert fm fm2"
    using ik e12 ist_komplett_erweitert cache_erweitert_trans by blast
  then have fr: "fragen fm2 = fragen fm" and an: "antworten fm2 = antworten fm"
    by (simp_all add: cache_erweitert_def)
  show ?thesis
  proof (cases "\<exists>a pa parent. map_of (antworten fm) (f_id q) = Some a \<and>
      get_opt (fragen fm) (uebergeordnete_frage_id q) = Some parent \<and> themen parent \<noteq> [] \<and>
      map_of (antworten fm) (f_id parent) = Some pa")
    case True
    then obtain a pa parent where a: "map_of (antworten fm) (f_id q) = Some a"
      and p: "get_opt (fragen fm) (uebergeordnete_frage_id q) = Some parent"
      and tp: "themen parent \<noteq> []" and pa: "map_of (antworten fm) (f_id parent) = Some pa"
      by blast
    obtain rel fm' where pt: "parent_themen_fuer_folgefrage z q parent (Some pa) fm = (rel, fm')"
      by fastforce
    from ik a p tp pa pt have "fm1 = fm'"
      by (simp add: ist_komplett_beantwortet_def Let_def split: if_splits)
    with e12 have "parent_themen_cache fm' \<subseteq>\<^sub>m parent_themen_cache fm2"
      by (simp add: cache_erweitert_def)
    with pt have "parent_themen_fuer_folgefrage z' q parent (Some pa) fm2 = (rel, fm2)"
      by (rule parent_themen_stabil)
    with ik a p tp pa pt fr an show ?thesis
      by (simp add: ist_komplett_beantwortet_def Let_def split: if_splits)
  next
    case False
    with ik fr an show ?thesis
      by (auto simp: ist_komplett_beantwortet_def Let_def split: option.splits if_splits)
  qed
qed


lemma baue_erweitert:
  "baue_strukturierte_frage z q fm = (sf, fm1) \<Longrightarrow> cache_erweitert fm fm1"
  by (auto simp: baue_strukturierte_frage_def Let_def split: option.splits if_splits prod.splits
      dest: parent_themen_erweitert)

lemma baue_stabil:
  assumes bq: "baue_strukturierte_frage z q fm = (sf, fm1)" and e12: "cache_erweitert fm1 fm2"
  shows "baue_strukturierte_frage z' q fm2 = (sf, fm2)"
proof -
  have "cache_erweitert fm fm2"
    using bq e12 baue_erweitert cache_erweitert_trans by blast
  then have fr: "fragen fm2 = fragen fm" and an: "antworten fm2 = antworten fm"
    by (simp_all add: cache_erweitert_def)
  let ?parent = "parent_von fm q"
  show ?thesis
  proof (cases "\<exists>parent. ?parent = Some parent \<and> themen parent \<noteq> []")
    case True
    then obtain parent where p: "?parent = Some parent" and tp: "themen parent \<noteq> []"
      by blast
    obtain rel fm' where pt:
      "parent_themen_fuer_folgefrage z q parent (map_of (antworten fm) (f_id parent)) fm = (rel, fm')"
      by fastforce
    from bq p tp pt have "fm1 = fm'"
      by (simp add: baue_strukturierte_frage_def Let_def)
    with e12 have "parent_themen_cache fm' \<subseteq>\<^sub>m parent_themen_cache fm2"
      by (simp add: cache_erweitert_def)
    with pt have "parent_themen_fuer_folgefrage z' q parent (map_of (antworten fm) (f_id parent)) fm2 = (rel, fm2)"
      by (rule parent_themen_stabil)
    moreover have "parent_von fm2 q = Some parent"
      using p unfolding parent_von_def fr .
    ultimately show ?thesis using bq p tp pt an
      by (simp add: baue_strukturierte_frage_def Let_def)
  next
    case False
    have "parent_von fm2 q = parent_von fm q"
      unfolding parent_von_def fr ..
    with False bq an show ?thesis
      by (auto simp: baue_strukturierte_frage_def Let_def split: option.splits if_splits)
  qed
qed

lemma naechste_frage_aux_erweitert:
  "naechste_frage_aux z qs fm = Inr (r, fm1) \<Longrightarrow> cache_erweitert fm fm1"
proof (induction qs arbitrary: fm)
  case Nil
  then show ?case by simp
next
  case (Cons kq rest)
  show ?case
  proof (cases "frage_darf_gestellt_werden fm (f_id (snd kq))")
    case (Inl e)
    with Cons.prems show ?thesis by simp
  next
    case (Inr darf)
    note d = Inr
    show ?thesis
    proof (cases darf)
      case False
      with Cons Inr show ?thesis by simp
    next
      case True
      note dt = True
      show ?thesis
      proof (cases "frage_ist_komplett_beantwortet z (f_id (snd kq)) fm")
        case (Inl e)
        with Cons.prems d dt show ?thesis by simp
      next
        case (Inr bf)
        then obtain b fm' where bf: "frage_ist_komplett_beantwortet z (f_id (snd kq)) fm = Inr (b, fm')"
          by (cases bf) auto
        then have e1: "cache_erweitert fm fm'"
          by (auto simp: frage_ist_komplett_beantwortet_def split: option.splits
              dest: ist_komplett_erweitert)
        show ?thesis
        proof (cases b)
          case True
          with Cons.prems d dt True bf have "naechste_frage_aux z rest fm' = Inr (r, fm1)"
            by simp
          with e1 Cons.IH show ?thesis using cache_erweitert_trans by blast
        next
          case False
          obtain sf fm'' where b2: "baue_strukturierte_frage z (snd kq) fm' = (sf, fm'')"
            by fastforce
          with Cons.prems d dt bf False have "fm1 = fm''"
            by simp
          with b2 e1 show ?thesis using baue_erweitert cache_erweitert_trans by blast
        qed
      qed
    qed
  qed
qed


lemma frage_darf_erweitert:
  assumes "cache_erweitert fm fm2"
  shows "frage_darf_gestellt_werden fm2 x = frage_darf_gestellt_werden fm x"
proof -
  from assms have f: "fragen fm2 = fragen fm" and a: "antworten fm2 = antworten fm"
    by (simp_all add: cache_erweitert_def)
  show ?thesis
    unfolding frage_darf_gestellt_werden_def darf_gestellt_werden_def f a ..
qed

lemma frage_komplett_erweitert:
  "frage_ist_komplett_beantwortet z x fm = Inr (b, fm1) \<Longrightarrow> cache_erweitert fm fm1"
  by (auto simp: frage_ist_komplett_beantwortet_def split: option.splits dest: ist_komplett_erweitert)

lemma frage_komplett_stabil:
  assumes fk: "frage_ist_komplett_beantwortet z x fm = Inr (b, fm1)" and e12: "cache_erweitert fm1 fm2"
  shows "frage_ist_komplett_beantwortet z' x fm2 = Inr (b, fm2)"
proof -
  from fk obtain q where q: "map_of (fragen fm) x = Some q" and ik: "ist_komplett_beantwortet z q fm = (b, fm1)"
    by (auto simp: frage_ist_komplett_beantwortet_def split: option.splits)
  have "cache_erweitert fm fm2"
    using fk e12 frage_komplett_erweitert cache_erweitert_trans by blast
  then have "fragen fm2 = fragen fm" by (simp add: cache_erweitert_def)
  moreover have "ist_komplett_beantwortet z' q fm2 = (b, fm2)"
    using ik e12 by (rule ist_komplett_stabil)
  ultimately show ?thesis using q
    by (simp add: frage_ist_komplett_beantwortet_def)
qed

lemma naechste_frage_aux_stabil:
  "naechste_frage_aux z qs fm = Inr (r, fm1) \<Longrightarrow> cache_erweitert fm1 fm2 \<Longrightarrow>
   naechste_frage_aux z' qs fm2 = Inr (r, fm2)"
proof (induction qs arbitrary: fm)
  case Nil
  then show ?case by (simp add: cache_erweitert_def)
next
  case (Cons kq rest)
  have e02: "cache_erweitert fm fm2"
    using Cons.prems naechste_frage_aux_erweitert cache_erweitert_trans by blast
  then have darf2: "frage_darf_gestellt_werden fm2 (f_id (snd kq)) = frage_darf_gestellt_werden fm (f_id (snd kq))"
    by (rule frage_darf_erweitert)
  show ?case
  proof (cases "frage_darf_gestellt_werden fm (f_id (snd kq))")
    case (Inl e)
    with Cons.prems show ?thesis by simp
  next
    case (Inr darf)
    note d = Inr
    show ?thesis
    proof (cases darf)
      case False
      with Cons d darf2 show ?thesis by simp
    next
      case True
      note dt = True
      show ?thesis
      proof (cases "frage_ist_komplett_beantwortet z (f_id (snd kq)) fm")
        case (Inl e)
        with Cons.prems d dt show ?thesis by simp
      next
        case (Inr bf)
        then obtain b fm' where bf: "frage_ist_komplett_beantwortet z (f_id (snd kq)) fm = Inr (b, fm')"
          by (cases bf) auto
        show ?thesis
        proof (cases b)
          case True
          with Cons.prems d dt bf have rest: "naechste_frage_aux z rest fm' = Inr (r, fm1)"
            by simp
          then have "cache_erweitert fm' fm2"
            using Cons.prems(2) naechste_frage_aux_erweitert cache_erweitert_trans by blast
          with bf have "frage_ist_komplett_beantwortet z' (f_id (snd kq)) fm2 = Inr (b, fm2)"
            by (rule frage_komplett_stabil)
          moreover have "naechste_frage_aux z' rest fm2 = Inr (r, fm2)"
            using rest Cons.prems(2) by (rule Cons.IH)
          ultimately show ?thesis using d dt darf2 True by simp
        next
          case False
          obtain sf fm'' where b2: "baue_strukturierte_frage z (snd kq) fm' = (sf, fm'')"
            by fastforce
          with Cons.prems d dt bf False have r: "r = Some sf" and "fm1 = fm''"
            by simp_all
          with b2 Cons.prems(2) have "cache_erweitert fm' fm2"
            using baue_erweitert cache_erweitert_trans by blast
          with bf have "frage_ist_komplett_beantwortet z' (f_id (snd kq)) fm2 = Inr (b, fm2)"
            by (rule frage_komplett_stabil)
          moreover have "baue_strukturierte_frage z' (snd kq) fm2 = (sf, fm2)"
            using b2 Cons.prems(2) \<open>fm1 = fm''\<close> baue_stabil by blast
          ultimately show ?thesis using d dt darf2 False r by simp
        qed
      qed
    qed
  qed
qed

text \<open>C1. Asking the scheduler for the next question twice, with no answer recorded
  in between, gives the same work unit, and the second call leaves the scheduler's state as
  the first left it, whatever the random source does on the second call: \<open>naechste_frage\<close>
  is a read whose only effect is to fill the sampling cache once.\<close>

theorem naechste_frage_idempotent:
  assumes "naechste_frage z fm = Inr (r, fm1)"
  shows "naechste_frage z' fm1 = Inr (r, fm1)"
proof -
  from assms have "cache_erweitert fm fm1"
    by (simp add: naechste_frage_def naechste_frage_aux_erweitert)
  then have "fragen fm1 = fragen fm" by (simp add: cache_erweitert_def)
  moreover have "naechste_frage_aux z' (fragen fm) fm1 = Inr (r, fm1)"
    using assms by (simp add: naechste_frage_def naechste_frage_aux_stabil [where z' = z'])
  ultimately show ?thesis by (simp add: naechste_frage_def)
qed

text \<open>Witness of C1: on the example catalog the shuffle reverses the two brands
  answered "ja"; asked again with a shuffle that keeps the order, the scheduler returns the
  same unit, for the brands C and B.\<close>

theorem naechste_frage_idempotent_witness:
  "(case naechste_frage (\<lambda>ck xs. rev xs) beispiel_fm of
      Inr (Some sf, fm1) \<Rightarrow>
        naechste_frage (\<lambda>ck xs. xs) fm1 = Inr (Some sf, fm1) \<and>
        map composite_key (themenkontexte sf) = [Some ''P::C'', Some ''P::B'']
    | _ \<Rightarrow> False)"
proof -
  let ?x = "naechste_frage (\<lambda>ck xs. rev xs) beispiel_fm"
  have h: "?x = Inr (fst (projr ?x), snd (projr ?x))"
    by (simp add: scheduler_eval beispiel_fm_def beispiel_p_def beispiel_k_def py_simps Let_def)
  have "naechste_frage (\<lambda>ck xs. xs) (snd (projr ?x)) = Inr (fst (projr ?x), snd (projr ?x))"
    using naechste_frage_idempotent [OF h] .
  then show ?thesis
    by (simp add: scheduler_eval beispiel_fm_def beispiel_p_def beispiel_k_def py_simps Let_def)
qed

subsection \<open>Parent-topic sampling\<close>

lemma relevante_parent_themen_sub:
  "set (relevante_parent_themen p pa req) \<subseteq> th_id ` set (themen p)"
  by (auto simp: relevante_parent_themen_def split: option.splits)

lemma relevante_parent_themen_distinct:
  "distinct (map th_id (themen p)) \<Longrightarrow> distinct (relevante_parent_themen p pa req)"
  by (auto simp: relevante_parent_themen_def split: option.splits)

lemma zufall_permutiert_set:
  "zufall_permutiert z \<Longrightarrow> set (z ck xs) = set xs \<and> (distinct xs \<longrightarrow> distinct (z ck xs))"
  unfolding zufall_permutiert_def by (metis mset_eq_setD distinct_count_atmost_1 count_mset)

text \<open>C2. Sampling stability: once the parent topics of a follow-up question have been
  resolved, resolving them again in the resulting state returns the same list and changes
  nothing, whatever the random source returns the second time.\<close>

theorem stichprobe_stabil:
  assumes "parent_themen_fuer_folgefrage z q p pa fm = (r, fm1)"
  shows "parent_themen_fuer_folgefrage z' q p pa fm1 = (r, fm1)"
  using assms map_le_refl by (rule parent_themen_stabil)

text \<open>Witness of C2: the first resolution reverses the brands answered "ja" and keeps
  two; the second, with the identity as random source, returns the cached pair; on the
  fresh state that identity would have given another pair.\<close>

theorem stichprobe_stabil_witness:
  "parent_themen_fuer_folgefrage (\<lambda>ck xs. rev xs) beispiel_k beispiel_p (map_of (antworten beispiel_fm) ''P'') beispiel_fm
     = ([''C'', ''B''], beispiel_fm\<lparr>parent_themen_cache := [cache_key_of beispiel_k beispiel_p \<mapsto> [''C'', ''B'']]\<rparr>) \<and>
   parent_themen_fuer_folgefrage (\<lambda>ck xs. xs) beispiel_k beispiel_p (map_of (antworten beispiel_fm) ''P'')
     (beispiel_fm\<lparr>parent_themen_cache := [cache_key_of beispiel_k beispiel_p \<mapsto> [''C'', ''B'']]\<rparr>)
     = ([''C'', ''B''], beispiel_fm\<lparr>parent_themen_cache := [cache_key_of beispiel_k beispiel_p \<mapsto> [''C'', ''B'']]\<rparr>) \<and>
   fst (parent_themen_fuer_folgefrage (\<lambda>ck xs. xs) beispiel_k beispiel_p (map_of (antworten beispiel_fm) ''P'') beispiel_fm)
     = [''A'', ''B'']"
proof -
  have h: "parent_themen_fuer_folgefrage (\<lambda>ck xs. rev xs) beispiel_k beispiel_p (map_of (antworten beispiel_fm) ''P'') beispiel_fm
     = ([''C'', ''B''], beispiel_fm\<lparr>parent_themen_cache := [cache_key_of beispiel_k beispiel_p \<mapsto> [''C'', ''B'']]\<rparr>)"
    by (simp add: scheduler_eval beispiel_fm_def beispiel_p_def beispiel_k_def py_simps Let_def)
  show ?thesis
    using h stichprobe_stabil [OF h]
    by (simp add: scheduler_eval beispiel_fm_def beispiel_p_def beispiel_k_def py_simps Let_def)
qed

text \<open>C3. Bounds of the sampled parent topics: with a random source that permutes, in a
  state whose cache is well-formed, the resolved list has no duplicates, names only topics
  the parent declares and has at most as many entries as the limit; the cache stays
  well-formed.\<close>

theorem parent_themen_schranken:
  assumes ok: "cache_ok fm" and zp: "zufall_permutiert z"
    and p: "map_of (fragen fm) (f_id p) = Some p" and dp: "distinct (map th_id (themen p))"
    and pt: "parent_themen_fuer_folgefrage z q p pa fm = (r, fm1)"
  shows "distinct r \<and> set r \<subseteq> th_id ` set (themen p) \<and>
    (\<forall>n. uebergeordnete_themen_limit q = Some n \<longrightarrow> 0 \<le> n \<longrightarrow> int (length r) \<le> n) \<and>
    cache_ok fm1"
proof -
  let ?rel = "relevante_parent_themen p pa (uebergeordnete_antwortoption_id q)"
  let ?ck = "cache_key_of q p"
  have rs: "set ?rel \<subseteq> th_id ` set (themen p)" by (rule relevante_parent_themen_sub)
  have rd: "distinct ?rel" using dp by (rule relevante_parent_themen_distinct)
  have ck: "fst (snd ?ck) = f_id p" "fst (snd (snd (snd ?ck))) = uebergeordnete_themen_limit q"
    by (simp_all add: cache_key_of_def)
  consider "?rel = []" | "?rel \<noteq> [] \<and> uebergeordnete_themen_limit q = None \<and> \<not> uebergeordnete_themen_zufaellig q"
    | v where "?rel \<noteq> [] \<and> \<not> (uebergeordnete_themen_limit q = None \<and> \<not> uebergeordnete_themen_zufaellig q)"
         "parent_themen_cache fm ?ck = Some v"
    | "?rel \<noteq> [] \<and> \<not> (uebergeordnete_themen_limit q = None \<and> \<not> uebergeordnete_themen_zufaellig q)"
         "parent_themen_cache fm ?ck = None"
    by (cases "parent_themen_cache fm ?ck") blast+
  then show ?thesis
  proof cases
    case 1
    with pt ok show ?thesis by (simp add: parent_themen_fuer_folgefrage_def)
  next
    case 2
    with pt ok rs rd show ?thesis by (auto simp: parent_themen_fuer_folgefrage_def)
  next
    case (3 v)
    with pt have "r = v" "fm1 = fm" by (auto simp: parent_themen_fuer_folgefrage_def Let_def)
    with 3 ok p ck show ?thesis unfolding cache_ok_def by metis
  next
    case 4
    define perm where "perm = (if uebergeordnete_themen_zufaellig q then z ?ck ?rel else ?rel)"
    define perm' where "perm' = (case uebergeordnete_themen_limit q of None \<Rightarrow> perm | Some n \<Rightarrow> py_take n perm)"
    from 4 pt have r: "r = perm'" and fm1: "fm1 = fm\<lparr>parent_themen_cache := (parent_themen_cache fm)(?ck \<mapsto> perm')\<rparr>"
      unfolding perm'_def perm_def by (auto simp: parent_themen_fuer_folgefrage_def Let_def)
    have "set perm = set ?rel \<and> distinct perm"
      using zufall_permutiert_set [OF zp] rd by (simp add: perm_def)
    then have sp: "set perm = set ?rel" and dpm: "distinct perm" by simp_all
    have pd: "distinct perm'"
      using dpm by (simp add: perm'_def distinct_py_take split: option.splits)
    have "set perm' \<subseteq> set perm"
      by (simp add: perm'_def set_py_take split: option.splits)
    then have ps: "set perm' \<subseteq> th_id ` set (themen p)"
      using sp rs by blast
    have pl: "\<forall>n. uebergeordnete_themen_limit q = Some n \<longrightarrow> 0 \<le> n \<longrightarrow> int (length perm') \<le> n"
      by (simp add: perm'_def length_py_take_le)
    have "cache_ok fm1"
      unfolding cache_ok_def fm1 using ok pd ps pl p by (auto simp: cache_ok_def cache_key_of_def)
    with r pd ps pl show ?thesis by simp
  qed
qed

text \<open>Witness of C3, on the example catalog with the reversing random source.\<close>

theorem parent_themen_schranken_witness:
  "cache_ok beispiel_fm \<and> zufall_permutiert (\<lambda>ck xs. rev xs) \<and>
   int (length (fst (parent_themen_fuer_folgefrage (\<lambda>ck xs. rev xs) beispiel_k beispiel_p
      (map_of (antworten beispiel_fm) ''P'') beispiel_fm))) \<le> 2 \<and>
   cache_ok (snd (parent_themen_fuer_folgefrage (\<lambda>ck xs. rev xs) beispiel_k beispiel_p
      (map_of (antworten beispiel_fm) ''P'') beispiel_fm))"
proof -
  let ?x = "parent_themen_fuer_folgefrage (\<lambda>ck xs. rev xs) beispiel_k beispiel_p
      (map_of (antworten beispiel_fm) ''P'') beispiel_fm"
  have h1: "cache_ok beispiel_fm"
    by (simp add: cache_ok_def beispiel_fm_def fragenmanager_init_def)
  have h2: "zufall_permutiert (\<lambda>ck xs. rev xs)"
    by (simp add: zufall_permutiert_def)
  have h3: "map_of (fragen beispiel_fm) (f_id beispiel_p) = Some beispiel_p"
    by (simp add: scheduler_eval beispiel_fm_def beispiel_p_def beispiel_k_def)
  have h4: "distinct (map th_id (themen beispiel_p))"
    by (simp add: beispiel_p_def)
  have h5: "?x = (fst ?x, snd ?x)" by simp
  have lim: "uebergeordnete_themen_limit beispiel_k = Some 2"
    by (simp add: beispiel_k_def)
  from parent_themen_schranken [OF h1 h2 h3 h4 h5] lim h1 h2 show ?thesis by simp
qed

subsection \<open>Completion of follow-up questions\<close>

text \<open>C4. The composite-key scenario of the spec: with parent topic \<open>t1\<close> answered
  "ja" and \<open>t2\<close> "nein", the follow-up \<open>C\<close> with topics \<open>x\<close>, \<open>y\<close> is complete exactly
  when both \<open>E::t1::x\<close> and \<open>E::t1::y\<close> are recorded, whatever else is.\<close>

theorem komplett_zusammengesetzte_keys:
  "fst (ist_komplett_beantwortet z beispiel_kind (beispiel_kind_fm ks)) \<longleftrightarrow>
     ''E::t1::x'' \<in> set ks \<and> ''E::t1::y'' \<in> set ks"
  by (simp add: scheduler_eval beispiel_kind_fm_def beispiel_eltern_def beispiel_kind_def eintrag_def
      py_simps Let_def image_iff)

subsection \<open>Recording answers\<close>

lemma antwort_hinzufuegen_map_of:
  "map_of (antworten (antwort_hinzufuegen fid k n ok fm)) =
     (map_of (antworten fm))(fid \<mapsto> \<lparr>a_frage_id = fid,
        auswahl = (case map_of (antworten fm) fid of None \<Rightarrow> [] | Some a \<Rightarrow> filter (\<lambda>e. thema_key e \<noteq> k) (auswahl a))
                  @ [\<lparr>thema_key = k, thema_name = n, option_key = ok\<rparr>]\<rparr>)"
  by (simp add: antwort_hinzufuegen_def Let_def split: option.splits)

lemma antwort_hinzufuegen_rahmen [simp]:
  "fragen (antwort_hinzufuegen fid k n ok fm) = fragen fm"
  "parent_themen_cache (antwort_hinzufuegen fid k n ok fm) = parent_themen_cache fm"
  by (simp_all add: antwort_hinzufuegen_def Let_def split: option.splits)

lemma set_dict_set_sub: "set (dict_set d k v) \<subseteq> insert (k, v) (set d)"
  by (auto simp: dict_set_def split: if_splits)

text \<open>C5. Recording an answer: afterwards the question's answer has exactly one entry
  for the topic key, the new one; its entries for other keys are those it had; the answers
  of all other questions are unchanged.\<close>

theorem antwort_hinzufuegen_lookup:
  "\<exists>a. map_of (antworten (antwort_hinzufuegen fid k n ok fm)) fid = Some a \<and> a_frage_id a = fid \<and>
     filter (\<lambda>e. thema_key e = k) (auswahl a) = [\<lparr>thema_key = k, thema_name = n, option_key = ok\<rparr>] \<and>
     filter (\<lambda>e. thema_key e \<noteq> k) (auswahl a) =
       (case map_of (antworten fm) fid of None \<Rightarrow> [] | Some a0 \<Rightarrow> filter (\<lambda>e. thema_key e \<noteq> k) (auswahl a0)) \<and>
     (map_of (antworten (antwort_hinzufuegen fid k n ok fm)))(fid := None) = (map_of (antworten fm))(fid := None)"
  by (simp add: antwort_hinzufuegen_map_of split: option.splits)

text \<open>C6. Recording an answer and resetting keep the answer store well-formed: one
  answer per question id, stored under that id, at most one entry per topic key.\<close>

theorem antworten_ok_erhalten:
  assumes "antworten_ok fm"
  shows "antworten_ok (antwort_hinzufuegen fid k n ok fm) \<and> antworten_ok (reset_antworten fm)"
proof -
  let ?neu = "\<lparr>thema_key = k, thema_name = n, option_key = ok\<rparr>"
  have alt: "distinct (map thema_key (filter (\<lambda>e. thema_key e \<noteq> k) xs @ [?neu]))"
    if "distinct (map thema_key xs)" for xs
    using that by (induction xs) auto
  have "antworten_ok (antwort_hinzufuegen fid k n ok fm)"
  proof (cases "map_of (antworten fm) fid")
    case None
    with assms show ?thesis
      by (auto simp: antworten_ok_def antwort_hinzufuegen_def list_all_iff dest!: set_dict_set_sub [THEN subsetD])
  next
    case (Some a)
    then have "(fid, a) \<in> set (antworten fm)" by (rule map_of_SomeD)
    with assms have "distinct (map thema_key (auswahl a))" by (auto simp: antworten_ok_def list_all_iff)
    with Some assms alt show ?thesis
      by (auto simp: antworten_ok_def antwort_hinzufuegen_def list_all_iff dest!: set_dict_set_sub [THEN subsetD])
  qed
  moreover have "antworten_ok (reset_antworten fm)"
    by (simp add: antworten_ok_def reset_antworten_def)
  ultimately show ?thesis ..
qed

text \<open>Witness of C6, on the example state.\<close>

theorem antworten_ok_erhalten_witness:
  "antworten_ok beispiel_fm \<and> antworten_ok (antwort_hinzufuegen ''K'' (Some ''P::C'') None ''1'' beispiel_fm)"
proof -
  have h: "antworten_ok beispiel_fm"
    by (simp add: antworten_ok_def beispiel_fm_def fragenmanager_init_def)
  from antworten_ok_erhalten [OF h] h show ?thesis by simp
qed

lemma naechste_frage_aux_append:
  "naechste_frage_aux z vor fm = Inr (None, fm') \<Longrightarrow> naechste_frage_aux z (vor @ rest) fm = naechste_frage_aux z rest fm'"
proof (induction vor arbitrary: fm)
  case (Cons kq vor)
  then show ?case by (auto split: sum.splits if_splits prod.splits)
qed simp

subsection \<open>Dependencies between questions\<close>

text \<open>C7. A follow-up question with a required parent option may be asked exactly when
  some entry of the parent's answer, for any of its topics, has the required option
  (the \<open>any\<close> over \<open>auswahl\<close>); an unanswered parent blocks it. Recording a parent
  answer for one topic key replaces only the entry of that key: afterwards the question
  may be asked exactly when the new option is the required one or an entry of another
  topic key has it.\<close>

theorem darf_nach_elternantwort:
  assumes "uebergeordnete_frage_id q = Some p" and "uebergeordnete_antwortoption_id q = Some r"
    and "hat_uebergeordnete_frage q" and "hat_uebergeordnete_antwortoption q"
  shows "(darf_gestellt_werden fm q \<longleftrightarrow>
           (\<exists>a. map_of (antworten fm) p = Some a \<and> (\<exists>e \<in> set (auswahl a). option_key e = r))) \<and>
         (darf_gestellt_werden (antwort_hinzufuegen p k n o' fm) q \<longleftrightarrow>
           o' = r \<or> (\<exists>a. map_of (antworten fm) p = Some a \<and> (\<exists>e \<in> set (auswahl a). thema_key e \<noteq> k \<and> option_key e = r)))"
  using assms
  by (auto simp: darf_gestellt_werden_def get_opt_def antwort_hinzufuegen_map_of list_ex_iff split: option.splits)

text \<open>Witness of C7: the parent \<open>E\<close> has \<open>t1\<close> answered "ja" and \<open>t2\<close> "nein". The
  follow-up \<open>C\<close> may be asked; overwriting \<open>t1\<close> with "nein" blocks it, overwriting
  \<open>t2\<close> with "nein" does not.\<close>

theorem darf_nach_elternantwort_witness:
  "darf_gestellt_werden (beispiel_kind_fm []) beispiel_kind \<and>
   \<not> darf_gestellt_werden (antwort_hinzufuegen ''E'' (Some ''t1'') None ''nein'' (beispiel_kind_fm [])) beispiel_kind \<and>
   darf_gestellt_werden (antwort_hinzufuegen ''E'' (Some ''t2'') None ''nein'' (beispiel_kind_fm [])) beispiel_kind"
proof -
  have "uebergeordnete_frage_id beispiel_kind = Some ''E''"
    and "uebergeordnete_antwortoption_id beispiel_kind = Some ''ja''"
    and "hat_uebergeordnete_frage beispiel_kind" and "hat_uebergeordnete_antwortoption beispiel_kind"
    by (simp_all add: beispiel_kind_def hat_uebergeordnete_frage_def hat_uebergeordnete_antwortoption_def py_simps)
  note c = darf_nach_elternantwort [OF this, where fm = "beispiel_kind_fm []"]
  show ?thesis
    using c [where k = "Some ''t1''" and n = None and o' = "''nein''"] c [where k = "Some ''t2''" and n = None and o' = "''nein''"]
    by (simp add: beispiel_kind_fm_def eintrag_def)
qed

subsection \<open>A question whose parent was never asked\<close>

text \<open>C8. The scheduler can return a work unit with no contexts and leave its state
  unchanged: when the questions before a follow-up \<open>q\<close> are all skipped or complete,
  \<open>q\<close> has no required option (so it may be asked), its parent has topics but was never
  answered, and \<open>q\<close> itself has no answer, \<open>naechste_frage\<close> returns \<open>q\<close> with no
  contexts to ask and the state it was given. The spec calls such a question trivially
  complete; the code returns it again on every call.\<close>

theorem leere_arbeitseinheit:
  assumes "fragen fm = vor @ (i, q) # nach" "naechste_frage_aux z vor fm = Inr (None, fm)"
    "map_of (fragen fm) (f_id q) = Some q" "\<not> hat_uebergeordnete_antwortoption q"
    "parent_von fm q = Some p" "themen p \<noteq> []" "map_of (antworten fm) (f_id p) = None"
    "map_of (antworten fm) (f_id q) = None"
  shows "naechste_frage z fm =
           Inr (Some \<lparr>sf_frage_id = f_id q, themenkontexte = [], antwortoptionen = optionen q, rohe_frage = q\<rparr>, fm)"
proof -
  have "naechste_frage z fm = naechste_frage_aux z ((i, q) # nach) fm"
    unfolding naechste_frage_def assms(1) using assms(1,2) by (simp add: naechste_frage_aux_append)
  also have "\<dots> = Inr (Some \<lparr>sf_frage_id = f_id q, themenkontexte = [], antwortoptionen = optionen q, rohe_frage = q\<rparr>, fm)"
    using assms(3-8)
    by (simp add: frage_darf_gestellt_werden_def darf_gestellt_werden_def frage_ist_komplett_beantwortet_def
        ist_komplett_beantwortet_def baue_strukturierte_frage_def parent_themen_fuer_folgefrage_def
        relevante_parent_themen_def Let_def)
  finally show ?thesis .
qed

text \<open>Witness of C8: in \<open>beispiel_kette\<close> every brand of \<open>K1\<close> is answered "nein", so
  \<open>K2\<close> is skipped, and \<open>K3\<close> comes back with no contexts.\<close>

theorem leere_arbeitseinheit_witness:
  "naechste_frage (\<lambda>ck xs. xs) beispiel_kette =
     Inr (Some \<lparr>sf_frage_id = ''K3'', themenkontexte = [],
                antwortoptionen = optionen beispiel_kind, rohe_frage = beispiel_kind\<lparr>f_id := ''K3'',
                  uebergeordnete_frage_id := Some ''K2'', uebergeordnete_antwortoption_id := None\<rparr>\<rparr>,
          beispiel_kette)"
proof -
  let ?k2 = "beispiel_kind\<lparr>f_id := ''K2'', uebergeordnete_frage_id := Some ''K1''\<rparr>"
  let ?k3 = "beispiel_kind\<lparr>f_id := ''K3'', uebergeordnete_frage_id := Some ''K2'', uebergeordnete_antwortoption_id := None\<rparr>"
  have f: "fragen beispiel_kette = [(''K1'', beispiel_eltern\<lparr>f_id := ''K1''\<rparr>), (''K2'', ?k2)] @ (''K3'', ?k3) # []"
    by (simp add: beispiel_kette_def dict_of_list_def dict_set_def beispiel_eltern_def beispiel_kind_def)
  have v: "naechste_frage_aux (\<lambda>ck xs. xs) [(''K1'', beispiel_eltern\<lparr>f_id := ''K1''\<rparr>), (''K2'', ?k2)] beispiel_kette =
           Inr (None, beispiel_kette)"
    by (simp add: scheduler_eval beispiel_kette_def beispiel_eltern_def beispiel_kind_def eintrag_def py_simps Let_def)
  have "map_of (fragen beispiel_kette) (f_id ?k3) = Some ?k3" "\<not> hat_uebergeordnete_antwortoption ?k3"
    "parent_von beispiel_kette ?k3 = Some ?k2" "themen ?k2 \<noteq> []" "map_of (antworten beispiel_kette) (f_id ?k2) = None"
    "map_of (antworten beispiel_kette) (f_id ?k3) = None"
    by (simp_all add: beispiel_kette_def beispiel_kind_def parent_von_def hat_uebergeordnete_antwortoption_def py_simps
        dict_of_list_def dict_set_def)
  from leere_arbeitseinheit [OF f v this] show ?thesis by (simp add: beispiel_kind_def)
qed

end
