(* ===== verification/Summarizer.thy ===== *)
theory Summarizer
  imports Prelude Complex_Main
begin

text \<open>
  The document summarizer \<open>Zusammenfassungsgenerator\<close>
  (src/komponenten/referenzdokumente/zusammenfassungsgenerator/zusammenfassungsgenerator.py),
  the three loaders it chooses from (lader_pdf.py, lader_url.py, lader_csv.py) and the
  dataclasses of referenzdokumente_models.py. The libraries the loaders call (pdfplumber,
  requests with BeautifulSoup, pandas) are represented by what they return: the pages of a
  PDF with the text and tables each page yields or the exception it raises, the texts of
  the \<open>p\<close> and \<open>li\<close> tags of a fetched page, the tables \<open>read_html\<close> and \<open>read_csv\<close>
  return or the exception they raise; \<open>to_markdown\<close> is an oracle on the rows of a table.
  The model's replies are an oracle on the messages of a single-turn call.
\<close>

subsection \<open>Dataclasses (referenzdokumente_models.py)\<close>

record referenzdokument =
  rd_id :: string
  art :: string
  rd_name :: string
  pfad :: string
  rd_erstellungsdatum :: string

record zusammenfassung_auswahl =
  text_zusammenfassen :: bool
  text_zusammenfassen_mit_zahlen :: bool
  tabellen_extrahieren :: bool
  tabellen_zusammenfassen :: bool
  tabellen_zusammenfassen_mit_zahlen :: bool

definition soll_vorbereitet_werden :: "zusammenfassung_auswahl \<Rightarrow> bool" where
  "soll_vorbereitet_werden a \<longleftrightarrow> (if text_zusammenfassen a \<or> tabellen_extrahieren a then True else False)"

record referenzdokument_auswahl =
  ra_referenzdokument :: referenzdokument
  ra_zusammenfassung_auswahl :: zusammenfassung_auswahl

datatype z_nachricht = ZSystemNachricht string | ZMenschNachricht string | ZKINachricht string

text \<open>\<open>Zusammenfassung\<close>, without the prompt and the model configuration it echoes; the
  chat histories of its \<open>LLM\<close> are kept.\<close>

record zusammenfassung =
  z_referenzdokument :: referenzdokument
  z_auswahl :: zusammenfassung_auswahl
  z_erstellungsdatum :: string
  text_extrahiert :: string
  text_zusammengefasst :: string
  tabellen_extrahiert :: "string list"
  tabellen_zusammengefasst :: "string list"
  z_chatverlaeufe :: "(string \<times> z_nachricht list) list"

subsection \<open>What the libraries return\<close>

text \<open>A library call either returns, raises \<open>ValueError\<close> (pandas' "no tables found"
  and empty-file errors), or raises another exception (a missing file, an HTTP error).\<close>

datatype 'a aufruf = Ergebnis 'a | WirftValueError | WirftAndere string

type_synonym tabelle = "string option list list"

text \<open>One page of a PDF: \<open>page.extract_text()\<close> and \<open>page.extract_tables()\<close>.\<close>

record pdf_seite =
  seite_text :: "string option aufruf"
  seite_tabellen :: "tabelle list option aufruf"

text \<open>The documents as the libraries see them, by path: the pages of the opened PDF, the
  stripped texts of the \<open>p\<close>/\<open>li\<close> tags of the fetched page (\<open>None\<close> when the fetch
  fails and the empty page is parsed), the tables of \<open>pd.read_html\<close> and of
  \<open>pd.read_csv\<close>, and \<open>to_markdown\<close>.\<close>

record quellen =
  pdf_oeffnen :: "string \<Rightarrow> pdf_seite list aufruf"
  url_tags :: "string \<Rightarrow> string list option"
  read_html :: "string \<Rightarrow> tabelle list aufruf"
  read_csv :: "string \<Rightarrow> tabelle aufruf"
  markdown :: "tabelle \<Rightarrow> string"

subsection \<open>Loaders\<close>

datatype lader = URLLader | CSVLader | PDFLader

definition lader_fuer :: "string \<Rightarrow> lader" where
  "lader_fuer a = (if a = ''URL'' then URLLader else if a = ''CSV'' then CSVLader else PDFLader)"

text \<open>\<open>df.head(n)\<close> for \<open>n \<ge> 0\<close>, \<open>df.tail(abs(n))\<close> below, all rows for \<open>None\<close>.\<close>

definition zeilen_auswahl :: "int option \<Rightarrow> 'a list \<Rightarrow> 'a list" where
  "zeilen_auswahl zeilen rows =
     (case zeilen of
        None \<Rightarrow> rows
      | Some n \<Rightarrow> if 0 \<le> n then take (nat n) rows else drop (length rows - nat \<bar>n\<bar>) rows)"

text \<open>\<open>PDFLader.extrahiere_text\<close>: the non-empty page texts joined by newlines; a page that
  raises is skipped, a PDF that cannot be opened gives the empty text.\<close>

definition pdf_text :: "pdf_seite list aufruf \<Rightarrow> string" where
  "pdf_text pdf =
     (case pdf of
        Ergebnis seiten \<Rightarrow>
          py_join [CHR 0x0A]
            (concat (map (\<lambda>p. case seite_text p of Ergebnis (Some t) \<Rightarrow> if t \<noteq> [] then [t] else [] | _ \<Rightarrow> [])
                         seiten))
      | _ \<Rightarrow> [])"

text \<open>\<open>PDFLader.extrahiere_tabellen\<close>: the non-empty tables of each page, cut to the rows
  asked for. The handler of a page that raises formats \<open>e\<close>, which is not bound there;
  the \<open>UnboundLocalError\<close> leaves the page loop for the outer handler, which returns the
  tables of the pages before.\<close>

fun pdf_seiten_tabellen :: "(tabelle \<Rightarrow> string) \<Rightarrow> int option \<Rightarrow> pdf_seite list \<Rightarrow> string list" where
  "pdf_seiten_tabellen md zeilen [] = []"
| "pdf_seiten_tabellen md zeilen (p # ps) =
     (case seite_tabellen p of
        Ergebnis ts \<Rightarrow>
          map (\<lambda>t. md (zeilen_auswahl zeilen t))
              (filter (\<lambda>t. t \<noteq> [] \<and> list_ex (\<lambda>row. row \<noteq> []) t) (case ts of None \<Rightarrow> [] | Some xs \<Rightarrow> xs))
          @ pdf_seiten_tabellen md zeilen ps
      | _ \<Rightarrow> [])"

definition pdf_tabellen :: "(tabelle \<Rightarrow> string) \<Rightarrow> pdf_seite list aufruf \<Rightarrow> int option \<Rightarrow> string list" where
  "pdf_tabellen md pdf zeilen = (case pdf of Ergebnis seiten \<Rightarrow> pdf_seiten_tabellen md zeilen seiten | _ \<Rightarrow> [])"

text \<open>\<open>URLLader.extrahiere_text\<close>: the tag texts with at least five words.\<close>

definition url_text :: "string list option \<Rightarrow> string" where
  "url_text tags =
     py_join [CHR 0x0A]
       (filter (\<lambda>s. s \<noteq> [] \<and> 5 \<le> length (py_split_ws s)) (case tags of None \<Rightarrow> [] | Some ts \<Rightarrow> ts))"

text \<open>\<open>URLLader.extrahiere_tabellen\<close> and \<open>CSVLader.extrahiere_tabellen\<close> catch only
  \<open>ValueError\<close>; the CSV loader ignores the row bound.\<close>

definition url_tabellen :: "(tabelle \<Rightarrow> string) \<Rightarrow> tabelle list aufruf \<Rightarrow> int option \<Rightarrow> py_error + string list" where
  "url_tabellen md dfs zeilen =
     (case dfs of
        Ergebnis ts \<Rightarrow> Inr (map (\<lambda>t. md (zeilen_auswahl zeilen t)) ts)
      | WirftValueError \<Rightarrow> Inr []
      | WirftAndere e \<Rightarrow> Inl (LaderFehler e))"

definition csv_tabellen :: "(tabelle \<Rightarrow> string) \<Rightarrow> tabelle aufruf \<Rightarrow> py_error + string list" where
  "csv_tabellen md df =
     (case df of
        Ergebnis t \<Rightarrow> Inr [md t]
      | WirftValueError \<Rightarrow> Inr []
      | WirftAndere e \<Rightarrow> Inl (LaderFehler e))"

definition extrahiere_text :: "quellen \<Rightarrow> lader \<Rightarrow> string \<Rightarrow> string" where
  "extrahiere_text q l p =
     (case l of URLLader \<Rightarrow> url_text (url_tags q p) | CSVLader \<Rightarrow> [] | PDFLader \<Rightarrow> pdf_text (pdf_oeffnen q p))"

definition extrahiere_tabellen :: "quellen \<Rightarrow> lader \<Rightarrow> string \<Rightarrow> int option \<Rightarrow> py_error + string list" where
  "extrahiere_tabellen q l p zeilen =
     (case l of
        URLLader \<Rightarrow> url_tabellen (markdown q) (read_html q p) zeilen
      | CSVLader \<Rightarrow> csv_tabellen (markdown q) (read_csv q p)
      | PDFLader \<Rightarrow> Inr (pdf_tabellen (markdown q) (pdf_oeffnen q p) zeilen))"

subsection \<open>The pipeline of one document (the LangGraph of the summarizer)\<close>

type_synonym z_llm = "z_nachricht list \<Rightarrow> string"

type_synonym z_vorlagen = "string \<Rightarrow> string"

text \<open>\<open>node_text_zusammenfassen\<close>: the extracted text, its summary, and the messages of
  the single-turn call; no call when the text is empty.\<close>

definition text_zusammenfassen_knoten ::
  "quellen \<Rightarrow> z_llm \<Rightarrow> z_vorlagen \<Rightarrow> referenzdokument \<Rightarrow> zusammenfassung_auswahl \<Rightarrow>
   string \<times> string \<times> z_nachricht list" where
  "text_zusammenfassen_knoten q llm vorlage rd a =
     (let t = extrahiere_text q (lader_fuer (art rd)) (pfad rd) in
      if t \<noteq> [] then
        (let prompt = vorlage (if text_zusammenfassen_mit_zahlen a then ''text_zusammenfassen_mit_zahlen''
                               else ''text_zusammenfassen_ohne_zahlen'');
             msgs = [ZSystemNachricht prompt, ZMenschNachricht t]
         in (t, llm msgs, msgs @ [ZKINachricht (llm msgs)]))
      else (t, [], []))"

text \<open>\<open>node_tabellen_zusammenfassen\<close>: one independent call per table, in order.\<close>

definition tabellen_zusammenfassen_knoten ::
  "z_llm \<Rightarrow> z_vorlagen \<Rightarrow> zusammenfassung_auswahl \<Rightarrow> string list \<Rightarrow> string list \<times> z_nachricht list list" where
  "tabellen_zusammenfassen_knoten llm vorlage a tabellen =
     (let prompt = vorlage (if tabellen_zusammenfassen_mit_zahlen a then ''tabellen_zusammenfassen_mit_zahlen''
                            else ''tabellen_zusammenfassen_ohne_zahlen'');
          msgs = (\<lambda>t. [ZSystemNachricht prompt, ZMenschNachricht t])
      in (map (\<lambda>t. llm (msgs t)) tabellen, map (\<lambda>t. msgs t @ [ZKINachricht (llm (msgs t))]) tabellen))"

text \<open>The channels of \<open>ReferenzdokumentState\<close> a run produces. Every run starts from the
  input state's empty values (\<open>node_historie_loeschen\<close> clears the accumulated text
  messages of the previous document).\<close>

record z_graph =
  r_text_extrahiert :: string
  r_text_zusammengefasst :: string
  r_text_messages :: "z_nachricht list"
  r_tabellen_extrahiert :: "string list"
  r_tabellen_zusammengefasst :: "string list"
  r_tabellen_messages :: "z_nachricht list list"

text \<open>\<open>graph.invoke\<close>: \<open>node_kontext\<close>, \<open>node_historie_loeschen\<close>, then the three checks
  \<open>pruefe_text_zusammenfassen\<close>, \<open>pruefe_tabellen_extrahieren\<close> and
  \<open>pruefe_tabellen_zusammenfassen\<close> choosing the nodes; tables are extracted with
  \<open>zeilen=20\<close>.\<close>

definition zusammenfassung_graph ::
  "quellen \<Rightarrow> z_llm \<Rightarrow> z_vorlagen \<Rightarrow> referenzdokument \<Rightarrow> zusammenfassung_auswahl \<Rightarrow> py_error + z_graph" where
  "zusammenfassung_graph q llm vorlage rd a =
     (let (te, tz, tm) = (if text_zusammenfassen a then text_zusammenfassen_knoten q llm vorlage rd a else ([], [], []));
          out = \<lparr>r_text_extrahiert = te, r_text_zusammengefasst = tz, r_text_messages = tm,
                 r_tabellen_extrahiert = [], r_tabellen_zusammengefasst = [], r_tabellen_messages = []\<rparr>
      in if \<not> tabellen_extrahieren a then Inr out
         else case extrahiere_tabellen q (lader_fuer (art rd)) (pfad rd) (Some 20) of
                Inl e \<Rightarrow> Inl e
              | Inr tabs \<Rightarrow>
                  if tabellen_zusammenfassen a then
                    (let (zs, ms) = tabellen_zusammenfassen_knoten llm vorlage a tabs in
                     Inr (out\<lparr>r_tabellen_extrahiert := tabs, r_tabellen_zusammengefasst := zs,
                              r_tabellen_messages := ms\<rparr>))
                  else Inr (out\<lparr>r_tabellen_extrahiert := tabs\<rparr>))"

text \<open>The \<open>Zusammenfassung\<close> built from a run's output in \<open>starten\<close>.\<close>

definition zusammenfassung_aus ::
  "string \<Rightarrow> referenzdokument_auswahl \<Rightarrow> z_graph \<Rightarrow> zusammenfassung" where
  "zusammenfassung_aus datum ra out =
     \<lparr>z_referenzdokument = ra_referenzdokument ra, z_auswahl = ra_zusammenfassung_auswahl ra,
      z_erstellungsdatum = datum, text_extrahiert = r_text_extrahiert out,
      text_zusammengefasst = r_text_zusammengefasst out,
      tabellen_extrahiert = r_tabellen_extrahiert out,
      tabellen_zusammengefasst = r_tabellen_zusammengefasst out,
      z_chatverlaeufe =
        (if r_text_messages out \<noteq> [] then [(''text_zusammengefasst'', r_text_messages out)] else []) @
        map (\<lambda>m. (''tabellen_zusammengefasst'', m)) (r_tabellen_messages out)\<rparr>"

text \<open>\<open>Zusammenfassungsgenerator.starten\<close>: one run per selected document, in order; an
  exception of a run ends the whole call.\<close>

fun zusammenfassungen_erstellen ::
  "quellen \<Rightarrow> z_llm \<Rightarrow> z_vorlagen \<Rightarrow> string \<Rightarrow> referenzdokument_auswahl list \<Rightarrow> py_error + zusammenfassung list" where
  "zusammenfassungen_erstellen q llm vorlage datum [] = Inr []"
| "zusammenfassungen_erstellen q llm vorlage datum (ra # ras) =
     (case zusammenfassung_graph q llm vorlage (ra_referenzdokument ra) (ra_zusammenfassung_auswahl ra) of
        Inl e \<Rightarrow> Inl e
      | Inr out \<Rightarrow>
          (case zusammenfassungen_erstellen q llm vorlage datum ras of
             Inl e \<Rightarrow> Inl e
           | Inr zs \<Rightarrow> Inr (zusammenfassung_aus datum ra out # zs)))"

text \<open>\<open>fortschritt\<close>: the value passed to the progress bar at step \<open>k\<close> (1..7) of
  document \<open>i\<close> of \<open>n\<close> (Python floats, read here as exact reals).\<close>

definition fortschritt_wert :: "nat \<Rightarrow> nat \<Rightarrow> nat \<Rightarrow> real" where
  "fortschritt_wert i n k = real i / real n / 7 * real k"

subsection \<open>Examples\<close>

text \<open>A PDF whose second page raises in pdfplumber, a readable CSV file, a CSV file that
  does not exist, and a selection asking for everything.\<close>

definition beispiel_seiten :: "pdf_seite list" where
  "beispiel_seiten =
     [\<lparr>seite_text = Ergebnis (Some ''Seite eins''), seite_tabellen = Ergebnis (Some [[[Some ''A'']]])\<rparr>,
      \<lparr>seite_text = WirftAndere ''PDFSyntaxError'', seite_tabellen = WirftAndere ''PDFSyntaxError''\<rparr>,
      \<lparr>seite_text = Ergebnis (Some ''Seite drei''), seite_tabellen = Ergebnis (Some [[[Some ''C'']]])\<rparr>]"

definition beispiel_quellen :: quellen where
  "beispiel_quellen =
     \<lparr>pdf_oeffnen = (\<lambda>p. if p = ''bericht.pdf'' then Ergebnis beispiel_seiten else WirftAndere ''FileNotFoundError''),
      url_tags = (\<lambda>p. None),
      read_html = (\<lambda>p. WirftValueError),
      read_csv = (\<lambda>p. if p = ''daten.csv'' then Ergebnis [[Some ''1'', Some ''2'']] else WirftAndere ''FileNotFoundError''),
      markdown = (\<lambda>t. concat (map (\<lambda>row. concat (map (\<lambda>c. case c of None \<Rightarrow> [] | Some x \<Rightarrow> x) row)) t))\<rparr>"

definition beispiel_dokument :: "string \<Rightarrow> string \<Rightarrow> referenzdokument" where
  "beispiel_dokument a p = \<lparr>rd_id = p, art = a, rd_name = p, pfad = p, rd_erstellungsdatum = []\<rparr>"

definition auswahl_alles :: zusammenfassung_auswahl where
  "auswahl_alles = \<lparr>text_zusammenfassen = True, text_zusammenfassen_mit_zahlen = False,
     tabellen_extrahieren = True, tabellen_zusammenfassen = True, tabellen_zusammenfassen_mit_zahlen = False\<rparr>"

subsection \<open>Lemmas\<close>

lemmas summarizer_eval = zusammenfassung_graph_def text_zusammenfassen_knoten_def tabellen_zusammenfassen_knoten_def
  extrahiere_text_def extrahiere_tabellen_def lader_fuer_def pdf_text_def pdf_tabellen_def csv_tabellen_def
  url_tabellen_def url_text_def zeilen_auswahl_def zusammenfassung_aus_def beispiel_quellen_def beispiel_seiten_def
  beispiel_dokument_def auswahl_alles_def

lemma zeilen_auswahl_laenge: "length (zeilen_auswahl (Some n) rows) \<le> nat \<bar>n\<bar>"
  by (auto simp: zeilen_auswahl_def)

lemma pdf_seiten_tabellen_zeilen:
  "x \<in> set (pdf_seiten_tabellen md (Some n) ps) \<Longrightarrow> \<exists>t. x = md t \<and> length t \<le> nat \<bar>n\<bar>"
proof (induction ps)
  case (Cons p ps)
  then show ?case using zeilen_auswahl_laenge
    by (auto split: aufruf.splits option.splits)
qed simp

lemma graph_struktur:
  assumes "zusammenfassung_graph q llm v rd a = Inr out"
  shows "length (r_tabellen_zusammengefasst out) = (if tabellen_zusammenfassen a then length (r_tabellen_extrahiert out) else 0) \<and>
    length (r_tabellen_messages out) = length (r_tabellen_zusammengefasst out) \<and>
    (\<not> text_zusammenfassen a \<longrightarrow> r_text_extrahiert out = [] \<and> r_text_zusammengefasst out = [] \<and> r_text_messages out = []) \<and>
    (\<not> tabellen_extrahieren a \<longrightarrow> r_tabellen_extrahiert out = [])"
  using assms by (auto simp: zusammenfassung_graph_def tabellen_zusammenfassen_knoten_def Let_def split: prod.splits if_splits sum.splits)

subsection \<open>Properties of the summarizer\<close>

text \<open>C17. \<open>starten\<close> returns one summary per selected document, in order; each has one
  table summary per extracted table when table summaries were asked for and none
  otherwise, no text when no text summary was asked for, and no tables when no table
  extraction was asked for.\<close>

theorem zusammenfassungen_struktur:
  "zusammenfassungen_erstellen q llm v d ras = Inr zs \<Longrightarrow>
   map z_referenzdokument zs = map ra_referenzdokument ras \<and>
   list_all (\<lambda>z. length (tabellen_zusammengefasst z) =
                   (if tabellen_zusammenfassen (z_auswahl z) then length (tabellen_extrahiert z) else 0) \<and>
                 (\<not> text_zusammenfassen (z_auswahl z) \<longrightarrow> text_extrahiert z = [] \<and> text_zusammengefasst z = []) \<and>
                 (\<not> tabellen_extrahieren (z_auswahl z) \<longrightarrow> tabellen_extrahiert z = [])) zs"
proof (induction ras arbitrary: zs)
  case (Cons ra ras)
  then obtain out zs' where "zusammenfassung_graph q llm v (ra_referenzdokument ra) (ra_zusammenfassung_auswahl ra) = Inr out"
    "zusammenfassungen_erstellen q llm v d ras = Inr zs'" "zs = zusammenfassung_aus d ra out # zs'"
    by (auto split: sum.splits)
  with Cons.IH graph_struktur [OF this(1)] show ?case by (simp add: zusammenfassung_aus_def)
qed simp

theorem zusammenfassungen_struktur_witness:
  "case zusammenfassungen_erstellen beispiel_quellen (\<lambda>m. ''kurz'') (\<lambda>n. n) ''heute''
          [\<lparr>ra_referenzdokument = beispiel_dokument ''PDF'' ''bericht.pdf'', ra_zusammenfassung_auswahl = auswahl_alles\<rparr>] of
     Inr zs \<Rightarrow> map z_referenzdokument zs = [beispiel_dokument ''PDF'' ''bericht.pdf''] \<and>
               map tabellen_zusammengefasst zs = [[''kurz'']]
   | Inl e \<Rightarrow> False"
proof -
  have h: "zusammenfassungen_erstellen beispiel_quellen (\<lambda>m. ''kurz'') (\<lambda>n. n) ''heute''
          [\<lparr>ra_referenzdokument = beispiel_dokument ''PDF'' ''bericht.pdf'', ra_zusammenfassung_auswahl = auswahl_alles\<rparr>] =
     Inr (projr (zusammenfassungen_erstellen beispiel_quellen (\<lambda>m. ''kurz'') (\<lambda>n. n) ''heute''
          [\<lparr>ra_referenzdokument = beispiel_dokument ''PDF'' ''bericht.pdf'', ra_zusammenfassung_auswahl = auswahl_alles\<rparr>]))"
    by (simp add: summarizer_eval py_simps Let_def)
  note zusammenfassungen_struktur [OF h]
  then show ?thesis by (subst h) (simp add: summarizer_eval py_simps Let_def)
qed

text \<open>C18. A CSV document yields no text and no text-summary call: the CSV loader's
  \<open>extrahiere_text\<close> returns the empty string, so the text node makes no model call.\<close>

theorem csv_ohne_text:
  assumes "art rd = ''CSV''" "zusammenfassung_graph q llm v rd a = Inr out"
  shows "r_text_extrahiert out = [] \<and> r_text_zusammengefasst out = [] \<and> r_text_messages out = []"
  using assms by (auto simp: zusammenfassung_graph_def text_zusammenfassen_knoten_def extrahiere_text_def lader_fuer_def Let_def
      split: prod.splits if_splits sum.splits)

theorem csv_ohne_text_witness:
  "art (beispiel_dokument ''CSV'' ''daten.csv'') = ''CSV'' \<and>
   r_text_messages (projr (zusammenfassung_graph beispiel_quellen (\<lambda>m. ''kurz'') (\<lambda>n. n)
      (beispiel_dokument ''CSV'' ''daten.csv'') auswahl_alles)) = []"
proof -
  have a: "art (beispiel_dokument ''CSV'' ''daten.csv'') = ''CSV''" by (simp add: beispiel_dokument_def)
  have h: "zusammenfassung_graph beispiel_quellen (\<lambda>m. ''kurz'') (\<lambda>n. n) (beispiel_dokument ''CSV'' ''daten.csv'') auswahl_alles =
     Inr (projr (zusammenfassung_graph beispiel_quellen (\<lambda>m. ''kurz'') (\<lambda>n. n) (beispiel_dokument ''CSV'' ''daten.csv'') auswahl_alles))"
    by (simp add: summarizer_eval py_simps Let_def)
  from csv_ohne_text [OF a h] a show ?thesis by simp
qed

text \<open>C19. Extraction errors are not isolated per document: when a selected CSV document
  asks for table extraction and \<open>read_csv\<close> raises anything but \<open>ValueError\<close> (a missing
  file), the whole call to \<open>starten\<close> fails, whatever the other documents are.\<close>

theorem csv_fehler_bricht_ab:
  assumes "ra \<in> set ras" "tabellen_extrahieren (ra_zusammenfassung_auswahl ra)"
    "art (ra_referenzdokument ra) = ''CSV''" "read_csv q (pfad (ra_referenzdokument ra)) = WirftAndere e"
  shows "\<exists>e'. zusammenfassungen_erstellen q llm v d ras = Inl e'"
  using assms(1)
proof (induction ras)
  case (Cons rb ras)
  show ?case
  proof (cases "rb = ra")
    case True
    then show ?thesis using assms(2-4)
      by (auto simp: zusammenfassung_graph_def extrahiere_tabellen_def lader_fuer_def csv_tabellen_def Let_def
          split: prod.splits sum.splits)
  next
    case False
    with Cons show ?thesis by (auto split: sum.splits)
  qed
qed simp

theorem csv_fehler_bricht_ab_witness:
  "\<exists>e'. zusammenfassungen_erstellen beispiel_quellen (\<lambda>m. ''kurz'') (\<lambda>n. n) ''heute''
      [\<lparr>ra_referenzdokument = beispiel_dokument ''PDF'' ''bericht.pdf'', ra_zusammenfassung_auswahl = auswahl_alles\<rparr>,
       \<lparr>ra_referenzdokument = beispiel_dokument ''CSV'' ''fehlt.csv'', ra_zusammenfassung_auswahl = auswahl_alles\<rparr>] = Inl e'"
proof (rule csv_fehler_bricht_ab)
  show "read_csv beispiel_quellen (pfad (ra_referenzdokument
      \<lparr>ra_referenzdokument = beispiel_dokument ''CSV'' ''fehlt.csv'', ra_zusammenfassung_auswahl = auswahl_alles\<rparr>)) =
      WirftAndere ''FileNotFoundError''"
    by (simp add: beispiel_quellen_def beispiel_dokument_def)
qed (simp_all add: beispiel_dokument_def auswahl_alles_def)

text \<open>C20. A page of a PDF on which pdfplumber raises ends the table extraction: the
  handler formats \<open>e\<close>, which is not bound there, and the \<open>UnboundLocalError\<close> skips
  every later page, so the tables are those of the pages before it, whatever follows;
  the text extraction, whose handler only continues, skips just the failing page.\<close>

theorem pdf_seitenfehler:
  assumes "\<forall>ts. seite_tabellen p \<noteq> Ergebnis ts" "\<forall>t. seite_text p \<noteq> Ergebnis t"
  shows "pdf_tabellen md (Ergebnis (vor @ p # nach)) z = pdf_tabellen md (Ergebnis vor) z \<and>
         pdf_text (Ergebnis (vor @ p # nach)) = pdf_text (Ergebnis (vor @ nach))"
proof
  have "pdf_seiten_tabellen md z (vor @ p # nach) = pdf_seiten_tabellen md z vor"
  proof (induction vor)
    case Nil
    then show ?case using assms(1) by (cases "seite_tabellen p") simp_all
  qed (simp split: aufruf.splits)
  then show "pdf_tabellen md (Ergebnis (vor @ p # nach)) z = pdf_tabellen md (Ergebnis vor) z"
    by (simp add: pdf_tabellen_def)
  show "pdf_text (Ergebnis (vor @ p # nach)) = pdf_text (Ergebnis (vor @ nach))"
    using assms(2) by (cases "seite_text p") (simp_all add: pdf_text_def)
qed

text \<open>Witness of C20: \<open>beispiel_seiten\<close>, whose second page raises.\<close>

theorem pdf_seitenfehler_witness:
  "pdf_tabellen (markdown beispiel_quellen) (Ergebnis beispiel_seiten) (Some 20) = [''A''] \<and>
   pdf_text (Ergebnis beispiel_seiten) = ''Seite eins'' @ [CHR 0x0A] @ ''Seite drei''"
proof -
  have b: "[beispiel_seiten ! 0] @ beispiel_seiten ! 1 # [beispiel_seiten ! 2] = beispiel_seiten"
    by (simp add: beispiel_seiten_def)
  have "\<forall>ts. seite_tabellen (beispiel_seiten ! 1) \<noteq> Ergebnis ts" "\<forall>t. seite_text (beispiel_seiten ! 1) \<noteq> Ergebnis t"
    by (simp_all add: beispiel_seiten_def)
  note c = pdf_seitenfehler [OF this, of "markdown beispiel_quellen" "[beispiel_seiten ! 0]" "[beispiel_seiten ! 2]"
      "Some 20", unfolded b]
  show ?thesis
    unfolding c [THEN conjunct1] c [THEN conjunct2] by (simp add: summarizer_eval py_simps)
qed

text \<open>C22. Every table the PDF loader returns for a row bound n renders a table of at
  most |n| rows.\<close>

theorem pdf_tabellen_zeilen:
  "x \<in> set (pdf_tabellen md pdf (Some n)) \<Longrightarrow> \<exists>t. x = md t \<and> length t \<le> nat \<bar>n\<bar>"
  by (auto simp: pdf_tabellen_def dest: pdf_seiten_tabellen_zeilen split: aufruf.splits)

theorem pdf_tabellen_zeilen_witness:
  "\<exists>t. ''A'' = markdown beispiel_quellen t \<and> length t \<le> nat \<bar>20\<bar>"
proof -
  have "''A'' \<in> set (pdf_tabellen (markdown beispiel_quellen) (Ergebnis beispiel_seiten) (Some 20))"
    by (simp add: summarizer_eval py_simps)
  from pdf_tabellen_zeilen [OF this] show ?thesis .
qed

text \<open>C23. The progress bar moves backwards at the start of every document after the
  first: step 1 of document i+1 shows less than step 7 of document i.\<close>

theorem fortschritt_rueckwaerts:
  "1 \<le> i \<Longrightarrow> 1 \<le> n \<Longrightarrow> fortschritt_wert (Suc i) n 1 < fortschritt_wert i n 7"
  by (simp add: fortschritt_wert_def divide_simps)

theorem fortschritt_rueckwaerts_witness:
  "fortschritt_wert 2 2 1 < fortschritt_wert 1 2 7"
  using fortschritt_rueckwaerts [of 1 2] by (simp add: numeral_2_eq_2)

end
