(* ===== verification/Orchestrator.thy ===== *)
theory Orchestrator
  imports Scheduler Summarizer
begin

text \<open>
  The interview orchestrator \<open>Fragesteller\<close>
  (src/komponenten/siliconsamplesgenerator/fragesteller/fragesteller.py): the LangGraph
  nodes of one graph run, the ask/validate retry cycle, and the loop \<open>starten\<close> that pulls
  work units from the \<open>Fragenmanager\<close> and commits the validated answers. The language
  model is an oracle \<open>llm\<close> from the message history to the reply's text (the text
  \<open>parse_llm_content\<close> extracts); the prompt templates, already formatted with the
  persona data, are an oracle \<open>vorlage\<close> from the template name to its text. A
  \<open>ValueError\<close> message, whose parts are joins over Python sets in unspecified order,
  is kept as the value \<open>wert_fehler\<close> it is built from. The retry cycle and the outer
  loop have no bound in the code; they run here on fuel, \<open>None\<close> meaning that the fuel
  ran out.
\<close>

subsection \<open>Messages and replies\<close>

datatype wert_fehler =
    ZeileOhneDoppelpunkt string
  | ZeileLeerNachTrim string
  | AntwortUngueltig "string list" "string set" "string set" "string set" "string set" "string set"

datatype nachricht =
    SystemNachricht string
  | MenschNachricht string
  | KorrekturNachricht wert_fehler
  | KINachricht string

type_synonym llm = "nachricht list \<Rightarrow> string"

subsection \<open>Parsing the reply (\<open>llm_antwort_parsen\<close>)\<close>

text \<open>Lines are stripped; empty lines and comments are skipped; every other line is split
  at its last colon, both sides stripped and required non-empty; a later line overwrites
  an earlier one with the same key.\<close>

fun parse_zeilen :: "(string, string) dict \<Rightarrow> string list \<Rightarrow> wert_fehler + (string, string) dict" where
  "parse_zeilen pairs [] = Inr pairs"
| "parse_zeilen pairs (raw # rs) =
     (let line = py_strip raw in
      if line = [] \<or> hd line = CHR ''#'' then parse_zeilen pairs rs
      else case py_rsplit1 CHR '':'' line of
             None \<Rightarrow> Inl (ZeileOhneDoppelpunkt raw)
           | Some (l, r) \<Rightarrow>
               (let k = py_strip l; v = py_strip r in
                if k = [] \<or> v = [] then Inl (ZeileLeerNachTrim raw)
                else parse_zeilen (dict_set pairs k v) rs))"

definition llm_antwort_parsen :: "string \<Rightarrow> wert_fehler + (string, string) dict" where
  "llm_antwort_parsen s = parse_zeilen [] (py_splitlines s)"

subsection \<open>Validating the reply (\<open>node_antwort_validieren\<close>)\<close>

text \<open>The required keys are the composite keys of the unit's contexts with the same
  rendered text; a question without topics contributes the key \<open>None\<close>.\<close>

definition notwendige_keys :: "strukturierte_frage \<Rightarrow> themen_kontext \<Rightarrow> string option set" where
  "notwendige_keys sf k =
     set (map composite_key (filter (\<lambda>c. text_gerendert c = text_gerendert k) (themenkontexte sf)))"

definition erlaubte_values :: "strukturierte_frage \<Rightarrow> string set" where
  "erlaubte_values sf = set (map opt_id (antwortoptionen sf))"

text \<open>The outcome of the node: \<open>Wiederholen\<close> is the caught \<open>ValueError\<close> (the
  correction goes back to \<open>node_frage_stellen\<close>), \<open>Gueltig\<close> the \<open>Command\<close> to
  \<open>node_aktualisiere_letzten_kontext\<close>; both carry the state's \<open>antworten\<close>, which the node
  updates in place before it raises.\<close>

datatype validierung =
    Wiederholen wert_fehler "(string, string) dict"
  | Gueltig "(string, string) dict"

text \<open>Building the message joins each set with \<open>", ".join\<close>; a \<open>None\<close> among the
  missing keys raises \<open>TypeError\<close>, which the \<open>except ValueError\<close> does not catch.\<close>

definition antwort_validieren ::
  "strukturierte_frage \<Rightarrow> themen_kontext \<Rightarrow> (string, string) dict \<Rightarrow> string \<Rightarrow> py_error + validierung" where
  "antwort_validieren sf k ant inhalt =
     (let nk = notwendige_keys sf k; ev = erlaubte_values sf; vorher = map fst ant in
      case llm_antwort_parsen inhalt of
        Inl e \<Rightarrow> Inr (Wiederholen e ant)
      | Inr neu \<Rightarrow>
          (let ungueltige = set (filter (\<lambda>x. Some x \<notin> nk) (map fst neu));
               ungueltige_values = fst ` set (filter (\<lambda>(x, v). Some x \<in> nk \<and> v \<notin> ev) neu);
               gueltige = set (filter (\<lambda>x. Some x \<in> nk) (map fst neu));
               ant' = dict_update ant (filter (\<lambda>(x, v). Some x \<in> nk \<and> v \<in> ev) neu);
               nachher = set (filter (\<lambda>x. Some x \<in> nk) (map fst ant'));
               fehlende = nk - Some ` nachher
           in if ungueltige \<noteq> {} \<or> fehlende \<noteq> {} \<or> ungueltige_values \<noteq> {} then
                (if None \<in> fehlende
                 then Inl (TypeError ''sequence item: expected str instance, NoneType found'')
                 else Inr (Wiederholen
                        (AntwortUngueltig vorher gueltige ungueltige ungueltige_values nachher (the ` fehlende))
                        ant'))
              else Inr (Gueltig ant')))"

subsection \<open>The prompt messages (\<open>node_fragenintro_generieren\<close>, \<open>node_frage_generieren\<close>)\<close>

type_synonym vorlagen = "string \<Rightarrow> string"

definition intro_vorlage :: "bool \<Rightarrow> zusammenfassung list \<Rightarrow> string" where
  "intro_vorlage personas zs =
     (if personas then
        (if zs = [] then ''fragen_intro_mit_persona_ohne_referenzen''
         else ''fragen_intro_mit_persona_mit_referenzen'')
      else if zs = [] then ''fragen_intro_ohne_persona_ohne_referenzen''
      else ''fragen_intro_ohne_persona_mit_referenzen'')"

definition fragenintro_generieren :: "vorlagen \<Rightarrow> bool \<Rightarrow> zusammenfassung list \<Rightarrow> string" where
  "fragenintro_generieren vorlage personas zs =
     (let texte = map text_zusammengefasst zs;
          tabellen = concat (map (\<lambda>z. if tabellen_zusammengefasst z = [] then tabellen_extrahiert z
                                     else tabellen_zusammengefasst z) zs)
      in py_join [CHR 0x0A]
           ([vorlage (intro_vorlage personas zs)] @
            (if texte \<noteq> [] then (CHR 0x0A # ''Texte:'') # map (\<lambda>w. CHR 0x0A # w) texte else []) @
            (if tabellen \<noteq> [] then (CHR 0x0A # ''Tabellen:'') # map (\<lambda>w. CHR 0x0A # w) tabellen else [])))"

text \<open>The question: the context's rendered text, the statements of the unit's contexts with
  the same rendered text, and the options.\<close>

definition frage_generieren :: "strukturierte_frage \<Rightarrow> themen_kontext \<Rightarrow> string" where
  "frage_generieren sf k =
     py_join [CHR 0x0A]
       ([''Frage: '' @ text_gerendert k] @
        (if themenkontexte sf \<noteq> [] then
           (CHR 0x0A # ''Aussagen:'') #
             map (\<lambda>c. py_str_opt (composite_key c) @ '': '' @ py_str_opt (child_thema_text c))
               (filter (\<lambda>c. text_gerendert c = text_gerendert k) (themenkontexte sf))
         else []) @
        (if antwortoptionen sf \<noteq> [] then
           (CHR 0x0A # ''Antwortoptionen:'') # map (\<lambda>op. opt_id op @ '' ('' @ opt_text op @ '')'') (antwortoptionen sf)
         else []))"

subsection \<open>One graph run\<close>

text \<open>The ask/validate cycle \<open>node_frage_stellen\<close> \<rightarrow> \<open>node_antwort_validieren\<close>: the
  reply is appended to the history, a correction is appended after it and the model is
  asked again. The fuel bounds the number of model calls.\<close>

fun frage_stellen_schleife ::
  "nat \<Rightarrow> llm \<Rightarrow> strukturierte_frage \<Rightarrow> themen_kontext \<Rightarrow> nachricht list \<Rightarrow> (string, string) dict \<Rightarrow>
   (py_error + nachricht list \<times> (string, string) dict) option" where
  "frage_stellen_schleife 0 llm sf k msgs ant = None"
| "frage_stellen_schleife (Suc n) llm sf k msgs ant =
     (let antwort = llm msgs; msgs' = msgs @ [KINachricht antwort] in
      case antwort_validieren sf k ant antwort of
        Inl e \<Rightarrow> Some (Inl e)
      | Inr (Wiederholen f ant') \<Rightarrow> frage_stellen_schleife n llm sf k (msgs' @ [KorrekturNachricht f]) ant'
      | Inr (Gueltig ant') \<Rightarrow> Some (Inr (msgs', ant')))"

text \<open>The channels of \<open>SiliconSampleState\<close> that outlive a node: the graph is compiled
  with an \<open>InMemorySaver\<close> and every run of one \<open>Fragesteller\<close> uses the same thread, so
  a run starts from the channels the previous run left.\<close>

record graph_zustand =
  g_messages :: "nachricht list"
  g_antworten :: "(string, string) dict"
  g_aktueller_kontext_key :: "string option"
  g_letzter_kontext_key :: "string option"
  g_kontextwechsel :: bool

definition graph_leer :: graph_zustand where
  "graph_leer = \<lparr>g_messages = [], g_antworten = [], g_aktueller_kontext_key = None,
                 g_letzter_kontext_key = None, g_kontextwechsel = False\<rparr>"

text \<open>\<open>f"{frage.frage_id}-{kontext.parent_thema_key}"\<close>.\<close>

definition kontext_key :: "strukturierte_frage \<Rightarrow> themen_kontext \<Rightarrow> string" where
  "kontext_key sf k = sf_frage_id sf @ ''-'' @ py_str_opt (parent_thema_key k)"

type_synonym umgebung = "zufall \<times> llm \<times> vorlagen \<times> bool \<times> zusammenfassung list"

text \<open>\<open>graph.invoke\<close> from \<open>START\<close>: \<open>node_definiere_aktuellen_kontext\<close>, the edge
  \<open>pruefe_kontextwechsel\<close> (to \<open>END\<close> when the key did not change), then
  \<open>node_definiere_kontextwechsel\<close> (answers reset), \<open>node_historie_loeschen\<close>, the two
  prompt nodes, the retry cycle and \<open>node_aktualisiere_letzten_kontext\<close>.\<close>

definition graph_aufrufen ::
  "nat \<Rightarrow> umgebung \<Rightarrow> strukturierte_frage \<Rightarrow> themen_kontext \<Rightarrow> string option \<Rightarrow> graph_zustand \<Rightarrow>
   (py_error + graph_zustand) option" where
  "graph_aufrufen n u sf k letzter cp =
     (case u of (z, llm, vorlage, personas, zs) \<Rightarrow>
      let akt = kontext_key sf k in
      if letzter = Some akt
      then Some (Inr (cp\<lparr>g_aktueller_kontext_key := Some akt, g_letzter_kontext_key := letzter,
                          g_kontextwechsel := False\<rparr>))
      else
        (let msgs = [SystemNachricht (fragenintro_generieren vorlage personas zs),
                     MenschNachricht (frage_generieren sf k)] in
         case frage_stellen_schleife n llm sf k msgs [] of
           None \<Rightarrow> None
         | Some (Inl e) \<Rightarrow> Some (Inl e)
         | Some (Inr (msgs', ant)) \<Rightarrow>
             Some (Inr \<lparr>g_messages = msgs', g_antworten = ant, g_aktueller_kontext_key = Some akt,
                        g_letzter_kontext_key = Some akt, g_kontextwechsel = True\<rparr>)))"

subsection \<open>The interview loop (\<open>Fragesteller.starten\<close>)\<close>

record fragesteller_zustand =
  fs_fm :: fragenmanager
  fs_letzter :: "string option"
  fs_chatverlaeufe :: "(string \<times> nachricht list) list"
  fs_checkpoint :: graph_zustand

text \<open>An uncaught exception leaves the loop with the state it had reached.\<close>

type_synonym lauf = "(py_error \<times> fragesteller_zustand) + fragesteller_zustand"

text \<open>The loop over the contexts of one work unit: a context whose key equals the last
  one is skipped; otherwise the graph runs and its answers are recorded under the
  context's parent topic text.\<close>

fun kontexte_bearbeiten ::
  "nat \<Rightarrow> umgebung \<Rightarrow> strukturierte_frage \<Rightarrow> themen_kontext list \<Rightarrow> fragesteller_zustand \<Rightarrow> lauf option" where
  "kontexte_bearbeiten n u sf [] s = Some (Inr s)"
| "kontexte_bearbeiten n u sf (k # ks) s =
     (let kk = kontext_key sf k in
      if fs_letzter s = Some kk then kontexte_bearbeiten n u sf ks s
      else case graph_aufrufen n u sf k (fs_letzter s) (fs_checkpoint s) of
             None \<Rightarrow> None
           | Some (Inl e) \<Rightarrow> Some (Inl (e, s))
           | Some (Inr out) \<Rightarrow>
               kontexte_bearbeiten n u sf ks
                 \<lparr>fs_fm = fold (\<lambda>(key, v). antwort_hinzufuegen (sf_frage_id sf) (Some key) (parent_thema_text k) v)
                            (g_antworten out) (fs_fm s),
                  fs_letzter = g_letzter_kontext_key out,
                  fs_chatverlaeufe = fs_chatverlaeufe s @ [(''chatverlauf-'' @ kk, g_messages out)],
                  fs_checkpoint = out\<rparr>)"

text \<open>\<open>while True\<close>: the next work unit, until there is none.\<close>

fun starten_schleife :: "nat \<Rightarrow> umgebung \<Rightarrow> fragesteller_zustand \<Rightarrow> lauf option" where
  "starten_schleife 0 u s = None"
| "starten_schleife (Suc n) u s =
     (case naechste_frage (fst u) (fs_fm s) of
        Inl e \<Rightarrow> Some (Inl (e, s))
      | Inr (None, fm') \<Rightarrow> Some (Inr (s\<lparr>fs_fm := fm'\<rparr>))
      | Inr (Some sf, fm') \<Rightarrow>
          (case kontexte_bearbeiten n u sf (themenkontexte sf) (s\<lparr>fs_fm := fm'\<rparr>) of
             None \<Rightarrow> None
           | Some (Inl r) \<Rightarrow> Some (Inl r)
           | Some (Inr s') \<Rightarrow> starten_schleife n u s'))"

text \<open>The part of \<open>SiliconSamples\<close> the interview produces.\<close>

record silicon_samples =
  ss_fragen :: "(string, frage) dict"
  ss_antworten :: "(string, antwort) dict"
  ss_chatverlaeufe :: "(string \<times> nachricht list) list"

text \<open>\<open>starten\<close> on a new \<open>Fragesteller\<close>: the result, and the class-level answer
  dictionary \<open>geteilt\<close> as the next \<open>Fragenmanager\<close> will find it (cleared by
  \<open>reset_antworten\<close> after a completed run, left as it was after an exception).\<close>

definition starten ::
  "nat \<Rightarrow> umgebung \<Rightarrow> frage list \<Rightarrow> (string, antwort) dict \<Rightarrow>
   ((py_error + silicon_samples) \<times> (string, antwort) dict) option" where
  "starten n u fs geteilt =
     (let s0 = \<lparr>fs_fm = fragenmanager_init fs geteilt, fs_letzter = None, fs_chatverlaeufe = [],
                fs_checkpoint = graph_leer\<rparr> in
      case starten_schleife n u s0 of
        None \<Rightarrow> None
      | Some (Inl (e, s)) \<Rightarrow> Some (Inl e, antworten (fs_fm s))
      | Some (Inr s) \<Rightarrow>
          Some (Inr \<lparr>ss_fragen = fragen (fs_fm s), ss_antworten = antworten (fs_fm s),
                     ss_chatverlaeufe = fs_chatverlaeufe s\<rparr>,
                antworten (reset_antworten (fs_fm s))))"

subsection \<open>Admissible answer batches\<close>

text \<open>The answers of one graph run are admissible when their keys are distinct required
  keys and their values option ids of the unit.\<close>

definition antworten_zulaessig :: "strukturierte_frage \<Rightarrow> themen_kontext \<Rightarrow> (string, string) dict \<Rightarrow> bool" where
  "antworten_zulaessig sf k ant \<longleftrightarrow>
     distinct (map fst ant) \<and> (\<forall>(x, v) \<in> set ant. Some x \<in> notwendige_keys sf k \<and> v \<in> erlaubte_values sf)"

fun validierung_antworten :: "validierung \<Rightarrow> (string, string) dict" where
  "validierung_antworten (Wiederholen f a) = a"
| "validierung_antworten (Gueltig a) = a"

subsection \<open>The reply format\<close>

text \<open>The reply the prompt asks for: one line \<open>key: option\<close> per statement. A line is
  well-formed when key and option are non-empty, stripped, contain no line break, the key
  does not start a comment and the option contains no colon (keys may: composite keys do).\<close>

definition antwort_text :: "(string \<times> string) list \<Rightarrow> string" where
  "antwort_text ps = py_join [CHR 0x0A] (map (\<lambda>(k, v). k @ '': '' @ v) ps)"

definition zeile_ok :: "string \<Rightarrow> string \<Rightarrow> bool" where
  "zeile_ok k v \<longleftrightarrow> k \<noteq> [] \<and> v \<noteq> [] \<and> py_strip k = k \<and> py_strip v = v \<and> hd k \<noteq> CHR ''#'' \<and>
     CHR '':'' \<notin> set v \<and> list_all (\<lambda>c. \<not> py_linebreak c) (k @ v)"

subsection \<open>Example catalogs\<close>

text \<open>A unit with the required keys a, b, c and options 1, 2, 3 (the scenario of the spec),
  a question without topics, a brand question with two follow-ups, and a question whose
  text names its topic.\<close>

definition beispiel_abc :: strukturierte_frage where
  "beispiel_abc =
     \<lparr>sf_frage_id = ''q'',
      themenkontexte = map (\<lambda>x. \<lparr>composite_key = Some x, parent_frage_id = None, parent_thema_key = None,
        parent_thema_text = None, child_thema_key = Some x, child_thema_text = Some x,
        text_gerendert = ''Wie sehr stimmen Sie zu?''\<rparr>) [''a'', ''b'', ''c''],
      antwortoptionen = map (\<lambda>x. \<lparr>opt_id = x, opt_text = x\<rparr>) [''1'', ''2'', ''3''],
      rohe_frage = \<lparr>f_id = ''q'', f_text = ''Wie sehr stimmen Sie zu?'', optionen = [], themen = [],
        uebergeordnete_frage_id = None, uebergeordnete_antwortoption_id = None,
        uebergeordnete_themen_limit = None, uebergeordnete_themen_zufaellig = False\<rparr>\<rparr>"

definition beispiel_ohne_themen :: frage where
  "beispiel_ohne_themen = \<lparr>f_id = ''Q'', f_text = ''Wie alt sind Sie?'',
     optionen = [\<lparr>opt_id = ''1'', opt_text = ''unter 30''\<rparr>, \<lparr>opt_id = ''2'', opt_text = ''30 oder mehr''\<rparr>],
     themen = [], uebergeordnete_frage_id = None, uebergeordnete_antwortoption_id = None,
     uebergeordnete_themen_limit = None, uebergeordnete_themen_zufaellig = False\<rparr>"

definition beispiel_marken :: frage where
  "beispiel_marken = \<lparr>f_id = ''M'', f_text = ''Welche Marken kennen Sie?'',
     optionen = [\<lparr>opt_id = ''ja'', opt_text = ''Ja''\<rparr>, \<lparr>opt_id = ''nein'', opt_text = ''Nein''\<rparr>],
     themen = [\<lparr>th_id = ''t1'', th_text = ''Marke 1''\<rparr>, \<lparr>th_id = ''t2'', th_text = ''Marke 2''\<rparr>],
     uebergeordnete_frage_id = None, uebergeordnete_antwortoption_id = None,
     uebergeordnete_themen_limit = None, uebergeordnete_themen_zufaellig = False\<rparr>"

definition beispiel_marken_kette :: "frage list" where
  "beispiel_marken_kette =
     [beispiel_marken,
      beispiel_kind\<lparr>f_id := ''K2'', uebergeordnete_frage_id := Some ''M''\<rparr>,
      beispiel_kind\<lparr>f_id := ''K3'', uebergeordnete_frage_id := Some ''K2'', uebergeordnete_antwortoption_id := None\<rparr>]"

definition beispiel_thema :: frage where
  "beispiel_thema = \<lparr>f_id = ''F'', f_text = ''Wie finden Sie {{thema}}?'',
     optionen = [\<lparr>opt_id = ''ja'', opt_text = ''Ja''\<rparr>, \<lparr>opt_id = ''nein'', opt_text = ''Nein''\<rparr>],
     themen = [\<lparr>th_id = ''x'', th_text = ''X''\<rparr>, \<lparr>th_id = ''y'', th_text = ''Y''\<rparr>],
     uebergeordnete_frage_id = None, uebergeordnete_antwortoption_id = None,
     uebergeordnete_themen_limit = None, uebergeordnete_themen_zufaellig = False\<rparr>"

text \<open>A brand question with one topic, a follow-up without topics asked for the brands of
  \<open>M\<close> answered "ja", and a respondent that answers the brand question with "ja" for
  both brands and the follow-up for both parent topics at once.\<close>

definition beispiel_marke_a :: frage where
  "beispiel_marke_a = \<lparr>f_id = ''T'', f_text = ''Kennen Sie die Marke?'',
     optionen = [\<lparr>opt_id = ''ja'', opt_text = ''Ja''\<rparr>, \<lparr>opt_id = ''nein'', opt_text = ''Nein''\<rparr>],
     themen = [\<lparr>th_id = ''a'', th_text = ''Marke A''\<rparr>],
     uebergeordnete_frage_id = None, uebergeordnete_antwortoption_id = None,
     uebergeordnete_themen_limit = None, uebergeordnete_themen_zufaellig = False\<rparr>"

definition beispiel_zufrieden :: frage where
  "beispiel_zufrieden = \<lparr>f_id = ''C'', f_text = ''Wie zufrieden sind Sie?'',
     optionen = [\<lparr>opt_id = ''1'', opt_text = ''sehr''\<rparr>, \<lparr>opt_id = ''2'', opt_text = ''kaum''\<rparr>],
     themen = [], uebergeordnete_frage_id = Some ''M'', uebergeordnete_antwortoption_id = Some ''ja'',
     uebergeordnete_themen_limit = None, uebergeordnete_themen_zufaellig = False\<rparr>"

definition beispiel_befragter :: llm where
  "beispiel_befragter msgs =
     (case msgs of
        _ # MenschNachricht q # _ \<Rightarrow>
          if take 13 q = ''Frage: Welche'' then ''t1: ja'' @ [CHR 0x0A] @ ''t2: ja''
          else ''M::t1: 1'' @ [CHR 0x0A] @ ''M::t2: 2''
      | _ \<Rightarrow> [])"

subsection \<open>Lemmas: validation, the retry cycle, fuel\<close>

lemma set_dict_update_sub: "set (dict_update d e) \<subseteq> set d \<union> set e"
proof -
  have "set (fold (\<lambda>(k, v) d. dict_set d k v) e d) \<subseteq> set d \<union> set e" for d
  proof (induction e arbitrary: d)
    case (Cons p e)
    then show ?case using set_dict_set_sub [of d "fst p" "snd p"] by (cases p) fastforce
  qed simp
  then show ?thesis by (simp add: dict_update_def)
qed

lemma subset_image_Collect: "B \<subseteq> f ` {x \<in> A. P x} \<Longrightarrow> B \<subseteq> f ` A"
  by blast

lemma antwort_validieren_cases:
  assumes "antwort_validieren sf k ant s = r"
  obtains (parsefehler) e where "llm_antwort_parsen s = Inl e" "r = Inr (Wiederholen e ant)"
  | (typfehler) neu msg where "llm_antwort_parsen s = Inr neu" "None \<in> notwendige_keys sf k"
      "r = Inl (TypeError msg)"
  | (wdh) neu f where "llm_antwort_parsen s = Inr neu"
      "r = Inr (Wiederholen f (dict_update ant (filter (\<lambda>(x, v). Some x \<in> notwendige_keys sf k \<and> v \<in> erlaubte_values sf) neu)))"
  | (ok) neu where "llm_antwort_parsen s = Inr neu"
      "r = Inr (Gueltig (dict_update ant (filter (\<lambda>(x, v). Some x \<in> notwendige_keys sf k \<and> v \<in> erlaubte_values sf) neu)))"
      "notwendige_keys sf k \<subseteq> Some ` fst ` set (dict_update ant (filter (\<lambda>(x, v). Some x \<in> notwendige_keys sf k \<and> v \<in> erlaubte_values sf) neu))"
proof (cases "llm_antwort_parsen s")
  case (Inl e)
  then show ?thesis using assms parsefehler by (simp add: antwort_validieren_def)
next
  case (Inr neu)
  show ?thesis
    using assms Inr typfehler [of neu] wdh [of neu] ok [of neu]
    unfolding antwort_validieren_def Let_def
    by (auto split: if_splits simp del: keys_dict_update dest: subset_image_Collect)
qed


lemma antworten_zulaessig_update:
  assumes "antworten_zulaessig sf k ant"
  shows "antworten_zulaessig sf k
           (dict_update ant (filter (\<lambda>(x, v). Some x \<in> notwendige_keys sf k \<and> v \<in> erlaubte_values sf) neu))"
  using assms set_dict_update_sub [of ant "filter (\<lambda>(x, v). Some x \<in> notwendige_keys sf k \<and> v \<in> erlaubte_values sf) neu"]
  unfolding antworten_zulaessig_def by fastforce

lemma antwort_validieren_zulaessig:
  "antworten_zulaessig sf k ant \<Longrightarrow> antwort_validieren sf k ant s = Inr r \<Longrightarrow>
   antworten_zulaessig sf k (validierung_antworten r)"
  by (erule antwort_validieren_cases) (auto simp: antworten_zulaessig_update)

lemma antwort_validieren_Inl: "antwort_validieren sf k ant s = Inl e \<Longrightarrow> None \<in> notwendige_keys sf k"
  by (erule antwort_validieren_cases) auto

lemma antwort_validieren_Gueltig:
  "antwort_validieren sf k ant s = Inr (Gueltig ant') \<Longrightarrow> notwendige_keys sf k \<subseteq> Some ` fst ` set ant'"
  by (erule antwort_validieren_cases) auto

lemma frage_stellen_schleife_Inr:
  "frage_stellen_schleife n llm sf k msgs ant = Some (Inr (msgs', ant')) \<Longrightarrow> antworten_zulaessig sf k ant \<Longrightarrow>
   antworten_zulaessig sf k ant' \<and> notwendige_keys sf k \<subseteq> Some ` fst ` set ant'"
proof (induction n arbitrary: msgs ant)
  case (Suc n)
  show ?case
  proof (cases "antwort_validieren sf k ant (llm msgs)")
    case (Inr r)
    then show ?thesis
      using Suc antwort_validieren_zulaessig [OF Suc.prems(2) Inr] antwort_validieren_Gueltig [of sf k ant "llm msgs"]
      by (cases r) (auto simp: Let_def)
  qed (use Suc.prems in \<open>simp add: Let_def\<close>)
qed simp

lemma frage_stellen_schleife_Inl:
  "frage_stellen_schleife n llm sf k msgs ant = Some (Inl e) \<Longrightarrow> None \<in> notwendige_keys sf k"
proof (induction n arbitrary: msgs ant)
  case (Suc n)
  then show ?case
    using antwort_validieren_Inl [of sf k ant "llm msgs"]
    by (auto simp: Let_def split: sum.splits validierung.splits)
qed simp

lemma frage_stellen_schleife_fuel:
  "frage_stellen_schleife n llm sf k msgs ant = Some r \<Longrightarrow> n \<le> m \<Longrightarrow>
   frage_stellen_schleife m llm sf k msgs ant = Some r"
proof (induction n arbitrary: m msgs ant)
  case (Suc n)
  then obtain m' where "m = Suc m'" "n \<le> m'" by (cases m) auto
  with Suc show ?case by (auto simp: Let_def split: sum.splits validierung.splits)
qed simp


lemma graph_aufrufen_fuel:
  "graph_aufrufen n u sf k letzter cp = Some r \<Longrightarrow> n \<le> m \<Longrightarrow> graph_aufrufen m u sf k letzter cp = Some r"
  by (auto simp: graph_aufrufen_def Let_def dest: frage_stellen_schleife_fuel [where m = m]
           split: prod.splits if_splits option.splits sum.splits)

lemma kontexte_bearbeiten_fuel:
  "kontexte_bearbeiten n u sf ks s = Some r \<Longrightarrow> n \<le> m \<Longrightarrow> kontexte_bearbeiten m u sf ks s = Some r"
proof (induction ks arbitrary: s)
  case (Cons k ks)
  then show ?case
    by (auto simp: Let_def dest: graph_aufrufen_fuel [where m = m] split: if_splits option.splits sum.splits)
qed simp

lemma starten_schleife_fuel:
  "starten_schleife n u s = Some r \<Longrightarrow> n \<le> m \<Longrightarrow> starten_schleife m u s = Some r"
proof (induction n arbitrary: m s)
  case (Suc n)
  then obtain m' where m: "m = Suc m'" "n \<le> m'" by (cases m) auto
  show ?case
  proof (cases "naechste_frage (fst u) (fs_fm s)")
    case (Inr p)
    obtain q fm' where p: "p = (q, fm')" by (cases p)
    show ?thesis
    proof (cases q)
      case (Some sf)
      then show ?thesis
        using Suc.prems(1) Inr p Suc.IH [OF _ m(2)] m(2)
          kontexte_bearbeiten_fuel [of n u sf "themenkontexte sf" "s\<lparr>fs_fm := fm'\<rparr>" _ m']
        unfolding m(1) by (auto split: option.splits sum.splits)
    qed (use Suc.prems(1) Inr p in \<open>simp add: m(1)\<close>)
  qed (use Suc.prems(1) in \<open>simp add: m(1)\<close>)
qed simp

lemma kontexte_uebersprungen:
  "\<forall>k \<in> set ks. fs_letzter s = Some (kontext_key sf k) \<Longrightarrow> kontexte_bearbeiten n u sf ks s = Some (Inr s)"
  by (induction ks) auto

lemma starten_schleife_haengt:
  assumes "naechste_frage (fst u) (fs_fm s) = Inr (Some sf, fs_fm s)"
    and "\<forall>k \<in> set (themenkontexte sf). fs_letzter s = Some (kontext_key sf k)"
  shows "starten_schleife n u s = None"
proof (induction n)
  case (Suc n)
  then show ?case using assms kontexte_uebersprungen [OF assms(2), of "n" u] by simp
qed simp

lemmas orchestrator_eval = graph_aufrufen_def kontext_key_def antwort_validieren_def llm_antwort_parsen_def
  notwendige_keys_def erlaubte_values_def graph_leer_def frage_generieren_def fragenintro_generieren_def

lemma frage_stellen_schleife_Inl_TypeError:
  "frage_stellen_schleife n llm sf k msgs ant = Some (Inl e) \<Longrightarrow> \<exists>msg. e = TypeError msg"
proof (induction n arbitrary: msgs ant)
  case (Suc n)
  have "antwort_validieren sf k ant s = Inl e \<Longrightarrow> \<exists>msg. e = TypeError msg" for s
    by (erule antwort_validieren_cases) auto
  with Suc show ?case by (auto simp: Let_def split: sum.splits validierung.splits)
qed simp

lemma naechste_frage_ohne_themen:
  assumes "themen q = []" "uebergeordnete_frage_id q = None"
  shows "naechste_frage z (fragenmanager_init [q] []) =
     Inr (Some \<lparr>sf_frage_id = f_id q,
                themenkontexte = [\<lparr>composite_key = None, parent_frage_id = None, parent_thema_key = None,
                  parent_thema_text = None, child_thema_key = None, child_thema_text = None,
                  text_gerendert = render_text (Some (f_text q)) []\<rparr>],
                antwortoptionen = optionen q, rohe_frage = q\<rparr>,
          fragenmanager_init [q] [])"
  using assms by (simp add: scheduler_eval fragenmanager_init_def hat_uebergeordnete_frage_def
      ist_komplett_beantwortet_def komplett_ohne_parent_def baue_strukturierte_frage_def parent_von_def
      kontexte_ohne_parent_def)

lemma starten_schleife_haengt':
  assumes "case naechste_frage (fst u) (fs_fm s) of
             Inr (Some sf, fm') \<Rightarrow> fm' = fs_fm s \<and> (\<forall>k \<in> set (themenkontexte sf). fs_letzter s = Some (kontext_key sf k))
           | _ \<Rightarrow> False"
  shows "starten_schleife n u s = None"
proof -
  obtain sf where "naechste_frage (fst u) (fs_fm s) = Inr (Some sf, fs_fm s)"
    "\<forall>k \<in> set (themenkontexte sf). fs_letzter s = Some (kontext_key sf k)"
    using assms by (auto split: sum.splits option.splits)
  then show ?thesis by (rule starten_schleife_haengt)
qed

lemma einzige_antwort:
  assumes "distinct (map fst ant)" "fst ` set ant = {x}"
  shows "\<exists>v. ant = [(x, v)]"
proof -
  have "card (set (map fst ant)) = length ant" using distinct_card [OF assms(1)] by simp
  then have "length ant = 1" using assms(2) by simp
  then obtain p where "ant = [p]" by (cases ant) auto
  then show ?thesis using assms(2) by (cases p) auto
qed

lemma zeile_strip:
  assumes "zeile_ok k v"
  shows "py_strip (k @ '': '' @ v) = k @ '': '' @ v"
proof -
  from assms have k: "k \<noteq> []" "py_strip k = k" and v: "v \<noteq> []" "py_strip v = v" by (simp_all add: zeile_ok_def)
  from strip_fix_hd_last [OF k(2,1)] strip_fix_hd_last [OF v(2,1)] k(1) v(1) show ?thesis
    by (intro strip_fix) simp_all
qed

lemma zeile_rsplit:
  "CHR '':'' \<notin> set v \<Longrightarrow> py_rsplit1 CHR '':'' (k @ '': '' @ v) = Some (k, '' '' @ v)"
proof -
  assume v: "CHR '':'' \<notin> set v"
  have t: "takeWhile (\<lambda>x. x \<noteq> CHR '':'') (rev v @ ys) = rev v @ takeWhile (\<lambda>x. x \<noteq> CHR '':'') ys" for ys
    by (rule takeWhile_append2) (use v in auto)
  have d: "dropWhile (\<lambda>x. x \<noteq> CHR '':'') (rev v @ ys) = dropWhile (\<lambda>x. x \<noteq> CHR '':'') ys" for ys
    by (rule dropWhile_append2) (use v in auto)
  show ?thesis by (simp add: py_rsplit1_def t d)
qed

lemma parse_zeilen_text:
  "distinct (map fst ps) \<Longrightarrow> fst ` set ps \<inter> fst ` set acc = {} \<Longrightarrow> list_all (\<lambda>(k, v). zeile_ok k v) ps \<Longrightarrow>
   parse_zeilen acc (map (\<lambda>(k, v). k @ '': '' @ v) ps) = Inr (acc @ ps)"
proof (induction ps arbitrary: acc)
  case (Cons p ps)
  obtain k v where p: "p = (k, v)" by (cases p)
  with Cons.prems have ok: "zeile_ok k v" and nk: "k \<notin> fst ` set acc" by auto
  then have "k \<noteq> []" "v \<noteq> []" "hd k \<noteq> CHR ''#''" "CHR '':'' \<notin> set v" "py_strip k = k" "py_strip v = v"
    by (simp_all add: zeile_ok_def)
  moreover have "dict_set acc k v = acc @ [(k, v)]" using nk by (auto simp: dict_set_def)
  moreover have "parse_zeilen (acc @ [(k, v)]) (map (\<lambda>(k, v). k @ '': '' @ v) ps) = Inr ((acc @ [(k, v)]) @ ps)"
    by (rule Cons.IH) (use Cons.prems p in auto)
  ultimately show ?case
    using p zeile_strip [OF ok] zeile_rsplit strip_leer_cons by (simp add: Let_def)
qed simp

lemma antwort_text_zeilen:
  assumes "list_all (\<lambda>(k, v). zeile_ok k v) ps"
  shows "py_splitlines (antwort_text ps) = map (\<lambda>(k, v). k @ '': '' @ v) ps"
proof -
  have "\<forall>l \<in> set (map (\<lambda>(k, v). k @ '': '' @ v) ps). l \<noteq> [] \<and> (\<forall>c \<in> set l. \<not> py_linebreak c)"
    using assms by (auto simp: zeile_ok_def list_all_iff py_linebreak_def)
  then show ?thesis unfolding antwort_text_def by (rule py_splitlines_join)
qed

subsection \<open>Properties of the interview\<close>

text \<open>C12. Validation merges the valid entries of each reply into the answers kept from
  earlier replies. For every well-formed reply (one line \<open>key: option\<close> per entry,
  distinct keys) whose entries are required keys with allowed options, on answers kept for
  required keys only and when no required key is \<open>None\<close>: the reply is accepted with the
  merged answers exactly when the kept and the new keys cover the required ones; otherwise
  the node asks again, reporting exactly the uncovered keys as missing and keeping the
  merged answers for the next attempt.\<close>

theorem validierung_szenario:
  assumes "distinct (map fst ps)" "list_all (\<lambda>(x, v). zeile_ok x v) ps"
    "\<forall>(x, v) \<in> set ps. Some x \<in> notwendige_keys sf k \<and> v \<in> erlaubte_values sf"
    "\<forall>x \<in> fst ` set ant. Some x \<in> notwendige_keys sf k" "None \<notin> notwendige_keys sf k"
  shows "antwort_validieren sf k ant (antwort_text ps) =
    (if notwendige_keys sf k \<subseteq> Some ` (fst ` set ant \<union> fst ` set ps) then Inr (Gueltig (dict_update ant ps))
     else Inr (Wiederholen (AntwortUngueltig (map fst ant) (fst ` set ps) {} {} (fst ` set ant \<union> fst ` set ps)
                 (the ` (notwendige_keys sf k - Some ` (fst ` set ant \<union> fst ` set ps)))) (dict_update ant ps)))"
proof -
  let ?nk = "notwendige_keys sf k" and ?ev = "erlaubte_values sf"
  have p: "llm_antwort_parsen (antwort_text ps) = Inr ps"
    using parse_zeilen_text [OF assms(1) _ assms(2), of "[]"] antwort_text_zeilen [OF assms(2)]
    by (simp add: llm_antwort_parsen_def)
  have f: "filter (\<lambda>(x, v). Some x \<in> ?nk \<and> v \<in> ?ev) ps = ps"
    using assms(3) by (auto simp: filter_id_conv)
  have u: "filter (\<lambda>x. Some x \<notin> ?nk) (map fst ps) = []"
    using assms(3) by (auto simp: filter_empty_conv)
  have uv: "filter (\<lambda>(x, v). Some x \<in> ?nk \<and> v \<notin> ?ev) ps = []"
    using assms(3) by (auto simp: filter_empty_conv)
  have g: "set (filter (\<lambda>x. Some x \<in> ?nk) (map fst ps)) = fst ` set ps"
    using assms(3) by force
  have n: "set (filter (\<lambda>x. Some x \<in> ?nk) (map fst (dict_update ant ps))) = fst ` set ant \<union> fst ` set ps"
    using assms(3,4) keys_dict_update [of ant ps] by force
  have none: "None \<notin> ?nk - Some ` (fst ` set ant \<union> fst ` set ps)"
    using assms(5) by blast
  show ?thesis
    using none by (simp add: antwort_validieren_def Let_def p f u uv g n del: set_filter)
qed

text \<open>Witness of C12, the scenario of the spec: with the required keys a, b, c and the
  options 1, 2, 3, the reply "a: 1 / b: 2" is rejected with c missing and its entries
  kept; the later reply "c: 3" is then accepted with all three entries merged.\<close>

theorem validierung_szenario_witness:
  "antwort_validieren beispiel_abc (hd (themenkontexte beispiel_abc)) [] (antwort_text [(''a'', ''1''), (''b'', ''2'')]) =
     Inr (Wiederholen (AntwortUngueltig [] {''a'', ''b''} {} {} {''a'', ''b''} {''c''}) [(''a'', ''1''), (''b'', ''2'')]) \<and>
   antwort_validieren beispiel_abc (hd (themenkontexte beispiel_abc)) [(''a'', ''1''), (''b'', ''2'')]
     (antwort_text [(''c'', ''3'')]) = Inr (Gueltig [(''a'', ''1''), (''b'', ''2''), (''c'', ''3'')])"
proof -
  have nk: "notwendige_keys beispiel_abc (hd (themenkontexte beispiel_abc)) = {Some ''a'', Some ''b'', Some ''c''}"
    and ev: "erlaubte_values beispiel_abc = {''1'', ''2'', ''3''}"
    by (auto simp: notwendige_keys_def erlaubte_values_def beispiel_abc_def)
  have z: "zeile_ok ''a'' ''1''" "zeile_ok ''b'' ''2''" "zeile_ok ''c'' ''3''"
    by (simp_all add: zeile_ok_def py_simps)
  have e1: "antwort_validieren beispiel_abc (hd (themenkontexte beispiel_abc)) [] (antwort_text [(''a'', ''1''), (''b'', ''2'')]) =
     Inr (Wiederholen (AntwortUngueltig [] {''a'', ''b''} {} {} {''a'', ''b''} {''c''}) (dict_update [] [(''a'', ''1''), (''b'', ''2'')]))"
    using validierung_szenario [of "[(''a'', ''1''), (''b'', ''2'')]" beispiel_abc "hd (themenkontexte beispiel_abc)" "[]"]
    by (simp add: nk ev z image_constant_conv insert_Diff_if)
  have e2: "antwort_validieren beispiel_abc (hd (themenkontexte beispiel_abc)) [(''a'', ''1''), (''b'', ''2'')]
     (antwort_text [(''c'', ''3'')]) = Inr (Gueltig (dict_update [(''a'', ''1''), (''b'', ''2'')] [(''c'', ''3'')]))"
    using validierung_szenario [of "[(''c'', ''3'')]" beispiel_abc "hd (themenkontexte beispiel_abc)" "[(''a'', ''1''), (''b'', ''2'')]"]
    by (simp add: nk ev z)
  show ?thesis using e1 e2 by (simp add: dict_update_def dict_set_def)
qed

text \<open>C13. A graph run that returns after asking the model commits an admissible batch
  that answers every required key: the keys of the committed answers are exactly the
  composite keys of the contexts sharing the rendered text, each once, and every value
  is an option id of the unit.\<close>

theorem graph_antworten_vollstaendig:
  assumes "graph_aufrufen n u sf k letzter cp = Some (Inr out)" and "letzter \<noteq> Some (kontext_key sf k)"
  shows "antworten_zulaessig sf k (g_antworten out) \<and> notwendige_keys sf k = Some ` fst ` set (g_antworten out)"
proof -
  obtain msgs' where "frage_stellen_schleife n (fst (snd u)) sf k
      [SystemNachricht (fragenintro_generieren (fst (snd (snd u))) (fst (snd (snd (snd u)))) (snd (snd (snd (snd u))))),
       MenschNachricht (frage_generieren sf k)] [] = Some (Inr (msgs', g_antworten out))"
    using assms by (auto simp: graph_aufrufen_def Let_def split: prod.splits option.splits sum.splits)
  from frage_stellen_schleife_Inr [OF this] have
    "antworten_zulaessig sf k (g_antworten out)" "notwendige_keys sf k \<subseteq> Some ` fst ` set (g_antworten out)"
    by (simp_all add: antworten_zulaessig_def)
  then show ?thesis unfolding antworten_zulaessig_def by fastforce
qed

theorem graph_antworten_vollstaendig_witness:
  "graph_aufrufen 2 (\<lambda>ck xs. xs, \<lambda>msgs. ''a: 1'' @ [CHR 0x0A] @ ''b: 2'' @ [CHR 0x0A] @ ''c: 3'', \<lambda>n. n, False, [])
     beispiel_abc (hd (themenkontexte beispiel_abc)) None graph_leer =
   Some (Inr (projr (the (graph_aufrufen 2 (\<lambda>ck xs. xs, \<lambda>msgs. ''a: 1'' @ [CHR 0x0A] @ ''b: 2'' @ [CHR 0x0A] @ ''c: 3'', \<lambda>n. n, False, [])
     beispiel_abc (hd (themenkontexte beispiel_abc)) None graph_leer)))) \<and>
   None \<noteq> Some (kontext_key beispiel_abc (hd (themenkontexte beispiel_abc))) \<and>
   notwendige_keys beispiel_abc (hd (themenkontexte beispiel_abc)) = {Some ''a'', Some ''b'', Some ''c''}"
proof -
  have h: "graph_aufrufen 2 (\<lambda>ck xs. xs, \<lambda>msgs. ''a: 1'' @ [CHR 0x0A] @ ''b: 2'' @ [CHR 0x0A] @ ''c: 3'', \<lambda>n. n, False, [])
     beispiel_abc (hd (themenkontexte beispiel_abc)) None graph_leer =
   Some (Inr (projr (the (graph_aufrufen 2 (\<lambda>ck xs. xs, \<lambda>msgs. ''a: 1'' @ [CHR 0x0A] @ ''b: 2'' @ [CHR 0x0A] @ ''c: 3'', \<lambda>n. n, False, [])
     beispiel_abc (hd (themenkontexte beispiel_abc)) None graph_leer))))"
    by (simp add: orchestrator_eval beispiel_abc_def py_simps dict_set_def Let_def numeral_eq_Suc del: set_filter)
  have "None \<noteq> Some (kontext_key beispiel_abc (hd (themenkontexte beispiel_abc)))" by simp
  note graph_antworten_vollstaendig [OF h this]
  then show ?thesis using h by (simp add: beispiel_abc_def notwendige_keys_def)
qed

text \<open>C14. A catalog of one question without topics and without parent never yields a
  result: the first reply that parses makes \<open>node_antwort_validieren\<close> join the missing
  key \<open>None\<close> into its message, and the \<open>TypeError\<close> aborts the interview.\<close>

theorem frage_ohne_themen_absturz:
  assumes "themen q = []" and "uebergeordnete_frage_id q = None"
    and "starten n u [q] [] = Some (r, g)"
  shows "\<exists>msg. r = Inl (TypeError msg)"
proof (cases n)
  case 0
  then show ?thesis using assms(3) by (simp add: starten_def)
next
  case (Suc m)
  let ?k = "\<lparr>composite_key = None, parent_frage_id = None, parent_thema_key = None,
                  parent_thema_text = None, child_thema_key = None, child_thema_text = None,
                  text_gerendert = render_text (Some (f_text q)) []\<rparr>"
  let ?sf = "\<lparr>sf_frage_id = f_id q, themenkontexte = [?k], antwortoptionen = optionen q, rohe_frage = q\<rparr>"
  have nk: "None \<in> notwendige_keys ?sf ?k" by (simp add: notwendige_keys_def)
  have "graph_aufrufen m u ?sf ?k None graph_leer \<noteq> Some (Inr out)" for out
  proof
    assume "graph_aufrufen m u ?sf ?k None graph_leer = Some (Inr out)"
    then obtain msgs msgs' where "frage_stellen_schleife m (fst (snd u)) ?sf ?k msgs [] = Some (Inr (msgs', g_antworten out))"
      by (auto simp: graph_aufrufen_def Let_def split: prod.splits option.splits sum.splits)
    from frage_stellen_schleife_Inr [OF this] nk show False by (auto simp: antworten_zulaessig_def)
  qed
  moreover have "graph_aufrufen m u ?sf ?k None graph_leer = Some (Inl e) \<Longrightarrow> \<exists>msg. e = TypeError msg" for e
    by (auto simp: graph_aufrufen_def Let_def dest: frage_stellen_schleife_Inl_TypeError
             split: prod.splits option.splits sum.splits)
  ultimately show ?thesis
    using assms(3) naechste_frage_ohne_themen [OF assms(1,2), of "fst u"] unfolding Suc
    by (auto simp: starten_def kontext_key_def Let_def split: option.splits sum.splits)
qed

theorem frage_ohne_themen_absturz_witness:
  "\<exists>msg. fst (the (starten 2 (\<lambda>ck xs. xs, \<lambda>msgs. ''Alter: 1'', \<lambda>n. n, False, []) [beispiel_ohne_themen] [])) =
     Inl (TypeError msg)"
proof -
  have h: "starten 2 (\<lambda>ck xs. xs, \<lambda>msgs. ''Alter: 1'', \<lambda>n. n, False, []) [beispiel_ohne_themen] [] =
     Some (fst (the (starten 2 (\<lambda>ck xs. xs, \<lambda>msgs. ''Alter: 1'', \<lambda>n. n, False, []) [beispiel_ohne_themen] [])),
           snd (the (starten 2 (\<lambda>ck xs. xs, \<lambda>msgs. ''Alter: 1'', \<lambda>n. n, False, []) [beispiel_ohne_themen] [])))"
    by (simp add: starten_def scheduler_eval orchestrator_eval fragenmanager_init_def beispiel_ohne_themen_def
        py_simps dict_set_def Let_def numeral_eq_Suc del: set_filter)
  have "themen beispiel_ohne_themen = []" "uebergeordnete_frage_id beispiel_ohne_themen = None"
    by (simp_all add: beispiel_ohne_themen_def)
  from frage_ohne_themen_absturz [OF this h] show ?thesis .
qed

text \<open>C16. When the respondent answers "nein" for every brand, the follow-up \<open>K2\<close>
  (required option "ja") is never asked, and its follow-up \<open>K3\<close> (no required option)
  is returned as a work unit without contexts on every poll: the interview never returns.\<close>

theorem haengt_ohne_ja:
  "starten n (z, \<lambda>msgs. ''t1: nein'' @ [CHR 0x0A] @ ''t2: nein'', vorlage, personas, zs) beispiel_marken_kette [] = None"
proof (cases n)
  case (Suc m)
  show ?thesis
  proof (cases m)
    case (Suc k)
    show ?thesis unfolding \<open>n = Suc m\<close> Suc starten_def Let_def
      apply (subst starten_schleife.simps(2))
      by (simp add: starten_schleife_haengt' scheduler_eval orchestrator_eval fragenmanager_init_def beispiel_marken_kette_def
          beispiel_marken_def beispiel_kind_def py_simps dict_set_def antwort_hinzufuegen_def Let_def
          del: starten_schleife.simps set_filter)
  qed (simp add: \<open>n = Suc m\<close> starten_def scheduler_eval orchestrator_eval fragenmanager_init_def beispiel_marken_kette_def
          beispiel_marken_def beispiel_kind_def py_simps dict_set_def Let_def del: set_filter)
qed (simp add: starten_def)

text \<open>C15. A question whose text uses \<open>{{thema}}\<close> renders a different text for every
  topic, so one graph run answers only the first topic; the second topic has the same
  context key, is skipped, and is returned by the scheduler on every later poll. Whatever
  the model replies, the interview on such a question never returns.\<close>

theorem haengt_thema:
  "starten n (z, llm, vorlage, personas, zs) [beispiel_thema] [] = None"
proof (cases n)
  case (Suc m)
  let ?u = "(z, llm, vorlage, personas, zs)"
  let ?kx = "\<lparr>composite_key = Some ''x'', parent_frage_id = None, parent_thema_key = None,
    parent_thema_text = None, child_thema_key = Some ''x'', child_thema_text = Some ''X'',
    text_gerendert = ''Wie finden Sie X?''\<rparr>"
  let ?ky = "\<lparr>composite_key = Some ''y'', parent_frage_id = None, parent_thema_key = None,
    parent_thema_text = None, child_thema_key = Some ''y'', child_thema_text = Some ''Y'',
    text_gerendert = ''Wie finden Sie Y?''\<rparr>"
  let ?sf = "\<lparr>sf_frage_id = ''F'', themenkontexte = [?kx, ?ky], antwortoptionen = optionen beispiel_thema,
    rohe_frage = beispiel_thema\<rparr>"
  have nf: "naechste_frage z (fragenmanager_init [beispiel_thema] []) = Inr (Some ?sf, fragenmanager_init [beispiel_thema] [])"
    by (simp add: scheduler_eval fragenmanager_init_def beispiel_thema_def py_simps Let_def)
  have nk: "notwendige_keys ?sf ?kx = {Some ''x''}" by (simp add: notwendige_keys_def)
  have ev: "erlaubte_values ?sf = {''ja'', ''nein''}" by (simp add: erlaubte_values_def beispiel_thema_def)
  define msgs where "msgs = [SystemNachricht (fragenintro_generieren vorlage personas zs), MenschNachricht (frage_generieren ?sf ?kx)]"
  have g: "graph_aufrufen m ?u ?sf ?kx None graph_leer = None \<or>
    (\<exists>msgs' v. v \<in> {''ja'', ''nein''} \<and> graph_aufrufen m ?u ?sf ?kx None graph_leer =
       Some (Inr \<lparr>g_messages = msgs', g_antworten = [(''x'', v)], g_aktueller_kontext_key = Some ''F-None'',
                  g_letzter_kontext_key = Some ''F-None'', g_kontextwechsel = True\<rparr>))"
  proof (cases "frage_stellen_schleife m llm ?sf ?kx msgs []")
    case None
    then show ?thesis by (simp add: graph_aufrufen_def kontext_key_def py_simps msgs_def)
  next
    case (Some r)
    show ?thesis
    proof (cases r)
      case (Inl e)
      then show ?thesis using frage_stellen_schleife_Inl [of m llm ?sf ?kx msgs "[]" e] Some nk by simp
    next
      case (Inr p)
      obtain msgs' ant where p: "p = (msgs', ant)" by (cases p)
      have "antworten_zulaessig ?sf ?kx ant \<and> notwendige_keys ?sf ?kx \<subseteq> Some ` fst ` set ant"
        using frage_stellen_schleife_Inr [of m llm ?sf ?kx msgs "[]" msgs' ant] Some Inr p
        by (simp add: antworten_zulaessig_def)
      then have d: "distinct (map fst ant)" and ks: "fst ` set ant = {''x''}"
        and vs: "\<forall>(x, v) \<in> set ant. v \<in> {''ja'', ''nein''}"
        unfolding antworten_zulaessig_def nk ev by auto
      from einzige_antwort [OF d ks] obtain v where a: "ant = [(''x'', v)]" by blast
      with vs have "v \<in> {''ja'', ''nein''}" by simp
      with a show ?thesis using Some Inr p by (simp add: graph_aufrufen_def kontext_key_def py_simps msgs_def Let_def)
    qed
  qed
  then show ?thesis
  proof
    assume "graph_aufrufen m ?u ?sf ?kx None graph_leer = None"
    then show ?thesis using nf unfolding Suc starten_def Let_def by (simp add: kontext_key_def py_simps)
  next
    assume "\<exists>msgs' v. v \<in> {''ja'', ''nein''} \<and> graph_aufrufen m ?u ?sf ?kx None graph_leer =
       Some (Inr \<lparr>g_messages = msgs', g_antworten = [(''x'', v)], g_aktueller_kontext_key = Some ''F-None'',
                  g_letzter_kontext_key = Some ''F-None'', g_kontextwechsel = True\<rparr>)"
    then obtain msgs' v where gv: "graph_aufrufen m ?u ?sf ?kx None graph_leer =
       Some (Inr \<lparr>g_messages = msgs', g_antworten = [(''x'', v)], g_aktueller_kontext_key = Some ''F-None'',
                  g_letzter_kontext_key = Some ''F-None'', g_kontextwechsel = True\<rparr>)" by blast
    show ?thesis using nf gv unfolding Suc starten_def Let_def starten_schleife.simps(2) [of m]
      by (simp add: starten_schleife_haengt' kontext_key_def py_simps scheduler_eval antwort_hinzufuegen_def
          fragenmanager_init_def beispiel_thema_def dict_set_def Let_def del: starten_schleife.simps)
  qed
qed (simp add: starten_def)

text \<open>C24. Parsing the reply inverts the reply format: a reply written as one line
  \<open>key: option\<close> per entry, with distinct keys and well-formed lines, is parsed by
  \<open>llm_antwort_parsen\<close> into exactly these entries, in order; keys may contain colons
  because the line is split at its last colon.\<close>

theorem antwort_roundtrip:
  "distinct (map fst ps) \<Longrightarrow> list_all (\<lambda>(k, v). zeile_ok k v) ps \<Longrightarrow> llm_antwort_parsen (antwort_text ps) = Inr ps"
proof -
  assume d: "distinct (map fst ps)" and ok: "list_all (\<lambda>(k, v). zeile_ok k v) ps"
  with parse_zeilen_text [OF d _ ok, of "[]"] antwort_text_zeilen [OF ok] show ?thesis
    by (simp add: llm_antwort_parsen_def)
qed

theorem antwort_roundtrip_witness:
  "llm_antwort_parsen (antwort_text [(''P::t1::x'', ''1''), (''P::t1::y'', ''2'')]) =
     Inr [(''P::t1::x'', ''1''), (''P::t1::y'', ''2'')]"
proof (rule antwort_roundtrip)
  show "list_all (\<lambda>(k, v). zeile_ok k v) [(''P::t1::x'', ''1''), (''P::t1::y'', ''2'')]"
    by (simp add: zeile_ok_def py_simps)
qed simp

text \<open>An aborted interview leaks its answers to the next respondent: the answers
  live in the class attribute \<open>Fragenmanager.antworten\<close>, and \<open>reset_antworten\<close> runs only
  after a completed run. After the crash of C14 on the second question, the answer to the
  first question stays in the shared dictionary, and the next \<open>Fragenmanager\<close> skips that
  question and starts with the second.\<close>

lemma abbruch_hinterlaesst_antworten:
  "case starten 3 (\<lambda>ck xs. xs, \<lambda>msgs. ''a: ja'', \<lambda>n. n, False, []) [beispiel_marke_a, beispiel_ohne_themen] [] of
     Some (Inl (TypeError m), g) \<Rightarrow>
       map fst g = [''T''] \<and>
       (case naechste_frage z (fragenmanager_init [beispiel_marke_a, beispiel_ohne_themen] g) of
          Inr (Some sf, fm') \<Rightarrow> sf_frage_id sf = ''Q''
        | _ \<Rightarrow> False)
   | _ \<Rightarrow> False"
  by (simp add: starten_def scheduler_eval orchestrator_eval fragenmanager_init_def beispiel_marke_a_def
      beispiel_ohne_themen_def py_simps dict_set_def antwort_hinzufuegen_def Let_def numeral_eq_Suc del: set_filter)

text \<open>A follow-up without own topics whose text does not name the parent topic asks
  about all parent topics in one batch, but \<open>starten\<close> still runs the graph once per parent
  topic: the model is asked a second time for the same keys, and both answers are recorded
  with the topic name of the last parent topic ("Marke 2" also for \<open>M::t1\<close>). The run
  completes and the shared answers are reset.\<close>

lemma zweiter_elternkontext:
  "case starten 5 (\<lambda>ck xs. xs, beispiel_befragter, \<lambda>n. n, False, []) [beispiel_marken, beispiel_zufrieden] [] of
     Some (Inr ss, g) \<Rightarrow>
       g = [] \<and> map fst (ss_chatverlaeufe ss) = [''chatverlauf-M-None'', ''chatverlauf-C-t1'', ''chatverlauf-C-t2''] \<and>
       map_of (ss_antworten ss) ''C'' =
         Some \<lparr>a_frage_id = ''C'', auswahl =
           [\<lparr>thema_key = Some ''M::t1'', thema_name = Some ''Marke 2'', option_key = ''1''\<rparr>,
            \<lparr>thema_key = Some ''M::t2'', thema_name = Some ''Marke 2'', option_key = ''2''\<rparr>]\<rparr>
   | _ \<Rightarrow> False"
  by (simp add: starten_def scheduler_eval orchestrator_eval fragenmanager_init_def beispiel_marken_def
      beispiel_zufrieden_def beispiel_befragter_def py_simps dict_set_def antwort_hinzufuegen_def Let_def
      numeral_eq_Suc reset_antworten_def del: set_filter)

end
