(* ===== verification/Persistence.thy ===== *)
theory Persistence
  imports Orchestrator
begin

text \<open>
  Saving and reloading results (src/shared/dateien.py: \<open>datei_speichern\<close>,
  \<open>datei_lesen\<close>) and the \<open>from_dict\<close> constructors of the dataclasses
  (studienkonfigurationslader/models.py, siliconsamplesgenerator_models.py,
  referenzdokumente_models.py, shared/generator.py). Python values are the datatype
  \<open>pyval\<close>: the JSON values, tuples, and dataclass instances \<open>PObj\<close> with their class name
  and \<open>__dict__\<close> in field order. \<open>json.dump(..., default=lambda o: o.__dict__)\<close> is
  \<open>dump\<close>; \<open>json.load\<close> of the dumped text gives the dumped value back (a property of the
  json module, taken as given).
\<close>

subsection \<open>Python values\<close>

datatype pyval =
    PNone
  | PBool bool
  | PInt int
  | PStr string
  | PList "pyval list"
  | PTuple "pyval list"
  | PDict "(string \<times> pyval) list"
  | PObj string "(string \<times> pyval) list"

text \<open>\<open>json.dump\<close> with \<open>default=lambda o: o.__dict__\<close>: an instance becomes the object of
  its attributes, a tuple a list.\<close>

primrec dump :: "pyval \<Rightarrow> pyval" where
  "dump PNone = PNone"
| "dump (PBool b) = PBool b"
| "dump (PInt i) = PInt i"
| "dump (PStr s) = PStr s"
| "dump (PList xs) = PList (map dump xs)"
| "dump (PTuple xs) = PList (map dump xs)"
| "dump (PDict fs) = PDict (map (map_prod id dump) fs)"
| "dump (PObj c fs) = PDict (map (map_prod id dump) fs)"

text \<open>\<open>data[k]\<close>: a missing key raises \<open>KeyError\<close>, a value that is not a dictionary
  \<open>TypeError\<close>.\<close>

definition py_index :: "pyval \<Rightarrow> string \<Rightarrow> py_error + pyval" where
  "py_index v k =
     (case v of
        PDict d \<Rightarrow> (case map_of d k of Some x \<Rightarrow> Inr x | None \<Rightarrow> Inl (KeyError k))
      | _ \<Rightarrow> Inl (TypeError ''object is not subscriptable by str''))"

text \<open>\<open>data.get(k, default)\<close>: only dictionaries have \<open>get\<close>.\<close>

definition py_get :: "pyval \<Rightarrow> string \<Rightarrow> pyval \<Rightarrow> py_error + pyval" where
  "py_get v k dflt =
     (case v of
        PDict d \<Rightarrow> Inr (case map_of d k of Some x \<Rightarrow> x | None \<Rightarrow> dflt)
      | _ \<Rightarrow> Inl (AttributeError ''get''))"

text \<open>Iterating a value: the items of a list or tuple, the one-character strings of a
  string, the keys of a dictionary; anything else raises \<open>TypeError\<close>.\<close>

definition py_iter :: "pyval \<Rightarrow> py_error + pyval list" where
  "py_iter v =
     (case v of
        PList xs \<Rightarrow> Inr xs
      | PTuple xs \<Rightarrow> Inr xs
      | PStr s \<Rightarrow> Inr (map (\<lambda>c. PStr [c]) s)
      | PDict d \<Rightarrow> Inr (map (PStr \<circ> fst) d)
      | _ \<Rightarrow> Inl (TypeError ''object is not iterable''))"

text \<open>\<open>bool(x)\<close>.\<close>

definition py_bool :: "pyval \<Rightarrow> bool" where
  "py_bool v =
     (case v of
        PNone \<Rightarrow> False | PBool b \<Rightarrow> b | PInt i \<Rightarrow> i \<noteq> 0 | PStr s \<Rightarrow> s \<noteq> []
      | PList xs \<Rightarrow> xs \<noteq> [] | PTuple xs \<Rightarrow> xs \<noteq> [] | PDict d \<Rightarrow> d \<noteq> [] | PObj c fs \<Rightarrow> True)"

fun ist_dict :: "pyval \<Rightarrow> bool" where
  "ist_dict (PDict _) = True"
| "ist_dict _ = False"

text \<open>\<open>if isinstance(x, dict): x = [x]\<close>.\<close>

definition als_liste :: "pyval \<Rightarrow> pyval" where
  "als_liste v = (if ist_dict v then PList [v] else v)"

subsection \<open>The \<open>from_dict\<close> constructors\<close>

definition option_from_dict :: "pyval \<Rightarrow> py_error + pyval" where
  "option_from_dict d =
     bind_r (py_index d ''id'') (\<lambda>i. bind_r (py_index d ''text'') (\<lambda>t.
       Inr (PObj ''Option'' [(''id'', i), (''text'', t)])))"

definition thema_from_dict :: "pyval \<Rightarrow> py_error + pyval" where
  "thema_from_dict d =
     bind_r (py_index d ''id'') (\<lambda>i. bind_r (py_index d ''text'') (\<lambda>t.
       Inr (PObj ''Thema'' [(''id'', i), (''text'', t)])))"

definition frage_from_dict :: "pyval \<Rightarrow> py_error + pyval" where
  "frage_from_dict d =
     bind_r (py_get d ''optionen'' (PList [])) (\<lambda>od.
     bind_r (py_get d ''themen'' (PList [])) (\<lambda>td.
     bind_r (bind_r (py_iter (als_liste od)) (map_r option_from_dict)) (\<lambda>os.
     bind_r (bind_r (py_iter (als_liste td)) (map_r thema_from_dict)) (\<lambda>ts.
     bind_r (py_index d ''id'') (\<lambda>i.
     bind_r (py_index d ''text'') (\<lambda>t.
     bind_r (py_get d ''uebergeordnete_frage_id'' PNone) (\<lambda>uf.
     bind_r (py_get d ''uebergeordnete_antwortoption_id'' PNone) (\<lambda>ua.
     bind_r (py_get d ''uebergeordnete_themen_limit'' PNone) (\<lambda>ul.
     bind_r (py_get d ''uebergeordnete_themen_zufaellig'' (PBool False)) (\<lambda>uz.
       Inr (PObj ''Frage''
         [(''id'', i), (''text'', t), (''optionen'', PList os), (''themen'', PList ts),
          (''uebergeordnete_frage_id'', uf), (''uebergeordnete_antwortoption_id'', ua),
          (''uebergeordnete_themen_limit'', ul), (''uebergeordnete_themen_zufaellig'', PBool (py_bool uz))])))))))))))"

definition antwort_thema_option_from_dict :: "pyval \<Rightarrow> py_error + pyval" where
  "antwort_thema_option_from_dict d =
     bind_r (py_index d ''thema_key'') (\<lambda>k. bind_r (py_index d ''thema_name'') (\<lambda>n.
     bind_r (py_index d ''option_key'') (\<lambda>o'.
       Inr (PObj ''AntwortThemaOption'' [(''thema_key'', k), (''thema_name'', n), (''option_key'', o')]))))"

definition antwort_from_dict :: "pyval \<Rightarrow> py_error + pyval" where
  "antwort_from_dict d =
     bind_r (py_get d ''auswahl'' (PList [])) (\<lambda>a.
     bind_r (bind_r (py_iter (als_liste a)) (map_r antwort_thema_option_from_dict)) (\<lambda>xs.
     bind_r (py_index d ''frage_id'') (\<lambda>f.
       Inr (PObj ''Antwort'' [(''frage_id'', f), (''auswahl'', PTuple xs)]))))"

text \<open>\<open>Prompt.from_dict\<close>, \<open>LLMTokenverbrauch.from_dict\<close> (a \<open>TypedDict\<close>, so a plain
  dictionary), \<open>LLMChatverlauf.from_dict\<close> and \<open>LLM.from_dict\<close> (shared/generator.py).\<close>

definition prompt_from_dict :: "pyval \<Rightarrow> py_error + pyval" where
  "prompt_from_dict d =
     bind_r (py_get d ''prompts'' (PDict [])) (\<lambda>p. bind_r (py_get d ''prompt_data'' (PDict [])) (\<lambda>pd.
       Inr (PObj ''Prompt'' [(''prompts'', p), (''prompt_data'', pd)])))"

definition tokenverbrauch_from_dict :: "pyval \<Rightarrow> py_error + pyval" where
  "tokenverbrauch_from_dict d =
     bind_r (py_get d ''input_tokens'' (PInt 0)) (\<lambda>a.
     bind_r (py_get d ''output_tokens'' (PInt 0)) (\<lambda>b.
     bind_r (py_get d ''total_tokens'' (PInt 0)) (\<lambda>c.
     bind_r (py_get d ''input_token_details'' (PDict [])) (\<lambda>x.
     bind_r (py_get d ''output_token_details'' (PDict [])) (\<lambda>y.
       Inr (PDict [(''input_tokens'', a), (''output_tokens'', b), (''total_tokens'', c),
                   (''input_token_details'', x), (''output_token_details'', y)]))))))"

definition chatverlauf_from_dict :: "pyval \<Rightarrow> py_error + pyval" where
  "chatverlauf_from_dict d =
     bind_r (py_index d ''name'') (\<lambda>n.
     bind_r (bind_r (py_get d ''chatverlauf'' (PList [])) py_iter) (\<lambda>cs.
       Inr (PObj ''LLMChatverlauf'' [(''name'', n), (''chatverlauf'', PList cs)])))"

definition dict_werte_r :: "(pyval \<Rightarrow> py_error + pyval) \<Rightarrow> (string \<times> pyval) list \<Rightarrow> py_error + (string \<times> pyval) list" where
  "dict_werte_r f d = map_r (\<lambda>(k, v). bind_r (f v) (\<lambda>x. Inr (k, x))) d"

text \<open>\<open>data.get("tokenverbrauch", []).items()\<close>: the default list has no \<open>items\<close>.\<close>

definition py_items :: "pyval \<Rightarrow> py_error + (string \<times> pyval) list" where
  "py_items v = (case v of PDict d \<Rightarrow> Inr d | _ \<Rightarrow> Inl (AttributeError ''items''))"

definition llm_from_dict :: "pyval \<Rightarrow> py_error + pyval" where
  "llm_from_dict d =
     bind_r (bind_r (py_get d ''tokenverbrauch'' (PList [])) py_items) (\<lambda>tv.
     bind_r (dict_werte_r tokenverbrauch_from_dict tv) (\<lambda>tv'.
     bind_r (bind_r (py_get d ''chatverlaeufe'' (PList [])) py_iter) (\<lambda>cs.
     bind_r (map_r chatverlauf_from_dict cs) (\<lambda>cs'.
     bind_r (py_get d ''konfiguration'' (PDict [])) (\<lambda>k.
       Inr (PObj ''LLM'' [(''konfiguration'', k), (''tokenverbrauch'', PDict tv'), (''chatverlaeufe'', PList cs')]))))))"

text \<open>\<open>SiliconSamples.from_dict\<close>: a list of summaries is kept as it is, as is a prompt
  that is not already a \<open>Prompt\<close> instance.\<close>

definition ist_objekt :: "string \<Rightarrow> pyval \<Rightarrow> bool" where
  "ist_objekt c v = (case v of PObj c' _ \<Rightarrow> c' = c | _ \<Rightarrow> False)"

definition wenn_dict :: "(pyval \<Rightarrow> py_error + pyval) \<Rightarrow> pyval \<Rightarrow> py_error + pyval" where
  "wenn_dict f v = (if ist_dict v then f v else Inr v)"

definition referenzdokument_from_dict :: "pyval \<Rightarrow> py_error + pyval" where
  "referenzdokument_from_dict d =
     bind_r (py_index d ''id'') (\<lambda>i. bind_r (py_index d ''art'') (\<lambda>a.
     bind_r (py_index d ''name'') (\<lambda>n. bind_r (py_index d ''pfad'') (\<lambda>p.
     bind_r (py_get d ''erstellungsdatum'' (PStr [])) (\<lambda>e.
       Inr (PObj ''Referenzdokument'' [(''id'', i), (''art'', a), (''name'', n), (''pfad'', p), (''erstellungsdatum'', e)]))))))"

definition auswahl_from_dict :: "pyval \<Rightarrow> py_error + pyval" where
  "auswahl_from_dict d =
     bind_r (py_index d ''text_zusammenfassen'') (\<lambda>a.
     bind_r (py_index d ''text_zusammenfassen_mit_zahlen'') (\<lambda>b.
     bind_r (py_index d ''tabellen_extrahieren'') (\<lambda>c.
     bind_r (py_index d ''tabellen_zusammenfassen'') (\<lambda>e.
     bind_r (py_index d ''tabellen_zusammenfassen_mit_zahlen'') (\<lambda>f.
       Inr (PObj ''ZusammenfassungAuswahl''
         [(''text_zusammenfassen'', a), (''text_zusammenfassen_mit_zahlen'', b), (''tabellen_extrahieren'', c),
          (''tabellen_zusammenfassen'', e), (''tabellen_zusammenfassen_mit_zahlen'', f)]))))))"

definition zusammenfassung_from_dict :: "pyval \<Rightarrow> py_error + pyval" where
  "zusammenfassung_from_dict d =
     bind_r (bind_r (py_get d ''referenzdokument'' PNone) (wenn_dict referenzdokument_from_dict)) (\<lambda>r.
     bind_r (bind_r (py_get d ''zusammenfassung_auswahl'' PNone) (wenn_dict auswahl_from_dict)) (\<lambda>a.
     bind_r (bind_r (py_get d ''prompt'' (PDict [])) (wenn_dict prompt_from_dict)) (\<lambda>p.
     bind_r (bind_r (py_get d ''llm'' (PDict [])) (wenn_dict llm_from_dict)) (\<lambda>l.
     bind_r (py_index d ''erstellungsdatum'') (\<lambda>e.
     bind_r (py_index d ''text_extrahiert'') (\<lambda>te.
     bind_r (py_index d ''text_zusammengefasst'') (\<lambda>tz.
     bind_r (bind_r (py_get d ''tabellen_extrahiert'' (PList [])) py_iter) (\<lambda>xe.
     bind_r (bind_r (py_get d ''tabellen_zusammengefasst'' (PList [])) py_iter) (\<lambda>xz.
       Inr (PObj ''Zusammenfassung''
         [(''referenzdokument'', r), (''zusammenfassung_auswahl'', a), (''erstellungsdatum'', e),
          (''text_extrahiert'', te), (''text_zusammengefasst'', tz), (''tabellen_extrahiert'', PList xe),
          (''tabellen_zusammengefasst'', PList xz), (''prompt'', p), (''llm'', l)]))))))))))"

definition silicon_samples_from_dict :: "pyval \<Rightarrow> py_error + pyval" where
  "silicon_samples_from_dict d =
     bind_r (bind_r (py_get d ''zusammenfassungen'' (PList [])) (wenn_dict zusammenfassung_from_dict)) (\<lambda>zs.
     bind_r (bind_r (py_index d ''fragen'')
               (wenn_dict (\<lambda>v. bind_r (py_items v) (\<lambda>fs. bind_r (dict_werte_r frage_from_dict fs) (\<lambda>fs'. Inr (PDict fs')))))) (\<lambda>fs.
     bind_r (bind_r (py_index d ''antworten'')
               (wenn_dict (\<lambda>v. bind_r (py_items v) (\<lambda>as. bind_r (dict_werte_r antwort_from_dict as) (\<lambda>as'. Inr (PDict as')))))) (\<lambda>as.
     bind_r (bind_r (py_get d ''prompt'' (PDict []))
               (\<lambda>p. if ist_objekt ''Prompt'' p then bind_r (py_get p ''prompts'' (PDict [])) (\<lambda>_. prompt_from_dict p) else Inr p)) (\<lambda>p.
     bind_r (bind_r (py_get d ''llm'' (PDict [])) (wenn_dict llm_from_dict)) (\<lambda>l.
       Inr (PObj ''SiliconSamples''
         [(''zusammenfassungen'', zs), (''fragen'', fs), (''antworten'', as), (''prompt'', p), (''llm'', l)]))))))"

text \<open>\<open>datei_lesen(..., json_datei=True, cls=...)\<close> on the loaded value: one object, or a
  list of objects, or anything else unchanged; \<open>datei_speichern\<close> followed by it.\<close>

definition datei_lesen_json :: "(pyval \<Rightarrow> py_error + pyval) \<Rightarrow> pyval \<Rightarrow> py_error + pyval" where
  "datei_lesen_json from_dict v =
     (case v of
        PDict _ \<Rightarrow> from_dict v
      | PList xs \<Rightarrow> bind_r (map_r from_dict xs) (\<lambda>ys. Inr (PList ys))
      | _ \<Rightarrow> Inr v)"

definition speichern_laden :: "(pyval \<Rightarrow> py_error + pyval) \<Rightarrow> pyval \<Rightarrow> py_error + pyval" where
  "speichern_laden from_dict v = datei_lesen_json from_dict (dump v)"

subsection \<open>The dataclass instances of the typed model\<close>

definition opt_wert :: "opt \<Rightarrow> pyval" where
  "opt_wert o' = PObj ''Option'' [(''id'', PStr (opt_id o')), (''text'', PStr (opt_text o'))]"

definition thema_wert :: "thema \<Rightarrow> pyval" where
  "thema_wert t = PObj ''Thema'' [(''id'', PStr (th_id t)), (''text'', PStr (th_text t))]"

definition str_opt_wert :: "string option \<Rightarrow> pyval" where
  "str_opt_wert x = (case x of None \<Rightarrow> PNone | Some s \<Rightarrow> PStr s)"

definition frage_wert :: "frage \<Rightarrow> pyval" where
  "frage_wert f = PObj ''Frage''
     [(''id'', PStr (f_id f)), (''text'', PStr (f_text f)), (''optionen'', PList (map opt_wert (optionen f))),
      (''themen'', PList (map thema_wert (themen f))),
      (''uebergeordnete_frage_id'', str_opt_wert (uebergeordnete_frage_id f)),
      (''uebergeordnete_antwortoption_id'', str_opt_wert (uebergeordnete_antwortoption_id f)),
      (''uebergeordnete_themen_limit'', case uebergeordnete_themen_limit f of None \<Rightarrow> PNone | Some n \<Rightarrow> PInt n),
      (''uebergeordnete_themen_zufaellig'', PBool (uebergeordnete_themen_zufaellig f))]"

definition ato_wert :: "antwort_thema_option \<Rightarrow> pyval" where
  "ato_wert e = PObj ''AntwortThemaOption''
     [(''thema_key'', str_opt_wert (thema_key e)), (''thema_name'', str_opt_wert (thema_name e)),
      (''option_key'', PStr (option_key e))]"

definition antwort_wert :: "antwort \<Rightarrow> pyval" where
  "antwort_wert a = PObj ''Antwort'' [(''frage_id'', PStr (a_frage_id a)), (''auswahl'', PTuple (map ato_wert (auswahl a)))]"

record prompt_r =
  prompts :: "(string \<times> string) list"
  prompt_data :: "(string \<times> pyval) list"

definition prompt_wert :: "prompt_r \<Rightarrow> pyval" where
  "prompt_wert p = PObj ''Prompt'' [(''prompts'', PDict (map (map_prod id PStr) (prompts p))), (''prompt_data'', PDict (prompt_data p))]"

record token_r =
  input_tokens :: int
  output_tokens :: int
  total_tokens :: int
  input_token_details :: "(string \<times> pyval) list"
  output_token_details :: "(string \<times> pyval) list"

definition token_wert :: "token_r \<Rightarrow> pyval" where
  "token_wert t = PDict
     [(''input_tokens'', PInt (input_tokens t)), (''output_tokens'', PInt (output_tokens t)),
      (''total_tokens'', PInt (total_tokens t)), (''input_token_details'', PDict (input_token_details t)),
      (''output_token_details'', PDict (output_token_details t))]"

record llm_r =
  konfiguration :: "(string \<times> pyval) list"
  tokenverbrauch :: "(string \<times> token_r) list"
  chatverlaeufe :: "(string \<times> pyval list) list"

definition llm_wert :: "llm_r \<Rightarrow> pyval" where
  "llm_wert l = PObj ''LLM''
     [(''konfiguration'', PDict (konfiguration l)),
      (''tokenverbrauch'', PDict (map (map_prod id token_wert) (tokenverbrauch l))),
      (''chatverlaeufe'', PList (map (\<lambda>(n, cs). PObj ''LLMChatverlauf'' [(''name'', PStr n), (''chatverlauf'', PList cs)])
                                    (chatverlaeufe l)))]"

text \<open>A \<open>Zusammenfassung\<close> as \<open>starten\<close> of the summarizer builds it; the messages of the
  chat histories are the message objects with their content and type.\<close>

definition z_nachricht_wert :: "z_nachricht \<Rightarrow> pyval" where
  "z_nachricht_wert m =
     (case m of
        ZSystemNachricht c \<Rightarrow> PObj ''SystemMessage'' [(''content'', PStr c), (''type'', PStr ''system'')]
      | ZMenschNachricht c \<Rightarrow> PObj ''HumanMessage'' [(''content'', PStr c), (''type'', PStr ''human'')]
      | ZKINachricht c \<Rightarrow> PObj ''AIMessage'' [(''content'', PStr c), (''type'', PStr ''ai'')])"

definition referenzdokument_wert :: "referenzdokument \<Rightarrow> pyval" where
  "referenzdokument_wert r = PObj ''Referenzdokument''
     [(''id'', PStr (rd_id r)), (''art'', PStr (art r)), (''name'', PStr (rd_name r)), (''pfad'', PStr (pfad r)),
      (''erstellungsdatum'', PStr (rd_erstellungsdatum r))]"

definition auswahl_wert :: "zusammenfassung_auswahl \<Rightarrow> pyval" where
  "auswahl_wert a = PObj ''ZusammenfassungAuswahl''
     [(''text_zusammenfassen'', PBool (text_zusammenfassen a)),
      (''text_zusammenfassen_mit_zahlen'', PBool (text_zusammenfassen_mit_zahlen a)),
      (''tabellen_extrahieren'', PBool (tabellen_extrahieren a)),
      (''tabellen_zusammenfassen'', PBool (tabellen_zusammenfassen a)),
      (''tabellen_zusammenfassen_mit_zahlen'', PBool (tabellen_zusammenfassen_mit_zahlen a))]"

definition zusammenfassung_wert :: "zusammenfassung \<Rightarrow> prompt_r \<Rightarrow> llm_r \<Rightarrow> pyval" where
  "zusammenfassung_wert z p l = PObj ''Zusammenfassung''
     [(''referenzdokument'', referenzdokument_wert (z_referenzdokument z)),
      (''zusammenfassung_auswahl'', auswahl_wert (z_auswahl z)),
      (''erstellungsdatum'', PStr (z_erstellungsdatum z)),
      (''text_extrahiert'', PStr (text_extrahiert z)), (''text_zusammengefasst'', PStr (text_zusammengefasst z)),
      (''tabellen_extrahiert'', PList (map PStr (tabellen_extrahiert z))),
      (''tabellen_zusammengefasst'', PList (map PStr (tabellen_zusammengefasst z))),
      (''prompt'', prompt_wert p),
      (''llm'', llm_wert (l\<lparr>chatverlaeufe := map (map_prod id (map z_nachricht_wert)) (z_chatverlaeufe z)\<rparr>))]"

text \<open>Attribute access \<open>obj.name\<close> on an instance.\<close>

definition attr :: "pyval \<Rightarrow> string \<Rightarrow> pyval option" where
  "attr v k = (case v of PObj _ fs \<Rightarrow> map_of fs k | _ \<Rightarrow> None)"

text \<open>The \<open>SiliconSamples\<close> instance \<open>starten\<close> builds: the summaries it was given, the
  catalog and answers of the scheduler, the prompt, and the model record.\<close>

definition silicon_wert :: "pyval list \<Rightarrow> silicon_samples \<Rightarrow> prompt_r \<Rightarrow> llm_r \<Rightarrow> pyval" where
  "silicon_wert zs ss p l = PObj ''SiliconSamples''
     [(''zusammenfassungen'', PList zs),
      (''fragen'', PDict (map (map_prod id frage_wert) (ss_fragen ss))),
      (''antworten'', PDict (map (map_prod id antwort_wert) (ss_antworten ss))),
      (''prompt'', prompt_wert p), (''llm'', llm_wert l)]"

text \<open>The \<open>LLM\<close> instance \<open>LLM.from_dict\<close> rebuilds from a dumped one: the
  configuration and the usage records as dumped, the chat histories as instances whose
  messages are now dictionaries.\<close>

definition llm_geladen :: "llm_r \<Rightarrow> pyval" where
  "llm_geladen l = PObj ''LLM''
     [(''konfiguration'', dump (PDict (konfiguration l))),
      (''tokenverbrauch'', PDict (map (map_prod id (dump \<circ> token_wert)) (tokenverbrauch l))),
      (''chatverlaeufe'', PList (map (\<lambda>(n, cs). PObj ''LLMChatverlauf'' [(''name'', PStr n), (''chatverlauf'', PList (map dump cs))])
                                    (chatverlaeufe l)))]"

subsection \<open>Saving and reloading\<close>

lemma dump_dump [simp]: "dump (dump v) = dump v"
proof (induction v)
  case (PDict fs) then show ?case by (force simp: map_prod_def split_beta)
next
  case (PObj c fs) then show ?case by (force simp: map_prod_def split_beta)
qed (simp_all add: map_idI)

lemmas pv_defs = py_index_def py_get_def py_iter_def py_bool_def als_liste_def
  py_items_def wenn_dict_def str_opt_wert_def

lemma option_rt: "option_from_dict (dump (opt_wert o')) = Inr (opt_wert o')"
  by (simp add: option_from_dict_def opt_wert_def pv_defs)

lemma thema_rt: "thema_from_dict (dump (thema_wert t)) = Inr (thema_wert t)"
  by (simp add: thema_from_dict_def thema_wert_def pv_defs)

lemma map_r_map_cong: "(\<And>x. x \<in> set xs \<Longrightarrow> f (g x) = Inr (h x)) \<Longrightarrow> map_r f (map g xs) = Inr (map h xs)"
  by (induction xs) simp_all

lemma frage_rt: "frage_from_dict (dump (frage_wert f)) = Inr (frage_wert f)"
  by (simp add: frage_from_dict_def frage_wert_def pv_defs map_r_map_cong option_rt thema_rt
      split: option.split)

lemma ato_rt: "antwort_thema_option_from_dict (dump (ato_wert e)) = Inr (ato_wert e)"
  by (simp add: antwort_thema_option_from_dict_def ato_wert_def pv_defs split: option.split)

lemma antwort_rt: "antwort_from_dict (dump (antwort_wert a)) = Inr (antwort_wert a)"
  by (simp add: antwort_from_dict_def antwort_wert_def pv_defs map_r_map_cong ato_rt)


lemma map_prod_id_id [simp]: "map_prod id f (map_prod id g x) = map_prod id (\<lambda>y. f (g y)) x"
  by (cases x) simp

lemma prompt_rt:
  "prompt_from_dict (dump (prompt_wert p)) = Inr (prompt_wert (p\<lparr>prompt_data := map (map_prod id dump) (prompt_data p)\<rparr>))"
  by (simp add: prompt_from_dict_def prompt_wert_def pv_defs)

lemma token_rt: "tokenverbrauch_from_dict (dump (token_wert t)) = Inr (dump (token_wert t))"
  by (simp add: tokenverbrauch_from_dict_def token_wert_def pv_defs)

lemma dict_werte_r_map:
  "(\<And>x. x \<in> snd ` set d \<Longrightarrow> f (g x) = Inr (h x)) \<Longrightarrow>
   dict_werte_r f (map (map_prod id g) d) = Inr (map (map_prod id h) d)"
  by (induction d) (auto simp: dict_werte_r_def)

lemma llm_rt: "llm_from_dict (dump (llm_wert l)) = Inr (llm_geladen l)"
  by (simp add: llm_from_dict_def llm_wert_def llm_geladen_def pv_defs dict_werte_r_map token_rt
      map_r_map_cong chatverlauf_from_dict_def split_beta comp_def)

lemma dump_llm_geladen [simp]: "dump (llm_geladen l) = dump (llm_wert l)"
  by (simp add: llm_geladen_def llm_wert_def split_beta comp_def)


lemma referenzdokument_rt: "referenzdokument_from_dict (dump (referenzdokument_wert r)) = Inr (referenzdokument_wert r)"
  by (simp add: referenzdokument_from_dict_def referenzdokument_wert_def pv_defs)

lemma auswahl_rt: "auswahl_from_dict (dump (auswahl_wert a)) = Inr (auswahl_wert a)"
  by (simp add: auswahl_from_dict_def auswahl_wert_def pv_defs)

lemma wert_dict [simp]:
  "ist_dict (dump (referenzdokument_wert r))" "ist_dict (dump (auswahl_wert a))"
  "ist_dict (dump (llm_wert l))"
  by (simp_all add: referenzdokument_wert_def auswahl_wert_def llm_wert_def)

lemma zusammenfassung_laden:
  "\<exists>v. zusammenfassung_from_dict (dump (zusammenfassung_wert z p l)) = Inr v \<and>
       dump v = dump (zusammenfassung_wert z p l) \<and>
       attr v ''referenzdokument'' = Some (referenzdokument_wert (z_referenzdokument z)) \<and>
       attr v ''zusammenfassung_auswahl'' = Some (auswahl_wert (z_auswahl z)) \<and>
       map_option (ist_objekt ''Prompt'') (attr v ''prompt'') = Some True \<and>
       map_option (ist_objekt ''LLM'') (attr v ''llm'') = Some True"
  by (simp add: zusammenfassung_from_dict_def zusammenfassung_wert_def pv_defs attr_def
      referenzdokument_rt auswahl_rt prompt_rt llm_rt del: dump_llm_geladen)
    (simp add: ist_objekt_def prompt_wert_def llm_geladen_def llm_wert_def comp_def split_beta)

lemma dump_kein_objekt [simp]: "\<not> ist_objekt c (dump v)"
  by (cases v) (simp_all add: ist_objekt_def)

lemma silicon_laden:
  "speichern_laden silicon_samples_from_dict (silicon_wert zs ss p l) =
   Inr (PObj ''SiliconSamples''
     [(''zusammenfassungen'', PList (map dump zs)),
      (''fragen'', PDict (map (map_prod id frage_wert) (ss_fragen ss))),
      (''antworten'', PDict (map (map_prod id antwort_wert) (ss_antworten ss))),
      (''prompt'', dump (prompt_wert p)), (''llm'', llm_geladen l)])"
  by (simp add: speichern_laden_def datei_lesen_json_def silicon_samples_from_dict_def silicon_wert_def
      pv_defs llm_rt dict_werte_r_map frage_rt antwort_rt comp_def del: dump_llm_geladen)

lemma map_r_exists:
  "(\<And>x. x \<in> set xs \<Longrightarrow> \<exists>v. f (g x) = Inr v \<and> P x v) \<Longrightarrow>
   \<exists>vs. map_r f (map g xs) = Inr vs \<and> list_all2 P xs vs"
  by (induction xs) fastforce+

lemma speichern_laden_liste:
  "speichern_laden f (PList xs) = bind_r (map_r f (map dump xs)) (\<lambda>ys. Inr (PList ys))"
  by (simp add: speichern_laden_def datei_lesen_json_def)

text \<open>C27. Saving a list of summaries and reading the file back (the summary cache of
  the reference-document component) gives, for each summary, an instance that writes the
  same JSON again, with the reference document and the selection restored as instances
  and the prompt and the model record rebuilt as \<open>Prompt\<close> and \<open>LLM\<close> instances.\<close>

theorem zusammenfassungen_neu_laden:
  "\<exists>vs. speichern_laden zusammenfassung_from_dict (PList (map (\<lambda>(z, p, l). zusammenfassung_wert z p l) zs)) = Inr (PList vs) \<and>
        list_all2 (\<lambda>(z, p, l) v.
           dump v = dump (zusammenfassung_wert z p l) \<and>
           attr v ''referenzdokument'' = Some (referenzdokument_wert (z_referenzdokument z)) \<and>
           attr v ''zusammenfassung_auswahl'' = Some (auswahl_wert (z_auswahl z)) \<and>
           map_option (ist_objekt ''Prompt'') (attr v ''prompt'') = Some True \<and>
           map_option (ist_objekt ''LLM'') (attr v ''llm'') = Some True) zs vs"
proof -
  have "\<exists>vs. map_r zusammenfassung_from_dict (map (dump \<circ> (\<lambda>(z, p, l). zusammenfassung_wert z p l)) zs) = Inr vs \<and>
        list_all2 (\<lambda>(z, p, l) v.
           dump v = dump (zusammenfassung_wert z p l) \<and>
           attr v ''referenzdokument'' = Some (referenzdokument_wert (z_referenzdokument z)) \<and>
           attr v ''zusammenfassung_auswahl'' = Some (auswahl_wert (z_auswahl z)) \<and>
           map_option (ist_objekt ''Prompt'') (attr v ''prompt'') = Some True \<and>
           map_option (ist_objekt ''LLM'') (attr v ''llm'') = Some True) zs vs"
    apply (rule map_r_exists)
    subgoal for x using zusammenfassung_laden [of "fst x" "fst (snd x)" "snd (snd x)"] by (cases x) simp
    done
  then show ?thesis by (auto simp: speichern_laden_liste)
qed

text \<open>C28. Saving the \<open>SiliconSamples\<close> of a run and loading the file back (the result
  view of the generator) writes the same JSON again, and restores the question catalog and
  the answers as \<open>Frage\<close> and \<open>Antwort\<close> instances, the selections of the answers as
  tuples again.\<close>

theorem silicon_samples_neu_laden:
  "\<exists>v. speichern_laden silicon_samples_from_dict (silicon_wert zs ss p l) = Inr v \<and>
       dump v = dump (silicon_wert zs ss p l) \<and>
       attr v ''fragen'' = Some (PDict (map (map_prod id frage_wert) (ss_fragen ss))) \<and>
       attr v ''antworten'' = Some (PDict (map (map_prod id antwort_wert) (ss_antworten ss)))"
  unfolding silicon_laden by (simp add: attr_def silicon_wert_def comp_def)

text \<open>C29. The reloaded \<open>SiliconSamples\<close> is not the saved instance: \<open>from_dict\<close>
  rebuilds the prompt only when it already is a \<open>Prompt\<close> (the test is
  \<open>isinstance(prompt, Prompt)\<close> where the other constructors test \<open>dict\<close>), so the
  prompt stays a dictionary, and so do the summaries, which are converted only when the
  whole list is a dictionary.\<close>

theorem silicon_samples_prompt_bleibt_dict:
  "\<exists>v. speichern_laden silicon_samples_from_dict (silicon_wert zs ss p l) = Inr v \<and>
       attr v ''prompt'' = Some (dump (prompt_wert p)) \<and>
       \<not> ist_objekt ''Prompt'' (dump (prompt_wert p)) \<and>
       attr v ''zusammenfassungen'' = Some (PList (map dump zs)) \<and>
       v \<noteq> silicon_wert zs ss p l"
  unfolding silicon_laden by (simp add: attr_def silicon_wert_def prompt_wert_def ist_objekt_def)

text \<open>C30. \<open>LLM.from_dict\<close> on a record without \<open>tokenverbrauch\<close> raises
  \<open>AttributeError\<close>: the default of \<open>data.get("tokenverbrauch", [])\<close> is a list, which has
  no \<open>items\<close>.\<close>

theorem llm_ohne_tokenverbrauch:
  "map_of d ''tokenverbrauch'' = None \<Longrightarrow> llm_from_dict (PDict d) = Inl (AttributeError ''items'')"
  by (simp add: llm_from_dict_def pv_defs)

theorem llm_ohne_tokenverbrauch_witness:
  "llm_from_dict (PDict [(''konfiguration'', PDict [])]) = Inl (AttributeError ''items'')"
  using llm_ohne_tokenverbrauch [of "[(''konfiguration'', PDict [])]"] by simp

end
