(* ===== verification/Terminierung.thy ===== *)
theory Terminierung
  imports Orchestrator
begin

text \<open>
  A questionnaire on which the interview of \<open>Fragesteller.starten\<close> returns: a grid of
  top-level questions that share one list of topics (statements rated on a common scale),
  whose texts do not use the topic placeholder, answered by a respondent who gives the
  same option for every topic. The livelocks of the orchestrator theory need a follow-up
  question or a text with \<open>{{thema}}\<close>; without them the loop answers one question per
  iteration and stops after the last, so fuel of one more than the number of questions
  is enough.
\<close>

subsection \<open>Grid questionnaires\<close>

definition raster_frage :: "thema list \<Rightarrow> string \<Rightarrow> frage \<Rightarrow> bool" where
  "raster_frage ts o' q \<longleftrightarrow>
     uebergeordnete_frage_id q = None \<and> themen q = ts \<and> o' \<in> set (map opt_id (optionen q)) \<and>
     list_all (\<lambda>t. render_text (Some (f_text q)) [(''thema'', th_text t)] = f_text q) ts"

definition raster_katalog :: "thema list \<Rightarrow> string \<Rightarrow> frage list \<Rightarrow> bool" where
  "raster_katalog ts o' fs \<longleftrightarrow>
     ts \<noteq> [] \<and> distinct (map th_id ts) \<and> list_all (\<lambda>t. zeile_ok (th_id t) o') ts \<and>
     distinct (map f_id fs) \<and> list_all (raster_frage ts o') fs"

text \<open>The respondent: one line \<open>topic: option\<close> per topic, whatever it is asked.\<close>

definition raster_befragter :: "thema list \<Rightarrow> string \<Rightarrow> llm" where
  "raster_befragter ts o' = (\<lambda>msgs. antwort_text (map (\<lambda>t. (th_id t, o')) ts))"

definition raster_antwort :: "thema list \<Rightarrow> string \<Rightarrow> frage \<Rightarrow> string \<times> antwort" where
  "raster_antwort ts o' q =
     (f_id q, \<lparr>a_frage_id = f_id q,
               auswahl = map (\<lambda>t. \<lparr>thema_key = Some (th_id t), thema_name = None, option_key = o'\<rparr>) ts\<rparr>)"

definition raster_einheit :: "frage \<Rightarrow> strukturierte_frage" where
  "raster_einheit q = \<lparr>sf_frage_id = f_id q, themenkontexte = kontexte_ohne_parent q [],
                       antwortoptionen = optionen q, rohe_frage = q\<rparr>"

text \<open>Example: two statements rated for two brands on a two-point scale.\<close>

definition beispiel_raster_themen :: "thema list" where
  "beispiel_raster_themen = [\<lparr>th_id = ''a'', th_text = ''Marke A''\<rparr>, \<lparr>th_id = ''b'', th_text = ''Marke B''\<rparr>]"

definition beispiel_raster_frage :: "string \<Rightarrow> string \<Rightarrow> frage" where
  "beispiel_raster_frage i t = \<lparr>f_id = i, f_text = t,
     optionen = [\<lparr>opt_id = ''1'', opt_text = ''stimme zu''\<rparr>, \<lparr>opt_id = ''2'', opt_text = ''stimme nicht zu''\<rparr>],
     themen = beispiel_raster_themen, uebergeordnete_frage_id = None, uebergeordnete_antwortoption_id = None,
     uebergeordnete_themen_limit = None, uebergeordnete_themen_zufaellig = False\<rparr>"

definition beispiel_raster :: "frage list" where
  "beispiel_raster = [beispiel_raster_frage ''q1'' ''Die Marke ist modern.'', beispiel_raster_frage ''q2'' ''Die Marke ist guenstig.'']"

definition raster_eintrag :: "string \<Rightarrow> thema \<Rightarrow> antwort_thema_option" where
  "raster_eintrag o' t = \<lparr>thema_key = Some (th_id t), thema_name = None, option_key = o'\<rparr>"

text \<open>The state of the interview after the first \<open>i\<close> questions of a grid catalog.\<close>

definition raster_stand :: "thema list \<Rightarrow> string \<Rightarrow> frage list \<Rightarrow> nat \<Rightarrow> fragesteller_zustand \<Rightarrow> bool" where
  "raster_stand ts o' fs i s \<longleftrightarrow>
     fs_fm s = \<lparr>fragen = map (\<lambda>q. (f_id q, q)) fs, antworten = map (raster_antwort ts o') (take i fs),
                parent_themen_cache = Map.empty\<rparr> \<and>
     (fs_letzter s = None \<or> (\<exists>q' \<in> set (take i fs). fs_letzter s = Some (f_id q' @ ''-None'')))"

subsection \<open>The scheduler on a grid\<close>

lemma render_ohne_klammer: "CHR ''{'' \<notin> set s \<Longrightarrow> render_aux ctx s = s"
  by (induction s) (auto simp: match_placeholder_def)

lemma raster_fragen:
  "distinct (map f_id fs) \<Longrightarrow> dict_of_list f_id fs = map (\<lambda>q. (f_id q, q)) fs"
  using dict_of_list_distinct [of f_id fs "[]"] by (simp add: dict_of_list_def)

lemma raster_komplett:
  assumes "raster_frage ts o' q" "ts \<noteq> []"
    and "map_of (antworten fm) (f_id q) = None \<or> map_of (antworten fm) (f_id q) = Some (snd (raster_antwort ts o' q))"
  shows "ist_komplett_beantwortet z q fm = (map_of (antworten fm) (f_id q) \<noteq> None, fm)"
  using assms by (auto simp: ist_komplett_beantwortet_def raster_frage_def raster_antwort_def komplett_ohne_parent_def
    list_all_iff get_opt_def)

lemma raster_naechste_aux:
  assumes "list_all (raster_frage ts o') L" "ts \<noteq> []"
    and "\<forall>q \<in> set L. map_of (fragen fm) (f_id q) = Some q"
    and "\<forall>q \<in> set L. map_of (antworten fm) (f_id q) = None \<or> map_of (antworten fm) (f_id q) = Some (snd (raster_antwort ts o' q))"
  shows "naechste_frage_aux z (map (\<lambda>q. (f_id q, q)) L) fm =
     (case filter (\<lambda>q. map_of (antworten fm) (f_id q) = None) L of
        [] \<Rightarrow> Inr (None, fm)
      | q # _ \<Rightarrow> Inr (Some (raster_einheit q), fm))"
  using assms
proof (induction L)
  case (Cons q L)
  then have r: "raster_frage ts o' q" by simp
  then have d: "frage_darf_gestellt_werden fm (f_id q) = Inr True"
    using Cons.prems(3) by (simp add: frage_darf_gestellt_werden_def darf_gestellt_werden_def
      hat_uebergeordnete_frage_def raster_frage_def stripped_oder_none_def py_simps Let_def)
  have k: "frage_ist_komplett_beantwortet z (f_id q) fm = Inr (map_of (antworten fm) (f_id q) \<noteq> None, fm)"
    using Cons.prems(3,4) raster_komplett [OF r Cons.prems(2)] by (simp add: frage_ist_komplett_beantwortet_def)
  have b: "map_of (antworten fm) (f_id q) = None \<Longrightarrow> baue_strukturierte_frage z q fm = (raster_einheit q, fm)"
    using r by (simp add: baue_strukturierte_frage_def parent_von_def raster_frage_def raster_einheit_def)
  show ?case using Cons d k b by (auto simp: Let_def)
qed simp

subsection \<open>One unit, one graph run\<close>

lemma raster_eintragen_weiter:
  assumes "antworten fm = P @ [(fid, \<lparr>a_frage_id = fid, auswahl = A\<rparr>)]" "fid \<notin> fst ` set P"
    and "distinct (map th_id ts)" "Some ` th_id ` set ts \<inter> thema_key ` set A = {}"
  shows "fold (\<lambda>(key, v). antwort_hinzufuegen fid (Some key) None v) (map (\<lambda>t. (th_id t, o')) ts) fm =
     fm\<lparr>antworten := P @ [(fid, \<lparr>a_frage_id = fid, auswahl = A @ map (raster_eintrag o') ts\<rparr>)]\<rparr>"
  using assms
proof (induction ts arbitrary: A fm)
  case (Cons t ts)
  have f: "filter (\<lambda>e. thema_key e \<noteq> Some (th_id t)) A = A"
    using Cons.prems(4) by (force simp: filter_id_conv)
  let ?fm1 = "fm\<lparr>antworten := P @ [(fid, \<lparr>a_frage_id = fid, auswahl = A @ [raster_eintrag o' t]\<rparr>)]\<rparr>"
  have s1: "antwort_hinzufuegen fid (Some (th_id t)) None o' fm = ?fm1"
    using Cons.prems(1,2) f by (simp add: antwort_hinzufuegen_def dict_set_letzter raster_eintrag_def
      map_add_def map_of_eq_None_iff [THEN iffD2])
  have "fold (\<lambda>(key, v). antwort_hinzufuegen fid (Some key) None v) (map (\<lambda>t. (th_id t, o')) ts) ?fm1 =
     ?fm1\<lparr>antworten := P @ [(fid, \<lparr>a_frage_id = fid, auswahl = (A @ [raster_eintrag o' t]) @ map (raster_eintrag o') ts\<rparr>)]\<rparr>"
    by (rule Cons.IH) (use Cons.prems in \<open>auto simp: raster_eintrag_def\<close>)
  then show ?case by (simp add: s1)
qed simp

lemma raster_eintragen:
  assumes "map_of (antworten fm) (f_id q) = None" "distinct (map th_id ts)" "ts \<noteq> []"
  shows "fold (\<lambda>(key, v). antwort_hinzufuegen (f_id q) (Some key) None v) (map (\<lambda>t. (th_id t, o')) ts) fm =
     fm\<lparr>antworten := antworten fm @ [raster_antwort ts o' q]\<rparr>"
proof (cases ts)
  case (Cons t ts')
  have n: "f_id q \<notin> fst ` set (antworten fm)" using assms(1) by (simp add: map_of_eq_None_iff)
  let ?fm1 = "fm\<lparr>antworten := antworten fm @ [(f_id q, \<lparr>a_frage_id = f_id q, auswahl = [raster_eintrag o' t]\<rparr>)]\<rparr>"
  have s1: "antwort_hinzufuegen (f_id q) (Some (th_id t)) None o' fm = ?fm1"
    using assms(1) n by (simp add: antwort_hinzufuegen_def dict_set_def raster_eintrag_def)
  have "fold (\<lambda>(key, v). antwort_hinzufuegen (f_id q) (Some key) None v) (map (\<lambda>t. (th_id t, o')) ts') ?fm1 =
     ?fm1\<lparr>antworten := antworten fm @ [(f_id q, \<lparr>a_frage_id = f_id q, auswahl = [raster_eintrag o' t] @ map (raster_eintrag o') ts'\<rparr>)]\<rparr>"
    by (rule raster_eintragen_weiter) (use n assms(2) Cons in \<open>auto simp: raster_eintrag_def\<close>)
  then show ?thesis using Cons by (simp add: s1 raster_antwort_def raster_eintrag_def)
qed (use assms(3) in simp)

lemma raster_kontexte:
  assumes "raster_frage ts o' q" "ts \<noteq> []"
  shows "map composite_key (themenkontexte (raster_einheit q)) = map (\<lambda>t. Some (th_id t)) ts"
    and "\<forall>c \<in> set (themenkontexte (raster_einheit q)).
           text_gerendert c = f_text q \<and> parent_thema_key c = None \<and> parent_thema_text c = None"
    and "themenkontexte (raster_einheit q) \<noteq> []"
  using assms by (auto simp: raster_einheit_def kontexte_ohne_parent_def raster_frage_def list_all_iff)

lemma raster_notwendig:
  assumes "raster_frage ts o' q" "ts \<noteq> []" "k \<in> set (themenkontexte (raster_einheit q))"
  shows "notwendige_keys (raster_einheit q) k = Some ` th_id ` set ts"
proof -
  have "filter (\<lambda>c. text_gerendert c = text_gerendert k) (themenkontexte (raster_einheit q)) =
        themenkontexte (raster_einheit q)"
    using raster_kontexte(2) [OF assms(1,2)] assms(3) by (auto simp: filter_id_conv)
  then show ?thesis
    using arg_cong [OF raster_kontexte(1) [OF assms(1,2)], of set]
    by (simp add: notwendige_keys_def image_image)
qed

lemma raster_validieren:
  assumes "raster_frage ts o' q" "ts \<noteq> []" "distinct (map th_id ts)" "list_all (\<lambda>t. zeile_ok (th_id t) o') ts"
    and "k \<in> set (themenkontexte (raster_einheit q))"
  shows "antwort_validieren (raster_einheit q) k [] (raster_befragter ts o' msgs) = Inr (Gueltig (map (\<lambda>t. (th_id t, o')) ts))"
proof -
  let ?ps = "map (\<lambda>t. (th_id t, o')) ts"
  have ok: "list_all (\<lambda>(k, v). zeile_ok k v) ?ps" using assms(4) by (simp add: list_all_iff)
  have d: "distinct (map fst ?ps)" using assms(3) by (simp add: comp_def)
  have p: "llm_antwort_parsen (raster_befragter ts o' msgs) = Inr ?ps"
    using parse_zeilen_text [OF d _ ok, of "[]"] antwort_text_zeilen [OF ok]
    by (simp add: llm_antwort_parsen_def raster_befragter_def)
  have o: "o' \<in> erlaubte_values (raster_einheit q)"
    using assms(1) by (simp add: erlaubte_values_def raster_einheit_def raster_frage_def)
  have u: "dict_update [] ?ps = ?ps" using d by (simp add: dict_update_frisch)
  show ?thesis
    using raster_notwendig [OF assms(1,2,5)] p o u
    by (simp add: antwort_validieren_def Let_def filter_id_conv comp_def) (auto simp: image_iff)
qed

lemma raster_kontext_key:
  assumes "raster_frage ts o' q" "ts \<noteq> []" "k \<in> set (themenkontexte (raster_einheit q))"
  shows "kontext_key (raster_einheit q) k = f_id q @ ''-None''"
  using raster_kontexte(2) [OF assms(1,2)] assms(3)
  by (simp add: kontext_key_def raster_einheit_def py_str_opt_def)

lemma raster_einheit_bearbeiten:
  assumes r: "raster_frage ts o' q" "ts \<noteq> []" "distinct (map th_id ts)" "list_all (\<lambda>t. zeile_ok (th_id t) o') ts"
    and a: "map_of (antworten (fs_fm s)) (f_id q) = None"
    and l: "fs_letzter s \<noteq> Some (f_id q @ ''-None'')"
  shows "\<exists>cv cp. kontexte_bearbeiten (Suc n) (z, raster_befragter ts o', vorlage, personas, zs) (raster_einheit q)
                 (themenkontexte (raster_einheit q)) s =
          Some (Inr \<lparr>fs_fm = (fs_fm s)\<lparr>antworten := antworten (fs_fm s) @ [raster_antwort ts o' q]\<rparr>,
                     fs_letzter = Some (f_id q @ ''-None''), fs_chatverlaeufe = cv, fs_checkpoint = cp\<rparr>)"
proof -
  let ?sf = "raster_einheit q"
  let ?u = "(z, raster_befragter ts o', vorlage, personas, zs)"
  obtain k ks where ks: "themenkontexte ?sf = k # ks"
    using raster_kontexte(3) [OF r(1,2)] by (cases "themenkontexte ?sf") auto
  then have kin: "k \<in> set (themenkontexte ?sf)" by simp
  have kk: "kontext_key ?sf k = f_id q @ ''-None''" by (rule raster_kontext_key [OF r(1,2) kin])
  have pt: "parent_thema_text k = None" using raster_kontexte(2) [OF r(1,2)] kin by simp
  have v: "antwort_validieren ?sf k [] (raster_befragter ts o' msgs) = Inr (Gueltig (map (\<lambda>t. (th_id t, o')) ts))"
    for msgs by (rule raster_validieren [OF r kin])
  obtain out where g: "graph_aufrufen (Suc n) ?u ?sf k (fs_letzter s) (fs_checkpoint s) = Some (Inr out)"
    and go: "g_antworten out = map (\<lambda>t. (th_id t, o')) ts" "g_letzter_kontext_key out = Some (f_id q @ ''-None'')"
    using l kk v by (simp add: graph_aufrufen_def Let_def)
  let ?s1 = "\<lparr>fs_fm = fold (\<lambda>(key, v). antwort_hinzufuegen (sf_frage_id ?sf) (Some key) (parent_thema_text k) v)
                            (g_antworten out) (fs_fm s),
              fs_letzter = g_letzter_kontext_key out,
              fs_chatverlaeufe = fs_chatverlaeufe s @ [(''chatverlauf-'' @ kontext_key ?sf k, g_messages out)],
              fs_checkpoint = out\<rparr>"
  have f: "fs_fm ?s1 = (fs_fm s)\<lparr>antworten := antworten (fs_fm s) @ [raster_antwort ts o' q]\<rparr>"
    using raster_eintragen [OF a r(3,2)] go pt by (simp add: raster_einheit_def)
  have rest: "kontexte_bearbeiten (Suc n) ?u ?sf ks ?s1 = Some (Inr ?s1)"
    using raster_kontext_key [OF r(1,2)] ks go by (intro kontexte_uebersprungen) simp
  have "kontexte_bearbeiten (Suc n) ?u ?sf (themenkontexte ?sf) s = Some (Inr ?s1)"
    using ks l kk g rest by simp
  moreover have "?s1 = \<lparr>fs_fm = (fs_fm s)\<lparr>antworten := antworten (fs_fm s) @ [raster_antwort ts o' q]\<rparr>,
                     fs_letzter = Some (f_id q @ ''-None''), fs_chatverlaeufe = fs_chatverlaeufe ?s1, fs_checkpoint = out\<rparr>"
    using f go(2) by simp
  ultimately show ?thesis by metis
qed

subsection \<open>The interview loop\<close>

lemma raster_antwort_paar: "map (raster_antwort ts o') xs = map (\<lambda>x. (f_id x, snd (raster_antwort ts o' x))) xs"
  by (simp add: raster_antwort_def)

lemma raster_stand_fragen:
  assumes "raster_katalog ts o' fs" "raster_stand ts o' fs i s"
  shows "\<forall>q \<in> set fs. map_of (fragen (fs_fm s)) (f_id q) = Some q"
    and "\<forall>q \<in> set fs. map_of (antworten (fs_fm s)) (f_id q) = (if q \<in> set (take i fs) then Some (snd (raster_antwort ts o' q)) else None)"
proof -
  have inj: "inj_on f_id (set fs)" using assms(1) by (simp add: raster_katalog_def distinct_map)
  show "\<forall>q \<in> set fs. map_of (fragen (fs_fm s)) (f_id q) = Some q"
  proof
    fix q assume q: "q \<in> set fs"
    then have "inj_on f_id (insert q (set fs))" using inj by (simp add: insert_absorb)
    then show "map_of (fragen (fs_fm s)) (f_id q) = Some q"
      using assms(2) q map_of_schluessel [of f_id q fs id] by (simp add: raster_stand_def)
  qed
  show "\<forall>q \<in> set fs. map_of (antworten (fs_fm s)) (f_id q) = (if q \<in> set (take i fs) then Some (snd (raster_antwort ts o' q)) else None)"
  proof
    fix q assume q: "q \<in> set fs"
    have "inj_on f_id (insert q (set (take i fs)))"
      using inj_on_subset [OF inj] q by (auto dest: in_set_takeD)
    then show "map_of (antworten (fs_fm s)) (f_id q) = (if q \<in> set (take i fs) then Some (snd (raster_antwort ts o' q)) else None)"
      using assms(2) map_of_schluessel [of f_id q "take i fs" "\<lambda>q. snd (raster_antwort ts o' q)"] raster_antwort_paar
      by (simp add: raster_stand_def)
  qed
qed

lemma raster_offen:
  assumes "raster_katalog ts o' fs" "raster_stand ts o' fs i s"
  shows "filter (\<lambda>q. map_of (antworten (fs_fm s)) (f_id q) = None) fs = drop i fs"
proof -
  have d: "distinct fs" using assms(1) by (simp add: raster_katalog_def distinct_map)
  have "filter (\<lambda>q. map_of (antworten (fs_fm s)) (f_id q) = None) fs = filter (\<lambda>q. q \<notin> set (take i fs)) fs"
    using raster_stand_fragen(2) [OF assms] by (intro filter_cong) auto
  also have "\<dots> = filter (\<lambda>q. q \<notin> set (take i fs)) (take i fs @ drop i fs)" by simp
  also have "\<dots> = drop i fs"
    using d set_take_disj_set_drop_if_distinct [OF d, of i i] by (auto simp del: append_take_drop_id intro!: filter_True)
  finally show ?thesis .
qed

lemma raster_naechste:
  assumes "raster_katalog ts o' fs" "raster_stand ts o' fs i s"
  shows "naechste_frage z (fs_fm s) =
     (case drop i fs of [] \<Rightarrow> Inr (None, fs_fm s) | q # _ \<Rightarrow> Inr (Some (raster_einheit q), fs_fm s))"
proof -
  have "fragen (fs_fm s) = map (\<lambda>q. (f_id q, q)) fs" using assms(2) by (simp add: raster_stand_def)
  moreover have "list_all (raster_frage ts o') fs" "ts \<noteq> []" using assms(1) by (simp_all add: raster_katalog_def)
  ultimately show ?thesis
    using raster_naechste_aux [of ts o' fs "fs_fm s" z] raster_stand_fragen [OF assms] raster_offen [OF assms]
    by (simp add: naechste_frage_def)
qed

lemma raster_schleife:
  assumes "raster_katalog ts o' fs" "raster_stand ts o' fs i s" "i \<le> length fs"
  shows "\<exists>s'. starten_schleife (Suc (length fs - i)) (z, raster_befragter ts o', vorlage, personas, zs) s = Some (Inr s') \<and>
              raster_stand ts o' fs (length fs) s'"
  using assms(2,3)
proof (induction "length fs - i" arbitrary: i s)
  case 0
  then have "i = length fs" by simp
  with 0 show ?case using raster_naechste [OF assms(1) "0.prems"(1), of z] by simp
next
  case (Suc d)
  let ?q = "fs ! i"
  have i: "i < length fs" using Suc.hyps(2) by simp
  have dr: "drop i fs = ?q # drop (Suc i) fs" using i by (simp add: Cons_nth_drop_Suc)
  have k: "raster_katalog ts o' fs" by (rule assms(1))
  then have r: "raster_frage ts o' ?q" "ts \<noteq> []" "distinct (map th_id ts)" "list_all (\<lambda>t. zeile_ok (th_id t) o') ts"
    using i by (simp_all add: raster_katalog_def list_all_iff)
  have qin: "?q \<in> set fs" using i by simp
  have dfs: "distinct fs" using k by (simp add: raster_katalog_def distinct_map)
  have "?q \<in> set (drop i fs)" by (simp add: dr)
  then have dq: "?q \<notin> set (take i fs)"
    using set_take_disj_set_drop_if_distinct [OF dfs, of i i] by blast
  have a: "map_of (antworten (fs_fm s)) (f_id ?q) = None" using raster_stand_fragen(2) [OF k Suc.prems(1)] qin dq by simp
  have l: "fs_letzter s \<noteq> Some (f_id ?q @ ''-None'')"
  proof
    assume "fs_letzter s = Some (f_id ?q @ ''-None'')"
    then obtain q' where "q' \<in> set (take i fs)" "f_id q' = f_id ?q"
      using Suc.prems(1) by (auto simp: raster_stand_def)
    then show False using k dq qin by (auto simp: raster_katalog_def distinct_map inj_on_def dest: in_set_takeD)
  qed
  obtain cv cp where kb: "kontexte_bearbeiten (Suc d) (z, raster_befragter ts o', vorlage, personas, zs) (raster_einheit ?q)
                 (themenkontexte (raster_einheit ?q)) s =
          Some (Inr \<lparr>fs_fm = (fs_fm s)\<lparr>antworten := antworten (fs_fm s) @ [raster_antwort ts o' ?q]\<rparr>,
                     fs_letzter = Some (f_id ?q @ ''-None''), fs_chatverlaeufe = cv, fs_checkpoint = cp\<rparr>)"
    using raster_einheit_bearbeiten [OF r a l] by blast
  let ?s1 = "\<lparr>fs_fm = (fs_fm s)\<lparr>antworten := antworten (fs_fm s) @ [raster_antwort ts o' ?q]\<rparr>,
              fs_letzter = Some (f_id ?q @ ''-None''), fs_chatverlaeufe = cv, fs_checkpoint = cp\<rparr>"
  have st: "raster_stand ts o' fs (Suc i) ?s1"
    using Suc.prems(1) i by (auto simp: raster_stand_def take_Suc_conv_app_nth)
  have step: "starten_schleife (Suc (Suc d)) (z, raster_befragter ts o', vorlage, personas, zs) s =
      starten_schleife (Suc d) (z, raster_befragter ts o', vorlage, personas, zs) ?s1"
    by (subst starten_schleife.simps(2))
      (simp add: raster_naechste [OF k Suc.prems(1), of z] dr kb del: starten_schleife.simps)
  have "d = length fs - Suc i" using Suc.hyps(2) by simp
  from Suc.hyps(1) [OF this st] i obtain s' where
    "starten_schleife (Suc (length fs - Suc i)) (z, raster_befragter ts o', vorlage, personas, zs) ?s1 = Some (Inr s')"
    "raster_stand ts o' fs (length fs) s'" by auto
  then show ?case using step \<open>d = length fs - Suc i\<close> Suc.hyps(2) [symmetric] by (simp del: starten_schleife.simps)
qed

lemma raster_starten:
  assumes "raster_katalog ts o' fs" "Suc (length fs) \<le> n"
  shows "\<exists>cv. starten n (z, raster_befragter ts o', vorlage, personas, zs) fs [] =
           Some (Inr \<lparr>ss_fragen = dict_of_list f_id fs, ss_antworten = map (raster_antwort ts o') fs,
                      ss_chatverlaeufe = cv\<rparr>, [])"
proof -
  let ?s0 = "\<lparr>fs_fm = fragenmanager_init fs [], fs_letzter = None, fs_chatverlaeufe = [], fs_checkpoint = graph_leer\<rparr>"
  have d: "distinct (map f_id fs)" using assms(1) by (simp add: raster_katalog_def)
  have "raster_stand ts o' fs 0 ?s0"
    using raster_fragen [OF d] by (simp add: raster_stand_def fragenmanager_init_def)
  from raster_schleife [OF assms(1) this, of z vorlage personas zs] obtain s' where
    s': "starten_schleife (Suc (length fs)) (z, raster_befragter ts o', vorlage, personas, zs) ?s0 = Some (Inr s')"
    "raster_stand ts o' fs (length fs) s'" by (auto simp del: starten_schleife.simps)
  have "starten_schleife n (z, raster_befragter ts o', vorlage, personas, zs) ?s0 = Some (Inr s')"
    using starten_schleife_fuel [OF s'(1) assms(2)] .
  then show ?thesis
    using s'(2) raster_fragen [OF d] by (simp add: starten_def raster_stand_def reset_antworten_def)
qed

subsection \<open>Termination\<close>

text \<open>C31. On a grid questionnaire, answered by a respondent who gives one option to every
  topic, \<open>Fragesteller.starten\<close> returns: with fuel of one more than the number of
  questions, and any larger fuel, the loop ends with every question answered with that
  option for every topic, in catalog order, and leaves the shared answer store empty.\<close>

theorem raster_interview_terminiert:
  assumes "raster_katalog ts o' fs" "Suc (length fs) \<le> n"
  shows "\<exists>cv. starten n (z, raster_befragter ts o', vorlage, personas, zs) fs [] =
           Some (Inr \<lparr>ss_fragen = dict_of_list f_id fs, ss_antworten = map (raster_antwort ts o') fs,
                      ss_chatverlaeufe = cv\<rparr>, [])"
  using raster_starten [OF assms] .

theorem raster_interview_terminiert_witness:
  "raster_katalog beispiel_raster_themen ''1'' beispiel_raster \<and>
   (\<exists>cv. starten 3 (\<lambda>ck xs. xs, raster_befragter beispiel_raster_themen ''1'', \<lambda>n. n, False, []) beispiel_raster [] =
      Some (Inr \<lparr>ss_fragen = dict_of_list f_id beispiel_raster,
                 ss_antworten = map (raster_antwort beispiel_raster_themen ''1'') beispiel_raster,
                 ss_chatverlaeufe = cv\<rparr>, []))"
proof -
  have k: "raster_katalog beispiel_raster_themen ''1'' beispiel_raster"
    by (simp add: raster_katalog_def raster_frage_def beispiel_raster_def beispiel_raster_frage_def
        beispiel_raster_themen_def zeile_ok_def render_text_def render_ohne_klammer py_simps del: render_aux.simps)
  show ?thesis using k raster_interview_terminiert [OF k, of 3] by (simp add: beispiel_raster_def)
qed

end
