(* ===== verification/Antwortspeicher.thy ===== *)
theory Antwortspeicher
  imports Scheduler
begin

text \<open>
  The answer store of the spec (AnswerStore: per-question answers keyed by composite topic
  keys, a later entry for a key replacing the earlier one, emptied on reset) as an abstract
  map from question id and topic key to topic name and option, and the refinement of it by
  the association lists of \<open>Fragenmanager.antworten\<close>: recording an answer, committing a
  batch and resetting act on the abstraction as map update, map merge and the empty map.
\<close>

type_synonym speicher = "string \<times> string option \<Rightarrow> (string option \<times> string) option"

definition speicher_aufnehmen :: "speicher \<Rightarrow> string \<Rightarrow> string option \<Rightarrow> string option \<Rightarrow> string \<Rightarrow> speicher" where
  "speicher_aufnehmen m fid k n o' = m((fid, k) \<mapsto> (n, o'))"

definition speicher_leer :: speicher where
  "speicher_leer = Map.empty"

definition eintraege_abs :: "antwort_thema_option list \<Rightarrow> string option \<Rightarrow> (string option \<times> string) option" where
  "eintraege_abs es = map_of (map (\<lambda>e. (thema_key e, (thema_name e, option_key e))) es)"

definition antworten_abs :: "fragenmanager \<Rightarrow> speicher" where
  "antworten_abs fm = (\<lambda>(fid, k). case map_of (antworten fm) fid of None \<Rightarrow> None | Some a \<Rightarrow> eintraege_abs (auswahl a) k)"

lemma eintraege_abs_ersetzen:
  "eintraege_abs (filter (\<lambda>e. thema_key e \<noteq> k) es @ [\<lparr>thema_key = k, thema_name = n, option_key = o'\<rparr>]) =
   (eintraege_abs es)(k \<mapsto> (n, o'))"
  by (induction es) (auto simp: eintraege_abs_def fun_eq_iff map_add_def split: option.splits)

lemma eintraege_abs_einzeln:
  "eintraege_abs [\<lparr>thema_key = k, thema_name = n, option_key = o'\<rparr>] = [k \<mapsto> (n, o')]"
  by (simp add: eintraege_abs_def)

text \<open>C32. The answer store of \<open>Fragenmanager\<close> refines the abstract answer store:
  \<open>antwort_hinzufuegen\<close> is the update of one (question, topic key) entry, committing the
  batch of a graph run as \<open>starten\<close> does is the sequence of these updates (a later entry for
  a key replaces the earlier one), and \<open>reset_antworten\<close> gives the empty store.\<close>

theorem antwortspeicher_verfeinerung:
  "antworten_abs (antwort_hinzufuegen fid k n o' fm) = speicher_aufnehmen (antworten_abs fm) fid k n o' \<and>
   antworten_abs (fold (\<lambda>(key, v). antwort_hinzufuegen fid (Some key) n v) batch fm) =
     fold (\<lambda>(key, v) m. speicher_aufnehmen m fid (Some key) n v) batch (antworten_abs fm) \<and>
   antworten_abs (reset_antworten fm) = speicher_leer"
proof -
  have schritt: "antworten_abs (antwort_hinzufuegen fid k' n' v fm') = speicher_aufnehmen (antworten_abs fm') fid k' n' v"
    for k' n' v fm'
    by (auto simp: antworten_abs_def speicher_aufnehmen_def antwort_hinzufuegen_def Let_def fun_eq_iff
        eintraege_abs_ersetzen eintraege_abs_einzeln split: option.splits)
  have "antworten_abs (fold (\<lambda>(key, v). antwort_hinzufuegen fid (Some key) n v) batch fm') =
     fold (\<lambda>(key, v) m. speicher_aufnehmen m fid (Some key) n v) batch (antworten_abs fm')" for fm'
    by (induction batch arbitrary: fm') (auto simp: schritt)
  moreover have "antworten_abs (reset_antworten fm) = speicher_leer"
    by (simp add: antworten_abs_def reset_antworten_def speicher_leer_def fun_eq_iff)
  ultimately show ?thesis by (simp add: schritt)
qed

end
