(* ===== verification/Anzeige.thy ===== *)
theory Anzeige
  imports Persistence
begin

text \<open>
  The result view of the generator (siliconsamplesgenerator_api.py: the token metric, the
  persona of a repetition, the answer table and the chat histories) and the helpers of
  shared/generator.py it calls (\<open>format_number\<close>, \<open>tokenverbrauch_summieren\<close>,
  \<open>parse_content\<close>, \<open>parse_chatverlauf\<close>), on the values \<open>datei_lesen\<close> returns.
  \<open>str()\<close> and \<open>repr()\<close> of the values of \<open>pyval\<close> are written out (Latin-1 strings,
  the dataclass \<open>__repr__\<close> for instances).
\<close>

subsection \<open>\<open>str\<close> and \<open>repr\<close>\<close>

definition ziffer :: "nat \<Rightarrow> char" where
  "ziffer n = ''0123456789abcdef'' ! min n 15"

fun nat_ziffern :: "nat \<Rightarrow> string" where
  "nat_ziffern n = (if n < 10 then [ziffer n] else nat_ziffern (n div 10) @ [ziffer (n mod 10)])"

declare nat_ziffern.simps [simp del]

definition py_int_str :: "int \<Rightarrow> string" where
  "py_int_str i = (if i < 0 then ''-'' @ nat_ziffern (nat (- i)) else nat_ziffern (nat i))"

text \<open>\<open>str.isprintable\<close> on Latin-1: not the controls, not U+00A0 (a space separator) and
  not U+00AD (a format character).\<close>

definition py_druckbar :: "char \<Rightarrow> bool" where
  "py_druckbar c \<longleftrightarrow> (let n = of_char c :: nat in (32 \<le> n \<and> n < 127) \<or> (161 \<le> n \<and> n \<noteq> 173))"

text \<open>\<open>repr(s)\<close> of a string: single quotes unless the string contains a single quote and
  no double quote; backslash, the quote, tab, newline and carriage return escaped, every
  other non-printable character as \<open>\xNN\<close>.\<close>

definition py_repr_zeichen :: "char \<Rightarrow> char \<Rightarrow> string" where
  "py_repr_zeichen q c =
     (if c = q \<or> c = CHR 0x5C then [CHR 0x5C, c]
      else if c = CHR 0x09 then [CHR 0x5C, CHR ''t'']
      else if c = CHR 0x0A then [CHR 0x5C, CHR ''n'']
      else if c = CHR 0x0D then [CHR 0x5C, CHR ''r'']
      else if py_druckbar c then [c]
      else [CHR 0x5C, CHR ''x'', ziffer (of_char c div 16), ziffer (of_char c mod 16)])"

definition py_repr_str :: "string \<Rightarrow> string" where
  "py_repr_str s =
     (let q = (if CHR 0x27 \<in> set s \<and> CHR 0x22 \<notin> set s then CHR 0x22 else CHR 0x27)
      in q # concat (map (py_repr_zeichen q) s) @ [q])"

fun py_repr :: "pyval \<Rightarrow> string" where
  "py_repr PNone = ''None''"
| "py_repr (PBool b) = (if b then ''True'' else ''False'')"
| "py_repr (PInt i) = py_int_str i"
| "py_repr (PStr s) = py_repr_str s"
| "py_repr (PList xs) = ''['' @ py_join '', '' (map py_repr xs) @ '']''"
| "py_repr (PTuple xs) =
     (case xs of [x] \<Rightarrow> ''('' @ py_repr x @ '',)'' | _ \<Rightarrow> ''('' @ py_join '', '' (map py_repr xs) @ '')'')"
| "py_repr (PDict fs) = ''{'' @ py_join '', '' (map (\<lambda>(k, v). py_repr_str k @ '': '' @ py_repr v) fs) @ ''}''"
| "py_repr (PObj c fs) = c @ ''('' @ py_join '', '' (map (\<lambda>(k, v). k @ ''='' @ py_repr v) fs) @ '')''"

definition py_str :: "pyval \<Rightarrow> string" where
  "py_str v = (case v of PStr s \<Rightarrow> s | _ \<Rightarrow> py_repr v)"

subsection \<open>Numbers and token usage (generator.py)\<close>

text \<open>\<open>f"{n:,}"\<close>: the digits of \<open>|n|\<close> in groups of three from the right, separated by
  commas, after the sign; \<open>gruppieren\<close> works on the reversed digits.\<close>

fun gruppieren :: "string \<Rightarrow> string" where
  "gruppieren (a # b # c # d # r) = a # b # c # CHR '','' # gruppieren (d # r)"
| "gruppieren r = r"

text \<open>The groups \<open>gruppieren\<close> separates: three characters each, the rest last.\<close>

fun dreier :: "'a list \<Rightarrow> 'a list list" where
  "dreier (a # b # c # d # r) = [a, b, c] # dreier (d # r)"
| "dreier r = [r]"

definition format_komma :: "int \<Rightarrow> string" where
  "format_komma n = (if n < 0 then ''-'' else []) @ rev (gruppieren (rev (nat_ziffern (nat \<bar>n\<bar>))))"

text \<open>\<open>format_number\<close>: \<open>.replace(",", ".")\<close> of a one-character string replaces every
  comma.\<close>

definition format_number :: "int \<Rightarrow> string" where
  "format_number n = map (\<lambda>c. if c = CHR '','' then CHR ''.'' else c) (format_komma n)"

text \<open>\<open>anzahl_token += value.get("total_tokens", 0)\<close>: an \<open>int\<close> (or \<open>bool\<close>) is added,
  anything else raises \<open>TypeError\<close>.\<close>

definition py_int_addieren :: "int \<Rightarrow> pyval \<Rightarrow> py_error + int" where
  "py_int_addieren a v =
     (case v of PInt i \<Rightarrow> Inr (a + i) | PBool b \<Rightarrow> Inr (a + (if b then 1 else 0))
      | _ \<Rightarrow> Inl (TypeError ''unsupported operand type(s) for +=''))"

fun token_summe :: "int \<Rightarrow> (string \<times> pyval) list \<Rightarrow> py_error + int" where
  "token_summe a [] = Inr a"
| "token_summe a ((k, v) # r) =
     bind_r (py_get v ''total_tokens'' (PInt 0)) (\<lambda>t. bind_r (py_int_addieren a t) (\<lambda>a'. token_summe a' r))"

definition tokenverbrauch_summieren :: "pyval \<Rightarrow> py_error + int" where
  "tokenverbrauch_summieren tv = bind_r (py_items tv) (token_summe 0)"

subsection \<open>Message contents (generator.py)\<close>

text \<open>\<open>old\<close> replaced by \<open>new\<close> left to right, for a non-empty \<open>old\<close> (\<open>str.replace\<close>).\<close>

fun py_replace :: "string \<Rightarrow> string \<Rightarrow> string \<Rightarrow> string" where
  "py_replace old new [] = []"
| "py_replace old new (c # cs) =
     (if old \<noteq> [] \<and> take (length old) (c # cs) = old then new @ py_replace old new (drop (length old - 1) cs)
      else c # py_replace old new cs)"

text \<open>Attribute access \<open>obj.name\<close>: only instances have attributes.\<close>

definition py_attr :: "pyval \<Rightarrow> string \<Rightarrow> py_error + pyval" where
  "py_attr v k = (case v of PObj _ fs \<Rightarrow> (case map_of fs k of Some x \<Rightarrow> Inr x | None \<Rightarrow> Inl (AttributeError k))
                  | _ \<Rightarrow> Inl (AttributeError k))"

text \<open>One element of a list content: a string, the \<open>text\<close> or else the \<open>content\<close> string
  of a block, else its \<open>str\<close>.\<close>

definition block_text :: "pyval \<Rightarrow> string" where
  "block_text item =
     (case item of
        PStr s \<Rightarrow> s
      | PDict d \<Rightarrow> (case map_of d ''text'' of Some (PStr s) \<Rightarrow> s
                   | _ \<Rightarrow> (case map_of d ''content'' of Some (PStr s) \<Rightarrow> s | _ \<Rightarrow> py_str item))
      | _ \<Rightarrow> py_str item)"

definition inhalt_text :: "pyval \<Rightarrow> pyval \<Rightarrow> string" where
  "inhalt_text t c =
     (case c of
        PStr s \<Rightarrow> s
      | PDict d \<Rightarrow> (case t of PStr ty \<Rightarrow> (case map_of d ty of Some v \<Rightarrow> py_str v | None \<Rightarrow> py_str c) | _ \<Rightarrow> py_str c)
      | PList items \<Rightarrow> py_join [CHR 0x0A] (filter (\<lambda>p. p \<noteq> []) (map block_text items))
      | PNone \<Rightarrow> []
      | _ \<Rightarrow> py_str c)"

definition parse_content :: "pyval \<Rightarrow> py_error + string" where
  "parse_content msg =
     bind_r (py_get msg ''type'' PNone) (\<lambda>t. bind_r (py_get msg ''content'' PNone) (\<lambda>c. Inr (inhalt_text t c)))"

definition parse_chatverlauf :: "pyval \<Rightarrow> py_error + (string \<times> string) list" where
  "parse_chatverlauf cv =
     bind_r (py_iter cv) (map_r (\<lambda>msg.
       bind_r (py_get msg ''type'' (PStr [])) (\<lambda>t. bind_r (parse_content msg) (\<lambda>c. Inr (py_str t, c)))))"

subsection \<open>The result view (siliconsamplesgenerator_api.py)\<close>

text \<open>\<open>hole_persona_fuer_wiederholung\<close>: the personas in turn; \<open>None\<close> without personas.
  Python's \<open>%\<close> with a positive divisor is \<open>mod\<close>.\<close>

definition hole_persona_fuer_wiederholung :: "'a list \<Rightarrow> int \<Rightarrow> 'a option" where
  "hole_persona_fuer_wiederholung ps w = (if ps = [] then None else Some (ps ! nat (w mod int (length ps))))"

text \<open>The \<open>prompt_data\<close> the generator page gives every \<open>Fragesteller\<close>
  (siliconsamplesgenerator.py): the repetition, the persona flag, the persona of the
  repetition and the list of personas.\<close>

definition seiten_prompt_data :: "int \<Rightarrow> bool \<Rightarrow> pyval list \<Rightarrow> (string \<times> pyval) list" where
  "seiten_prompt_data w pn ps =
     [(''aktuelle_wiederholung'', PInt w), (''personas_nutzen'', PBool pn),
      (''aktuelle_persona'', if pn then (case hole_persona_fuer_wiederholung ps w of Some x \<Rightarrow> x | None \<Rightarrow> PNone) else PNone),
      (''personas'', if pn then PList ps else PNone)]"

text \<open>The columns of one row of the answer table, from the parts of the topic key.\<close>

definition thema_key_teile :: "string \<Rightarrow> string \<times> string \<times> string" where
  "thema_key_teile tk =
     (let parts = py_split tk ''::'' in
      if 1 < length parts then
        (if 2 < length parts then (parts ! 0, parts ! 1, parts ! 2) else (parts ! 0, [], parts ! 1))
      else ([], [], tk))"

text \<open>\<open>Frage.thema_text\<close> and \<open>Frage.option_text\<close> on the loaded instance.\<close>

fun finde_text :: "string \<Rightarrow> pyval list \<Rightarrow> py_error + pyval" where
  "finde_text k [] = Inr PNone"
| "finde_text k (t # ts) = bind_r (py_attr t ''id'') (\<lambda>i. if i = PStr k then py_attr t ''text'' else finde_text k ts)"

definition frage_text_zu :: "string \<Rightarrow> pyval \<Rightarrow> string \<Rightarrow> py_error + pyval" where
  "frage_text_zu feld f k = bind_r (py_attr f feld) (\<lambda>xs. bind_r (py_iter xs) (finde_text k))"

definition oder_leer :: "pyval \<Rightarrow> pyval" where
  "oder_leer v = (if py_bool v then v else PStr [])"

text \<open>One row of \<open>streamlit_siliconsamples_dataframe\<close>: \<open>thema_key.split("::")\<close> (an
  attribute error for a missing key), then the question, its text and the texts of the
  topic and the option.\<close>

definition tabellen_zeile :: "pyval \<Rightarrow> string \<Rightarrow> pyval \<Rightarrow> py_error + (string \<times> pyval) list" where
  "tabellen_zeile fr fid item =
     bind_r (py_attr item ''thema_key'') (\<lambda>tk. bind_r (py_attr item ''option_key'') (\<lambda>ok.
     case tk of
       PStr key \<Rightarrow>
         (let (mf, mt, kt) = thema_key_teile key in
          bind_r (py_get fr fid PNone) (\<lambda>f. bind_r (py_attr f ''text'') (\<lambda>ft.
          bind_r (frage_text_zu ''themen'' f kt) (\<lambda>tt.
          bind_r (case ok of PStr o' \<Rightarrow> frage_text_zu ''optionen'' f o' | _ \<Rightarrow> Inr PNone) (\<lambda>ot.
            Inr [(''Frage-ID'', PStr fid), (''Frage-Text'', ft), (''Mutter-Frage'', PStr mf), (''Mutter-Thema'', PStr mt),
                 (''Thema-ID'', PStr kt), (''Thema-Text'', oder_leer tt), (''Antwortoption-ID'', ok),
                 (''Antwortoption-Text'', oder_leer ot)])))))
     | _ \<Rightarrow> Inl (AttributeError ''split'')))"

definition siliconsamples_tabelle :: "pyval \<Rightarrow> py_error + (string \<times> pyval) list list" where
  "siliconsamples_tabelle s =
     bind_r (py_attr s ''fragen'') (\<lambda>fr. bind_r (py_attr s ''antworten'') (\<lambda>ant. bind_r (py_items ant) (\<lambda>items.
     bind_r (map_r (\<lambda>(fid, a). bind_r (py_attr a ''auswahl'') (\<lambda>aw. bind_r (py_iter aw) (map_r (tabellen_zeile fr fid))))
                   items) (\<lambda>rows. Inr (concat rows)))))"

text \<open>The header of \<open>streamlit_siliconsamples_anzeigen\<close>: the formatted token total, the
  persona flag and, when it is set, the persona.\<close>

definition anzeige_kopf :: "pyval \<Rightarrow> py_error + string \<times> pyval \<times> pyval option" where
  "anzeige_kopf s =
     bind_r (py_attr s ''llm'') (\<lambda>l. bind_r (py_attr l ''tokenverbrauch'') (\<lambda>tv. bind_r (tokenverbrauch_summieren tv) (\<lambda>n.
     bind_r (py_attr s ''prompt'') (\<lambda>p. bind_r (py_get p ''prompt_data'' (PDict [])) (\<lambda>pd.
     bind_r (py_get pd ''personas_nutzen'' (PBool False)) (\<lambda>pn.
       if py_bool pn then bind_r (py_get pd ''aktuelle_persona'' (PDict [])) (\<lambda>per. Inr (format_number n, pn, Some per))
       else Inr (format_number n, pn, None)))))))"

text \<open>The chat histories: a history whose entries are all lists is one history per table;
  the role shown is the message type with \<open>system\<close> replaced by \<open>user\<close>.\<close>

definition chat_anzeige :: "pyval \<Rightarrow> py_error + string \<times> (string \<times> string) list list" where
  "chat_anzeige cv =
     bind_r (py_attr cv ''name'') (\<lambda>n. bind_r (py_attr cv ''chatverlauf'') (\<lambda>xs. bind_r (py_iter xs) (\<lambda>items.
     bind_r (if list_all (\<lambda>x. case x of PList _ \<Rightarrow> True | _ \<Rightarrow> False) items then map_r parse_chatverlauf items
             else bind_r (parse_chatverlauf xs) (\<lambda>m. Inr [m])) (\<lambda>ms.
       Inr (py_str n, map (map (\<lambda>(t, c). (py_replace ''system'' ''user'' t, c))) ms)))))"

definition siliconsamples_anzeigen ::
  "pyval \<Rightarrow> py_error + (string \<times> pyval \<times> pyval option) \<times> (string \<times> pyval) list list \<times> (string \<times> (string \<times> string) list list) list" where
  "siliconsamples_anzeigen s =
     bind_r (anzeige_kopf s) (\<lambda>k. bind_r (siliconsamples_tabelle s) (\<lambda>t.
     bind_r (py_attr s ''llm'') (\<lambda>l. bind_r (py_attr l ''chatverlaeufe'') (\<lambda>cvs. bind_r (py_iter cvs) (\<lambda>cs.
     bind_r (map_r chat_anzeige cs) (\<lambda>chats. Inr (k, t, chats)))))))"

subsection \<open>Examples\<close>

definition beispiel_ss :: silicon_samples where
  "beispiel_ss = \<lparr>ss_fragen = [(''P'', beispiel_p), (''K'', beispiel_k)],
     ss_antworten = [(''P'', \<lparr>a_frage_id = ''P'', auswahl = [\<lparr>thema_key = Some ''A'', thema_name = None, option_key = ''ja''\<rparr>]\<rparr>),
                     (''K'', \<lparr>a_frage_id = ''K'', auswahl = [\<lparr>thema_key = Some ''P::A'', thema_name = Some ''Marke A'', option_key = ''1''\<rparr>]\<rparr>)],
     ss_chatverlaeufe = []\<rparr>"

definition beispiel_prompt :: prompt_r where
  "beispiel_prompt = \<lparr>prompts = [(''fragen_intro_mit_persona_ohne_referenzen'', ''Du bist {name}.'')],
     prompt_data = seiten_prompt_data 3 True [PDict [(''name'', PStr ''Anna'')], PDict [(''name'', PStr ''Ben'')]]\<rparr>"

definition beispiel_llm :: llm_r where
  "beispiel_llm = \<lparr>konfiguration = [(''model'', PStr ''m'')],
     tokenverbrauch = [(''m'', \<lparr>input_tokens = 1200, output_tokens = 300, total_tokens = 1500,
                              input_token_details = [], output_token_details = []\<rparr>)],
     chatverlaeufe = []\<rparr>"

subsection \<open>Number formatting\<close>

lemma dreier_nicht_leer: "dreier r \<noteq> []"
  by (cases r rule: dreier.cases) simp_all

lemma gruppieren_dreier: "gruppieren r = py_join '','' (dreier r)"
  by (induction r rule: gruppieren.induct) (simp_all add: py_join_Cons dreier_nicht_leer)

lemma concat_dreier: "concat (dreier r) = r"
  by (induction r rule: dreier.induct) auto

lemma dreier_laengen:
  "r \<noteq> [] \<Longrightarrow> dreier r \<noteq> [] \<and> list_all (\<lambda>g. length g = 3) (butlast (dreier r)) \<and>
     1 \<le> length (last (dreier r)) \<and> length (last (dreier r)) \<le> 3"
  by (induction r rule: dreier.induct) auto

lemma dreier_teile: "g \<in> set (dreier r) \<Longrightarrow> set g \<subseteq> set r"
  by (induction r rule: dreier.induct) auto

lemma ziffer_kein_komma: "ziffer n \<noteq> CHR '',''"
proof -
  have "ziffer n \<in> set ''0123456789abcdef''" unfolding ziffer_def by (rule nth_mem) simp
  then show ?thesis by auto
qed

lemma nat_ziffern_zeichen: "set (nat_ziffern n) \<subseteq> range ziffer"
  by (induction n rule: nat_ziffern.induct) (subst nat_ziffern.simps, auto)

lemma nat_ziffern_nicht_leer: "nat_ziffern n \<noteq> []"
  by (subst nat_ziffern.simps) simp

lemma ziffer_inj: "n < 16 \<Longrightarrow> m < 16 \<Longrightarrow> ziffer n = ziffer m \<Longrightarrow> n = m"
  unfolding ziffer_def by (simp add: nth_eq_iff_index_eq)

lemma nat_ziffern_lang: "10 \<le> n \<Longrightarrow> 2 \<le> length (nat_ziffern n)"
  by (subst nat_ziffern.simps) (simp add: nat_ziffern_nicht_leer Suc_le_eq)

lemma nat_ziffern_inj: "nat_ziffern n = nat_ziffern m \<Longrightarrow> n = m"
proof (induction n arbitrary: m rule: less_induct)
  case (less n)
  show ?case
  proof (cases "n < 10 \<and> m < 10")
    case True
    with less.prems show ?thesis by (subst (asm) (1 2) nat_ziffern.simps) (simp add: ziffer_inj)
  next
    case False
    have "10 \<le> n \<and> 10 \<le> m"
    proof (rule ccontr)
      assume "\<not> (10 \<le> n \<and> 10 \<le> m)"
      with False have "(n < 10 \<and> 10 \<le> m) \<or> (10 \<le> n \<and> m < 10)" by auto
      then show False
        using less.prems nat_ziffern_lang [of m] nat_ziffern_lang [of n] by (auto simp: nat_ziffern.simps)
    qed
    then have n: "nat_ziffern n = nat_ziffern (n div 10) @ [ziffer (n mod 10)]"
      and m: "nat_ziffern m = nat_ziffern (m div 10) @ [ziffer (m mod 10)]"
      by (simp_all add: nat_ziffern.simps)
    from less.prems n m have "nat_ziffern (n div 10) = nat_ziffern (m div 10)" "ziffer (n mod 10) = ziffer (m mod 10)"
      by simp_all
    with less.IH [of "n div 10"] \<open>10 \<le> n \<and> 10 \<le> m\<close> have "n div 10 = m div 10" "n mod 10 = m mod 10"
      by (auto intro: ziffer_inj)
    then show ?thesis by (metis div_mult_mod_eq)
  qed
qed

text \<open>C33. \<open>format_number\<close> writes the sign and then the decimal digits of \<open>|n|\<close>, unchanged
  and in order, in groups separated by dots: the first group has one to three digits, every
  other group exactly three.\<close>

theorem format_number_gruppen:
  "\<exists>gs. format_number n = (if n < 0 then ''-'' else []) @ py_join ''.'' gs \<and>
        concat gs = nat_ziffern (nat \<bar>n\<bar>) \<and> gs \<noteq> [] \<and>
        1 \<le> length (hd gs) \<and> length (hd gs) \<le> 3 \<and> list_all (\<lambda>g. length g = 3) (tl gs)"
proof -
  let ?ds = "nat_ziffern (nat \<bar>n\<bar>)"
  let ?gs = "rev (map rev (dreier (rev ?ds)))"
  have ne: "rev ?ds \<noteq> []" by (simp add: nat_ziffern_nicht_leer)
  have kk: "\<forall>g \<in> set ?gs. CHR '','' \<notin> set g"
    using dreier_teile [of _ "rev ?ds"] nat_ziffern_zeichen [of "nat \<bar>n\<bar>"] ziffer_kein_komma by fastforce
  have "format_komma n = (if n < 0 then ''-'' else []) @ py_join '','' ?gs"
    by (simp add: format_komma_def gruppieren_dreier rev_py_join)
  then have f: "format_number n = (if n < 0 then ''-'' else []) @ py_join ''.'' ?gs"
    using py_join_ersetzen [OF kk, of "CHR ''.''"] by (simp add: format_number_def)
  have c: "concat ?gs = ?ds" by (simp only: concat_rev_rev concat_dreier rev_rev_ident)
  have h: "hd ?gs = rev (last (dreier (rev ?ds)))" by (simp add: hd_rev last_map dreier_nicht_leer)
  have t: "tl ?gs = rev (map rev (butlast (dreier (rev ?ds))))"
    by (simp add: tl_rev map_butlast)
  from dreier_laengen [OF ne] show ?thesis
    by (intro exI [of _ ?gs]) (auto simp: f c h t list_all_iff dreier_nicht_leer)
qed

subsection \<open>The answer table\<close>

text \<open>C34. The answer table splits the composite keys the scheduler builds back into
  their parts, for ids without colons: \<open>P::pt::ct\<close> gives parent question, parent topic and
  child topic, \<open>P::pt\<close> gives the parent question and the parent topic in the column of the
  child topic (the parent-topic column stays empty), a bare topic id gives only the topic.\<close>

theorem thema_key_teile_compose:
  assumes "CHR '':'' \<notin> set p" "CHR '':'' \<notin> set pt" "CHR '':'' \<notin> set ct"
  shows "thema_key_teile (compose_key p pt (Some ct)) = (if ct = [] then (p, [], pt) else (p, pt, ct)) \<and>
         thema_key_teile (compose_key p pt None) = (p, [], pt) \<and>
         thema_key_teile ct = ([], [], ct)"
  using assms by (simp add: thema_key_teile_def compose_key_def py_split_def split_on_vor split_on_ohne Let_def)

theorem thema_key_teile_compose_witness:
  "thema_key_teile (compose_key ''P'' ''t1'' (Some ''x'')) = (''P'', ''t1'', ''x'') \<and>
   thema_key_teile (compose_key ''P'' ''t1'' None) = (''P'', [], ''t1'') \<and>
   thema_key_teile ''x'' = ([], [], ''x'')"
  using thema_key_teile_compose [of "''P''" "''t1''" "''x''"] by simp

text \<open>On a saved and reloaded result, the answer table shows the answer of a
  follow-up question without own topics (key \<open>P::A\<close>) with the parent topic \<open>A\<close> as its
  topic id, an empty parent-topic column and an empty topic text, since the text is looked
  up among the follow-up's own topics.\<close>

theorem tabelle_folgefrage:
  "\<exists>v. speichern_laden silicon_samples_from_dict (silicon_wert zs beispiel_ss p l) = Inr v \<and>
       siliconsamples_tabelle v = Inr
         [[(''Frage-ID'', PStr ''P''), (''Frage-Text'', PStr ''Kennen Sie {{thema}}?''), (''Mutter-Frage'', PStr []),
           (''Mutter-Thema'', PStr []), (''Thema-ID'', PStr ''A''), (''Thema-Text'', PStr ''Marke A''),
           (''Antwortoption-ID'', PStr ''ja''), (''Antwortoption-Text'', PStr ''Ja'')],
          [(''Frage-ID'', PStr ''K''), (''Frage-Text'', PStr ''Wie gut gefaellt Ihnen {{thema_prev}}?''),
           (''Mutter-Frage'', PStr ''P''), (''Mutter-Thema'', PStr []), (''Thema-ID'', PStr ''A''),
           (''Thema-Text'', PStr []), (''Antwortoption-ID'', PStr ''1''), (''Antwortoption-Text'', PStr ''gut'')]]"
  unfolding silicon_laden
  by (simp add: siliconsamples_tabelle_def tabellen_zeile_def silicon_wert_def beispiel_ss_def beispiel_p_def beispiel_k_def
      frage_wert_def antwort_wert_def ato_wert_def opt_wert_def thema_wert_def str_opt_wert_def py_attr_def py_items_def
      py_iter_def py_get_def frage_text_zu_def oder_leer_def py_bool_def thema_key_teile_def py_split_def Let_def)

subsection \<open>Personas\<close>

lemma reihum_bild:
  assumes "ps \<noteq> []"
  shows "(\<lambda>w. ps ! (w mod length ps)) ` {..<N} = set (take N ps)"
proof
  show "(\<lambda>w. ps ! (w mod length ps)) ` {..<N} \<subseteq> set (take N ps)"
  proof
    fix x assume "x \<in> (\<lambda>w. ps ! (w mod length ps)) ` {..<N}"
    then obtain w where w: "w < N" "x = ps ! (w mod length ps)" by auto
    have "w mod length ps < N" using w(1) mod_less_eq_dividend [of w "length ps"] by linarith
    moreover have "w mod length ps < length ps" using assms by simp
    ultimately have "w mod length ps < min N (length ps)" by simp
    then show "x \<in> set (take N ps)" using w(2) by (auto simp: in_set_conv_nth)
  qed
next
  show "set (take N ps) \<subseteq> (\<lambda>w. ps ! (w mod length ps)) ` {..<N}"
  proof
    fix x assume "x \<in> set (take N ps)"
    then obtain i where "i < N" "i < length ps" "x = ps ! i" by (auto simp: in_set_conv_nth)
    then show "x \<in> (\<lambda>w. ps ! (w mod length ps)) ` {..<N}" by (intro image_eqI [of _ _ i]) auto
  qed
qed

text \<open>C36. The personas are used in turn, as the page's caption says: repetition \<open>w\<close>
  gets persona \<open>w mod n\<close>, so \<open>N\<close> repetitions use exactly the first \<open>min N n\<close>
  personas, and all of them when \<open>N \<ge> n\<close>.\<close>

theorem persona_reihum:
  assumes "ps \<noteq> []"
  shows "map (\<lambda>w. hole_persona_fuer_wiederholung ps (int w)) [0..<N] = map (\<lambda>w. Some (ps ! (w mod length ps))) [0..<N] \<and>
         set (map (\<lambda>w. hole_persona_fuer_wiederholung ps (int w)) [0..<N]) = Some ` set (take N ps)"
proof -
  have m: "map (\<lambda>w. hole_persona_fuer_wiederholung ps (int w)) [0..<N] = map (\<lambda>w. Some (ps ! (w mod length ps))) [0..<N]"
    using assms by (simp add: hole_persona_fuer_wiederholung_def nat_mod_distrib)
  have "set (map (\<lambda>w. Some (ps ! (w mod length ps))) [0..<N]) = Some ` (\<lambda>w. ps ! (w mod length ps)) ` {..<N}"
    by (auto simp: image_image lessThan_atLeast0)
  with m reihum_bild [OF assms] show ?thesis by simp
qed

theorem persona_reihum_witness:
  "map (\<lambda>w. hole_persona_fuer_wiederholung [''A'', ''B''] (int w)) [0..<5] = [Some ''A'', Some ''B'', Some ''A'', Some ''B'', Some ''A'']"
  using persona_reihum [of "[''A'', ''B'']" 5] by (simp add: upt_rec mod_Suc)

subsection \<open>The header and the chat histories\<close>

lemma token_summe_geladen:
  "token_summe a (map (map_prod id (\<lambda>t. dump (token_wert t))) ts) = Inr (a + sum_list (map (total_tokens \<circ> snd) ts))"
  by (induction ts arbitrary: a) (auto simp: token_wert_def py_get_def py_int_addieren_def algebra_simps)

lemma token_summe_objekt:
  "token_summe a (map (map_prod id token_wert) ts) = Inr (a + sum_list (map (total_tokens \<circ> snd) ts))"
  by (induction ts arbitrary: a) (auto simp: token_wert_def py_get_def py_int_addieren_def algebra_simps)

text \<open>C37. The result view works on a reloaded result and only there: for the
  \<open>prompt_data\<close> the generator page builds, the header of a saved and reloaded
  \<open>SiliconSamples\<close> shows the formatted sum of the saved token totals and the persona of
  the repetition, while the same code on the instance \<open>starten\<close> returned raises
  \<open>AttributeError\<close>: \<open>prompt.get\<close> needs the dictionary that \<open>from_dict\<close> leaves
  unconverted (C29).\<close>

theorem anzeige_nach_laden:
  assumes "prompt_data p = seiten_prompt_data w True ps" "ps \<noteq> []"
  shows "\<exists>v. speichern_laden silicon_samples_from_dict (silicon_wert zs ss p l) = Inr v \<and>
           anzeige_kopf v = Inr (format_number (sum_list (map (total_tokens \<circ> snd) (tokenverbrauch l))), PBool True,
                                 Some (dump (ps ! nat (w mod int (length ps))))) \<and>
         anzeige_kopf (silicon_wert zs ss p l) = Inl (AttributeError ''get'')"
  unfolding silicon_laden using assms
  by (simp add: anzeige_kopf_def silicon_wert_def llm_geladen_def llm_wert_def prompt_wert_def py_attr_def
      tokenverbrauch_summieren_def py_items_def token_summe_geladen token_summe_objekt py_get_def py_bool_def
      seiten_prompt_data_def hole_persona_fuer_wiederholung_def comp_def)

theorem anzeige_nach_laden_witness:
  "\<exists>v. speichern_laden silicon_samples_from_dict (silicon_wert [] beispiel_ss beispiel_prompt beispiel_llm) = Inr v \<and>
     anzeige_kopf v = Inr (''1.500'', PBool True, Some (PDict [(''name'', PStr ''Ben'')])) \<and>
   anzeige_kopf (silicon_wert [] beispiel_ss beispiel_prompt beispiel_llm) = Inl (AttributeError ''get'')"
proof -
  have "prompt_data beispiel_prompt = seiten_prompt_data 3 True [PDict [(''name'', PStr ''Anna'')], PDict [(''name'', PStr ''Ben'')]]"
    by (simp add: beispiel_prompt_def)
  from anzeige_nach_laden [OF this, of "[]" beispiel_ss beispiel_llm] show ?thesis
    by (simp add: beispiel_llm_def format_number_def format_komma_def nat_ziffern.simps ziffer_def)
qed

lemma parse_chatverlauf_nachrichten:
  "parse_chatverlauf (PList (map (\<lambda>m. dump (z_nachricht_wert m)) ms)) =
   Inr (map (\<lambda>m. case m of ZSystemNachricht c \<Rightarrow> (''system'', c) | ZMenschNachricht c \<Rightarrow> (''human'', c)
                  | ZKINachricht c \<Rightarrow> (''ai'', c)) ms)"
  by (induction ms) (auto simp: parse_chatverlauf_def py_iter_def z_nachricht_wert_def py_get_def parse_content_def
      inhalt_text_def py_str_def split: z_nachricht.splits)

lemma nachricht_keine_liste:
  "(case dump (z_nachricht_wert m) of PList _ \<Rightarrow> True | _ \<Rightarrow> False) = False"
  by (cases m) (simp_all add: z_nachricht_wert_def)

text \<open>A saved chat history is shown after reloading with each message's type and
  content, in order, the system messages under the role \<open>user\<close>; an empty history shows
  nothing.\<close>

theorem chat_anzeige_geladen:
  "chat_anzeige (PObj ''LLMChatverlauf'' [(''name'', PStr n), (''chatverlauf'', PList (map (\<lambda>m. dump (z_nachricht_wert m)) ms))]) =
   Inr (n, if ms = [] then []
           else [map (\<lambda>m. case m of ZSystemNachricht c \<Rightarrow> (''user'', c) | ZMenschNachricht c \<Rightarrow> (''human'', c)
                        | ZKINachricht c \<Rightarrow> (''ai'', c)) ms])"
proof (cases ms)
  case (Cons m ms')
  then show ?thesis
    using parse_chatverlauf_nachrichten [of ms]
    by (simp add: chat_anzeige_def py_attr_def py_iter_def py_str_def nachricht_keine_liste)
      (auto split: z_nachricht.splits)
qed (simp add: chat_anzeige_def py_attr_def py_iter_def py_str_def)

end
