(* ===== verification/Referenzansicht.thy ===== *)
theory Referenzansicht
  imports Anzeige
begin

text \<open>
  The view of the summaries, referenzdokumente_api.py (\<open>ReferenzdokumenteAPI\<close>): the
  summed token metric, and per summary the title, the reference document and the selection
  as tables, the texts, the tables and the chat histories of its tabs, with the chat
  messages of the user shortened to 300 characters. The Streamlit calls are replaced by
  the values they display; \<open>self.text(key)\<close>, the configured labels, is the parameter
  \<open>txt\<close>. The view is related to the typed summaries of the summarizer by a refinement:
  after saving and reloading, it shows what the abstract view \<open>ansicht_abs\<close> of the
  typed summaries prescribes.
\<close>

subsection \<open>The view (referenzdokumente_api.py)\<close>

text \<open>\<open>ReferenzdokumenteAPI.tokenverbrauch_summieren\<close>: the usage of every summary's
  model record, summed with the shared \<open>tokenverbrauch_summieren\<close>.\<close>

fun tokens_summieren :: "int \<Rightarrow> pyval list \<Rightarrow> py_error + int" where
  "tokens_summieren a [] = Inr a"
| "tokens_summieren a (z # zs) =
     bind_r (py_attr z ''llm'') (\<lambda>l. bind_r (py_attr l ''tokenverbrauch'') (\<lambda>tv.
     bind_r (tokenverbrauch_summieren tv) (\<lambda>n. tokens_summieren (a + n) zs)))"

definition ref_tokenverbrauch_summieren :: "pyval \<Rightarrow> py_error + int" where
  "ref_tokenverbrauch_summieren zs = bind_r (py_iter zs) (tokens_summieren 0)"

text \<open>One message of \<open>print_chatverlauf\<close>: the stripped content, cut to 300 characters
  and marked for a message of type \<open>human\<close> or \<open>user\<close>; the role shown is the type with
  \<open>system\<close> replaced by \<open>user\<close> (after the test, so the briefing is never cut).\<close>

definition nachricht_kuerzen :: "string \<Rightarrow> string \<times> string \<Rightarrow> string \<times> string" where
  "nachricht_kuerzen verkuerzt m =
     (let (t, c) = m; s = py_strip c
      in (py_replace ''system'' ''user'' t,
          if t = ''human'' \<or> t = ''user'' then (if length s \<le> 300 then s else take 300 s @ verkuerzt) else s))"

definition print_chatverlauf :: "string \<Rightarrow> pyval \<Rightarrow> py_error + (string \<times> string) list" where
  "print_chatverlauf verkuerzt cv =
     bind_r (py_attr cv ''chatverlauf'') (\<lambda>xs. bind_r (parse_chatverlauf xs) (\<lambda>ms.
       Inr (map (nachricht_kuerzen verkuerzt) ms)))"

text \<open>\<open>print_chatverlaeufe\<close>: the histories numbered from 1 in expanders when there is more
  than one.\<close>

definition print_chatverlaeufe ::
  "(string \<Rightarrow> string) \<Rightarrow> pyval list \<Rightarrow> py_error + (string option \<times> (string \<times> string) list) list" where
  "print_chatverlaeufe txt cvs =
     map_r (\<lambda>(i, cv). bind_r (print_chatverlauf (txt ''text_verkuerzt'') cv) (\<lambda>ms.
              Inr (if 1 < length cvs then Some (txt ''chatverlauf'' @ '' '' @ py_int_str (int i)) else None, ms)))
           (zip [1..<Suc (length cvs)] cvs)"

text \<open>\<open>[cv for cv in llm.chatverlaeufe if cv.name == n]\<close>.\<close>

fun chats_mit_namen :: "string \<Rightarrow> pyval list \<Rightarrow> py_error + pyval list" where
  "chats_mit_namen n [] = Inr []"
| "chats_mit_namen n (cv # cvs) =
     bind_r (py_attr cv ''name'') (\<lambda>x. bind_r (chats_mit_namen n cvs) (\<lambda>r. Inr (if x = PStr n then cv # r else r)))"

text \<open>A tab of chat histories: the note that there are no data, or the histories.\<close>

datatype chat_reiter = KeineDaten string | Verlaeufe "(string option \<times> (string \<times> string) list) list"

definition chat_reiter :: "(string \<Rightarrow> string) \<Rightarrow> string \<Rightarrow> pyval \<Rightarrow> py_error + chat_reiter" where
  "chat_reiter txt n l =
     bind_r (py_attr l ''chatverlaeufe'') (\<lambda>cs. bind_r (py_iter cs) (\<lambda>cvs. bind_r (chats_mit_namen n cvs) (\<lambda>sel.
       if sel = [] then Inr (KeineDaten (txt ''keine_daten_extrahiert''))
       else bind_r (print_chatverlaeufe txt sel) (\<lambda>v. Inr (Verlaeufe v)))))"

text \<open>\<open>dataclasses.asdict\<close> of a dataclass instance; the fields of \<open>Referenzdokument\<close>
  and \<open>ZusammenfassungAuswahl\<close> are strings and booleans, which it copies.\<close>

definition py_asdict :: "pyval \<Rightarrow> py_error + (string \<times> pyval) list" where
  "py_asdict v = (case v of PObj _ fs \<Rightarrow> Inr fs | _ \<Rightarrow> Inl (TypeError ''asdict() should be called on dataclass instances''))"

text \<open>\<open>text.strip()\<close>, and the note shown for an empty text.\<close>

definition str_strip :: "pyval \<Rightarrow> py_error + string" where
  "str_strip v = (case v of PStr s \<Rightarrow> Inr (py_strip s) | _ \<Rightarrow> Inl (AttributeError ''strip''))"

definition oder_hinweis :: "(string \<Rightarrow> string) \<Rightarrow> string \<Rightarrow> string" where
  "oder_hinweis txt s = (if s = [] then txt ''keine_daten_extrahiert'' else s)"

text \<open>A tab of tables: the note for an empty list, else one markdown per table.\<close>

definition tabellen_reiter :: "(string \<Rightarrow> string) \<Rightarrow> pyval \<Rightarrow> py_error + pyval list" where
  "tabellen_reiter txt v = (if \<not> py_bool v then Inr [PStr (txt ''keine_daten_extrahiert'')] else py_iter v)"

record z_ansicht =
  za_titel :: string
  za_dokument :: "(string \<times> pyval) list"
  za_auswahl :: "(string \<times> pyval) list"
  za_text_extrahiert :: string
  za_text_zusammengefasst :: string
  za_tabellen_extrahiert :: "pyval list"
  za_tabellen_zusammengefasst :: "pyval list"
  za_chats_text :: chat_reiter
  za_chats_tabellen :: chat_reiter

text \<open>The expander of one summary in \<open>streamlit_zusammenfassungen_anzeigen\<close>, in the
  order the code evaluates it: the title, the two tables, the six tabs.\<close>

definition zusammenfassung_ansicht :: "(string \<Rightarrow> string) \<Rightarrow> pyval \<Rightarrow> py_error + z_ansicht" where
  "zusammenfassung_ansicht txt z =
     bind_r (py_attr z ''referenzdokument'') (\<lambda>r. bind_r (py_attr r ''name'') (\<lambda>n.
     bind_r (py_attr z ''llm'') (\<lambda>l. bind_r (py_attr l ''tokenverbrauch'') (\<lambda>tv.
     bind_r (tokenverbrauch_summieren tv) (\<lambda>k.
     bind_r (py_asdict r) (\<lambda>rd. bind_r (py_attr z ''zusammenfassung_auswahl'') (\<lambda>a. bind_r (py_asdict a) (\<lambda>ad.
     bind_r (bind_r (py_attr z ''text_extrahiert'') str_strip) (\<lambda>te.
     bind_r (bind_r (py_attr z ''text_zusammengefasst'') str_strip) (\<lambda>tz.
     bind_r (bind_r (py_attr z ''tabellen_extrahiert'') (tabellen_reiter txt)) (\<lambda>xe.
     bind_r (bind_r (py_attr z ''tabellen_zusammengefasst'') (tabellen_reiter txt)) (\<lambda>xz.
     bind_r (chat_reiter txt ''text_zusammengefasst'' l) (\<lambda>ct.
     bind_r (chat_reiter txt ''tabellen_zusammengefasst'' l) (\<lambda>cz.
       Inr \<lparr>za_titel = txt ''zusammenfassung'' @ '' '' @ py_str n @ txt ''verbrauchte_tokens'' @ format_number k,
            za_dokument = rd, za_auswahl = ad,
            za_text_extrahiert = oder_hinweis txt te, za_text_zusammengefasst = oder_hinweis txt tz,
            za_tabellen_extrahiert = xe, za_tabellen_zusammengefasst = xz,
            za_chats_text = ct, za_chats_tabellen = cz\<rparr>))))))))))))))"

text \<open>\<open>streamlit_zusammenfassungen_anzeigen\<close>: the total metric when \<open>zeige_tokens\<close>, then
  one expander per summary.\<close>

definition zusammenfassungen_anzeigen ::
  "(string \<Rightarrow> string) \<Rightarrow> pyval \<Rightarrow> bool \<Rightarrow> py_error + string option \<times> z_ansicht list" where
  "zusammenfassungen_anzeigen txt zs zeige_tokens =
     bind_r (if zeige_tokens then bind_r (ref_tokenverbrauch_summieren zs) (\<lambda>k. Inr (Some (format_number k))) else Inr None)
       (\<lambda>m. bind_r (py_iter zs) (\<lambda>xs. bind_r (map_r (zusammenfassung_ansicht txt) xs) (\<lambda>vs. Inr (m, vs))))"

subsection \<open>The abstract view of a typed summary\<close>

text \<open>What the view promises for a summary of the summarizer (Summarizer.thy) whose model
  record is \<open>l\<close>: the document's name and the summary's total tokens in the title, the
  attributes of document and selection, the stripped texts or the note, the tables or the
  note, and under each chat tab the histories of that name, their messages as type and
  content, numbered when there are several.\<close>

definition nachricht_paar :: "z_nachricht \<Rightarrow> string \<times> string" where
  "nachricht_paar m = (case m of ZSystemNachricht c \<Rightarrow> (''system'', c) | ZMenschNachricht c \<Rightarrow> (''human'', c)
                       | ZKINachricht c \<Rightarrow> (''ai'', c))"

definition chats_abs :: "(string \<Rightarrow> string) \<Rightarrow> string \<Rightarrow> (string \<times> z_nachricht list) list \<Rightarrow> chat_reiter" where
  "chats_abs txt n cs =
     (let sel = map snd (filter (\<lambda>c. fst c = n) cs)
      in if sel = [] then KeineDaten (txt ''keine_daten_extrahiert'')
         else Verlaeufe (map (\<lambda>(i, ms). (if 1 < length sel then Some (txt ''chatverlauf'' @ '' '' @ py_int_str (int i)) else None,
                                          map (nachricht_kuerzen (txt ''text_verkuerzt'') \<circ> nachricht_paar) ms))
                             (zip [1..<Suc (length sel)] sel)))"

definition tabellen_abs :: "(string \<Rightarrow> string) \<Rightarrow> string list \<Rightarrow> pyval list" where
  "tabellen_abs txt ts = (if ts = [] then [PStr (txt ''keine_daten_extrahiert'')] else map PStr ts)"

definition felder :: "pyval \<Rightarrow> (string \<times> pyval) list" where
  "felder v = (case v of PObj _ fs \<Rightarrow> fs | _ \<Rightarrow> [])"

definition token_gesamt :: "llm_r \<Rightarrow> int" where
  "token_gesamt l = sum_list (map (total_tokens \<circ> snd) (tokenverbrauch l))"

definition ansicht_abs :: "(string \<Rightarrow> string) \<Rightarrow> zusammenfassung \<Rightarrow> llm_r \<Rightarrow> z_ansicht" where
  "ansicht_abs txt z l =
     \<lparr>za_titel = txt ''zusammenfassung'' @ '' '' @ rd_name (z_referenzdokument z) @ txt ''verbrauchte_tokens'' @
                  format_number (token_gesamt l),
      za_dokument = felder (referenzdokument_wert (z_referenzdokument z)),
      za_auswahl = felder (auswahl_wert (z_auswahl z)),
      za_text_extrahiert = oder_hinweis txt (py_strip (text_extrahiert z)),
      za_text_zusammengefasst = oder_hinweis txt (py_strip (text_zusammengefasst z)),
      za_tabellen_extrahiert = tabellen_abs txt (tabellen_extrahiert z),
      za_tabellen_zusammengefasst = tabellen_abs txt (tabellen_zusammengefasst z),
      za_chats_text = chats_abs txt ''text_zusammengefasst'' (z_chatverlaeufe z),
      za_chats_tabellen = chats_abs txt ''tabellen_zusammengefasst'' (z_chatverlaeufe z)\<rparr>"

subsection \<open>Example\<close>

definition beispiel_chat :: pyval where
  "beispiel_chat = PObj ''LLMChatverlauf''
     [(''name'', PStr ''text_zusammengefasst''),
      (''chatverlauf'', PList [PDict [(''content'', PStr ''Fasse zusammen.''), (''type'', PStr ''system'')],
                               PDict [(''content'', PStr '' Text ''), (''type'', PStr ''human'')]])]"

subsection \<open>The chat histories of a reloaded summary\<close>

lemma nachricht_paar_fun:
  "(\<lambda>m. case m of ZSystemNachricht c \<Rightarrow> (''system'', c) | ZMenschNachricht c \<Rightarrow> (''human'', c)
        | ZKINachricht c \<Rightarrow> (''ai'', c)) = nachricht_paar"
  by (rule ext) (simp add: nachricht_paar_def)

lemma print_chatverlauf_geladen:
  "print_chatverlauf v (PObj ''LLMChatverlauf'' [(''name'', PStr n), (''chatverlauf'', PList (map (\<lambda>m. dump (z_nachricht_wert m)) ms))]) =
   Inr (map (nachricht_kuerzen v \<circ> nachricht_paar) ms)"
  using parse_chatverlauf_nachrichten [of ms] by (simp add: print_chatverlauf_def py_attr_def nachricht_paar_fun)

lemma chats_mit_namen_filter:
  "chats_mit_namen n (map (\<lambda>(m, ms). PObj ''LLMChatverlauf'' [(''name'', PStr m), (''chatverlauf'', f ms)]) cs) =
   Inr (map (\<lambda>(m, ms). PObj ''LLMChatverlauf'' [(''name'', PStr m), (''chatverlauf'', f ms)]) (filter (\<lambda>c. fst c = n) cs))"
  by (induction cs) (auto simp: py_attr_def)

lemma chatverlaeufe_nummeriert:
  "map_r (\<lambda>(i, cv). bind_r (print_chatverlauf v cv) (\<lambda>ms. Inr (g i, ms)))
     (zip is (map (\<lambda>ms. PObj ''LLMChatverlauf'' [(''name'', PStr n), (''chatverlauf'', PList (map (\<lambda>m. dump (z_nachricht_wert m)) ms))]) sel)) =
   Inr (map (\<lambda>(i, ms). (g i, map (nachricht_kuerzen v \<circ> nachricht_paar) ms)) (zip is sel))"
proof (induction sel arbitrary: "is")
  case (Cons ms sel)
  then show ?case by (cases "is") (simp_all add: print_chatverlauf_geladen)
qed simp

lemma print_chatverlaeufe_geladen:
  "print_chatverlaeufe txt (map (\<lambda>ms. PObj ''LLMChatverlauf'' [(''name'', PStr n), (''chatverlauf'', PList (map (\<lambda>m. dump (z_nachricht_wert m)) ms))]) sel) =
   Inr (map (\<lambda>(i, ms). (if 1 < length sel then Some (txt ''chatverlauf'' @ '' '' @ py_int_str (int i)) else None,
                        map (nachricht_kuerzen (txt ''text_verkuerzt'') \<circ> nachricht_paar) ms))
        (zip [1..<Suc (length sel)] sel))"
  unfolding print_chatverlaeufe_def length_map by (rule chatverlaeufe_nummeriert)

lemma chat_reiter_geladen:
  "chat_reiter txt n (llm_geladen (l\<lparr>chatverlaeufe := map (map_prod id (map z_nachricht_wert)) cs\<rparr>)) = Inr (chats_abs txt n cs)"
proof -
  let ?o = "\<lambda>m ms. PObj ''LLMChatverlauf'' [(''name'', PStr m), (''chatverlauf'', PList (map (\<lambda>x. dump (z_nachricht_wert x)) ms))]"
  let ?sel = "map snd (filter (\<lambda>c. fst c = n) cs)"
  have o: "map (\<lambda>(m, xs). PObj ''LLMChatverlauf'' [(''name'', PStr m), (''chatverlauf'', PList (map dump xs))])
             (map (map_prod id (map z_nachricht_wert)) cs) = map (\<lambda>(m, ms). ?o m ms) cs"
    by (induction cs) auto
  have f: "map (\<lambda>(m, ms). ?o m ms) (filter (\<lambda>c. fst c = n) cs) = map (?o n) ?sel"
    by (induction cs) auto
  show ?thesis
    using chats_mit_namen_filter [of n "\<lambda>ms. PList (map (\<lambda>x. dump (z_nachricht_wert x)) ms)" cs]
    by (simp add: chat_reiter_def llm_geladen_def py_attr_def py_iter_def o f print_chatverlaeufe_geladen chats_abs_def Let_def
        del: map_map)
qed

subsection \<open>The view of reloaded summaries\<close>

lemma tokens_summieren_list_all2:
  "list_all2 (\<lambda>x v. bind_r (py_attr v ''llm'') (\<lambda>l. bind_r (py_attr l ''tokenverbrauch'') tokenverbrauch_summieren) = Inr (g x)) xs vs \<Longrightarrow>
   tokens_summieren a vs = Inr (a + sum_list (map g xs))"
proof (induction arbitrary: a rule: list_all2_induct)
  case (Cons x xs v vs)
  then show ?case by (auto simp: bind_r_def algebra_simps split: sum.splits)
qed simp

lemma zusammenfassung_ansicht_geladen:
  "\<exists>v. zusammenfassung_from_dict (dump (zusammenfassung_wert z p l)) = Inr v \<and>
       zusammenfassung_ansicht txt v = Inr (ansicht_abs txt z l) \<and>
       bind_r (py_attr v ''llm'') (\<lambda>l. bind_r (py_attr l ''tokenverbrauch'') tokenverbrauch_summieren) = Inr (token_gesamt l)"
  apply (simp add: zusammenfassung_from_dict_def zusammenfassung_wert_def pv_defs
      referenzdokument_rt auswahl_rt prompt_rt llm_rt del: dump_llm_geladen)
  apply (simp add: zusammenfassung_ansicht_def py_attr_def chat_reiter_geladen
      py_asdict_def str_strip_def tabellen_reiter_def ansicht_abs_def felder_def py_bool_def py_iter_def comp_def
      referenzdokument_wert_def auswahl_wert_def py_str_def tabellen_abs_def del: dump_llm_geladen)
  apply (simp add: llm_geladen_def tokenverbrauch_summieren_def py_items_def token_summe_geladen comp_def token_gesamt_def
      del: dump_llm_geladen)
  done

text \<open>C39. Refinement of the summary view: saving the summaries of the summarizer,
  reading the file back and showing it with \<open>streamlit_zusammenfassungen_anzeigen\<close> gives,
  with or without the token metric, exactly the abstract view of the typed summaries
  (\<open>ansicht_abs\<close>): the total metric is the formatted sum of every summary's token
  totals, and each expander shows its document's name and tokens, the attributes of the
  document and the selection, the stripped texts, the tables, and the chat histories of
  the text and of the tables under their tabs, numbered when there are several.\<close>

theorem zusammenfassungen_ansicht_verfeinerung:
  "\<exists>vs. speichern_laden zusammenfassung_from_dict (PList (map (\<lambda>(z, p, l). zusammenfassung_wert z p l) zs)) = Inr (PList vs) \<and>
        zusammenfassungen_anzeigen txt (PList vs) True =
          Inr (Some (format_number (sum_list (map (\<lambda>(z, p, l). token_gesamt l) zs))), map (\<lambda>(z, p, l). ansicht_abs txt z l) zs) \<and>
        zusammenfassungen_anzeigen txt (PList vs) False = Inr (None, map (\<lambda>(z, p, l). ansicht_abs txt z l) zs)"
proof -
  let ?w = "\<lambda>(z, p, l). zusammenfassung_wert z p l"
  let ?P = "\<lambda>(z, p, l) v. zusammenfassung_ansicht txt v = Inr (ansicht_abs txt z l) \<and>
              bind_r (py_attr v ''llm'') (\<lambda>l. bind_r (py_attr l ''tokenverbrauch'') tokenverbrauch_summieren) = Inr (token_gesamt l)"
  have "\<exists>vs. map_r zusammenfassung_from_dict (map (dump \<circ> ?w) zs) = Inr vs \<and> list_all2 ?P zs vs"
    by (rule map_r_exists) (auto simp: zusammenfassung_ansicht_geladen)
  then obtain vs where m: "map_r zusammenfassung_from_dict (map (dump \<circ> ?w) zs) = Inr vs" and a: "list_all2 ?P zs vs"
    by blast
  have v: "map_r (zusammenfassung_ansicht txt) vs = Inr (map (\<lambda>(z, p, l). ansicht_abs txt z l) zs)"
    by (rule map_r_list_all2, rule list_all2_mono [OF a]) auto
  have t: "tokens_summieren 0 vs = Inr (0 + sum_list (map (\<lambda>(z, p, l). token_gesamt l) zs))"
    by (rule tokens_summieren_list_all2, rule list_all2_mono [OF a]) auto
  show ?thesis using m v t
    by (simp add: speichern_laden_liste zusammenfassungen_anzeigen_def ref_tokenverbrauch_summieren_def py_iter_def)
qed

subsection \<open>Shortened messages\<close>

text \<open>C40. \<open>print_chatverlauf\<close> shows one entry per parsed message, in order, with the
  role \<open>system\<close> renamed to \<open>user\<close>; the content of a message of type \<open>human\<close> or
  \<open>user\<close> is shown stripped and, when longer than 300 characters, cut to its first 300
  characters followed by the configured mark, so it is at most 300 characters plus the
  mark; every other message, the system briefing included, is shown stripped in full.\<close>

theorem chatverlauf_gekuerzt:
  assumes "py_attr cv ''chatverlauf'' = Inr xs" "parse_chatverlauf xs = Inr ps"
  shows "\<exists>ms. print_chatverlauf v cv = Inr ms \<and> length ms = length ps \<and>
           (\<forall>i < length ps. fst (ms ! i) = py_replace ''system'' ''user'' (fst (ps ! i)) \<and>
              (fst (ps ! i) \<in> {''human'', ''user''} \<longrightarrow>
                 length (snd (ms ! i)) \<le> 300 + length v \<and>
                 take 300 (snd (ms ! i)) = take 300 (py_strip (snd (ps ! i))) \<and>
                 (length (py_strip (snd (ps ! i))) \<le> 300 \<longrightarrow> snd (ms ! i) = py_strip (snd (ps ! i)))) \<and>
              (fst (ps ! i) \<notin> {''human'', ''user''} \<longrightarrow> snd (ms ! i) = py_strip (snd (ps ! i))))"
  using assms by (auto simp: print_chatverlauf_def nachricht_kuerzen_def split_beta Let_def)

theorem chatverlauf_gekuerzt_witness:
  "\<exists>ms. print_chatverlauf ''...'' beispiel_chat = Inr ms \<and> length ms = 2 \<and>
     fst (ms ! 0) = ''user'' \<and> snd (ms ! 0) = ''Fasse zusammen.'' \<and>
     fst (ms ! 1) = ''human'' \<and> snd (ms ! 1) = ''Text''"
proof -
  have a: "py_attr beispiel_chat ''chatverlauf'' =
           Inr (PList [PDict [(''content'', PStr ''Fasse zusammen.''), (''type'', PStr ''system'')],
                       PDict [(''content'', PStr '' Text ''), (''type'', PStr ''human'')]])"
    by (simp add: beispiel_chat_def py_attr_def)
  have b: "parse_chatverlauf (PList [PDict [(''content'', PStr ''Fasse zusammen.''), (''type'', PStr ''system'')],
                                     PDict [(''content'', PStr '' Text ''), (''type'', PStr ''human'')]]) =
           Inr [(''system'', ''Fasse zusammen.''), (''human'', '' Text '')]"
    by (simp add: parse_chatverlauf_def py_iter_def py_get_def parse_content_def inhalt_text_def py_str_def)
  from chatverlauf_gekuerzt [OF a b, of "''...''"] show ?thesis
    by (auto simp: py_strip_def py_isspace_def less_Suc_eq numeral_eq_Suc)
qed

end
