(* ===== verification/Stapel.thy ===== *)
theory Stapel
  imports Terminierung Anzeige
begin

text \<open>
  The batch of the generator page (siliconsamplesgenerator.py, the loop over
  \<open>range(wiederholungen)\<close>): per repetition the questionnaire is loaded again, a
  \<open>Fragesteller\<close> is built with the repetition's \<open>prompt_data\<close>, \<open>starten\<close> runs the
  interview, and \<open>datei_speichern\<close> writes the result to a file named after the component,
  the interviewer's start time and the repetition. An exception leaves the loop, so the
  batch stops; the class-level answer store is threaded from run to run. What the page
  takes from its widgets and the environment (the model and random source of each run,
  the model record with its usage and chat histories, the start times) is the record
  \<open>stapel_umgebung\<close>.
\<close>

subsection \<open>The batch\<close>

record stapel_umgebung =
  st_umgebung :: "nat \<Rightarrow> umgebung"
  st_quelle :: xml_quelle
  st_prompts :: "(string \<times> string) list"
  st_personas_nutzen :: bool
  st_personas :: "pyval list"
  st_zusammenfassungen :: "pyval list"
  st_llm :: "nat \<Rightarrow> llm_r"
  st_startzeit :: "nat \<Rightarrow> string"
  st_komponente :: string
  st_stapelzeit :: string

text \<open>The path of the result of repetition \<open>w\<close> below the results folder: the folder of
  the batch's start time and \<open>f"{komponenten_name}-{startzeit}-{w}.json"\<close>.\<close>

definition ergebnis_datei :: "stapel_umgebung \<Rightarrow> nat \<Rightarrow> string list" where
  "ergebnis_datei e w =
     [st_stapelzeit e, st_komponente e @ ''-'' @ st_startzeit e w @ ''-'' @ py_int_str (int w) @ ''.json'']"

text \<open>The \<open>Prompt\<close> of repetition \<open>w\<close>.\<close>

definition stapel_prompt :: "stapel_umgebung \<Rightarrow> nat \<Rightarrow> prompt_r" where
  "stapel_prompt e w =
     \<lparr>prompts = st_prompts e, prompt_data = seiten_prompt_data (int w) (st_personas_nutzen e) (st_personas e)\<rparr>"

text \<open>The progress bar at the start of repetition \<open>w\<close> of \<open>N\<close>.\<close>

definition stapel_fortschritt :: "nat \<Rightarrow> nat \<Rightarrow> real" where
  "stapel_fortschritt N w = (if 0 < w then real w / real N else 0)"

text \<open>The loop: the files written, in order, the exception that ended the batch, if any,
  and the shared answer store afterwards; \<open>None\<close> when an interview does not return
  within the fuel.\<close>

fun stapel ::
  "nat \<Rightarrow> stapel_umgebung \<Rightarrow> nat list \<Rightarrow> (string, antwort) dict \<Rightarrow>
   ((string list \<times> pyval) list \<times> py_error option \<times> (string, antwort) dict) option" where
  "stapel n e [] g = Some ([], None, g)"
| "stapel n e (w # ws) g =
     (case studienkonfigurationslader (st_quelle e) of
        Inl err \<Rightarrow> Some ([], Some err, g)
      | Inr fs \<Rightarrow>
          (case starten n (st_umgebung e w) fs g of
             None \<Rightarrow> None
           | Some (Inl err, g') \<Rightarrow> Some ([], Some err, g')
           | Some (Inr ss, g') \<Rightarrow>
               map_option (\<lambda>(ds, r, g''). ((ergebnis_datei e w,
                    dump (silicon_wert (st_zusammenfassungen e) ss (stapel_prompt e w) (st_llm e w))) # ds, r, g''))
                 (stapel n e ws g')))"

definition stichproben_generieren ::
  "nat \<Rightarrow> stapel_umgebung \<Rightarrow> nat \<Rightarrow> (string, antwort) dict \<Rightarrow>
   ((string list \<times> pyval) list \<times> py_error option \<times> (string, antwort) dict) option" where
  "stichproben_generieren n e N g = stapel n e [0..<N] g"

subsection \<open>Fuel and the course of a batch\<close>

lemma starten_fuel:
  assumes "starten n u fs g = Some r" "n \<le> m"
  shows "starten m u fs g = Some r"
proof -
  let ?s0 = "\<lparr>fs_fm = fragenmanager_init fs g, fs_letzter = None, fs_chatverlaeufe = [], fs_checkpoint = graph_leer\<rparr>"
  from assms(1) obtain x where "starten_schleife n u ?s0 = Some x"
    by (cases "starten_schleife n u ?s0") (simp_all add: starten_def)
  with assms show ?thesis
    using starten_schleife_fuel [of n u ?s0 x m] by (simp add: starten_def del: starten_schleife.simps)
qed

lemma stapel_fuel:
  "stapel n e ws g = Some r \<Longrightarrow> n \<le> m \<Longrightarrow> stapel m e ws g = Some r"
proof (induction ws arbitrary: g r)
  case (Cons w ws)
  show ?case
  proof (cases "studienkonfigurationslader (st_quelle e)")
    case (Inr fs)
    show ?thesis
    proof (cases "starten n (st_umgebung e w) fs g")
      case (Some x)
      then have m: "starten m (st_umgebung e w) fs g = Some x" using Cons.prems(2) by (rule starten_fuel)
      show ?thesis
      proof (cases x)
        case (Pair a g')
        then show ?thesis
          using Cons Inr Some m by (cases a) (auto split: option.splits)
      qed
    qed (use Cons.prems Inr in simp)
  qed (use Cons.prems in simp)
qed simp

lemma stapel_vollstaendig:
  assumes "studienkonfigurationslader (st_quelle e) = Inr fs"
    "\<And>w. w \<in> set ws \<Longrightarrow> starten n (st_umgebung e w) fs [] = Some (Inr (ss w), [])"
  shows "stapel n e ws [] =
         Some (map (\<lambda>w. (ergebnis_datei e w, dump (silicon_wert (st_zusammenfassungen e) (ss w) (stapel_prompt e w) (st_llm e w)))) ws,
               None, [])"
  using assms(2) by (induction ws) (simp_all add: assms(1))

lemma stapel_abbruch:
  assumes "studienkonfigurationslader (st_quelle e) = Inr fs"
    "\<And>w. w \<in> set ws \<Longrightarrow> starten n (st_umgebung e w) fs [] = Some (Inr (ss w), [])"
    "starten n (st_umgebung e w) fs [] = Some (Inl err, g')"
  shows "stapel n e (ws @ w # ws') [] =
         Some (map (\<lambda>w. (ergebnis_datei e w, dump (silicon_wert (st_zusammenfassungen e) (ss w) (stapel_prompt e w) (st_llm e w)))) ws,
               Some err, g')"
  using assms(2) by (induction ws) (simp_all add: assms(1) assms(3))

lemma stapel_lader_fehler:
  "studienkonfigurationslader (st_quelle e) = Inl err \<Longrightarrow> stapel n e (w # ws) g = Some ([], Some err, g)"
  by simp

subsection \<open>File names\<close>

text \<open>Decimal digits determine the number (\<open>nat_ziffern_inj\<close>), so results of different
  repetitions never share a file when the start times have one length
  (\<open>%Y_%m_%d-%H_%M_%S\<close>).\<close>

lemma ergebnis_datei_verschieden:
  assumes "length (st_startzeit e w) = length (st_startzeit e w')" "w \<noteq> w'"
  shows "ergebnis_datei e w \<noteq> ergebnis_datei e w'"
proof
  assume "ergebnis_datei e w = ergebnis_datei e w'"
  then have "(st_komponente e @ ''-'' @ st_startzeit e w @ ''-'') @ nat_ziffern w @ ''.json'' =
             (st_komponente e @ ''-'' @ st_startzeit e w' @ ''-'') @ nat_ziffern w' @ ''.json''"
    by (simp add: ergebnis_datei_def py_int_str_def)
  then have "nat_ziffern w @ ''.json'' = nat_ziffern w' @ ''.json''"
    using assms(1) by (subst (asm) append_eq_append_conv) simp_all
  then show False using assms(2) nat_ziffern_inj by simp
qed

lemma ergebnis_dateien_distinct:
  assumes "\<And>w w'. length (st_startzeit e w) = length (st_startzeit e w')"
  shows "distinct (map (ergebnis_datei e) ws) \<longleftrightarrow> distinct ws"
proof -
  have "inj_on (ergebnis_datei e) (set ws)"
    by (rule inj_onI) (use ergebnis_datei_verschieden assms in blast)
  then show ?thesis by (simp add: distinct_map)
qed

subsection \<open>Progress\<close>

text \<open>Unlike the summarizer's (C23), the page's progress value stays in \<open>[0, 1)\<close> and
  never goes backwards.\<close>

lemma stapel_fortschritt_bereich:
  "w < N \<Longrightarrow> 0 \<le> stapel_fortschritt N w \<and> stapel_fortschritt N w < 1"
  by (simp add: stapel_fortschritt_def)

lemma stapel_fortschritt_mono:
  "w \<le> w' \<Longrightarrow> stapel_fortschritt N w \<le> stapel_fortschritt N w'"
  by (simp add: stapel_fortschritt_def divide_right_mono)

subsection \<open>A batch of grid interviews\<close>

text \<open>On a grid questionnaire answered as in Terminierung, every repetition completes: the
  batch writes one result per repetition, to distinct files in repetition order, each with
  every question answered, and leaves the shared store empty.\<close>

lemma raster_stapel:
  assumes "studienkonfigurationslader (st_quelle e) = Inr fs" "raster_katalog ts o' fs" "Suc (length fs) \<le> n"
    "st_umgebung e = (\<lambda>w. (z w, raster_befragter ts o', vorlage, personas, zs))"
    "\<And>w w'. length (st_startzeit e w) = length (st_startzeit e w')"
  shows "\<exists>ds. stichproben_generieren n e N [] = Some (ds, None, []) \<and> map fst ds = map (ergebnis_datei e) [0..<N] \<and>
           distinct (map fst ds) \<and>
           (\<forall>w < N. \<exists>ss. snd (ds ! w) = dump (silicon_wert (st_zusammenfassungen e) ss (stapel_prompt e w) (st_llm e w)) \<and>
                        ss_fragen ss = dict_of_list f_id fs \<and> ss_antworten ss = map (raster_antwort ts o') fs)"
proof -
  have "\<forall>w. \<exists>cv. starten n (st_umgebung e w) fs [] =
          Some (Inr \<lparr>ss_fragen = dict_of_list f_id fs, ss_antworten = map (raster_antwort ts o') fs, ss_chatverlaeufe = cv\<rparr>, [])"
    using raster_starten [OF assms(2,3)] assms(4) by simp
  then obtain cv where cv: "\<And>w. starten n (st_umgebung e w) fs [] =
          Some (Inr \<lparr>ss_fragen = dict_of_list f_id fs, ss_antworten = map (raster_antwort ts o') fs, ss_chatverlaeufe = cv w\<rparr>, [])"
    by metis
  let ?ss = "\<lambda>w. \<lparr>ss_fragen = dict_of_list f_id fs, ss_antworten = map (raster_antwort ts o') fs, ss_chatverlaeufe = cv w\<rparr>"
  have s: "stichproben_generieren n e N [] =
           Some (map (\<lambda>w. (ergebnis_datei e w, dump (silicon_wert (st_zusammenfassungen e) (?ss w) (stapel_prompt e w) (st_llm e w)))) [0..<N],
                 None, [])"
    unfolding stichproben_generieren_def by (rule stapel_vollstaendig [OF assms(1) cv])
  show ?thesis
    by (rule exI, rule conjI [OF s]) (auto simp: comp_def ergebnis_dateien_distinct [OF assms(5)])
qed

end
