(* ===== verification/Tokenzaehler.thy ===== *)
theory Tokenzaehler
  imports Anzeige "HOL-Library.Sublist"
begin

text \<open>
  \<open>LLMGenerator\<close> (shared/generator.py), the base of the interviewer and the summarizer:
  its state, the usage counter \<open>llm_callback\<close> that every model call of a graph run adds
  to, the optional reset at the start of \<open>aufrufen\<close>, the usage records
  \<open>llm_tokenverbrauch\<close> saved with every result, and the configuration
  \<open>llm_config_holen\<close> saved with it, whose keys are filtered so that no key is saved.
  The graph run is an oracle that receives the usage so far and returns its output and the
  usage of its model calls; the provider's model instance is represented by what
  \<open>model_dump()\<close>, \<open>dict()\<close> or its attributes return.
\<close>

subsection \<open>State and the usage counter\<close>

record llm_generator =
  gen_prompt :: prompt_r
  gen_thread_prefix :: string
  gen_startzeit :: string
  gen_verbrauch :: "(string \<times> token_r) list"

definition generator_init :: "prompt_r \<Rightarrow> string \<Rightarrow> string \<Rightarrow> llm_generator" where
  "generator_init p tp t = \<lparr>gen_prompt = p, gen_thread_prefix = tp, gen_startzeit = t, gen_verbrauch = []\<rparr>"

definition thread_id :: "llm_generator \<Rightarrow> string" where
  "thread_id g = gen_thread_prefix g @ ''-'' @ gen_startzeit g"

text \<open>The detail counters of two usage records added key by key (\<open>_dict_int_op\<close> of
  \<open>add_usage\<close>; the keys of the left record first).\<close>

definition details_addieren :: "(string \<times> pyval) list \<Rightarrow> (string \<times> pyval) list \<Rightarrow> (string \<times> pyval) list" where
  "details_addieren l r =
     map (\<lambda>(k, v). (k, case (v, map_of r k) of (PInt a, Some (PInt b)) \<Rightarrow> PInt (a + b) | _ \<Rightarrow> v)) l @
     filter (\<lambda>(k, _). k \<notin> fst ` set l) r"

definition nutzung_addieren :: "token_r \<Rightarrow> token_r \<Rightarrow> token_r" where
  "nutzung_addieren l r =
     \<lparr>input_tokens = input_tokens l + input_tokens r, output_tokens = output_tokens l + output_tokens r,
      total_tokens = total_tokens l + total_tokens r,
      input_token_details = details_addieren (input_token_details l) (input_token_details r),
      output_token_details = details_addieren (output_token_details l) (output_token_details r)\<rparr>"

text \<open>\<open>UsageMetadataCallbackHandler.on_llm_end\<close> for one model call with its model name
  and usage: a call without a name or usage is not counted, the first call of a model
  creates its record, later ones add to it.\<close>

definition verbrauch_eintragen :: "string \<times> token_r option \<Rightarrow> (string \<times> token_r) list \<Rightarrow> (string \<times> token_r) list" where
  "verbrauch_eintragen c v =
     (case c of
        (m, Some u) \<Rightarrow>
          if m = [] then v
          else (case map_of v m of None \<Rightarrow> dict_set v m u | Some a \<Rightarrow> dict_set v m (nutzung_addieren a u))
      | (_, None) \<Rightarrow> v)"

text \<open>\<open>llm_tokenverbrauch\<close>: one \<open>LLMTokenverbrauch\<close> per model, built from the counter's
  record with \<open>.get(key, 0)\<close> and \<open>.get(key, {}) or {}\<close>.\<close>

definition nutzung_dict :: "pyval \<Rightarrow> py_error + pyval" where
  "nutzung_dict v =
     bind_r (py_get v ''input_tokens'' (PInt 0)) (\<lambda>a. bind_r (py_get v ''output_tokens'' (PInt 0)) (\<lambda>b.
     bind_r (py_get v ''total_tokens'' (PInt 0)) (\<lambda>c.
     bind_r (py_get v ''input_token_details'' (PDict [])) (\<lambda>x. bind_r (py_get v ''output_token_details'' (PDict [])) (\<lambda>y.
       tokenverbrauch_from_dict (PDict [(''input_tokens'', a), (''output_tokens'', b), (''total_tokens'', c),
         (''input_token_details'', if py_bool x then x else PDict []),
         (''output_token_details'', if py_bool y then y else PDict [])]))))))"

definition llm_tokenverbrauch :: "llm_generator \<Rightarrow> py_error + (string \<times> pyval) list" where
  "llm_tokenverbrauch g = dict_werte_r nutzung_dict (map (map_prod id token_wert) (gen_verbrauch g))"

text \<open>\<open>aufrufen\<close>: a new counter when \<open>reset_tokenverbrauch\<close>, then the graph run with the
  usage so far in its configuration; the counter sees every model call of the run.\<close>

definition aufrufen ::
  "llm_generator \<Rightarrow> bool \<Rightarrow> (py_error + (string \<times> pyval) list \<Rightarrow> 'o \<times> (string \<times> token_r option) list) \<Rightarrow> 'o \<times> llm_generator" where
  "aufrufen g reset lauf =
     (let g1 = (if reset then g\<lparr>gen_verbrauch := []\<rparr> else g);
          (out, aufrufe) = lauf (llm_tokenverbrauch g1)
      in (out, g1\<lparr>gen_verbrauch := fold verbrauch_eintragen aufrufe (gen_verbrauch g1)\<rparr>))"

subsection \<open>The saved configuration\<close>

datatype llm_instanz =
    Pydantic2 "(string \<times> pyval) list"
  | Pydantic1 "(string \<times> pyval) list"
  | NurAttribute "(string \<times> pyval) list"

definition roh_konfiguration :: "llm_instanz \<Rightarrow> (string \<times> pyval) list" where
  "roh_konfiguration i =
     (case i of
        Pydantic2 d \<Rightarrow> d
      | Pydantic1 d \<Rightarrow> d
      | NurAttribute a \<Rightarrow> map (\<lambda>k. (k, case map_of a k of Some v \<Rightarrow> v | None \<Rightarrow> PNone))
                               [''model'', ''temperature'', ''max_tokens'', ''timeout'', ''max_retries''])"

definition llm_config_holen :: "llm_instanz \<Rightarrow> (string \<times> pyval) list" where
  "llm_config_holen i =
     filter (\<lambda>(k, v). k \<notin> {''api_key''} \<and> \<not> take 1 k = ''_'' \<and>
                      \<not> drop (length k - length ''_api_key'') k = ''_api_key'')
       (roh_konfiguration i)"

subsection \<open>The counter\<close>

text \<open>The counter is a dictionary, and every counted call adds its total to the sum of
  the totals; after a run with reset the saved usage is the run's own usage, without
  reset it is added to what was counted before (the spec's counters scoped to a document
  of the summarizer, which resets per run, and to one interviewer, which never resets).\<close>

lemma verbrauch_eintragen_summe:
  assumes "distinct (map fst v)"
  shows "distinct (map fst (verbrauch_eintragen c v)) \<and>
         sum_list (map (total_tokens \<circ> snd) (verbrauch_eintragen c v)) =
         sum_list (map (total_tokens \<circ> snd) v) + (case c of (m, Some u) \<Rightarrow> if m = [] then 0 else total_tokens u | _ \<Rightarrow> 0)"
  using assms by (auto simp: verbrauch_eintragen_def sum_list_dict_set nutzung_addieren_def split: option.splits prod.splits)

lemma fold_verbrauch_eintragen:
  "distinct (map fst v) \<Longrightarrow>
   distinct (map fst (fold verbrauch_eintragen cs v)) \<and>
   sum_list (map (total_tokens \<circ> snd) (fold verbrauch_eintragen cs v)) =
   sum_list (map (total_tokens \<circ> snd) v) +
   sum_list (map (\<lambda>c. case c of (m, Some u) \<Rightarrow> if m = [] then 0 else total_tokens u | _ \<Rightarrow> 0) cs)"
proof (induction cs arbitrary: v)
  case (Cons c cs)
  from verbrauch_eintragen_summe [OF Cons.prems, of c] Cons.IH [of "verbrauch_eintragen c v"] show ?case by (simp add: comp_def)
qed simp

lemma llm_tokenverbrauch_werte:
  "llm_tokenverbrauch g = Inr (map (map_prod id token_wert) (gen_verbrauch g))"
  unfolding llm_tokenverbrauch_def
  by (rule dict_werte_r_map)
    (auto simp: nutzung_dict_def token_wert_def py_get_def py_bool_def tokenverbrauch_from_dict_def)

text \<open>C26. The usage a generator saves counts every model call of its runs: after
  \<open>aufrufen\<close>, \<open>llm_tokenverbrauch\<close> loads, and the sum of its totals is the total of
  every counted call of this run (a call without model name or usage is not counted), plus,
  without \<open>reset_tokenverbrauch\<close>, what was counted before.\<close>

theorem aufrufen_verbrauch:
  assumes "distinct (map fst (gen_verbrauch g))" "aufrufen g reset lauf = (out, g')"
  shows "\<exists>tv aufrufe. llm_tokenverbrauch g' = Inr tv \<and>
           aufrufe = snd (lauf (llm_tokenverbrauch (if reset then g\<lparr>gen_verbrauch := []\<rparr> else g))) \<and>
           tokenverbrauch_summieren (PDict tv) =
             Inr ((if reset then 0 else sum_list (map (total_tokens \<circ> snd) (gen_verbrauch g))) +
                  sum_list (map (\<lambda>c. case c of (m, Some u) \<Rightarrow> if m = [] then 0 else total_tokens u | _ \<Rightarrow> 0) aufrufe))"
  using assms fold_verbrauch_eintragen [of "if reset then [] else gen_verbrauch g"]
  by (auto simp: aufrufen_def Let_def llm_tokenverbrauch_werte tokenverbrauch_summieren_def py_items_def
      token_summe_objekt split: prod.splits)

subsection \<open>No key is saved\<close>

lemma suffix_drop_iff: "suffix s k \<longleftrightarrow> drop (length k - length s) k = s"
proof
  assume "suffix s k"
  then obtain zs where "k = zs @ s" by (auto simp: suffix_def)
  then show "drop (length k - length s) k = s" by simp
next
  assume d: "drop (length k - length s) k = s"
  have "k = take (length k - length s) k @ drop (length k - length s) k" by simp
  with d show "suffix s k" unfolding suffix_def by metis
qed

lemma llm_config_holen_schluessel:
  "(k, v) \<in> set (llm_config_holen i) \<longleftrightarrow>
   (k, v) \<in> set (roh_konfiguration i) \<and> k \<noteq> ''api_key'' \<and> take 1 k \<noteq> ''_'' \<and> \<not> suffix ''_api_key'' k"
  by (auto simp: llm_config_holen_def suffix_drop_iff)

theorem aufrufen_verbrauch_witness:
  "\<exists>tv. llm_tokenverbrauch (snd (aufrufen (generator_init \<lparr>prompts = [], prompt_data = []\<rparr> ''fragesteller'' ''heute'') False
            (\<lambda>v. ((), [(''gpt-5-mini'', Some \<lparr>input_tokens = 3, output_tokens = 4, total_tokens = 7,
                     input_token_details = [], output_token_details = []\<rparr>), ([], None)])))) = Inr tv \<and>
        tokenverbrauch_summieren (PDict tv) = Inr 7"
proof -
  let ?g = "generator_init \<lparr>prompts = [], prompt_data = []\<rparr> ''fragesteller'' ''heute''"
  let ?l = "\<lambda>v. ((), [(''gpt-5-mini'', Some \<lparr>input_tokens = 3, output_tokens = 4, total_tokens = 7,
                     input_token_details = [], output_token_details = []\<rparr>), ([], None)])"
  obtain out g' where a: "aufrufen ?g False ?l = (out, g')" by (metis surj_pair)
  have d: "distinct (map fst (gen_verbrauch ?g))" by (simp add: generator_init_def)
  from aufrufen_verbrauch [OF d a] a show ?thesis by (simp add: generator_init_def)
qed

end
