(* ===== verification/Sitzung.thy ===== *)
theory Sitzung
  imports Anzeige
begin

text \<open>
  The session handling of the two generator pages, siliconsamplesgenerator.py and
  referenzdokumente.py: the keys \<open>gestartet\<close>, \<open>fertig\<close> and \<open>ergebnis\<close> of
  \<open>st.session_state\<close>, the button callbacks \<open>starten\<close> and \<open>abbrechen\<close>, \<open>fertig\<close> at the
  end of a job and \<open>reset\<close> on the run that shows the success. Every interaction of the user
  reruns the page script (\<open>skript_lauf\<close>); the runs form the step relation
  \<open>seite_schritt\<close>. The result view then receives \<open>str(ergebnis)\<close> as the file to
  preselect, which the APIs look up in the listing of the results folder.
\<close>

subsection \<open>Session state and callbacks\<close>

datatype seite = Generatorseite | Referenzseite

text \<open>A key of the session is absent (\<open>None\<close>) or holds a value; \<open>ergebnis\<close> holds Python's
  \<open>None\<close> or a file path.\<close>

record sitzung =
  s_gestartet :: "bool option"
  s_fertig :: "bool option"
  s_ergebnis :: "string option option"

definition sitzung_leer :: sitzung where
  "sitzung_leer = \<lparr>s_gestartet = None, s_fertig = None, s_ergebnis = None\<rparr>"

definition sitzung_init :: "sitzung \<Rightarrow> sitzung" where
  "sitzung_init s =
     \<lparr>s_gestartet = Some (case s_gestartet s of None \<Rightarrow> False | Some b \<Rightarrow> b),
      s_fertig = Some (case s_fertig s of None \<Rightarrow> False | Some b \<Rightarrow> b),
      s_ergebnis = Some (case s_ergebnis s of None \<Rightarrow> None | Some e \<Rightarrow> e)\<rparr>"

definition cb_starten :: "sitzung \<Rightarrow> sitzung" where
  "cb_starten s = s\<lparr>s_gestartet := Some True, s_fertig := Some False\<rparr>"

text \<open>\<open>abbrechen\<close> deletes every key of the page.\<close>

definition cb_abbrechen :: "sitzung \<Rightarrow> sitzung" where
  "cb_abbrechen s = sitzung_leer"

definition cb_fertig :: "string option \<Rightarrow> sitzung \<Rightarrow> sitzung" where
  "cb_fertig e s = s\<lparr>s_gestartet := Some False, s_fertig := Some True, s_ergebnis := Some e\<rparr>"

text \<open>\<open>reset\<close>: the generator page also clears \<open>ergebnis\<close>; on the reference page that line
  is commented out.\<close>

definition cb_reset :: "seite \<Rightarrow> sitzung \<Rightarrow> sitzung" where
  "cb_reset p s =
     (case p of
        Generatorseite \<Rightarrow> s\<lparr>s_gestartet := Some False, s_fertig := Some False, s_ergebnis := Some None\<rparr>
      | Referenzseite \<Rightarrow> s\<lparr>s_gestartet := Some False, s_fertig := Some False\<rparr>)"

text \<open>What a finished job passes to \<open>fertig\<close>: the path of the saved summaries, or
  \<open>None\<close> after a batch of silicon samples.\<close>

definition job_ergebnis :: "seite \<Rightarrow> string \<Rightarrow> string option" where
  "job_ergebnis p datei = (case p of Referenzseite \<Rightarrow> Some datei | Generatorseite \<Rightarrow> None)"

text \<open>\<open>str(ergebnis)\<close>.\<close>

definition ergebnis_str :: "string option \<Rightarrow> string" where
  "ergebnis_str e = (case e of None \<Rightarrow> ''None'' | Some p \<Rightarrow> p)"

subsection \<open>A run of the page script\<close>

text \<open>One run: the defaults, the flags read, \<open>reset\<close> when the last job has finished, the
  result view with \<open>str(ergebnis)\<close> (on the generator page before the job, on the reference
  page after it, so not at all when the job runs and \<open>fertig\<close> reruns the script), and the
  job when the flag \<open>gestartet\<close> was set. The result: the new session, the value the view
  received, if it was shown, and whether \<open>fertig\<close> asked for a rerun.\<close>

definition skript_lauf :: "seite \<Rightarrow> string \<Rightarrow> sitzung \<Rightarrow> sitzung \<times> string option \<times> bool" where
  "skript_lauf p datei s =
     (let s1 = sitzung_init s;
          gestartet = (s_gestartet s1 = Some True);
          s2 = (if s_fertig s1 = Some True then cb_reset p s1 else s1);
          ansicht = ergebnis_str (case s_ergebnis s2 of Some e \<Rightarrow> e | None \<Rightarrow> None)
      in if gestartet then
           (cb_fertig (job_ergebnis p datei) s2, (if p = Generatorseite then Some ansicht else None), True)
         else (s2, Some ansicht, False))"

text \<open>The interactions: a rerun of the script (any widget, or \<open>st.rerun\<close> after
  \<open>fertig\<close>), the start button while no job runs, the cancel button while one runs; each
  button runs its callback before the script.\<close>

inductive seite_schritt :: "seite \<Rightarrow> string \<Rightarrow> sitzung \<Rightarrow> sitzung \<Rightarrow> bool" for p datei where
  neu_laden: "seite_schritt p datei s (fst (skript_lauf p datei s))"
| start: "s_gestartet s \<noteq> Some True \<Longrightarrow> seite_schritt p datei s (fst (skript_lauf p datei (cb_starten s)))"
| abbruch: "s_gestartet s = Some True \<Longrightarrow> seite_schritt p datei s (fst (skript_lauf p datei (cb_abbrechen s)))"

inductive erreichbar :: "seite \<Rightarrow> string \<Rightarrow> sitzung \<Rightarrow> bool" for p datei where
  anfang: "erreichbar p datei sitzung_leer"
| schritt: "erreichbar p datei s \<Longrightarrow> seite_schritt p datei s s' \<Longrightarrow> erreichbar p datei s'"

subsection \<open>The preselection in the result views\<close>

text \<open>An entry of the selectbox: the string of the no-selection label, or a \<open>Path\<close> (its
  components) as \<open>ordner_auslesen\<close> returns them; a string never equals a \<open>Path\<close>.\<close>

datatype datei_eintrag = Text string | Pfad "string list"

text \<open>\<open>Path(v).name\<close>: the last component of the path.\<close>

definition pfad_name :: "string \<Rightarrow> string" where
  "pfad_name v = (case filter (\<lambda>c. c \<noteq> [] \<and> c \<noteq> ''.'') (py_split v ''/'') of [] \<Rightarrow> [] | cs \<Rightarrow> last cs)"

definition py_list_index :: "'a list \<Rightarrow> 'a \<Rightarrow> nat option" where
  "py_list_index xs x = (if x \<in> set xs then Some (length (takeWhile (\<lambda>y. y \<noteq> x) xs)) else None)"

text \<open>\<open>streamlit_siliconsamples_auswahl\<close>: the name as a string;
  \<open>streamlit_zusammenfassungen_auswahl\<close>: the name as a \<open>Path\<close>.\<close>

definition ss_vorauswahl :: "string \<Rightarrow> datei_eintrag list \<Rightarrow> nat option" where
  "ss_vorauswahl v ds = (if v = [] then None else py_list_index ds (Text (pfad_name v)))"

definition zf_vorauswahl :: "string \<Rightarrow> datei_eintrag list \<Rightarrow> nat option" where
  "zf_vorauswahl v ds = (if v = [] then None else py_list_index ds (Pfad [pfad_name v]))"

text \<open>The entries of a results folder: the label, then the files below it.\<close>

definition auswahl_liste :: "string \<Rightarrow> string list list \<Rightarrow> datei_eintrag list" where
  "auswahl_liste keine fs = Text keine # map Pfad fs"

subsection \<open>Case rules\<close>

inductive_cases seite_schritt_cases: "seite_schritt p datei s s'"

lemmas sitzung_defs = sitzung_init_def cb_starten_def cb_abbrechen_def cb_fertig_def cb_reset_def sitzung_leer_def
  job_ergebnis_def

subsection \<open>Invariants of the session\<close>

text \<open>After every run the three keys are set and never both flags at once; on the
  generator page \<open>ergebnis\<close> is never a path, so its view always receives
  \<open>"None"\<close>, while the reference page hands the path of the new summaries to its view
  on the run after the job.\<close>

lemma skript_lauf_wf:
  "skript_lauf p datei s = (s', v, r) \<Longrightarrow>
   (\<exists>g f e. s' = \<lparr>s_gestartet = Some g, s_fertig = Some f, s_ergebnis = Some e\<rparr> \<and> \<not> (g \<and> f))"
  by (auto simp: skript_lauf_def sitzung_defs Let_def split: if_splits seite.splits)

lemma sitzung_invariante:
  "erreichbar p datei s \<Longrightarrow>
   s = sitzung_leer \<or> (\<exists>g f e. s = \<lparr>s_gestartet = Some g, s_fertig = Some f, s_ergebnis = Some e\<rparr> \<and> \<not> (g \<and> f))"
proof (induction rule: erreichbar.induct)
  case (schritt s s')
  from schritt.hyps(2) show ?case
    by (rule seite_schritt_cases) (metis prod.collapse skript_lauf_wf)+
qed simp

lemma generatorseite_ergebnis:
  "erreichbar Generatorseite datei s \<Longrightarrow> s_ergebnis s = None \<or> s_ergebnis s = Some None"
proof (induction rule: erreichbar.induct)
  case (schritt s s')
  from schritt.hyps(2) show ?case
    by (rule seite_schritt_cases)
      (use schritt.IH in \<open>auto simp: skript_lauf_def sitzung_defs Let_def\<close>)
qed (simp add: sitzung_leer_def)

text \<open>C21. The generator page never hands its result to the result view: in every session
  reachable by script runs and button clicks, the run after a reload, a start or a cancel
  passes the view \<open>None\<close> or the string \<open>"None"\<close>, never the path of a result, because the
  page's job calls \<open>fertig(ergebnis=None)\<close> and \<open>reset\<close> clears \<open>ergebnis\<close> first.\<close>

theorem generatorseite_ansicht:
  "erreichbar Generatorseite datei s \<Longrightarrow> s0 \<in> {s, cb_starten s, cb_abbrechen s} \<Longrightarrow>
   fst (snd (skript_lauf Generatorseite datei s0)) \<in> {None, Some ''None''}"
  using generatorseite_ergebnis [of datei s]
  by (auto simp: skript_lauf_def sitzung_defs Let_def ergebnis_str_def)

theorem generatorseite_ansicht_witness:
  "fst (snd (skript_lauf Generatorseite ''silicon.json'' (cb_starten sitzung_leer))) \<in> {None, Some ''None''}"
  using generatorseite_ansicht [of "''silicon.json''" sitzung_leer "cb_starten sitzung_leer"] erreichbar.anfang by simp

lemma referenzseite_ansicht:
  "let s1 = fst (skript_lauf Referenzseite datei sitzung_leer);
       s2 = fst (skript_lauf Referenzseite datei (cb_starten s1));
       s3 = fst (skript_lauf Referenzseite datei s2)
   in erreichbar Referenzseite datei s3 \<and> fst (snd (skript_lauf Referenzseite datei s2)) = Some datei \<and>
      s_ergebnis s3 = Some (Some datei)"
proof -
  let ?s1 = "fst (skript_lauf Referenzseite datei sitzung_leer)"
  let ?s2 = "fst (skript_lauf Referenzseite datei (cb_starten ?s1))"
  let ?s3 = "fst (skript_lauf Referenzseite datei ?s2)"
  have e1: "erreichbar Referenzseite datei ?s1" by (rule erreichbar.schritt [OF erreichbar.anfang seite_schritt.neu_laden])
  have "s_gestartet ?s1 \<noteq> Some True" by (simp add: skript_lauf_def sitzung_defs Let_def)
  then have e2: "erreichbar Referenzseite datei ?s2" by (rule erreichbar.schritt [OF e1 seite_schritt.start])
  have e3: "erreichbar Referenzseite datei ?s3" by (rule erreichbar.schritt [OF e2 seite_schritt.neu_laden])
  show ?thesis using e3 by (simp add: skript_lauf_def sitzung_defs Let_def ergebnis_str_def)
qed

subsection \<open>Preselection\<close>

text \<open>A string name never equals a \<open>Path\<close> entry, so the silicon-samples view never
  preselects a file; the summaries view finds a file directly in its folder.\<close>

lemma ss_vorauswahl_keine_datei:
  "ss_vorauswahl v (auswahl_liste k fs) = None \<or> ss_vorauswahl v (auswahl_liste k fs) = Some 0"
  by (auto simp: ss_vorauswahl_def auswahl_liste_def py_list_index_def)

lemma takeWhile_ungleich:
  "x \<in> set xs \<Longrightarrow> length (takeWhile (\<lambda>y. y \<noteq> x) xs) < length xs \<and> xs ! length (takeWhile (\<lambda>y. y \<noteq> x) xs) = x"
  by (induction xs) auto

lemma zf_vorauswahl_datei:
  assumes "v \<noteq> []" "[pfad_name v] \<in> set fs"
  shows "\<exists>i. zf_vorauswahl v (auswahl_liste k fs) = Some (Suc i) \<and> i < length fs \<and> fs ! i = [pfad_name v]"
proof -
  let ?i = "length (takeWhile (\<lambda>y. y \<noteq> Pfad [pfad_name v]) (map Pfad fs))"
  have "Pfad [pfad_name v] \<in> set (map Pfad fs)" using assms(2) by simp
  from takeWhile_ungleich [OF this] have "?i < length fs" "fs ! ?i = [pfad_name v]" by (auto simp: nth_map)
  then show ?thesis using assms
    by (intro exI [of _ ?i]) (auto simp: zf_vorauswahl_def auswahl_liste_def py_list_index_def)
qed

end
