(* ===== verification/Dokumentauswahl.thy ===== *)
theory Dokumentauswahl
  imports Anzeige
begin

text \<open>
  The selection table of the reference-document page (referenzdokumente.py): one row per
  PDF, CSV file and URL, two select boxes per row (text: nothing, summary with numbers,
  summary without numbers; tables: nothing, extract, extract and summarise with numbers,
  extract and summarise without numbers), and the list of \<open>ReferenzdokumentAuswahl\<close>
  the page builds from the edited rows for the summarizer. The labels of the select boxes
  and of the kinds come from \<open>api.text\<close>, the parameter \<open>txt\<close>.
\<close>

subsection \<open>Rows and selections\<close>

record zeile =
  zeile_art :: string
  zeile_name :: string
  zeile_erstellungsdatum :: string
  zeile_text :: string
  zeile_tabellen :: string

text \<open>The rows the page lists: the PDFs and CSV files of the folder with their dates,
  then the URLs of the URL file (dates \<open>N/A\<close>), all with the first option of both boxes.\<close>

definition start_zeilen ::
  "(string \<Rightarrow> string) \<Rightarrow> (string \<times> string) list \<Rightarrow> (string \<times> string) list \<Rightarrow> string list \<Rightarrow> zeile list" where
  "start_zeilen txt pdfs csvs urls =
     map (\<lambda>(n, d). \<lparr>zeile_art = txt ''tabelle_art_pdf'', zeile_name = n, zeile_erstellungsdatum = d,
                    zeile_text = txt ''tabelle_text_verarbeiten_option_1'',
                    zeile_tabellen = txt ''tabelle_tabellen_verarbeiten_option_1''\<rparr>) pdfs @
     map (\<lambda>(n, d). \<lparr>zeile_art = ''CSV'', zeile_name = n, zeile_erstellungsdatum = d,
                    zeile_text = txt ''tabelle_text_verarbeiten_option_1'',
                    zeile_tabellen = txt ''tabelle_tabellen_verarbeiten_option_1''\<rparr>) csvs @
     map (\<lambda>u. \<lparr>zeile_art = txt ''tabelle_art_url'', zeile_name = u, zeile_erstellungsdatum = ''N/A'',
                 zeile_text = txt ''tabelle_text_verarbeiten_option_1'',
                 zeile_tabellen = txt ''tabelle_tabellen_verarbeiten_option_1''\<rparr>) urls"

text \<open>The document of a row: files get the folder as path prefix, URLs are their own path.
  The row index becomes the id (a Python \<open>int\<close>, written here as its decimal string).\<close>

definition zeile_dokument :: "(string \<Rightarrow> string) \<Rightarrow> string \<Rightarrow> nat \<Rightarrow> zeile \<Rightarrow> referenzdokument" where
  "zeile_dokument txt ordner i z =
     \<lparr>rd_id = py_int_str (int i), art = zeile_art z, rd_name = zeile_name z,
      pfad = (if zeile_art z = txt ''tabelle_art_pdf'' then ordner @ ''/'' @ zeile_name z
              else if zeile_art z = ''CSV'' then ordner @ ''/'' @ zeile_name z
              else zeile_name z),
      rd_erstellungsdatum = zeile_erstellungsdatum z\<rparr>"

text \<open>The flags of a row, as the \<open>if\<close>/\<open>elif\<close> for the text and the three \<open>if\<close>s for the
  tables set them.\<close>

definition zeile_zusammenfassung :: "(string \<Rightarrow> string) \<Rightarrow> zeile \<Rightarrow> zusammenfassung_auswahl" where
  "zeile_zusammenfassung txt z =
     (let t = zeile_text z; b = zeile_tabellen z in
      \<lparr>text_zusammenfassen = (t = txt ''tabelle_text_verarbeiten_option_2'' \<or> t = txt ''tabelle_text_verarbeiten_option_3''),
       text_zusammenfassen_mit_zahlen = (t = txt ''tabelle_text_verarbeiten_option_2''),
       tabellen_extrahieren = (b = txt ''tabelle_tabellen_verarbeiten_option_2'' \<or> b = txt ''tabelle_tabellen_verarbeiten_option_3'' \<or>
                               b = txt ''tabelle_tabellen_verarbeiten_option_4''),
       tabellen_zusammenfassen = (b = txt ''tabelle_tabellen_verarbeiten_option_3'' \<or> b = txt ''tabelle_tabellen_verarbeiten_option_4''),
       tabellen_zusammenfassen_mit_zahlen = (b = txt ''tabelle_tabellen_verarbeiten_option_3'')\<rparr>)"

text \<open>\<open>referenzdokumente_auswahl\<close>: the rows in order, those that ask for work.\<close>

definition referenzdokumente_auswahl ::
  "(string \<Rightarrow> string) \<Rightarrow> string \<Rightarrow> zeile list \<Rightarrow> referenzdokument_auswahl list" where
  "referenzdokumente_auswahl txt ordner zs =
     filter (\<lambda>ra. soll_vorbereitet_werden (ra_zusammenfassung_auswahl ra))
       (map (\<lambda>(i, z). \<lparr>ra_referenzdokument = zeile_dokument txt ordner i z,
                       ra_zusammenfassung_auswahl = zeile_zusammenfassung txt z\<rparr>)
            (enumerate 0 zs))"

subsection \<open>Properties of the selection\<close>

text \<open>Every selected document asks for work, and its flags are consistent (numbers only
  with a summary, a table summary only with extraction), as the summarizer's nodes
  assume; the untouched table selects nothing; the ids are the distinct row indices.\<close>

lemma auswahl_wohlgeformt:
  assumes "ra \<in> set (referenzdokumente_auswahl txt ordner zs)"
  shows "soll_vorbereitet_werden (ra_zusammenfassung_auswahl ra) \<and>
         (text_zusammenfassen_mit_zahlen (ra_zusammenfassung_auswahl ra) \<longrightarrow> text_zusammenfassen (ra_zusammenfassung_auswahl ra)) \<and>
         (tabellen_zusammenfassen (ra_zusammenfassung_auswahl ra) \<longrightarrow> tabellen_extrahieren (ra_zusammenfassung_auswahl ra)) \<and>
         (tabellen_zusammenfassen_mit_zahlen (ra_zusammenfassung_auswahl ra) \<longrightarrow> tabellen_zusammenfassen (ra_zusammenfassung_auswahl ra))"
  using assms by (auto simp: referenzdokumente_auswahl_def zeile_zusammenfassung_def Let_def)

lemma start_zeilen_optionen:
  "z \<in> set (start_zeilen txt pdfs csvs urls) \<Longrightarrow>
   zeile_text z = txt ''tabelle_text_verarbeiten_option_1'' \<and> zeile_tabellen z = txt ''tabelle_tabellen_verarbeiten_option_1''"
  by (auto simp: start_zeilen_def)

lemma start_zeilen_ohne_auswahl:
  assumes "txt ''tabelle_text_verarbeiten_option_1'' \<notin> {txt ''tabelle_text_verarbeiten_option_2'', txt ''tabelle_text_verarbeiten_option_3''}"
    "txt ''tabelle_tabellen_verarbeiten_option_1'' \<notin>
       {txt ''tabelle_tabellen_verarbeiten_option_2'', txt ''tabelle_tabellen_verarbeiten_option_3'', txt ''tabelle_tabellen_verarbeiten_option_4''}"
  shows "referenzdokumente_auswahl txt ordner (start_zeilen txt pdfs csvs urls) = []"
  using assms
  by (auto simp: referenzdokumente_auswahl_def filter_empty_conv zeile_zusammenfassung_def soll_vorbereitet_werden_def
      Let_def dest!: enumerate_mem start_zeilen_optionen)

lemma auswahl_ids:
  "map (rd_id \<circ> ra_referenzdokument) (referenzdokumente_auswahl txt ordner zs) =
   map (\<lambda>i. py_int_str (int i)) (filter (\<lambda>i. soll_vorbereitet_werden (zeile_zusammenfassung txt (zs ! i))) [0..<length zs]) \<and>
   distinct (map (rd_id \<circ> ra_referenzdokument) (referenzdokumente_auswahl txt ordner zs))"
proof -
  have z: "enumerate 0 zs = map (\<lambda>i. (i, zs ! i)) [0..<length zs]"
    by (metis enumerate_map_upt map_nth)
  have m: "map (rd_id \<circ> ra_referenzdokument) (referenzdokumente_auswahl txt ordner zs) =
           map (\<lambda>i. py_int_str (int i)) (filter (\<lambda>i. soll_vorbereitet_werden (zeile_zusammenfassung txt (zs ! i))) [0..<length zs])"
    by (simp add: referenzdokumente_auswahl_def z filter_map comp_def zeile_dokument_def)
  have "inj_on (\<lambda>i. py_int_str (int i)) (set (filter (\<lambda>i. soll_vorbereitet_werden (zeile_zusammenfassung txt (zs ! i))) [0..<length zs]))"
    by (rule inj_onI) (simp add: py_int_str_def nat_ziffern_inj)
  then show ?thesis using m by (simp add: distinct_map)
qed

text \<open>The kind of a URL row is the configured label, while the summarizer dispatches on
  the literal \<open>URL\<close>: with any other label the URL is handed to the PDF loader as a path.\<close>

lemma url_zeile_pdf_lader:
  assumes "txt ''tabelle_art_url'' \<notin> {''URL'', ''CSV'', txt ''tabelle_art_pdf''}"
  shows "lader_fuer (art (zeile_dokument txt ordner i (z\<lparr>zeile_art := txt ''tabelle_art_url'', zeile_name := u\<rparr>))) = PDFLader \<and>
         pfad (zeile_dokument txt ordner i (z\<lparr>zeile_art := txt ''tabelle_art_url'', zeile_name := u\<rparr>)) = u"
  using assms by (simp add: lader_fuer_def zeile_dokument_def)

end
