(* ===== verification/Anbieter.thy ===== *)
theory Anbieter
  imports Anzeige
begin

text \<open>
  The LLM providers and their registry (shared/llm_integrations): the provider objects of
  the four vendors with their model lists, the active model and the last model instance,
  and \<open>LLMProviderHandler\<close>, whose map from model name to provider is a class attribute
  and so shared by every handler of the server process. Provider objects live in an
  explicit heap indexed by addresses, so that two sessions holding the same provider see
  each other's \<open>aktiviere_model\<close>. The app start (ssg.py) creates four new providers and
  a new handler on every run of a session; the page takes its provider from the handler
  (\<open>streamlit_llm_provider_auswahl\<close>), and every model call of its job builds the model
  instance of the provider's active model (\<open>hole_llm_instanz_aus_graph\<close>). Runs of
  several sessions interleave; a trace of tagged events models that.
\<close>

subsection \<open>Providers in a heap\<close>

datatype anbieter_art = Google | OpenAI | DeepSeek | Mistral

type_synonym adresse = nat

text \<open>A provider object: its class, \<open>self.models\<close>, \<open>self.aktives_model\<close> (unset until
  the first \<open>aktiviere_model\<close>) and \<open>self.llm_instanz\<close>, the keyword arguments of the
  vendor's chat model the last \<open>hole_instanz\<close> built.\<close>

record anbieter =
  a_art :: anbieter_art
  a_models :: "string list"
  a_aktiv :: "string option"
  a_instanz :: "(string \<times> pyval) list option"

text \<open>The process: the heap of provider objects, the next free address, and the class
  attribute \<open>LLMProviderHandler.provider_models\<close> (a dictionary in insertion order).\<close>

record prozess =
  p_heap :: "adresse \<Rightarrow> anbieter option"
  p_frei :: adresse
  p_provider_models :: "(string, adresse) dict"

definition prozess_start :: prozess where
  "prozess_start = \<lparr>p_heap = (\<lambda>_. None), p_frei = 0, p_provider_models = []\<rparr>"

text \<open>\<open>LLMProvider.__init__\<close> (through the vendor class): a new object.\<close>

definition anbieter_neu :: "anbieter_art \<Rightarrow> string list \<Rightarrow> prozess \<Rightarrow> adresse \<times> prozess" where
  "anbieter_neu k ms w =
     (p_frei w, w\<lparr>p_heap := (p_heap w)(p_frei w \<mapsto> \<lparr>a_art = k, a_models = ms, a_aktiv = None, a_instanz = None\<rparr>),
                  p_frei := Suc (p_frei w)\<rparr>)"

text \<open>\<open>aktiviere_model\<close>: the object at the address is changed for everyone who holds it.\<close>

definition aktiviere_model :: "adresse \<Rightarrow> string \<Rightarrow> prozess \<Rightarrow> prozess" where
  "aktiviere_model a m w =
     (case p_heap w a of
        None \<Rightarrow> w
      | Some p \<Rightarrow> w\<lparr>p_heap := (p_heap w)(a \<mapsto> p\<lparr>a_aktiv := Some m\<rparr>)\<rparr>)"

text \<open>The keyword arguments each vendor class passes to its chat model in \<open>hole_instanz\<close>.\<close>

definition instanz_parameter :: "anbieter_art \<Rightarrow> string \<Rightarrow> (string \<times> pyval) list" where
  "instanz_parameter k m =
     (case k of
        Mistral \<Rightarrow> [(''model'', PStr m), (''temperature'', PInt 0), (''max_retries'', PInt 2)]
      | _ \<Rightarrow> [(''model'', PStr m), (''temperature'', PInt 0), (''max_tokens'', PNone), (''timeout'', PNone),
              (''max_retries'', PInt 2)])"

definition hole_instanz :: "adresse \<Rightarrow> string \<Rightarrow> prozess \<Rightarrow> ((string \<times> pyval) list \<times> prozess) option" where
  "hole_instanz a m w =
     (case p_heap w a of
        None \<Rightarrow> None
      | Some p \<Rightarrow> let i = instanz_parameter (a_art p) m in
                  Some (i, w\<lparr>p_heap := (p_heap w)(a \<mapsto> p\<lparr>a_instanz := Some i\<rparr>)\<rparr>))"

text \<open>\<open>parse_content\<close>: Gemini's reply text (\<open>response.text\<close>: the string content, or the
  text blocks of a list content joined), the others' \<open>response.content\<close> as it is.\<close>

definition ki_text :: "pyval \<Rightarrow> string" where
  "ki_text c =
     (case c of
        PStr s \<Rightarrow> s
      | PList bs \<Rightarrow> concat (map (\<lambda>b. case b of
                                      PStr s \<Rightarrow> s
                                    | PDict d \<Rightarrow> (if map_of d ''type'' = Some (PStr ''text'')
                                                 then (case map_of d ''text'' of Some (PStr s) \<Rightarrow> s | _ \<Rightarrow> [])
                                                 else [])
                                    | _ \<Rightarrow> []) bs)
      | _ \<Rightarrow> [])"

definition anbieter_parse_content :: "anbieter_art \<Rightarrow> pyval \<Rightarrow> pyval" where
  "anbieter_parse_content k c = (case k of Google \<Rightarrow> PStr (ki_text c) | _ \<Rightarrow> c)"

subsection \<open>The registry\<close>

text \<open>\<open>LLMProviderHandler.__init__\<close>: every model of every provider, in order, is entered
  in the class-level dictionary, a later provider of the same model replacing the earlier.\<close>

definition handler_init :: "adresse list \<Rightarrow> prozess \<Rightarrow> prozess" where
  "handler_init ps w =
     w\<lparr>p_provider_models :=
         fold (\<lambda>a d. fold (\<lambda>m d. dict_set d m a) (case p_heap w a of Some p \<Rightarrow> a_models p | None \<Rightarrow> []) d)
           ps (p_provider_models w)\<rparr>"

text \<open>\<open>hole_provider\<close>: the provider of the model, with the model activated, or the
  \<open>KeyError\<close> of an unknown model; \<open>hole_models\<close>: the model names in order.\<close>

definition hole_provider :: "string \<Rightarrow> prozess \<Rightarrow> py_error + adresse \<times> prozess" where
  "hole_provider m w =
     (case map_of (p_provider_models w) m of
        None \<Rightarrow> Inl (KeyError (''Unbekanntes Modell: '' @ m @ ''. Verf'' @ [CHR 0xFC] @ ''gbar: '' @
                         py_repr (PList (map (PStr \<circ> fst) (p_provider_models w)))))
      | Some a \<Rightarrow> Inr (a, aktiviere_model a m w))"

definition handler_models :: "prozess \<Rightarrow> string list" where
  "handler_models w = map fst (p_provider_models w)"

text \<open>The providers and models ssg.py registers on every run.\<close>

definition ssg_anbieter :: "(anbieter_art \<times> string list) list" where
  "ssg_anbieter =
     [(Google, [''gemini-3-pro-preview'', ''gemini-2.0-flash'', ''gemini-2.5-pro'', ''gemini-2.5-flash'']),
      (OpenAI, [''gpt-5-mini'', ''gpt-5.2'']),
      (DeepSeek, [''deepseek-chat'']),
      (Mistral, [''mistral-large-latest'', ''mistral-small-2506'', ''ministral-3b-2512'', ''ministral-8b-2512''])]"

fun anbieter_anlegen :: "(anbieter_art \<times> string list) list \<Rightarrow> prozess \<Rightarrow> adresse list \<times> prozess" where
  "anbieter_anlegen [] w = ([], w)"
| "anbieter_anlegen ((k, ms) # r) w =
     (let (a, w1) = anbieter_neu k ms w; (as, w2) = anbieter_anlegen r w1 in (a # as, w2))"

definition ssg_start :: "prozess \<Rightarrow> prozess" where
  "ssg_start w = (let (as, w1) = anbieter_anlegen ssg_anbieter w in handler_init as w1)"

definition platzhalter :: string where
  "platzhalter = ''Modell ausw'' @ [CHR 0xE4] @ ''hlen''"

text \<open>\<open>streamlit_llm_provider_auswahl\<close> with the model the select box returns: no provider
  for no choice or the placeholder.\<close>

definition provider_auswahl :: "string option \<Rightarrow> prozess \<Rightarrow> py_error + adresse option \<times> prozess" where
  "provider_auswahl sel w =
     (case sel of
        Some m \<Rightarrow> if m \<noteq> [] \<and> m \<noteq> platzhalter
                  then bind_r (hole_provider m w) (\<lambda>(a, w'). Inr (Some a, w'))
                  else Inr (None, w)
      | None \<Rightarrow> Inr (None, w))"

text \<open>A model call of a job (\<open>hole_llm_instanz_aus_graph\<close>): the instance of the active
  model of the provider the job holds; \<open>AttributeError\<close> if none was activated.\<close>

definition modell_aufruf :: "adresse \<Rightarrow> prozess \<Rightarrow> py_error + string \<times> prozess" where
  "modell_aufruf a w =
     (case p_heap w a of
        None \<Rightarrow> Inl (AttributeError ''aktives_model'')
      | Some p \<Rightarrow> (case a_aktiv p of
                    None \<Rightarrow> Inl (AttributeError ''aktives_model'')
                  | Some m \<Rightarrow> (case hole_instanz a m w of
                                None \<Rightarrow> Inl (AttributeError ''aktives_model'')
                              | Some (_, w') \<Rightarrow> Inr (m, w'))))"

subsection \<open>Sessions sharing the process\<close>

text \<open>The events of a session: a run of ssg.py, the choice of a model on the page (the
  page then holds that provider for its job, or none for the placeholder), a model call of
  the job. What each session holds is a dictionary from session to provider address.\<close>

datatype ereignis = Neustart | Auswahl string | Aufruf

type_synonym sitzungen = "(nat, adresse) dict"

definition sitzung_halten :: "sitzungen \<Rightarrow> nat \<Rightarrow> adresse option \<Rightarrow> sitzungen" where
  "sitzung_halten h s ao = (case ao of Some a \<Rightarrow> dict_set h s a | None \<Rightarrow> filter (\<lambda>(t, _). t \<noteq> s) h)"

definition ereignis_ausfuehren ::
  "nat \<times> ereignis \<Rightarrow> prozess \<times> sitzungen \<Rightarrow> py_error + (prozess \<times> sitzungen) \<times> (nat \<times> string) option" where
  "ereignis_ausfuehren e st =
     (let (w, h) = st; (s, ev) = e in
      case ev of
        Neustart \<Rightarrow> Inr ((ssg_start w, h), None)
      | Auswahl m \<Rightarrow> bind_r (provider_auswahl (Some m) w) (\<lambda>(ao, w'). Inr ((w', sitzung_halten h s ao), None))
      | Aufruf \<Rightarrow> (case map_of h s of
                     None \<Rightarrow> Inl (AttributeError ''hole_instanz'')
                   | Some a \<Rightarrow> bind_r (modell_aufruf a w) (\<lambda>(m, w'). Inr ((w', h), Some (s, m)))))"

text \<open>A trace of events of several sessions, in the order they happen: the models the
  calls used, with their sessions.\<close>

fun ausfuehren ::
  "(nat \<times> ereignis) list \<Rightarrow> prozess \<times> sitzungen \<Rightarrow> py_error + (prozess \<times> sitzungen) \<times> (nat \<times> string) list" where
  "ausfuehren [] st = Inr (st, [])"
| "ausfuehren (e # es) st =
     bind_r (ereignis_ausfuehren e st) (\<lambda>(st', b).
     bind_r (ausfuehren es st') (\<lambda>(st'', bs). Inr (st'', (case b of Some x \<Rightarrow> [x] | None \<Rightarrow> []) @ bs)))"

subsection \<open>The invariant and the specification of a session\<close>

text \<open>Every provider a session holds or the registry names is an allocated object below
  the next free address.\<close>

definition anbieter_wf :: "prozess \<Rightarrow> sitzungen \<Rightarrow> bool" where
  "anbieter_wf w h \<longleftrightarrow>
     (\<forall>a \<in> snd ` set h \<union> snd ` set (p_provider_models w). a < p_frei w \<and> p_heap w a \<noteq> None)"

text \<open>The model a session's job calls: the active model of the provider it holds.\<close>

definition gewaehlt :: "prozess \<Rightarrow> sitzungen \<Rightarrow> nat \<Rightarrow> string option" where
  "gewaehlt w h s =
     (case map_of h s of None \<Rightarrow> None | Some a \<Rightarrow> (case p_heap w a of None \<Rightarrow> None | Some p \<Rightarrow> a_aktiv p))"

text \<open>What a session promises when it runs alone: every call of its job uses the model
  chosen last on its page (no model for the placeholder).\<close>

definition auswahl_modell :: "string \<Rightarrow> string option" where
  "auswahl_modell m = (if m \<noteq> [] \<and> m \<noteq> platzhalter then Some m else None)"

fun erwartet :: "string option \<Rightarrow> ereignis list \<Rightarrow> string list" where
  "erwartet c [] = []"
| "erwartet c (Neustart # es) = erwartet c es"
| "erwartet c (Auswahl m # es) = erwartet (auswahl_modell m) es"
| "erwartet c (Aufruf # es) = (case c of Some m \<Rightarrow> m # erwartet c es | None \<Rightarrow> [])"

subsection \<open>Allocation and registration\<close>

lemma anbieter_anlegen_frisch:
  "anbieter_anlegen ks w = (as, w') \<Longrightarrow>
   as = [p_frei w..<p_frei w + length ks] \<and> p_frei w' = p_frei w + length ks \<and>
   (\<forall>a < p_frei w. p_heap w' a = p_heap w a) \<and> (\<forall>a \<in> set as. p_heap w' a \<noteq> None) \<and>
   p_provider_models w' = p_provider_models w"
proof (induction ks arbitrary: w as w')
  case (Cons kp ks)
  obtain k ms where kp: "kp = (k, ms)" by fastforce
  define w0 where "w0 = snd (anbieter_neu k ms w)"
  obtain as1 w1 where r: "anbieter_anlegen ks w0 = (as1, w1)" by fastforce
  have e: "as = p_frei w # as1" "w' = w1"
    using Cons.prems r by (simp_all add: kp w0_def anbieter_neu_def)
  have w0: "p_frei w0 = Suc (p_frei w)" "p_heap w0 (p_frei w) \<noteq> None" "\<forall>a < p_frei w. p_heap w0 a = p_heap w a"
    "p_provider_models w0 = p_provider_models w"
    by (simp_all add: w0_def anbieter_neu_def)
  note ih = Cons.IH [OF r]
  have "as = [p_frei w..<p_frei w + length (kp # ks)]"
    using e ih w0(1) by (simp add: upt_conv_Cons del: upt_Suc)
  with e ih w0 show ?case by auto
qed simp

lemma fold_dict_set_werte:
  "x \<in> set (fold (\<lambda>m d. dict_set d m a) ms d) \<Longrightarrow> x \<in> set d \<or> snd x = a"
proof (induction ms arbitrary: d)
  case (Cons m ms)
  then have "x \<in> set (dict_set d m a) \<or> snd x = a" by simp
  then show ?case by (auto dest: dict_set_werte)
qed simp

lemma handler_init_werte:
  "x \<in> set (p_provider_models (handler_init ps w)) \<Longrightarrow> x \<in> set (p_provider_models w) \<or> snd x \<in> set ps"
proof -
  have "x \<in> set (fold (\<lambda>a d. fold (\<lambda>m d. dict_set d m a) (f a) d) ps d) \<Longrightarrow> x \<in> set d \<or> snd x \<in> set ps" for f d
    by (induction ps arbitrary: d) (auto dest: fold_dict_set_werte)
  then show "x \<in> set (p_provider_models (handler_init ps w)) \<Longrightarrow> ?thesis" by (simp add: handler_init_def)
qed

lemma ssg_start_frisch:
  "p_frei (ssg_start w) = p_frei w + 4 \<and> (\<forall>a < p_frei w. p_heap (ssg_start w) a = p_heap w a) \<and>
   (\<forall>x \<in> set (p_provider_models (ssg_start w)).
      x \<in> set (p_provider_models w) \<or> (snd x < p_frei w + 4 \<and> p_heap (ssg_start w) (snd x) \<noteq> None))"
proof -
  obtain as w1 where r: "anbieter_anlegen ssg_anbieter w = (as, w1)" by fastforce
  have l: "length ssg_anbieter = 4" by (simp add: ssg_anbieter_def)
  have s: "ssg_start w = handler_init as w1" by (simp add: ssg_start_def r)
  have "p_heap (handler_init as w1) = p_heap w1" "p_frei (handler_init as w1) = p_frei w1"
    by (simp_all add: handler_init_def)
  with anbieter_anlegen_frisch [OF r] l s show ?thesis by (auto dest!: handler_init_werte)
qed

text \<open>What one run of ssg.py leaves: the four providers at the next free addresses and each
  model registered to its provider, replacing an earlier registration.\<close>

lemma ssg_start_heap:
  "p_heap (ssg_start w) = (p_heap w)(p_frei w \<mapsto> \<lparr>a_art = Google, a_models = snd (ssg_anbieter ! 0), a_aktiv = None, a_instanz = None\<rparr>,
      Suc (p_frei w) \<mapsto> \<lparr>a_art = OpenAI, a_models = snd (ssg_anbieter ! 1), a_aktiv = None, a_instanz = None\<rparr>,
      Suc (Suc (p_frei w)) \<mapsto> \<lparr>a_art = DeepSeek, a_models = snd (ssg_anbieter ! 2), a_aktiv = None, a_instanz = None\<rparr>,
      Suc (Suc (Suc (p_frei w))) \<mapsto> \<lparr>a_art = Mistral, a_models = snd (ssg_anbieter ! 3), a_aktiv = None, a_instanz = None\<rparr>)"
  by (simp add: ssg_start_def ssg_anbieter_def handler_init_def anbieter_neu_def)

lemma ssg_start_registry:
  "map_of (p_provider_models (ssg_start w)) =
   map_of (p_provider_models w) ++
   map_of (concat (map (\<lambda>(i, k, ms). map (\<lambda>m. (m, p_frei w + i)) ms) (enumerate 0 ssg_anbieter)))"
  by (simp add: ssg_start_def ssg_anbieter_def handler_init_def anbieter_neu_def fun_eq_iff map_add_def)

lemma ssg_start_frei: "p_frei (ssg_start w) = p_frei w + 4"
  using ssg_start_frisch by blast

lemmas ssg_start_eval = ssg_start_heap ssg_start_registry ssg_start_frei ereignis_ausfuehren_def provider_auswahl_def
  hole_provider_def modell_aufruf_def hole_instanz_def platzhalter_def sitzung_halten_def dict_set_def Let_def
  prozess_start_def ssg_anbieter_def

subsection \<open>The operations on the heap\<close>

lemma aktiviere_model_felder [simp]:
  "p_heap (aktiviere_model a m w) = (p_heap w)(a := map_option (\<lambda>p. p\<lparr>a_aktiv := Some m\<rparr>) (p_heap w a))"
  "p_frei (aktiviere_model a m w) = p_frei w"
  "p_provider_models (aktiviere_model a m w) = p_provider_models w"
  by (auto simp: aktiviere_model_def fun_eq_iff split: option.splits)

text \<open>A model call changes the instance only: the active models, the allocation and the
  registry stay.\<close>

lemma modell_aufruf_ok:
  "modell_aufruf a w = Inr (m, w') \<Longrightarrow>
   (\<exists>p. p_heap w a = Some p \<and> a_aktiv p = Some m) \<and> p_frei w' = p_frei w \<and>
   p_provider_models w' = p_provider_models w \<and> map_option a_aktiv \<circ> p_heap w' = map_option a_aktiv \<circ> p_heap w"
  by (auto simp: modell_aufruf_def hole_instanz_def Let_def fun_eq_iff split: option.splits)

lemma provider_auswahl_ok:
  "provider_auswahl (Some m) w = Inr (ao, w') \<Longrightarrow>
   (auswahl_modell m = None \<and> ao = None \<and> w' = w) \<or>
   (\<exists>a. auswahl_modell m = Some m \<and> map_of (p_provider_models w) m = Some a \<and> ao = Some a \<and> w' = aktiviere_model a m w)"
  by (cases "map_of (p_provider_models w) m")
    (auto simp: provider_auswahl_def auswahl_modell_def hole_provider_def split: if_splits)

lemma map_of_sitzung_halten [simp]: "map_of (sitzung_halten h s ao) = (map_of h)(s := ao)"
proof -
  have "map_of (filter (\<lambda>(t, _). t \<noteq> s) h) = (map_of h)(s := None)"
    by (induction h) (auto simp: fun_eq_iff)
  then show ?thesis by (simp add: sitzung_halten_def split: option.splits)
qed

lemma sitzung_halten_werte: "x \<in> set (sitzung_halten h s ao) \<Longrightarrow> x \<in> set h \<or> ao = Some (snd x)"
  by (auto simp: sitzung_halten_def split: option.splits dest: dict_set_werte)

lemma gewaehlt_aktiv:
  assumes "map_option a_aktiv \<circ> p_heap w' = map_option a_aktiv \<circ> p_heap w"
  shows "gewaehlt w' h s = gewaehlt w h s"
proof -
  have k: "(case p_heap v a of None \<Rightarrow> None | Some p \<Rightarrow> a_aktiv p) =
           (case (map_option a_aktiv \<circ> p_heap v) a of None \<Rightarrow> None | Some x \<Rightarrow> x)" for v a
    by (cases "p_heap v a") simp_all
  show ?thesis by (simp only: gewaehlt_def k assms)
qed

subsection \<open>One step\<close>

text \<open>Every event keeps the invariant, whichever session it belongs to.\<close>

lemma ereignis_neustart:
  "ereignis_ausfuehren (t, Neustart) (w, h) = Inr ((w', h'), b) \<Longrightarrow> w' = ssg_start w \<and> h' = h \<and> b = None"
  by (simp add: ereignis_ausfuehren_def)

lemma ereignis_auswahl:
  "ereignis_ausfuehren (t, Auswahl m) (w, h) = Inr ((w', h'), b) \<Longrightarrow>
   \<exists>ao. provider_auswahl (Some m) w = Inr (ao, w') \<and> h' = sitzung_halten h t ao \<and> b = None"
  by (cases "provider_auswahl (Some m) w") (auto simp: ereignis_ausfuehren_def)

lemma ereignis_aufruf:
  "ereignis_ausfuehren (t, Aufruf) (w, h) = Inr ((w', h'), b) \<Longrightarrow>
   \<exists>a m. map_of h t = Some a \<and> modell_aufruf a w = Inr (m, w') \<and> h' = h \<and> b = Some (t, m)"
  by (cases "map_of h t"; cases "modell_aufruf (the (map_of h t)) w") (auto simp: ereignis_ausfuehren_def)

lemma anbieter_wf_schritt:
  assumes "anbieter_wf w h" "p_frei w \<le> p_frei w'"
    "\<And>a. a < p_frei w \<Longrightarrow> p_heap w a \<noteq> None \<Longrightarrow> p_heap w' a \<noteq> None"
    "\<And>a. a \<in> snd ` set h' \<union> snd ` set (p_provider_models w') \<Longrightarrow>
          a \<in> snd ` set h \<union> snd ` set (p_provider_models w) \<or> (a < p_frei w' \<and> p_heap w' a \<noteq> None)"
  shows "anbieter_wf w' h'"
  unfolding anbieter_wf_def
proof
  fix a assume "a \<in> snd ` set h' \<union> snd ` set (p_provider_models w')"
  with assms(4) consider "a \<in> snd ` set h \<union> snd ` set (p_provider_models w)" | "a < p_frei w' \<and> p_heap w' a \<noteq> None"
    by blast
  then show "a < p_frei w' \<and> p_heap w' a \<noteq> None"
  proof cases
    case 1
    with assms(1) have "a < p_frei w" "p_heap w a \<noteq> None" by (auto simp: anbieter_wf_def)
    with assms(2,3) show ?thesis by simp
  qed
qed

lemma anbieter_wf_gehalten:
  "anbieter_wf w h \<Longrightarrow> map_of h s = Some a \<Longrightarrow> a < p_frei w \<and> p_heap w a \<noteq> None"
  unfolding anbieter_wf_def by (drule bspec, rule UnI1, rule rev_image_eqI [OF map_of_SomeD]) auto

lemma anbieter_wf_registriert:
  "anbieter_wf w h \<Longrightarrow> map_of (p_provider_models w) m = Some a \<Longrightarrow> a < p_frei w \<and> p_heap w a \<noteq> None"
  unfolding anbieter_wf_def by (drule bspec, rule UnI2, rule rev_image_eqI [OF map_of_SomeD]) auto

lemma ereignis_wf:
  assumes "ereignis_ausfuehren (t, ev) (w, h) = Inr ((w', h'), b)" "anbieter_wf w h"
  shows "anbieter_wf w' h'"
proof (cases ev)
  case Neustart
  with ereignis_neustart [of t w h w' h' b] assms(1) have e: "w' = ssg_start w" "h' = h" by simp_all
  have f1: "p_frei (ssg_start w) = p_frei w + 4"
    and f2: "\<forall>a < p_frei w. p_heap (ssg_start w) a = p_heap w a"
    and f3: "\<forall>x \<in> set (p_provider_models (ssg_start w)).
               x \<in> set (p_provider_models w) \<or> (snd x < p_frei w + 4 \<and> p_heap (ssg_start w) (snd x) \<noteq> None)"
    using ssg_start_frisch [of w] by blast+
  show ?thesis
    by (rule anbieter_wf_schritt [OF assms(2)]) (use e f1 f2 f3 in force)+
next
  case (Auswahl m)
  with ereignis_auswahl [of t m w h w' h' b] assms(1) obtain ao where
    p: "provider_auswahl (Some m) w = Inr (ao, w')" "h' = sitzung_halten h t ao" by blast
  from provider_auswahl_ok [OF p(1)] have
    o: "w' = w \<and> ao = None \<or> (\<exists>a. map_of (p_provider_models w) m = Some a \<and> ao = Some a \<and> w' = aktiviere_model a m w)"
    by blast
  have "a \<in> snd ` set h \<union> snd ` set (p_provider_models w)" if "a \<in> snd ` set h' \<union> snd ` set (p_provider_models w')" for a
    using that o p(2) by (force dest: sitzung_halten_werte map_of_SomeD)
  then show ?thesis
    by (rule_tac anbieter_wf_schritt [OF assms(2)]) (use o in auto)
next
  case Aufruf
  with ereignis_aufruf [of t w h w' h' b] assms(1) obtain a m where a: "modell_aufruf a w = Inr (m, w')" "h' = h"
    by blast
  note ok = modell_aufruf_ok [OF a(1)]
  have d: "p_heap w' x \<noteq> None \<longleftrightarrow> p_heap w x \<noteq> None" for x
  proof -
    have "map_option a_aktiv (p_heap w' x) = map_option a_aktiv (p_heap w x)"
      using fun_cong [OF conjunct2 [OF conjunct2 [OF conjunct2 [OF ok]]], of x] by simp
    then show ?thesis by (cases "p_heap w' x"; cases "p_heap w x") simp_all
  qed
  show ?thesis
    by (rule anbieter_wf_schritt [OF assms(2)]) (use ok a(2) d in auto)
qed

lemma ssg_start_gewaehlt:
  assumes "anbieter_wf w h"
  shows "gewaehlt (ssg_start w) h s = gewaehlt w h s"
proof -
  have "p_heap (ssg_start w) a = p_heap w a" if "map_of h s = Some a" for a
    using anbieter_wf_gehalten [OF assms that] ssg_start_frisch [of w] by blast
  then show ?thesis by (simp add: gewaehlt_def split: option.splits)
qed

text \<open>The session's own events: its choice sets the model its job calls, and each call
  uses that model.\<close>

lemma ereignis_eigen:
  assumes "ereignis_ausfuehren (s, ev) (w, h) = Inr ((w', h'), b)" "anbieter_wf w h"
  shows "gewaehlt w' h' s = (case ev of Auswahl m \<Rightarrow> auswahl_modell m | _ \<Rightarrow> gewaehlt w h s) \<and>
         b = (case ev of Aufruf \<Rightarrow> map_option (Pair s) (gewaehlt w h s) | _ \<Rightarrow> None) \<and>
         (ev = Aufruf \<longrightarrow> gewaehlt w h s \<noteq> None)"
proof (cases ev)
  case Neustart
  with ereignis_neustart [of s w h w' h' b] assms show ?thesis by (simp add: ssg_start_gewaehlt)
next
  case (Auswahl m)
  with ereignis_auswahl [of s m w h w' h' b] assms(1) obtain ao where
    p: "provider_auswahl (Some m) w = Inr (ao, w')" "h' = sitzung_halten h s ao" "b = None" by blast
  from provider_auswahl_ok [OF p(1)] show ?thesis
  proof
    assume "auswahl_modell m = None \<and> ao = None \<and> w' = w"
    with p(2,3) Auswahl show ?thesis by (simp add: gewaehlt_def)
  next
    assume "\<exists>a. auswahl_modell m = Some m \<and> map_of (p_provider_models w) m = Some a \<and> ao = Some a \<and> w' = aktiviere_model a m w"
    then obtain a where a: "auswahl_modell m = Some m" "map_of (p_provider_models w) m = Some a" "ao = Some a"
      "w' = aktiviere_model a m w" by blast
    from anbieter_wf_registriert [OF assms(2) a(2)] have "p_heap w a \<noteq> None" ..
    with a p(2,3) Auswahl show ?thesis by (auto simp: gewaehlt_def)
  qed
next
  case Aufruf
  with ereignis_aufruf [of s w h w' h' b] assms(1) obtain a m where
    a: "map_of h s = Some a" "modell_aufruf a w = Inr (m, w')" "h' = h" "b = Some (s, m)" by blast
  note ok = modell_aufruf_ok [OF a(2)]
  have "gewaehlt w' h' s = gewaehlt w h s"
    using gewaehlt_aktiv [OF conjunct2 [OF conjunct2 [OF conjunct2 [OF ok]]]] a(3) by simp
  moreover have "gewaehlt w h s = Some m" using ok a(1) by (auto simp: gewaehlt_def)
  ultimately show ?thesis using a(4) Aufruf by simp
qed

text \<open>C35. Sessions share the providers through the class-level registry: an event of
  another session leaves the model of this session's running job alone, except that another
  session's choice of a model switches this session's job to that model whenever the
  registry names for it the provider this session holds.\<close>

theorem ereignis_fremd:
  assumes "ereignis_ausfuehren (t, ev) (w, h) = Inr ((w', h'), b)" "anbieter_wf w h" "t \<noteq> s"
  shows "gewaehlt w' h' s =
         (case ev of
            Auswahl m \<Rightarrow> if auswahl_modell m \<noteq> None \<and> map_of h s = map_of (p_provider_models w) m then Some m
                         else gewaehlt w h s
          | _ \<Rightarrow> gewaehlt w h s)"
proof (cases ev)
  case Neustart
  with ereignis_neustart [of t w h w' h' b] assms show ?thesis by (simp add: ssg_start_gewaehlt)
next
  case (Auswahl m)
  with ereignis_auswahl [of t m w h w' h' b] assms(1) obtain ao where
    p: "provider_auswahl (Some m) w = Inr (ao, w')" "h' = sitzung_halten h t ao" by blast
  have hs: "map_of h' s = map_of h s" using p(2) assms(3) by simp
  from provider_auswahl_ok [OF p(1)] show ?thesis
  proof
    assume "auswahl_modell m = None \<and> ao = None \<and> w' = w"
    with hs Auswahl show ?thesis by (simp add: gewaehlt_def)
  next
    assume "\<exists>a. auswahl_modell m = Some m \<and> map_of (p_provider_models w) m = Some a \<and> ao = Some a \<and> w' = aktiviere_model a m w"
    then obtain a where a: "auswahl_modell m = Some m" "map_of (p_provider_models w) m = Some a"
      "w' = aktiviere_model a m w" by blast
    from anbieter_wf_registriert [OF assms(2) a(2)] have "p_heap w a \<noteq> None" ..
    with a hs Auswahl show ?thesis by (auto simp: gewaehlt_def split: option.splits)
  qed
next
  case Aufruf
  with ereignis_aufruf [of t w h w' h' b] assms(1) obtain a m where
    a: "modell_aufruf a w = Inr (m, w')" "h' = h" by blast
  from gewaehlt_aktiv [OF conjunct2 [OF conjunct2 [OF conjunct2 [OF modell_aufruf_ok [OF a(1)]]]]] a(2) Aufruf
  show ?thesis by simp
qed

subsection \<open>Traces\<close>

lemma ausfuehren_Cons_Inr:
  "ausfuehren (e # es) st = Inr r \<Longrightarrow>
   \<exists>st' b st'' bs. ereignis_ausfuehren e st = Inr (st', b) \<and> ausfuehren es st' = Inr (st'', bs) \<and>
                   r = (st'', (case b of Some x \<Rightarrow> [x] | None \<Rightarrow> []) @ bs)"
  by (force simp: bind_r_Inr)


text \<open>C38. A session whose events are not interleaved with another session's gets what
  its page promises: every model call of its job uses the model chosen last on its page.\<close>

theorem ausfuehren_allein:
  "ausfuehren (map (Pair s) evs) (w, h) = Inr ((w', h'), obs) \<Longrightarrow> anbieter_wf w h \<Longrightarrow>
   obs = map (Pair s) (erwartet (gewaehlt w h s) evs)"
proof (induction evs arbitrary: w h obs)
  case (Cons ev evs)
  have p: "ausfuehren ((s, ev) # map (Pair s) evs) (w, h) = Inr ((w', h'), obs)"
    using Cons.prems(1) by (simp only: list.map)
  from ausfuehren_Cons_Inr [OF p] obtain st1 b bs where
    r0: "ereignis_ausfuehren (s, ev) (w, h) = Inr (st1, b)" "ausfuehren (map (Pair s) evs) st1 = Inr ((w', h'), bs)"
        "obs = (case b of Some x \<Rightarrow> [x] | None \<Rightarrow> []) @ bs"
    by auto
  obtain w1 h1 where "st1 = (w1, h1)" by fastforce
  with r0 have r: "ereignis_ausfuehren (s, ev) (w, h) = Inr ((w1, h1), b)"
    "ausfuehren (map (Pair s) evs) (w1, h1) = Inr ((w', h'), bs)"
    "obs = (case b of Some x \<Rightarrow> [x] | None \<Rightarrow> []) @ bs" by simp_all
  have "bs = map (Pair s) (erwartet (gewaehlt w1 h1 s) evs)"
    using Cons.IH [OF r(2) ereignis_wf [OF r(1) Cons.prems(2)]] .
  with ereignis_eigen [OF r(1) Cons.prems(2)] r(3) show ?case by (cases ev) auto
qed simp

text \<open>The interleaving that makes C35 bite: session 1 runs ssg.py, session 0 runs it and
  starts a job with \<open>gpt-5-mini\<close>, session 1's page then chooses \<open>gpt-5.2\<close> from the
  registry session 0 filled, and session 0's running job calls \<open>gpt-5.2\<close>.\<close>

lemma verschraenkter_modellwechsel:
  "\<exists>st. ausfuehren [(1, Neustart), (0, Neustart), (0, Auswahl ''gpt-5-mini''), (0, Aufruf),
                    (1, Auswahl ''gpt-5.2''), (0, Aufruf)] (prozess_start, []) =
       Inr (st, [(0, ''gpt-5-mini''), (0, ''gpt-5.2'')])"
  by (simp add: ssg_start_eval)

lemma ereignis_fremd_witness:
  "ereignis_ausfuehren (1, Auswahl ''gpt-5.2'') (ssg_start prozess_start, [(0, 1)]) =
     Inr ((aktiviere_model 1 ''gpt-5.2'' (ssg_start prozess_start), [(0, 1), (1, 1)]), None) \<and>
   gewaehlt (aktiviere_model 1 ''gpt-5.2'' (ssg_start prozess_start)) [(0, 1), (1, 1)] 0 = Some ''gpt-5.2''"
proof -
  have e: "ereignis_ausfuehren (1, Auswahl ''gpt-5.2'') (ssg_start prozess_start, [(0, 1)]) =
     Inr ((aktiviere_model 1 ''gpt-5.2'' (ssg_start prozess_start), [(0, 1), (1, 1)]), None)"
    by (simp add: ssg_start_eval)
  have wf: "anbieter_wf (ssg_start prozess_start) [(0, 1)]"
    by (simp add: anbieter_wf_def ssg_start_def ssg_anbieter_def handler_init_def anbieter_neu_def prozess_start_def
        dict_set_def)
  show ?thesis
    using e ereignis_fremd [OF e wf, of 0] by (simp add: ssg_start_eval auswahl_modell_def)
qed

lemma ausfuehren_allein_witness:
  "\<exists>st obs. ausfuehren (map (Pair 0) [Neustart, Auswahl ''deepseek-chat'', Aufruf, Neustart, Aufruf,
                                     Auswahl ''gpt-5.2'', Aufruf]) (prozess_start, []) = Inr (st, obs) \<and>
     obs = [(0, ''deepseek-chat''), (0, ''deepseek-chat''), (0, ''gpt-5.2'')]"
proof -
  obtain w' h' obs where r: "ausfuehren (map (Pair 0) [Neustart, Auswahl ''deepseek-chat'', Aufruf, Neustart, Aufruf,
                                     Auswahl ''gpt-5.2'', Aufruf]) (prozess_start, []) = Inr ((w', h'), obs)"
    by (simp add: ssg_start_eval)
  have wf: "anbieter_wf prozess_start []" by (simp add: anbieter_wf_def prozess_start_def)
  have "obs = [(0, ''deepseek-chat''), (0, ''deepseek-chat''), (0, ''gpt-5.2'')]"
    using ausfuehren_allein [OF r wf] by (simp add: gewaehlt_def auswahl_modell_def platzhalter_def)
  with r show ?thesis by blast
qed



end
