(* ===== verification/Spec2Isabelle.thy ===== *)
theory Spec2Isabelle
  imports Persistence Terminierung Antwortspeicher Anzeige Referenzansicht Stapel Tokenzaehler Sitzung Dokumentauswahl Anbieter
begin

text \<open>
  \<^bold>\<open>A verification model of the silicon-samples-generator.\<close>
  The program runs simulated survey interviews: a questionnaire (XML) is parsed into
  questions with options, topics and dependencies on a parent question; a scheduler picks
  the next unit of work from the answers so far; an orchestrator asks a language model one
  unit at a time, parses and validates its reply against the required keys and options,
  asks again on an invalid reply and records the valid answers; a separate linear pipeline
  summarises reference documents (PDF, web page, CSV) whose texts and tables brief the
  model. The theories follow the program's parts, leaves first:

  \<^item> \<open>Prelude\<close>: the Python primitives the sources call (\<open>str.strip\<close>, \<open>splitlines\<close>,
    \<open>rsplit(':', 1)\<close>, \<open>split()\<close>, \<open>join\<close>, slicing with an int bound, insertion-ordered
    \<open>dict\<close> assignment and \<open>update\<close>), the exceptions as the datatype \<open>py_error\<close>, and
    their lemmas. Strings are \<open>string\<close> with Latin-1 code points; dictionaries are
    association lists with distinct keys.
  \<^item> \<open>Questionnaire\<close>: studienkonfigurationslader/models.py (\<open>Option\<close>, \<open>Thema\<close>,
    \<open>Frage\<close> as records and their methods), utils.py (\<open>stripped_oder_none\<close>, the placeholder
    substitution \<open>render_text\<close> as a terminating \<open>function\<close>) and
    studienkonfigurationslader.py (\<open>_parse_frage\<close> with every check in source order,
    \<open>lade_fragen\<close> first-error-wins, the constructor's error paths). ElementTree is
    represented by the attribute values and texts it returns (\<open>xml_frage\<close>).
    Lemmas: every loaded question is well-formed (C9), attribute errors (C10).
  \<^item> \<open>Scheduler\<close>: fragenmanager.py. The state is the record \<open>fragenmanager\<close> (catalog,
    answers, parent-topic cache); every method is a function from the state to its
    result and new state: \<open>naechste_frage\<close>, \<open>antwort_hinzufuegen\<close>, \<open>reset_antworten\<close>,
    the dependency checks, the work-unit builder and the sampled parent topics. The random
    permutation is an oracle \<open>zufall\<close> indexed by the cache key. Lemmas: reads are
    idempotent and the cache only grows (C1, C2), sampling bounds (C3), the spec's
    composite-key scenario (C4), the answer store (C5, C6), dependency gating by any entry of
    the parent's answer (C7), and the empty work unit returned, with the state unchanged,
    for every follow-up whose parent with topics was never answered (C8).
  \<^item> \<open>Summarizer\<close>: referenzdokumente_models.py, the three loaders and
    zusammenfassungsgenerator.py. pdfplumber, requests/BeautifulSoup and pandas are
    represented by what they return (record \<open>quellen\<close>); the graph run of one document is
    \<open>zusammenfassung_graph\<close>, \<open>starten\<close> is \<open>zusammenfassungen_erstellen\<close>. Lemmas: shape
    of the result (C17), CSV documents have no text (C18), loader errors abort the batch
    (C19), a failing PDF page drops the tables of every later page while the text skips
    only that page (C20), the bound of the row selection (C22), the progress value goes
    backwards (C23).
  \<^item> \<open>Orchestrator\<close>: fragesteller.py. The LangGraph nodes become functions
    (\<open>llm_antwort_parsen\<close>, \<open>antwort_validieren\<close>, \<open>frage_generieren\<close>,
    \<open>fragenintro_generieren\<close>), the ask/validate cycle is \<open>frage_stellen_schleife\<close>, one
    \<open>graph.invoke\<close> is \<open>graph_aufrufen\<close> on the checkpointed channels \<open>graph_zustand\<close>, and
    \<open>starten\<close> is the loop \<open>starten_schleife\<close> over work units and
    \<open>kontexte_bearbeiten\<close> over their contexts, threading \<open>fragesteller_zustand\<close>. The
    model and the prompt templates are oracles (\<open>llm\<close>, \<open>vorlagen\<close>). Lemmas: validation
    merges each well-formed reply into the kept answers and reports exactly the uncovered
    keys (C12, witnessed by the spec's scenario), committed batches answer exactly the required keys with
    allowed values (C13), a question without topics crashes the run (C14), two livelocks
    (C15: a text with \<open>{{thema}}\<close>, for every model reply; C16: a follow-up whose parent
    was never asked), the reply format is parsed back exactly (C24), and two computed
    scenarios: a crash leaves its answers in the class-level store shared with the next
    respondent (\<open>abbruch_hinterlaesst_antworten\<close>), and a follow-up asked under two parent
    topics sharing one text asks the model twice and mislabels the first topic
    (\<open>zweiter_elternkontext\<close>).
  \<^item> \<open>Persistence\<close>: saving and reloading results, dateien.py (\<open>datei_speichern\<close> is
    \<open>dump\<close>, \<open>json.dump\<close> with \<open>default=o.__dict__\<close>; \<open>datei_lesen\<close> of a JSON file is
    \<open>datei_lesen_json\<close>) and the \<open>from_dict\<close> constructors of every dataclass (models.py,
    siliconsamplesgenerator_models.py, referenzdokumente_models.py, generator.py). Python
    values are the datatype \<open>pyval\<close> (JSON values, tuples, instances with their class and
    attributes in field order); \<open>data[k]\<close>, \<open>data.get\<close>, iteration and \<open>items()\<close> raise
    as Python does. The \<open>*_wert\<close> functions give the instance of a typed record of the
    other theories. Lemmas: saved summaries reload losslessly up to the chat messages
    (C27), a saved \<open>SiliconSamples\<close> re-serialises to the same JSON with questions and
    answers restored (C28) but its prompt and summaries stay dictionaries (C29), and a
    model record without usage data does not load (C30).
  \<^item> \<open>Terminierung\<close>: a termination theorem for \<open>starten\<close> (C31). For a grid questionnaire
    (top-level questions sharing one list of topics, texts without \<open>{{thema}}\<close>) and a
    respondent answering every topic with an allowed option, the interview returns with fuel
    one more than the number of questions, asks each question once in catalog order,
    records every answer and resets the shared store.
  \<^item> \<open>Antwortspeicher\<close>: a refinement of the spec's \<open>AnswerStore\<close> (a map from question id
    and topic key to topic name and option) by the scheduler's answer dictionary: the
    abstraction \<open>antworten_abs\<close> turns \<open>antwort_hinzufuegen\<close> into a map update, the commit
    of a batch in \<open>starten\<close> into the sequence of updates, and \<open>reset_antworten\<close> into the
    empty map (C32).
  \<^item> \<open>Anzeige\<close>: the result view, siliconsamplesgenerator_api.py
    (\<open>streamlit_siliconsamples_anzeigen\<close> as \<open>siliconsamples_anzeigen\<close>: the header
    \<open>anzeige_kopf\<close>, the table \<open>siliconsamples_tabelle\<close> with one \<open>tabellen_zeile\<close> per
    selection, the chat histories \<open>chat_anzeige\<close>; \<open>hole_persona_fuer_wiederholung\<close>), the
    \<open>prompt_data\<close> the generator page siliconsamplesgenerator.py builds
    (\<open>seiten_prompt_data\<close>), and the helpers of generator.py it calls
    (\<open>tokenverbrauch_summieren\<close>, \<open>format_number\<close> with Python's \<open>,\<close> format spec,
    \<open>parse_content\<close>, \<open>parse_chatverlauf\<close>), over the reloaded \<open>pyval\<close> of Persistence and
    with \<open>str()\<close> and \<open>repr()\<close> of Python values written out. The Streamlit calls are replaced
    by the values they display. Lemmas: the digits and groups of \<open>format_number\<close> (C33), the
    table's key split inverts the scheduler's composite keys (C34) but shows the parent
    topic of a follow-up without own topics as its topic with no text
    (\<open>tabelle_folgefrage\<close>), personas are used in turn (C36), the header works on a
    reloaded result and raises on the instance \<open>starten\<close> returns (C37), and saved chat
    histories display as they were recorded (\<open>chat_anzeige_geladen\<close>).
  \<^item> \<open>Referenzansicht\<close>: the view of the summaries, referenzdokumente_api.py
    (\<open>streamlit_zusammenfassungen_anzeigen\<close> as \<open>zusammenfassungen_anzeigen\<close> with one
    \<open>zusammenfassung_ansicht\<close> per expander, \<open>tokenverbrauch_summieren\<close>,
    \<open>print_chatverlaeufe\<close>, \<open>print_chatverlauf\<close>); the configured labels are a parameter.
    Lemmas: the view of saved and reloaded summaries refines the abstract view
    \<open>ansicht_abs\<close> of the typed summaries (C39), and the shortening of the user's chat
    messages to 300 characters (C40).
  \<^item> \<open>Stapel\<close>: the batch loop of the generator page siliconsamplesgenerator.py
    (\<open>stapel\<close>, \<open>stichproben_generieren\<close>): per repetition the loader, \<open>starten\<close> with the
    repetition's prompt (\<open>stapel_prompt\<close>) and \<open>datei_speichern\<close> to
    \<open>ergebnis_datei\<close>, the shared answer store threaded from run to run, an exception
    ending the batch. Lemmas: monotone in the fuel, a complete batch writes one result per
    repetition in order, a failing repetition ends the batch after the earlier files, the
    file names of a batch are distinct, the progress value stays in \<open>[0, 1)\<close>, and a
    batch of grid interviews (Terminierung) always completes.
  \<^item> \<open>Tokenzaehler\<close>: \<open>LLMGenerator\<close> of generator.py as the record \<open>llm_generator\<close>:
    \<open>aufrufen\<close> with the optional counter reset, the usage counter of the callback
    (\<open>verbrauch_eintragen\<close>, one record per model, \<open>add_usage\<close> for later calls),
    \<open>llm_tokenverbrauch\<close> and the filtered configuration \<open>llm_config_holen\<close>. Lemmas:
    the saved usage is the run's own after a reset and accumulates otherwise (C26), and no saved
    configuration key is \<open>api_key\<close>, private, or ends in \<open>_api_key\<close>.
  \<^item> \<open>Sitzung\<close>: the session handling of the two generator pages (the keys
    \<open>gestartet\<close>, \<open>fertig\<close>, \<open>ergebnis\<close> and the callbacks \<open>starten\<close>, \<open>abbrechen\<close>,
    \<open>fertig\<close>, \<open>reset\<close>) as the step relation \<open>seite_schritt\<close> of script runs
    (\<open>skript_lauf\<close>) with the reachable sessions \<open>erreichbar\<close>, and the preselection of the
    result views. Lemmas by rule induction: the flags are never set together, the generator
    page never hands its result to its view (C21), the reference page preselects its new summaries.
  \<^item> \<open>Dokumentauswahl\<close>: the selection table of referenzdokumente.py (\<open>start_zeilen\<close>,
    \<open>zeile_dokument\<close>, \<open>zeile_zusammenfassung\<close>, \<open>referenzdokumente_auswahl\<close>), the input of
    the summarizer. Lemmas: selected documents have consistent flags, the untouched table
    selects nothing, ids are distinct, and a URL row reaches the URL loader only when its
    configured label is \<open>URL\<close>.
  \<^item> \<open>Anbieter\<close>: the LLM providers, llm_provider*.py, with their registry
    \<open>LLMProviderHandler\<close>, and how the sessions of one server process share them. Provider
    objects live in an explicit heap (record \<open>prozess\<close>: \<open>p_heap\<close>, the next free address
    \<open>p_frei\<close>, the class attribute \<open>provider_models\<close> as \<open>p_provider_models\<close>), so that
    \<open>aktiviere_model\<close> changes the object for every holder. \<open>ssg_start\<close> is what ssg.py
    does on every run (four new providers, a new handler registering their models in the
    shared dictionary), \<open>provider_auswahl\<close> is \<open>streamlit_llm_provider_auswahl\<close> of
    komponenten.py, \<open>modell_aufruf\<close> is \<open>hole_llm_instanz_aus_graph\<close> of generator.py; the
    vendor SDK clients are represented by the keyword arguments \<open>hole_instanz\<close> passes them.
    Sessions interleave as a trace of events tagged with the session (\<open>ausfuehren\<close>). Lemmas:
    every trace keeps the invariant \<open>anbieter_wf\<close> (held and registered providers are
    allocated, C25), another session's choice switches this session's running job to its model
    exactly when the registry names for it the provider this session holds (C35, with the
    concrete trace \<open>verschraenkter_modellwechsel\<close>), and a session not interleaved with
    another gets the model it chose last for every call (C38).
  \<^item> This theory: properties spanning the loader and the scheduler: the loader parses
    every question on its own, so duplicate ids pass, and the catalog keeps the last (C11).

  \<^bold>\<open>Fuel.\<close> The retry cycle and the interview loop have no bound in the code. They take
  a fuel argument: each model call of the retry cycle and each iteration of the loop
  consumes one unit, and \<open>None\<close> means the fuel ran out. Results are monotone in the fuel
  (\<open>starten_schleife_fuel\<close>), so a result obtained with some fuel is the program's result;
  the livelock theorems state \<open>None\<close> for every fuel, i.e. the loop never returns. The
  batch passes its fuel to every interview (\<open>stapel_fuel\<close>); for grid questionnaires one
  more than the number of questions is enough (C31, \<open>raster_stapel\<close>), since each loop
  iteration answers one question and the last one finds none left. LangGraph's default
  \<open>recursion_limit\<close> of \<open>graph.invoke\<close> (generator.py calls it without a limit) is not
  modelled: in a real run a retry cycle longer than that limit ends with
  \<open>GraphRecursionError\<close>, so the crash and livelock theorems (C14, C15, C16) describe the
  program without that library bound.

  \<^bold>\<open>JSON.\<close> \<open>json.load\<close> of the text \<open>json.dump\<close> wrote is taken to give the dumped
  value back (the two are inverse on the values \<open>dump\<close> produces); the file system is not
  modelled, so \<open>speichern_laden\<close> composes the two directly.

  \<^bold>\<open>Not modelled.\<close> The Streamlit rendering itself, the pages without logic of their
  own (ssg.py apart from the provider registration, studienkonfiguration*.py, startseite*.py, admin.py, auswertung.py), and of
  the two generator pages and their APIs everything but the parts above: widgets, navigation,
  the directory listings and file dates behind the selection widgets and tables (UI and
  file-system I/O), \<open>antworten_als_pivot\<close>
  (dead code: its only call is commented out), configuration and logging (I/O), the
  path helpers of dateien.py, the vendor SDK clients behind the providers (the model
  is an oracle; Anbieter models the providers' own code), the LangGraph runtime and LangChain's callback
  machinery (\<open>graph.invoke\<close> is an oracle returning the output and the usage of each
  model call), prompt formatting with \<open>SafeDict.format_map\<close> (the templates are an oracle),
  the difference between \<open>to_markdown()\<close> of the CSV loader and
  \<open>to_markdown(index=False)\<close> of the PDF and URL loaders (one oracle \<open>markdown\<close> stands
  for both),
  and the attributes of the LangChain message objects other than content and type.
\<close>

section \<open>Properties spanning the loader and the scheduler\<close>

text \<open>C11. Duplicate question ids are not rejected: the loader's check
  \<open>frage_id in self._fragen\<close> compares a string with \<open>Frage\<close> objects and never holds, so
  for every file the loader's result is the parse of each question on its own, whatever
  came before it; and the scheduler's catalog \<open>{f.id: f for f in fragen}\<close> keeps, for
  each id, only the last question with it, silently dropping the earlier ones.\<close>

theorem doppelte_frage_id:
  "studienkonfigurationslader (XmlFragen xs) = map_r (parse_frage []) xs \<and>
   map_of (fragen (fragenmanager_init fs g)) i =
     (if i \<in> f_id ` set fs then Some (last (filter (\<lambda>f. f_id f = i) fs)) else None)"
proof
  show "studienkonfigurationslader (XmlFragen xs) = map_r (parse_frage []) xs"
    by (cases "map_r (parse_frage []) xs") (simp_all add: studienkonfigurationslader_def lade_fragen_einzeln)
  show "map_of (fragen (fragenmanager_init fs g)) i =
     (if i \<in> f_id ` set fs then Some (last (filter (\<lambda>f. f_id f = i) fs)) else None)"
    by (simp add: fragenmanager_init_def dict_of_list_def map_of_fold_dict_set)
qed

text \<open>The file with two questions \<open>q1\<close>: both load, and the catalog keeps the second.\<close>

lemma doppelte_frage_id_beispiel:
  "case studienkonfigurationslader (XmlFragen [beispiel_xml ''Text A'' None, beispiel_xml ''Text B'' None]) of
     Inr fs \<Rightarrow> map f_id fs = [''q1'', ''q1''] \<and>
               map (f_text \<circ> snd) (fragen (fragenmanager_init fs [])) = [''Text B'']
   | Inl e \<Rightarrow> False"
  by (simp add: studienkonfigurationslader_def beispiel_xml_def parse_frage_def parse_limit_def
      parse_zufaellig_def id_in_fragen_def py_str_eq_frage_def py_simps Let_def
      fragenmanager_init_def dict_of_list_def dict_set_def)

end
